(* ===== verification/Js_Prelude.thy ===== *)
theory Js_Prelude
  imports Main "HOL-Library.Multiset" "HOL-Library.AList"
begin

section \<open>The part of the JavaScript standard library that the UI uses\<close>

text \<open>
  Shared vocabulary of the development.  A JavaScript string is a \<^typ>\<open>string\<close> (a list of
  8-bit characters, so the Latin-1 part of UTF-16; the one place where the code looks beyond
  Latin-1, the values of a secret, uses 16-bit code units, see \<open>Web_Encoding\<close>).  A value that
  may be \<open>undefined\<close> or \<open>null\<close> is an \<open>option\<close>.  A promise is represented by how it settles:
  \<open>Inl\<close> of the thrown value or \<open>Inr\<close> of the result.  The theory also holds the list, text
  and object operations that several components share, with their laws, and the stable
  \<open>Array.prototype.sort\<close> with the laws a consistent comparator gives it (locale
  \<open>comparator\<close>).
\<close>

named_theorems js_text "facts about strings"
named_theorems js_rows "facts about lists addressed by an index"

subsection \<open>Falsy values and thrown values\<close>

text \<open>\<open>x || d\<close> for an optional string, for a string, and \<open>x || undefined\<close>.\<close>

definition str_or :: "string option \<Rightarrow> string \<Rightarrow> string" where
  "str_or x d = (case x of None \<Rightarrow> d | Some s \<Rightarrow> if s = [] then d else s)"

definition text_or :: "string \<Rightarrow> string \<Rightarrow> string" where
  "text_or s d = (if s = [] then d else s)"

definition or_undefined :: "string \<Rightarrow> string option" where
  "or_undefined s = (if s = [] then None else Some s)"

definition truthy :: "string option \<Rightarrow> bool" where
  "truthy x = (case x of None \<Rightarrow> False | Some s \<Rightarrow> s \<noteq> [])"

definition list_or :: "'a list option \<Rightarrow> 'a list" where
  "list_or x = (case x of None \<Rightarrow> [] | Some xs \<Rightarrow> xs)"

lemma str_or_simps [simp]:
  "str_or None d = d" "str_or (Some []) d = d" "str_or (Some (c # s)) d = c # s"
  by (simp_all add: str_or_def)

lemma list_or_simps [simp]: "list_or None = []" "list_or (Some xs) = xs"
  by (simp_all add: list_or_def)

lemma truthy_simps [simp]: "\<not> truthy None" "truthy (Some s) = (s \<noteq> [])"
  by (simp_all add: truthy_def)

lemma str_or_nonempty: "d \<noteq> [] \<Longrightarrow> str_or x d \<noteq> []"
  by (simp add: str_or_def split: option.split)

text \<open>A thrown value: an \<open>Error\<close> with a name and a message, or anything else.\<close>

datatype thrown = ErrorObj string string | OtherThrown

type_synonym 'a outcome = "thrown + 'a"

text \<open>\<open>e instanceof Error ? e.message : fallback\<close>\<close>

definition message_or :: "thrown \<Rightarrow> string \<Rightarrow> string" where
  "message_or e d = (case e of ErrorObj _ m \<Rightarrow> m | OtherThrown \<Rightarrow> d)"

lemma message_or_simps [simp]:
  "message_or (ErrorObj n m) d = m" "message_or OtherThrown d = d"
  by (simp_all add: message_or_def)

subsection \<open>Strings\<close>

definition char_code :: "char \<Rightarrow> nat" where
  "char_code c = of_char c"

text \<open>The white space and line terminators of ECMAScript below 256, as \<open>trim\<close> and \<open>\s\<close> use them.\<close>

definition is_space :: "char \<Rightarrow> bool" where
  "is_space c = (char_code c \<in> {9, 10, 11, 12, 13, 32, 160})"

definition js_trim :: "string \<Rightarrow> string" where
  "js_trim s = rev (dropWhile is_space (rev (dropWhile is_space s)))"

definition lower_char :: "char \<Rightarrow> char" where
  "lower_char c =
     (let n = char_code c
      in if 65 \<le> n \<and> n \<le> 90 \<or> 192 \<le> n \<and> n \<le> 214 \<or> 216 \<le> n \<and> n \<le> 222
         then char_of (n + 32) else c)"

definition toLowerCase :: "string \<Rightarrow> string" where
  "toLowerCase s = map lower_char s"

definition startsWith :: "string \<Rightarrow> string \<Rightarrow> bool" where
  "startsWith s p = (take (length p) s = p)"

fun str_includes :: "string \<Rightarrow> string \<Rightarrow> bool" where
  "str_includes [] q = (q = [])"
| "str_includes (c # s) q = (startsWith (c # s) q \<or> str_includes s q)"

text \<open>\<open>s.split(c)\<close> for a separator of one character, and \<open>xs.join(sep)\<close>.\<close>

fun split_on :: "char \<Rightarrow> string \<Rightarrow> string list" where
  "split_on c [] = [[]]"
| "split_on c (x # xs) =
     (if x = c then [] # split_on c xs
      else (case split_on c xs of [] \<Rightarrow> [[x]] | y # ys \<Rightarrow> (x # y) # ys))"

fun js_join :: "string \<Rightarrow> string list \<Rightarrow> string" where
  "js_join sep [] = []"
| "js_join sep [x] = x"
| "js_join sep (x # y # ys) = x @ sep @ js_join sep (y # ys)"

text \<open>\<open>s.split(/\s+/)\<close>: the separators are the maximal runs of white space.\<close>

function split_spaces :: "string \<Rightarrow> string list" where
  "split_spaces s =
     (let tok = takeWhile (\<lambda>c. \<not> is_space c) s; rest = dropWhile (\<lambda>c. \<not> is_space c) s
      in if rest = [] then [tok] else tok # split_spaces (dropWhile is_space rest))"
  by pat_completeness auto
termination
proof (relation "measure length", goal_cases)
  case 1
  show ?case by simp
next
  case (2 s tok rest)
  then obtain c cs where rest: "dropWhile (\<lambda>c. \<not> is_space c) s = c # cs"
    by (cases "dropWhile (\<lambda>c. \<not> is_space c) s") auto
  have "is_space c"
    using hd_dropWhile [of "\<lambda>c. \<not> is_space c" s] rest by auto
  then have "length (dropWhile is_space (c # cs)) \<le> length cs"
    by (simp add: length_dropWhile_le)
  also have "length cs < length s"
    using length_dropWhile_le [of "\<lambda>c. \<not> is_space c" s] rest by simp
  finally show ?case using 2 rest by simp
qed

declare split_spaces.simps [simp del]

lemma split_on_not_Nil [simp]: "split_on c s \<noteq> []"
  by (induction s) (auto split: list.splits)

lemma js_join_Cons: "xs \<noteq> [] \<Longrightarrow> js_join sep (x # xs) = x @ sep @ js_join sep xs"
  by (cases xs) simp_all

lemma js_join_head [simp]: "js_join sep ((c # x) # xs) = c # js_join sep (x # xs)"
  by (cases xs) simp_all

lemma js_join_split_on [js_text]: "js_join [c] (split_on c s) = s"
proof (induction s)
  case Nil
  then show ?case by simp
next
  case (Cons x xs)
  then show ?case
    by (cases "split_on c xs") (auto simp: js_join_Cons)
qed

lemma split_on_no_sep: "c \<notin> set x \<Longrightarrow> split_on c x = [x]"
  by (induction x) auto

lemma split_on_append_sep: "c \<notin> set x \<Longrightarrow> split_on c (x @ c # y) = x # split_on c y"
  by (induction x) auto

lemma split_on_js_join [js_text]:
  "xs \<noteq> [] \<Longrightarrow> \<forall>x \<in> set xs. c \<notin> set x \<Longrightarrow> split_on c (js_join [c] xs) = xs"
proof (induction xs)
  case Nil
  then show ?case by simp
next
  case (Cons x xs)
  then show ?case
    by (cases xs) (auto simp: split_on_no_sep split_on_append_sep)
qed

lemma split_on_parts_no_sep: "x \<in> set (split_on c s) \<Longrightarrow> c \<notin> set x"
  by (induction s arbitrary: x) (fastforce split: if_splits list.splits)+

lemma js_trim_idem [simp]: "js_trim (js_trim s) = js_trim s"
proof -
  let ?u = "dropWhile is_space s"
  let ?v = "rev (dropWhile is_space (rev ?u))"
  have "dropWhile is_space ?v = ?v"
  proof (cases ?v)
    case Nil
    then show ?thesis by (simp only: dropWhile.simps)
  next
    case (Cons c cs)
    have "?u = ?v @ rev (takeWhile is_space (rev ?u))"
      by (metis rev_append rev_rev_ident takeWhile_dropWhile_id)
    with Cons have "\<not> is_space c"
      by (metis append_Cons dropWhile_eq_Cons_conv)
    then show ?thesis using Cons by simp
  qed
  then show ?thesis by (simp add: js_trim_def dropWhile_idem)
qed

subsection \<open>Numbers as text\<close>

definition digit_char :: "nat \<Rightarrow> char" where
  "digit_char d = char_of (48 + d)"

definition is_digit :: "char \<Rightarrow> bool" where
  "is_digit c = (48 \<le> char_code c \<and> char_code c \<le> 57)"

fun nat_str :: "nat \<Rightarrow> string" where
  "nat_str n = (if n < 10 then [digit_char n] else nat_str (n div 10) @ [digit_char (n mod 10)])"

declare nat_str.simps [simp del]

definition int_str :: "int \<Rightarrow> string" where
  "int_str i = (if i < 0 then ''-'' @ nat_str (nat (- i)) else nat_str (nat i))"

definition dec_val :: "string \<Rightarrow> nat" where
  "dec_val s = foldl (\<lambda>n c. 10 * n + (char_code c - 48)) 0 s"

lemma char_code_digit_char [simp]: "d < 10 \<Longrightarrow> char_code (digit_char d) = 48 + d"
  by (simp add: char_code_def digit_char_def)

lemma dec_val_snoc [simp]: "dec_val (s @ [c]) = 10 * dec_val s + (char_code c - 48)"
  by (simp add: dec_val_def)

lemma dec_val_nat_str [simp]: "dec_val (nat_str n) = n"
proof (induction n rule: nat_str.induct)
  case (1 n)
  show ?case
  proof (cases "n < 10")
    case True
    then show ?thesis
      by (simp add: nat_str.simps [of n] dec_val_def)
  next
    case False
    with 1 show ?thesis
      by (simp add: nat_str.simps [of n])
  qed
qed

lemma nat_str_inject [simp]: "nat_str m = nat_str n \<longleftrightarrow> m = n"
  by (metis dec_val_nat_str)

lemma nat_str_digits: "c \<in> set (nat_str n) \<Longrightarrow> is_digit c"
proof (induction n rule: nat_str.induct)
  case (1 n)
  then show ?case
    by (cases "n < 10") (auto simp: nat_str.simps [of n] is_digit_def)
qed

lemma nat_str_not_Nil [simp]: "nat_str n \<noteq> []"
  by (subst nat_str.simps) simp

subsection \<open>Lists addressed by an index\<close>

text \<open>
  \<open>xs.filter((_, i) => i !== index)\<close> and \<open>xs.map((x, i) => i === index ? f(x) : x)\<close>, the two
  idioms every row editor of the UI uses, and \<open>xs.slice(start, end)\<close>.
\<close>

definition remove_at :: "nat \<Rightarrow> 'a list \<Rightarrow> 'a list" where
  "remove_at idx xs = map snd (filter (\<lambda>(i, x). i \<noteq> idx) (enumerate 0 xs))"

definition map_at :: "nat \<Rightarrow> ('a \<Rightarrow> 'a) \<Rightarrow> 'a list \<Rightarrow> 'a list" where
  "map_at idx f xs = map (\<lambda>(i, x). if i = idx then f x else x) (enumerate 0 xs)"

definition js_slice :: "'a list \<Rightarrow> int \<Rightarrow> int \<Rightarrow> 'a list" where
  "js_slice xs a b =
     (let n = int (length xs);
          clampi = (\<lambda>i. if i < 0 then max 0 (n + i) else min i n)
      in take (nat (clampi b) - nat (clampi a)) (drop (nat (clampi a)) xs))"

lemma filter_enumerate_above:
  "idx < k \<Longrightarrow> filter (\<lambda>(i, x). i \<noteq> idx) (enumerate k xs) = enumerate k xs"
  by (induction xs arbitrary: k) auto

lemma remove_at_general:
  "map snd (filter (\<lambda>(i, x). i \<noteq> idx + k) (enumerate k xs)) = take idx xs @ drop (Suc idx) xs"
proof (induction xs arbitrary: idx k)
  case Nil
  then show ?case by simp
next
  case (Cons x xs)
  show ?case
  proof (cases idx)
    case 0
    then show ?thesis by (simp add: filter_enumerate_above)
  next
    case (Suc j)
    with Cons [of j "Suc k"] show ?thesis by simp
  qed
qed

lemma remove_at_take_drop: "remove_at idx xs = take idx xs @ drop (Suc idx) xs"
  using remove_at_general [of idx 0 xs] by (simp add: remove_at_def)

lemma length_remove_at [js_rows]:
  "length (remove_at idx xs) = (if idx < length xs then length xs - 1 else length xs)"
  by (auto simp: remove_at_take_drop)

lemma length_map_at [simp, js_rows]: "length (map_at idx f xs) = length xs"
  by (simp add: map_at_def)

lemma nth_map_at [js_rows]:
  "i < length xs \<Longrightarrow> map_at idx f xs ! i = (if i = idx then f (xs ! i) else xs ! i)"
  by (simp add: map_at_def nth_enumerate_eq)

lemma map_at_list_update: "idx < length xs \<Longrightarrow> map_at idx f xs = xs[idx := f (xs ! idx)]"
  by (rule nth_equalityI) (auto simp: nth_map_at nth_list_update)

lemma map_at_beyond: "length xs \<le> idx \<Longrightarrow> map_at idx f xs = xs"
  by (rule nth_equalityI) (auto simp: nth_map_at)

lemma map_at_twice [js_rows]: "map_at idx f (map_at idx g xs) = map_at idx (f \<circ> g) xs"
  by (rule nth_equalityI) (auto simp: nth_map_at)

lemma remove_at_snoc [js_rows]: "remove_at (length xs) (xs @ [x]) = xs"
  by (simp add: remove_at_take_drop)

lemma nth_remove_at [js_rows]:
  "i < length (remove_at idx xs) \<Longrightarrow>
     remove_at idx xs ! i = (if i < idx then xs ! i else xs ! Suc i)"
  by (auto simp: remove_at_take_drop nth_append min_def split: if_splits)

lemma js_slice_nonneg:
  "0 \<le> a \<Longrightarrow> 0 \<le> b \<Longrightarrow> js_slice xs a b = take (nat b - nat a) (drop (nat a) xs)"
proof -
  assume "0 \<le> a" "0 \<le> b"
  then obtain m n where [simp]: "a = int m" "b = int n"
    by (metis nonneg_int_cases)
  show ?thesis
    by (cases "m \<le> length xs"; cases "n \<le> length xs")
       (auto simp: js_slice_def Let_def min_def nat_diff_distrib)
qed

subsection \<open>Objects used as dictionaries\<close>

text \<open>
  A plain object is an association list in insertion order.  Assigning to the property
  \<open>__proto__\<close> of an object literal with a string value does nothing (it goes to the inherited
  setter, which ignores a value that is not an object), so it leaves the object alone.
  \<open>Object.keys\<close> and \<open>Object.entries\<close> list the array indices first, in ascending order, then
  the other keys in insertion order.
\<close>

type_synonym 'a obj = "(string \<times> 'a) list"

definition obj_set :: "'a obj \<Rightarrow> string \<Rightarrow> 'a \<Rightarrow> 'a obj" where
  "obj_set ob k v = (if k = ''__proto__'' then ob else AList.update k v ob)"

definition is_array_index :: "string \<Rightarrow> bool" where
  "is_array_index k =
     (k \<noteq> [] \<and> list_all is_digit k \<and> (hd k \<noteq> CHR ''0'' \<or> length k = 1) \<and>
      dec_val k < 4294967295)"

definition obj_keys :: "'a obj \<Rightarrow> string list" where
  "obj_keys ob =
     sort_key dec_val (filter is_array_index (map fst ob)) @
     filter (\<lambda>k. \<not> is_array_index k) (map fst ob)"

definition obj_entries :: "'a obj \<Rightarrow> (string \<times> 'a) list" where
  "obj_entries ob = map (\<lambda>k. (k, the (map_of ob k))) (obj_keys ob)"

lemma set_obj_keys [simp]: "set (obj_keys ob) = fst ` set ob"
  by (auto simp: obj_keys_def)

lemma distinct_obj_keys: "distinct (map fst ob) \<Longrightarrow> distinct (obj_keys ob)"
  by (auto simp: obj_keys_def)

lemma map_of_obj_set:
  "map_of (obj_set ob k v) = (if k = ''__proto__'' then map_of ob else (map_of ob)(k \<mapsto> v))"
  by (simp add: obj_set_def update_conv')

lemma distinct_obj_set: "distinct (map fst ob) \<Longrightarrow> distinct (map fst (obj_set ob k v))"
  by (simp add: obj_set_def distinct_update)

lemma map_of_map_keys:
  "map_of (map (\<lambda>k. (k, f k)) ks) k = (if k \<in> set ks then Some (f k) else None)"
  by (induction ks) auto

lemma map_of_obj_entries: "map_of (obj_entries ob) = map_of ob"
proof
  fix k
  have "map_of (obj_entries ob) k =
      (if k \<in> fst ` set ob then Some (the (map_of ob k)) else None)"
    by (simp add: obj_entries_def map_of_map_keys)
  then show "map_of (obj_entries ob) k = map_of ob k"
    using map_of_eq_None_iff [of ob k] by (cases "map_of ob k") auto
qed

text \<open>A value \<open>JSON.stringify\<close> and \<open>JSON.parse\<close> exchange with its text.\<close>

datatype json =
    JNull
  | JBool bool
  | JNum int
  | JStr string
  | JArr "json list"
  | JObj "(string \<times> json) list"

subsection \<open>Sorting with a comparator\<close>

text \<open>
  \<open>Array.prototype.sort\<close> is stable.  For a consistent comparator its result is determined,
  and insertion sort computes it; for an inconsistent one ECMAScript leaves the order to the
  implementation, and the result is some permutation.  A comparator that answers \<open>NaN\<close> is
  read as answering 0.
\<close>

fun insert_by :: "('a \<Rightarrow> 'a \<Rightarrow> int) \<Rightarrow> 'a \<Rightarrow> 'a list \<Rightarrow> 'a list" where
  "insert_by cmp x [] = [x]"
| "insert_by cmp x (y # ys) = (if cmp x y \<le> 0 then x # y # ys else y # insert_by cmp x ys)"

definition sort_by :: "('a \<Rightarrow> 'a \<Rightarrow> int) \<Rightarrow> 'a list \<Rightarrow> 'a list" where
  "sort_by cmp xs = foldr (insert_by cmp) xs []"

lemma mset_insert_by: "mset (insert_by cmp x ys) = add_mset x (mset ys)"
  by (induction ys) auto

lemma mset_sort_by [simp]: "mset (sort_by cmp xs) = mset xs"
  by (induction xs) (simp_all add: sort_by_def mset_insert_by)

lemma set_sort_by [simp]: "set (sort_by cmp xs) = set xs"
  by (metis mset_sort_by set_mset_mset)

lemma length_sort_by [simp]: "length (sort_by cmp xs) = length xs"
  by (metis mset_sort_by size_mset)

lemma sort_by_Nil [simp]: "sort_by cmp [] = []"
  by (simp add: sort_by_def)

lemma sort_by_Cons: "sort_by cmp (x # xs) = insert_by cmp x (sort_by cmp xs)"
  by (simp add: sort_by_def)

lemma set_insert_by [simp]: "set (insert_by cmp x ys) = insert x (set ys)"
  by (metis mset_insert_by set_mset_add_mset_insert set_mset_mset)

text \<open>What a comparator promises on the values it is used for.\<close>

locale comparator =
  fixes cmp :: "'a \<Rightarrow> 'a \<Rightarrow> int" and carrier :: "'a set"
  assumes cmp_swap: "x \<in> carrier \<Longrightarrow> y \<in> carrier \<Longrightarrow> sgn (cmp y x) = - sgn (cmp x y)"
    and cmp_trans: "x \<in> carrier \<Longrightarrow> y \<in> carrier \<Longrightarrow> z \<in> carrier \<Longrightarrow>
      cmp x y \<le> 0 \<Longrightarrow> cmp y z \<le> 0 \<Longrightarrow> cmp x z \<le> 0"
begin

lemma cmp_total: "x \<in> carrier \<Longrightarrow> y \<in> carrier \<Longrightarrow> \<not> cmp x y \<le> 0 \<Longrightarrow> cmp y x \<le> 0"
  using cmp_swap [of x y] by (auto simp: sgn_if split: if_splits)

lemma sorted_insert_by:
  "x \<in> carrier \<Longrightarrow> set ys \<subseteq> carrier \<Longrightarrow> sorted_wrt (\<lambda>a b. cmp a b \<le> 0) ys \<Longrightarrow>
     sorted_wrt (\<lambda>a b. cmp a b \<le> 0) (insert_by cmp x ys)"
proof (induction ys)
  case Nil
  then show ?case by simp
next
  case (Cons y ys)
  then show ?case
    by (auto intro: cmp_trans [of x y] cmp_total)
qed

lemma sorted_sort_by:
  "set xs \<subseteq> carrier \<Longrightarrow> sorted_wrt (\<lambda>a b. cmp a b \<le> 0) (sort_by cmp xs)"
  by (induction xs) (auto simp: sort_by_Cons intro!: sorted_insert_by)

lemma cmp_equiv_trans:
  "x \<in> carrier \<Longrightarrow> y \<in> carrier \<Longrightarrow> z \<in> carrier \<Longrightarrow> cmp x z = 0 \<Longrightarrow> cmp y z = 0 \<Longrightarrow> cmp x y \<le> 0"
  using cmp_swap [of y z] by (auto simp: sgn_if split: if_splits intro: cmp_trans [of x z y])

lemma filter_insert_by:
  "x \<in> carrier \<Longrightarrow> set ys \<subseteq> carrier \<Longrightarrow> z \<in> carrier \<Longrightarrow>
     filter (\<lambda>y. cmp y z = 0) (insert_by cmp x ys) = filter (\<lambda>y. cmp y z = 0) (x # ys)"
proof (induction ys)
  case Nil
  then show ?case by simp
next
  case (Cons y ys)
  then show ?case
    using cmp_equiv_trans [of x y z] by auto
qed

lemma stable_sort_by:
  "set xs \<subseteq> carrier \<Longrightarrow> z \<in> carrier \<Longrightarrow>
     filter (\<lambda>y. cmp y z = 0) (sort_by cmp xs) = filter (\<lambda>y. cmp y z = 0) xs"
proof (induction xs)
  case Nil
  then show ?case by simp
next
  case (Cons x xs)
  have "filter (\<lambda>y. cmp y z = 0) (insert_by cmp x (sort_by cmp xs)) =
      filter (\<lambda>y. cmp y z = 0) (x # sort_by cmp xs)"
    using Cons.prems by (intro filter_insert_by) auto
  with Cons show ?case by (simp add: sort_by_Cons)
qed

end

text \<open>The reversed comparator \<open>-comparison\<close> of a descending sort is as good as the original.\<close>

lemma sgn_opposite:
  fixes a b :: int
  assumes "sgn b = - sgn a"
  shows "- a \<le> 0 \<longleftrightarrow> b \<le> 0"
proof (cases a "0 :: int" rule: linorder_cases)
  case less
  with assms have "sgn b = 1" by simp
  with less show ?thesis by (simp only: sgn_1_pos) simp
next
  case equal
  with assms show ?thesis by (simp add: sgn_0_0)
next
  case greater
  with assms have "sgn b = -1" by simp
  with greater show ?thesis by (simp only: sgn_1_neg) simp
qed

lemma comparator_uminus:
  assumes "comparator cmp carrier"
  shows "comparator (\<lambda>x y. - cmp x y) carrier"
proof -
  have swap: "sgn (cmp y x) = - sgn (cmp x y)" if "x \<in> carrier" "y \<in> carrier" for x y
    using comparator.cmp_swap [OF assms that] .
  have neg: "- cmp x y \<le> 0 \<longleftrightarrow> cmp y x \<le> 0" if "x \<in> carrier" "y \<in> carrier" for x y
    using sgn_opposite [OF swap [OF that]] .
  show ?thesis
  proof
    fix x y
    assume xy: "x \<in> carrier" "y \<in> carrier"
    show "sgn (- cmp y x) = - sgn (- cmp x y)"
      using swap [OF xy] by (simp only: sgn_minus)
  next
    fix x y z
    assume "x \<in> carrier" "y \<in> carrier" "z \<in> carrier" "- cmp x y \<le> 0" "- cmp y z \<le> 0"
    then show "- cmp x z \<le> 0"
      using neg comparator.cmp_trans [OF assms, of z y x] by auto
  qed
qed

end
