(* ===== verification/Js_Regex.thy ===== *)
theory Js_Regex
  imports Js_Prelude
begin

section \<open>Regular expressions\<close>

text \<open>
  The regular expressions the UI tests names with, as syntax trees with a matcher by
  derivatives.  \<open>re_match r s\<close> is the test of an expression anchored at both ends
  (\<open>/^r$/.test(s)\<close>), \<open>strip_match r s\<close> is \<open>s.replace(/r$/, '')\<close>: the leftmost place
  from which the rest of the text matches is cut off.  \<open>re_match_lang\<close> says that the matcher
  decides the language of the expression.
\<close>

datatype regex =
    RNone
  | REps
  | RChar "char \<Rightarrow> bool"
  | RSeq regex regex
  | RAlt regex regex
  | RStar regex

definition ROpt :: "regex \<Rightarrow> regex" where
  "ROpt r = RAlt r REps"

definition RPlus :: "regex \<Rightarrow> regex" where
  "RPlus r = RSeq r (RStar r)"

fun RLit :: "string \<Rightarrow> regex" where
  "RLit [] = REps"
| "RLit (c # s) = RSeq (RChar (\<lambda>x. x = c)) (RLit s)"

fun nullable :: "regex \<Rightarrow> bool" where
  "nullable RNone = False"
| "nullable REps = True"
| "nullable (RChar p) = False"
| "nullable (RSeq r q) = (nullable r \<and> nullable q)"
| "nullable (RAlt r q) = (nullable r \<or> nullable q)"
| "nullable (RStar r) = True"

fun deriv :: "char \<Rightarrow> regex \<Rightarrow> regex" where
  "deriv c RNone = RNone"
| "deriv c REps = RNone"
| "deriv c (RChar p) = (if p c then REps else RNone)"
| "deriv c (RSeq r q) =
     (if nullable r then RAlt (RSeq (deriv c r) q) (deriv c q) else RSeq (deriv c r) q)"
| "deriv c (RAlt r q) = RAlt (deriv c r) (deriv c q)"
| "deriv c (RStar r) = RSeq (deriv c r) (RStar r)"

fun re_match :: "regex \<Rightarrow> string \<Rightarrow> bool" where
  "re_match r [] = nullable r"
| "re_match r (c # s) = re_match (deriv c r) s"

fun strip_match :: "regex \<Rightarrow> string \<Rightarrow> string" where
  "strip_match r [] = []"
| "strip_match r (c # s) = (if re_match r (c # s) then [] else c # strip_match r s)"

subsection \<open>The language of an expression\<close>

inductive_set star :: "string set \<Rightarrow> string set" for L where
  star_Nil: "[] \<in> star L"
| star_append: "u \<in> L \<Longrightarrow> v \<in> star L \<Longrightarrow> u @ v \<in> star L"

fun lang :: "regex \<Rightarrow> string set" where
  "lang RNone = {}"
| "lang REps = {[]}"
| "lang (RChar p) = {[c] | c. p c}"
| "lang (RSeq r q) = {u @ v | u v. u \<in> lang r \<and> v \<in> lang q}"
| "lang (RAlt r q) = lang r \<union> lang q"
| "lang (RStar r) = star (lang r)"

lemma nullable_lang: "nullable r \<longleftrightarrow> [] \<in> lang r"
  by (induction r) (auto intro: star_Nil)

lemma star_Cons_split:
  "w \<in> star L \<Longrightarrow> w = c # s \<Longrightarrow> \<exists>u v. c # u \<in> L \<and> v \<in> star L \<and> s = u @ v"
proof (induction rule: star.induct)
  case star_Nil
  then show ?case by simp
next
  case (star_append u v)
  then show ?case
    by (cases u) auto
qed

lemma star_Cons_iff: "c # s \<in> star L \<longleftrightarrow> (\<exists>u v. c # u \<in> L \<and> v \<in> star L \<and> s = u @ v)"
proof
  assume "c # s \<in> star L"
  then show "\<exists>u v. c # u \<in> L \<and> v \<in> star L \<and> s = u @ v"
    by (blast dest: star_Cons_split)
next
  assume "\<exists>u v. c # u \<in> L \<and> v \<in> star L \<and> s = u @ v"
  then obtain u v where "c # u \<in> L" "v \<in> star L" "s = u @ v" by blast
  then show "c # s \<in> star L"
    using star_append [of "c # u" L v] by simp
qed

lemma seq_Cons_iff:
  "c # s \<in> {u @ v | u v. u \<in> A \<and> v \<in> B} \<longleftrightarrow>
     [] \<in> A \<and> c # s \<in> B \<or> (\<exists>u v. s = u @ v \<and> c # u \<in> A \<and> v \<in> B)"
  by (auto simp: Cons_eq_append_conv)

lemma deriv_lang: "s \<in> lang (deriv c r) \<longleftrightarrow> c # s \<in> lang r"
proof (induction r arbitrary: s)
  case (RSeq r q)
  show ?case
    unfolding lang.simps(4) seq_Cons_iff
    using RSeq by (auto simp: nullable_lang)
next
  case (RStar r)
  then show ?case
    by (auto simp: star_Cons_iff)
qed auto

lemma re_match_lang: "re_match r s \<longleftrightarrow> s \<in> lang r"
  by (induction s arbitrary: r) (auto simp: nullable_lang deriv_lang)

lemma star_char: "s \<in> star {[c] | c. p c} \<longleftrightarrow> list_all p s"
proof
  show "s \<in> star {[c] | c. p c} \<Longrightarrow> list_all p s"
    by (induction rule: star.induct) auto
next
  show "list_all p s \<Longrightarrow> s \<in> star {[c] | c. p c}"
  proof (induction s)
    case Nil
    then show ?case by (simp add: star_Nil)
  next
    case (Cons c s)
    then show ?case using star_append [of "[c]" "{[c] | c. p c}" s] by simp
  qed
qed

lemma lang_RLit [simp]: "lang (RLit s) = {s}"
  by (induction s) auto

lemma lang_ROpt [simp]: "lang (ROpt r) = insert [] (lang r)"
  by (auto simp: ROpt_def)

lemma lang_RChar_seq: "lang (RSeq (RChar p) r) = {c # t | c t. p c \<and> t \<in> lang r}"
proof (intro set_eqI iffI)
  fix s
  assume "s \<in> {c # t | c t. p c \<and> t \<in> lang r}"
  then obtain c t where "s = [c] @ t" "[c] \<in> lang (RChar p)" "t \<in> lang r" by auto
  then show "s \<in> lang (RSeq (RChar p) r)" by (simp only: lang.simps) blast
qed auto

lemma lang_RPlus_char: "lang (RPlus (RChar p)) = {s. s \<noteq> [] \<and> list_all p s}"
proof -
  have "lang (RPlus (RChar p)) = {c # t | c t. p c \<and> list_all p t}"
    by (simp add: RPlus_def lang_RChar_seq star_char del: lang.simps(4))
  also have "\<dots> = {s. s \<noteq> [] \<and> list_all p s}"
    by (auto simp: neq_Nil_conv)
  finally show ?thesis .
qed

subsection \<open>Cutting off a matching end\<close>

lemma strip_match_split:
  "\<exists>t. s = strip_match r s @ t \<and> (t = [] \<or> t \<in> lang r)"
proof (induction s)
  case Nil
  then show ?case by simp
next
  case (Cons c s)
  show ?case
  proof (cases "re_match r (c # s)")
    case True
    then show ?thesis by (simp add: re_match_lang del: re_match.simps)
  next
    case False
    with Cons show ?thesis by auto
  qed
qed

lemma strip_match_id: "(\<And>u v. s = u @ v \<Longrightarrow> v \<noteq> [] \<Longrightarrow> v \<notin> lang r) \<Longrightarrow> strip_match r s = s"
proof (induction s)
  case Nil
  then show ?case by simp
next
  case (Cons c s)
  have "c # s \<notin> lang r" using Cons.prems [of "[]" "c # s"] by simp
  moreover have "strip_match r s = s"
    using Cons.prems [of "c # _"] by (intro Cons.IH) auto
  ultimately show ?case by (simp add: re_match_lang del: re_match.simps)
qed

subsection \<open>The name pattern \<open>^[a-z0-9]([-a-z0-9]*[a-z0-9])?$\<close>\<close>

definition is_lower :: "char \<Rightarrow> bool" where
  "is_lower c = (97 \<le> char_code c \<and> char_code c \<le> 122)"

definition lower_alnum :: "char \<Rightarrow> bool" where
  "lower_alnum c = (is_lower c \<or> is_digit c)"

definition name_char :: "char \<Rightarrow> bool" where
  "name_char c = (c = CHR ''-'' \<or> lower_alnum c)"

definition name_regex :: regex where
  "name_regex =
     RSeq (RChar lower_alnum) (ROpt (RSeq (RStar (RChar name_char)) (RChar lower_alnum)))"

definition dns_label :: "string \<Rightarrow> bool" where
  "dns_label s =
     (s \<noteq> [] \<and> list_all name_char s \<and> lower_alnum (hd s) \<and> lower_alnum (last s))"

lemma name_regex_dns_label: "re_match name_regex s \<longleftrightarrow> dns_label s"
proof -
  have alnum: "name_char c" if "lower_alnum c" for c
    using that by (simp add: name_char_def)
  have "t \<in> lang (RSeq (RStar (RChar name_char)) (RChar lower_alnum)) \<longleftrightarrow>
      (\<exists>u c. t = u @ [c] \<and> list_all name_char u \<and> lower_alnum c)" for t
    by (auto simp: star_char)
  then have mid: "t \<in> lang (RSeq (RStar (RChar name_char)) (RChar lower_alnum)) \<longleftrightarrow>
      t \<noteq> [] \<and> list_all name_char t \<and> lower_alnum (last t)" for t
    by (cases t rule: rev_cases) (auto intro: alnum)
  have "s \<in> lang name_regex \<longleftrightarrow>
      (\<exists>c t. s = c # t \<and> lower_alnum c \<and>
        (t = [] \<or> t \<in> lang (RSeq (RStar (RChar name_char)) (RChar lower_alnum))))"
    unfolding name_regex_def lang_RChar_seq by auto
  also have "\<dots> \<longleftrightarrow> dns_label s"
    unfolding mid by (cases s) (auto simp: dns_label_def intro: alnum)
  finally show ?thesis by (simp add: re_match_lang)
qed

end
