(* ===== verification/Pipeline_Types.thy ===== *)
theory Pipeline_Types
  imports Complex_Main Js_Prelude
begin

section \<open>The data model (\<open>ui/src/types/pipeline.ts\<close>)\<close>

text \<open>
  One record per interface, one datatype per union of string literals, in the order their
  uses require.  An optional property is an \<open>option\<close> (\<open>None\<close> stands for \<open>undefined\<close>), a
  \<open>Record<string, string>\<close> is an \<open>obj\<close>, an inline object type with one property is the value
  of that property, and a number is an \<open>int\<close> but for the coordinates of graph nodes, which the
  layout engine may place anywhere and which are rationals.  A field is named after its
  property, with a prefix for its interface, since the fields of all records share one name
  space.
\<close>

subsection \<open>Metadata\<close>

record ObjectMeta =
  om_name :: string
  om_namespace :: "string option"
  om_uid :: "string option"
  om_creationTimestamp :: "string option"
  om_labels :: "string obj option"
  om_annotations :: "string obj option"
  om_resourceVersion :: "string option"

record ListMeta =
  lm_resourceVersion :: "string option"
  lm_continue :: "string option"

subsection \<open>Environment variables\<close>

record SecretKeySelector =
  sks_name :: string
  sks_key :: string
  sks_optional :: "bool option"

record ConfigMapKeySelector =
  cks_name :: string
  cks_key :: string
  cks_optional :: "bool option"

record ObjectFieldSelector =
  ofs_fieldPath :: string
  ofs_apiVersion :: "string option"

record EnvVarSource =
  evs_secretKeyRef :: "SecretKeySelector option"
  evs_configMapKeyRef :: "ConfigMapKeySelector option"
  evs_fieldRef :: "ObjectFieldSelector option"

record EnvVar =
  ev_name :: string
  ev_value :: "string option"
  ev_valueFrom :: "EnvVarSource option"

record SecretEnvSource =
  ses_name :: string
  ses_optional :: "bool option"

record ConfigMapEnvSource =
  ces_name :: string
  ces_optional :: "bool option"

record EnvFromSource =
  efs_prefix :: "string option"
  efs_secretRef :: "SecretEnvSource option"
  efs_configMapRef :: "ConfigMapEnvSource option"

subsection \<open>Scheduling and security\<close>

record ResourceRequirements =
  rr_requests :: "string obj option"
  rr_limits :: "string obj option"

datatype TolerationOperator = TolExists | TolEqual

datatype TolerationEffect = NoSchedule | PreferNoSchedule | NoExecute

record Toleration =
  tol_key :: "string option"
  tol_operator :: "TolerationOperator option"
  tol_value :: "string option"
  tol_effect :: "TolerationEffect option"
  tol_tolerationSeconds :: "int option"

datatype NodeSelectorOperator = NsIn | NsNotIn | NsExists | NsDoesNotExist | NsGt | NsLt

record NodeSelectorRequirement =
  nsr_key :: string
  nsr_operator :: NodeSelectorOperator
  nsr_values :: "string list option"

record NodeSelectorTerm =
  nst_matchExpressions :: "NodeSelectorRequirement list option"
  nst_matchFields :: "NodeSelectorRequirement list option"

record NodeSelector =
  ns_nodeSelectorTerms :: "NodeSelectorTerm list"

record PreferredSchedulingTerm =
  pst_weight :: int
  pst_preference :: NodeSelectorTerm

record NodeAffinity =
  na_required :: "NodeSelector option"
  na_preferred :: "PreferredSchedulingTerm list option"

datatype LabelSelectorOperator = LsIn | LsNotIn | LsExists | LsDoesNotExist

record LabelSelectorRequirement =
  lsr_key :: string
  lsr_operator :: LabelSelectorOperator
  lsr_values :: "string list option"

record LabelSelector =
  ls_matchLabels :: "string obj option"
  ls_matchExpressions :: "LabelSelectorRequirement list option"

record PodAffinityTerm =
  pat_labelSelector :: "LabelSelector option"
  pat_topologyKey :: string
  pat_namespaces :: "string list option"

record WeightedPodAffinityTerm =
  wpt_weight :: int
  wpt_podAffinityTerm :: PodAffinityTerm

record PodAffinity =
  pa_required :: "PodAffinityTerm list option"
  pa_preferred :: "WeightedPodAffinityTerm list option"

record PodAntiAffinity =
  paa_required :: "PodAffinityTerm list option"
  paa_preferred :: "WeightedPodAffinityTerm list option"

record Affinity =
  af_nodeAffinity :: "NodeAffinity option"
  af_podAffinity :: "PodAffinity option"
  af_podAntiAffinity :: "PodAntiAffinity option"

record PodSecurityContext =
  psc_runAsUser :: "int option"
  psc_runAsGroup :: "int option"
  psc_runAsNonRoot :: "bool option"
  psc_fsGroup :: "int option"
  psc_supplementalGroups :: "int list option"

record Capabilities =
  cap_add :: "string list option"
  cap_drop :: "string list option"

record SecurityContext =
  sc_runAsUser :: "int option"
  sc_runAsGroup :: "int option"
  sc_runAsNonRoot :: "bool option"
  sc_readOnlyRootFilesystem :: "bool option"
  sc_allowPrivilegeEscalation :: "bool option"
  sc_privileged :: "bool option"
  sc_capabilities :: "Capabilities option"

record LocalObjectReference =
  lor_name :: string

subsection \<open>Containers, pods and jobs\<close>

datatype PortProtocol = TCP | UDP | SCTP

record ContainerPort =
  cp_name :: "string option"
  cp_containerPort :: int
  cp_protocol :: "PortProtocol option"

record VolumeMount =
  vm_name :: string
  vm_mountPath :: string
  vm_subPath :: "string option"
  vm_readOnly :: "bool option"

record Container =
  ct_name :: string
  ct_image :: "string option"
  ct_command :: "string list option"
  ct_args :: "string list option"
  ct_workingDir :: "string option"
  ct_env :: "EnvVar list option"
  ct_envFrom :: "EnvFromSource list option"
  ct_resources :: "ResourceRequirements option"
  ct_volumeMounts :: "VolumeMount list option"
  ct_securityContext :: "SecurityContext option"
  ct_ports :: "ContainerPort list option"

record EmptyDir =
  ed_medium :: "string option"
  ed_sizeLimit :: "string option"

record KeyToPath =
  ktp_key :: string
  ktp_path :: string
  ktp_mode :: "int option"

record ConfigMapVolume =
  cmv_name :: string
  cmv_items :: "KeyToPath list option"

record SecretVolume =
  sev_secretName :: string
  sev_items :: "KeyToPath list option"

record Volume =
  vol_name :: string
  vol_persistentVolumeClaim :: "string option"
  vol_emptyDir :: "EmptyDir option"
  vol_configMap :: "ConfigMapVolume option"
  vol_secret :: "SecretVolume option"

datatype RestartPolicy = Never | OnFailure | Always

record PodSpec =
  pod_containers :: "Container list"
  pod_initContainers :: "Container list option"
  pod_restartPolicy :: RestartPolicy
  pod_serviceAccountName :: "string option"
  pod_nodeSelector :: "string obj option"
  pod_tolerations :: "Toleration list option"
  pod_affinity :: "Affinity option"
  pod_volumes :: "Volume list option"
  pod_securityContext :: "PodSecurityContext option"

record PodTemplateSpec =
  pts_metadata :: "ObjectMeta option"
  pts_spec :: PodSpec

record JobSpec =
  js_template :: PodTemplateSpec
  js_backoffLimit :: "int option"
  js_activeDeadlineSeconds :: "int option"
  js_ttlSecondsAfterFinished :: "int option"
  js_parallelism :: "int option"
  js_completions :: "int option"

subsection \<open>The specification of a pipeline\<close>

datatype RunCondition = OnSuccess | OnFail

datatype RunOperator = AllOf | AnyOf

record RunIfCondition =
  ri_condition :: "RunCondition option"
  ri_operator :: "RunOperator option"
  ri_steps :: "string list"

record PipelineStep =
  ps_name :: string
  ps_runIf :: "RunIfCondition option"
  ps_jobSpec :: JobSpec

record SharedVolumeSpec =
  sv_name :: "string option"
  sv_mountPath :: "string option"
  sv_persistentVolumeClaim :: "string option"
  sv_emptyDir :: "EmptyDir option"
  sv_configMap :: "string option"
  sv_secret :: "string option"

record PodTemplateDefaults =
  pt_image :: "string option"
  pt_env :: "EnvVar list option"
  pt_envFrom :: "EnvFromSource list option"
  pt_nodeSelector :: "string obj option"
  pt_tolerations :: "Toleration list option"
  pt_affinity :: "Affinity option"
  pt_securityContext :: "PodSecurityContext option"
  pt_imagePullSecrets :: "LocalObjectReference list option"
  pt_priorityClassName :: "string option"
  pt_runtimeClassName :: "string option"
  pt_schedulerName :: "string option"
  pt_labels :: "string obj option"
  pt_annotations :: "string obj option"
  pt_defaultResources :: "ResourceRequirements option"

record PipelineSpec =
  sp_steps :: "PipelineStep list"
  sp_serviceAccountName :: "string option"
  sp_sharedVolume :: "SharedVolumeSpec option"
  sp_podTemplate :: "PodTemplateDefaults option"

subsection \<open>The status of a pipeline\<close>

datatype PipelinePhase = PlPending | PlRunning | PlSuspended | PlSucceeded | PlFailed

datatype StepPhase =
  StPending | StRunning | StSuspended | StSucceeded | StFailed | StSkipped

datatype ConditionStatus = CondTrue | CondFalse | CondUnknown

datatype JobConditionType = JobComplete | JobFailed | JobSuspended

record JobCondition =
  jc_type :: JobConditionType
  jc_status :: ConditionStatus
  jc_reason :: "string option"
  jc_message :: "string option"
  jc_lastProbeTime :: "string option"
  jc_lastTransitionTime :: "string option"

record Condition =
  cd_type :: string
  cd_status :: ConditionStatus
  cd_reason :: "string option"
  cd_message :: "string option"
  cd_lastTransitionTime :: "string option"
  cd_observedGeneration :: "int option"

record JobStatus =
  jst_active :: "int option"
  jst_succeeded :: "int option"
  jst_failed :: "int option"
  jst_startTime :: "string option"
  jst_completionTime :: "string option"
  jst_conditions :: "JobCondition list option"

record StepStatus =
  ss_name :: string
  ss_phase :: StepPhase
  ss_jobName :: "string option"
  ss_jobStatus :: "JobStatus option"

record PipelineStatus =
  pls_phase :: PipelinePhase
  pls_startTime :: "string option"
  pls_completionTime :: "string option"
  pls_steps :: "StepStatus list"
  pls_conditions :: "Condition list option"

subsection \<open>Pipelines\<close>

record Pipeline =
  pl_apiVersion :: string
  pl_kind :: string
  pl_metadata :: ObjectMeta
  pl_spec :: PipelineSpec
  pl_status :: "PipelineStatus option"

record PipelineList =
  pll_apiVersion :: string
  pll_kind :: string
  pll_metadata :: ListMeta
  pll_items :: "Pipeline list option"

subsection \<open>The graph of a pipeline\<close>

record PipelineNode =
  nd_id :: string
  nd_step :: PipelineStep
  nd_status :: "StepStatus option"
  nd_x :: rat
  nd_y :: rat

datatype EdgeType = Sequential | SuccessEdge | FailureEdge

record EdgeData =
  ed_condition :: "RunCondition option"
  ed_operator :: "RunOperator option"

record PipelineEdge =
  eg_id :: string
  eg_source :: string
  eg_target :: string
  eg_type :: EdgeType
  eg_data :: "EdgeData option"

record PipelineGraph =
  gr_nodes :: "PipelineNode list"
  gr_edges :: "PipelineEdge list"

subsection \<open>Watch events and API errors\<close>

datatype WatchType = ADDED | MODIFIED | DELETED | WATCH_ERROR

record 'a WatchEvent =
  we_type :: WatchType
  we_object :: 'a

record ApiError =
  ae_kind :: string
  ae_apiVersion :: string
  ae_metadata :: "json obj"
  ae_status :: string
  ae_message :: string
  ae_reason :: string
  ae_code :: int

subsection \<open>Values without optional properties\<close>

text \<open>
  The object literals of the code set some properties and leave the others out.  These
  constants are the literals with every optional property left out.
\<close>

definition no_meta :: "string \<Rightarrow> ObjectMeta" where
  "no_meta n = \<lparr>om_name = n, om_namespace = None, om_uid = None, om_creationTimestamp = None,
     om_labels = None, om_annotations = None, om_resourceVersion = None\<rparr>"

definition no_container :: "string \<Rightarrow> Container" where
  "no_container n = \<lparr>ct_name = n, ct_image = None, ct_command = None, ct_args = None,
     ct_workingDir = None, ct_env = None, ct_envFrom = None, ct_resources = None,
     ct_volumeMounts = None, ct_securityContext = None, ct_ports = None\<rparr>"

definition no_pod :: "Container list \<Rightarrow> RestartPolicy \<Rightarrow> PodSpec" where
  "no_pod cs rp = \<lparr>pod_containers = cs, pod_initContainers = None, pod_restartPolicy = rp,
     pod_serviceAccountName = None, pod_nodeSelector = None, pod_tolerations = None,
     pod_affinity = None, pod_volumes = None, pod_securityContext = None\<rparr>"

definition no_job :: "PodSpec \<Rightarrow> JobSpec" where
  "no_job pod = \<lparr>js_template = \<lparr>pts_metadata = None, pts_spec = pod\<rparr>, js_backoffLimit = None,
     js_activeDeadlineSeconds = None, js_ttlSecondsAfterFinished = None,
     js_parallelism = None, js_completions = None\<rparr>"

definition no_spec :: "PipelineStep list \<Rightarrow> PipelineSpec" where
  "no_spec ss = \<lparr>sp_steps = ss, sp_serviceAccountName = None, sp_sharedVolume = None,
     sp_podTemplate = None\<rparr>"

definition no_podTemplate :: PodTemplateDefaults where
  "no_podTemplate = \<lparr>pt_image = None, pt_env = None, pt_envFrom = None, pt_nodeSelector = None,
     pt_tolerations = None, pt_affinity = None, pt_securityContext = None,
     pt_imagePullSecrets = None, pt_priorityClassName = None, pt_runtimeClassName = None,
     pt_schedulerName = None, pt_labels = None, pt_annotations = None,
     pt_defaultResources = None\<rparr>"

definition no_volume :: SharedVolumeSpec where
  "no_volume = \<lparr>sv_name = None, sv_mountPath = None, sv_persistentVolumeClaim = None,
     sv_emptyDir = None, sv_configMap = None, sv_secret = None\<rparr>"

definition no_env :: "string \<Rightarrow> EnvVar" where
  "no_env n = \<lparr>ev_name = n, ev_value = None, ev_valueFrom = None\<rparr>"

definition no_envFrom :: EnvFromSource where
  "no_envFrom = \<lparr>efs_prefix = None, efs_secretRef = None, efs_configMapRef = None\<rparr>"

lemmas literal_defs = no_meta_def no_container_def no_pod_def no_job_def no_spec_def
  no_podTemplate_def no_volume_def no_env_def no_envFrom_def

subsection \<open>Phases as text\<close>

primrec step_phase_text :: "StepPhase \<Rightarrow> string" where
  "step_phase_text StPending = ''Pending''"
| "step_phase_text StRunning = ''Running''"
| "step_phase_text StSuspended = ''Suspended''"
| "step_phase_text StSucceeded = ''Succeeded''"
| "step_phase_text StFailed = ''Failed''"
| "step_phase_text StSkipped = ''Skipped''"

primrec pipeline_phase_text :: "PipelinePhase \<Rightarrow> string" where
  "pipeline_phase_text PlPending = ''Pending''"
| "pipeline_phase_text PlRunning = ''Running''"
| "pipeline_phase_text PlSuspended = ''Suspended''"
| "pipeline_phase_text PlSucceeded = ''Succeeded''"
| "pipeline_phase_text PlFailed = ''Failed''"

lemma step_phase_text_inject [simp]: "step_phase_text a = step_phase_text b \<longleftrightarrow> a = b"
  by (cases a; cases b) simp_all

end
