(* ===== verification/Graph_Layout.thy ===== *)
theory Graph_Layout
  imports Js_Regex Pipeline_Types
begin

section \<open>Graphs of pipelines (\<open>ui/src/lib/graph-layout.ts\<close>)\<close>

text \<open>
  The conversion of a pipeline into nodes and edges, the call of the layout engine, the
  constructors of empty pipelines and default steps, and the validation of names.  ELK is a
  third-party package: it is a parameter \<open>elk\<close>, the function from the graph it is given to the
  children it returns (or to the error its promise rejects with).  The cycle check of the same
  file is in \<open>Cycle_Check\<close>.
\<close>

subsection \<open>\<open>pipelineToGraph\<close>\<close>

definition find_status :: "Pipeline \<Rightarrow> string \<Rightarrow> StepStatus option" where
  "find_status p n =
     (case pl_status p of
        None \<Rightarrow> None
      | Some st \<Rightarrow> List.find (\<lambda>s. ss_name s = n) (pls_steps st))"

definition graph_node :: "Pipeline \<Rightarrow> nat \<times> PipelineStep \<Rightarrow> PipelineNode" where
  "graph_node p = (\<lambda>(index, step).
     \<lparr>nd_id = ps_name step, nd_step = step, nd_status = find_status p (ps_name step),
      nd_x = 0, nd_y = of_nat (index * 120)\<rparr>)"

definition runif_edge :: "PipelineStep \<Rightarrow> RunIfCondition \<Rightarrow> string \<Rightarrow> PipelineEdge" where
  "runif_edge step ri dep =
     \<lparr>eg_id = dep @ ''->'' @ ps_name step, eg_source = dep, eg_target = ps_name step,
      eg_type = (if ri_condition ri = Some OnFail then FailureEdge else SuccessEdge),
      eg_data = Some
        \<lparr>ed_condition = Some (case ri_condition ri of None \<Rightarrow> OnSuccess | Some c \<Rightarrow> c),
         ed_operator = Some (case ri_operator ri of None \<Rightarrow> AllOf | Some c \<Rightarrow> c)\<rparr>\<rparr>"

definition sequential_edge :: "PipelineStep \<Rightarrow> PipelineStep \<Rightarrow> PipelineEdge" where
  "sequential_edge prev step =
     \<lparr>eg_id = ps_name prev @ ''->'' @ ps_name step, eg_source = ps_name prev,
      eg_target = ps_name step, eg_type = Sequential, eg_data = None\<rparr>"

definition step_edges :: "PipelineStep list \<Rightarrow> nat \<times> PipelineStep \<Rightarrow> PipelineEdge list" where
  "step_edges steps = (\<lambda>(index, step).
     case ps_runIf step of
       Some ri \<Rightarrow>
         map (runif_edge step ri) (filter (\<lambda>dep. dep \<in> set (map ps_name steps)) (ri_steps ri))
     | None \<Rightarrow> if index > 0 then [sequential_edge (steps ! (index - 1)) step] else [])"

definition pipelineToGraph :: "Pipeline \<Rightarrow> PipelineGraph" where
  "pipelineToGraph p =
     (let steps = sp_steps (pl_spec p)
      in \<lparr>gr_nodes = map (graph_node p) (enumerate 0 steps),
          gr_edges = concat (map (step_edges steps) (enumerate 0 steps))\<rparr>)"

subsection \<open>\<open>layoutGraph\<close>\<close>

definition layoutOptions :: "string obj" where
  "layoutOptions =
     [(''elk.algorithm'', ''layered''),
      (''elk.direction'', ''DOWN''),
      (''elk.spacing.nodeNode'', ''25''),
      (''elk.layered.spacing.nodeNodeBetweenLayers'', ''35''),
      (''elk.layered.nodePlacement.strategy'', ''SIMPLE''),
      (''elk.edgeRouting'', ''ORTHOGONAL'')]"

record ElkBox =
  eb_id :: string
  eb_width :: int
  eb_height :: int

record ElkLink =
  el_id :: string
  el_sources :: "string list"
  el_targets :: "string list"

record ElkNode =
  en_id :: string
  en_layoutOptions :: "string obj"
  en_children :: "ElkBox list"
  en_edges :: "ElkLink list"

record ElkPlaced =
  ep_id :: string
  ep_x :: "rat option"
  ep_y :: "rat option"

definition elk_graph :: "PipelineGraph \<Rightarrow> ElkNode" where
  "elk_graph g =
     \<lparr>en_id = ''root'', en_layoutOptions = layoutOptions,
      en_children = map (\<lambda>n. \<lparr>eb_id = nd_id n, eb_width = 240, eb_height = 100\<rparr>) (gr_nodes g),
      en_edges = map (\<lambda>e. \<lparr>el_id = eg_id e, el_sources = [eg_source e],
        el_targets = [eg_target e]\<rparr>) (gr_edges g)\<rparr>"

definition num_or_zero :: "rat option \<Rightarrow> rat" where
  "num_or_zero x = (case x of None \<Rightarrow> 0 | Some r \<Rightarrow> r)"

definition place_node :: "ElkPlaced list option \<Rightarrow> PipelineNode \<Rightarrow> PipelineNode" where
  "place_node children n =
     (case List.find (\<lambda>c. ep_id c = nd_id n) (list_or children) of
        Some c \<Rightarrow> n\<lparr>nd_x := num_or_zero (ep_x c), nd_y := num_or_zero (ep_y c)\<rparr>
      | None \<Rightarrow> n)"

definition layoutGraph ::
    "(ElkNode \<Rightarrow> ElkPlaced list option outcome) \<Rightarrow> PipelineGraph \<Rightarrow> PipelineGraph outcome" where
  "layoutGraph elk g =
     (case elk (elk_graph g) of
        Inl e \<Rightarrow> Inl e
      | Inr children \<Rightarrow>
          Inr \<lparr>gr_nodes = map (place_node children) (gr_nodes g), gr_edges = gr_edges g\<rparr>)"

subsection \<open>Constructors\<close>

definition createEmptyPipeline :: "string \<Rightarrow> string \<Rightarrow> Pipeline" where
  "createEmptyPipeline name namespace =
     \<lparr>pl_apiVersion = ''pipeline.yaacov.io/v1'', pl_kind = ''Pipeline'',
      pl_metadata = (no_meta name)\<lparr>om_namespace := Some namespace\<rparr>,
      pl_spec = no_spec [], pl_status = None\<rparr>"

definition createDefaultStep :: "string \<Rightarrow> PipelineStep" where
  "createDefaultStep name =
     \<lparr>ps_name = name, ps_runIf = None,
      ps_jobSpec = no_job (no_pod
        [(no_container ''main'')
           \<lparr>ct_image := Some ''registry.access.redhat.com/ubi9/ubi-minimal:latest'',
            ct_command := Some [''sh'', ''-c''],
            ct_args := Some [''echo \"Hello from step\"'']\<rparr>] Never)\<rparr>"

subsection \<open>\<open>validateStepName\<close>\<close>

record Validation =
  vd_valid :: bool
  vd_error :: "string option"

definition validateStepName :: "string \<Rightarrow> Validation" where
  "validateStepName name =
     (if name = [] then \<lparr>vd_valid = False, vd_error = Some ''Name is required''\<rparr>
      else if length name > 63 then
        \<lparr>vd_valid = False, vd_error = Some ''Name must be 63 characters or less''\<rparr>
      else if \<not> re_match name_regex name then
        \<lparr>vd_valid = False, vd_error = Some
           ''Name must be lowercase alphanumeric with hyphens, starting and ending with alphanumeric''\<rparr>
      else \<lparr>vd_valid = True, vd_error = None\<rparr>)"

definition valid_name :: "string \<Rightarrow> bool" where
  "valid_name s = (dns_label s \<and> length s \<le> 63)"

lemma vd_valid_iff: "vd_valid (validateStepName s) \<longleftrightarrow> valid_name s"
  by (auto simp: validateStepName_def valid_name_def name_regex_dns_label dns_label_def)

lemma vd_error_iff: "vd_error (validateStepName s) = None \<longleftrightarrow> valid_name s"
  by (auto simp: validateStepName_def valid_name_def name_regex_dns_label dns_label_def)

lemma valid_name_not_Nil: "valid_name s \<Longrightarrow> s \<noteq> []"
  by (simp add: valid_name_def dns_label_def)

text \<open>
  C37: \<open>validateStepName\<close> accepts a name exactly when it is an RFC 1123 label: 1 to 63
  characters, lowercase letters, digits and hyphens only, a letter or digit at both ends; and
  it reports an error exactly for the others.
\<close>

theorem validateStepName_rfc1123:
  "vd_valid (validateStepName s) =
     (s \<noteq> [] \<and> length s \<le> 63 \<and> list_all (\<lambda>c. c = CHR ''-'' \<or> is_lower c \<or> is_digit c) s \<and>
      hd s \<noteq> CHR ''-'' \<and> last s \<noteq> CHR ''-'') \<and>
   (vd_error (validateStepName s) = None) = vd_valid (validateStepName s)"
proof -
  have alnum: "lower_alnum c \<longleftrightarrow> name_char c \<and> c \<noteq> CHR ''-''" for c
    by (auto simp: name_char_def lower_alnum_def is_lower_def is_digit_def char_code_def)
  have "list_all name_char s \<Longrightarrow> s \<noteq> [] \<Longrightarrow> name_char (hd s) \<and> name_char (last s)"
    by (simp add: list_all_iff)
  then have "dns_label s \<longleftrightarrow> s \<noteq> [] \<and> list_all name_char s \<and> hd s \<noteq> CHR ''-'' \<and> last s \<noteq> CHR ''-''"
    unfolding dns_label_def alnum by blast
  moreover have "name_char = (\<lambda>c. c = CHR ''-'' \<or> is_lower c \<or> is_digit c)"
    by (simp add: fun_eq_iff name_char_def lower_alnum_def)
  ultimately show ?thesis
    by (auto simp: vd_valid_iff vd_error_iff valid_name_def)
qed

subsection \<open>Correctness of the graph\<close>

lemma step_edges_endpoints:
  assumes "e \<in> set (step_edges steps (i, step))" and "i < length steps"
  shows "eg_source e \<in> set (map ps_name steps)" and "eg_target e = ps_name step"
  using assms
  by (auto simp: step_edges_def runif_edge_def sequential_edge_def split: option.splits if_splits)

lemma graph_edge_cases:
  assumes "e \<in> set (gr_edges (pipelineToGraph p))"
  obtains i where "i < length (sp_steps (pl_spec p))"
    and "e \<in> set (step_edges (sp_steps (pl_spec p)) (i, sp_steps (pl_spec p) ! i))"
  using assms by (auto simp: pipelineToGraph_def Let_def in_set_enumerate_eq)

lemma graph_node_ids: "map nd_id (gr_nodes (pipelineToGraph p)) = map ps_name (sp_steps (pl_spec p))"
  by (rule nth_equalityI) (auto simp: pipelineToGraph_def Let_def graph_node_def nth_enumerate_eq)

text \<open>
  C3: the graph has one node per step, in the order of the steps and named after them, with the
  status of the step of that name, and every edge joins two of its nodes: a dependency on a
  step that does not exist gives no edge.
\<close>

theorem pipelineToGraph_wellformed:
  "map nd_id (gr_nodes (pipelineToGraph p)) = map ps_name (sp_steps (pl_spec p)) \<and>
   map nd_step (gr_nodes (pipelineToGraph p)) = sp_steps (pl_spec p) \<and>
   map nd_status (gr_nodes (pipelineToGraph p)) =
     map (\<lambda>s. find_status p (ps_name s)) (sp_steps (pl_spec p)) \<and>
   list_all (\<lambda>e. {eg_source e, eg_target e} \<subseteq> set (map nd_id (gr_nodes (pipelineToGraph p))))
     (gr_edges (pipelineToGraph p))"
proof -
  let ?steps = "sp_steps (pl_spec p)"
  have "map nd_step (gr_nodes (pipelineToGraph p)) = ?steps"
    by (rule nth_equalityI)
       (auto simp: pipelineToGraph_def Let_def graph_node_def nth_enumerate_eq)
  moreover have "map nd_status (gr_nodes (pipelineToGraph p)) =
      map (\<lambda>s. find_status p (ps_name s)) ?steps"
    by (rule nth_equalityI)
       (auto simp: pipelineToGraph_def Let_def graph_node_def nth_enumerate_eq)
  moreover have "{eg_source e, eg_target e} \<subseteq> set (map ps_name ?steps)"
    if "e \<in> set (gr_edges (pipelineToGraph p))" for e
    using that
  proof (rule graph_edge_cases)
    fix i
    assume "i < length ?steps" and "e \<in> set (step_edges ?steps (i, ?steps ! i))"
    then show ?thesis using step_edges_endpoints [of e ?steps i] by auto
  qed
  ultimately show ?thesis by (simp only: graph_node_ids list_all_iff) blast
qed

text \<open>The dependencies a step declares, and the edges they become.\<close>

definition deps_backward :: "PipelineStep list \<Rightarrow> bool" where
  "deps_backward steps =
     (\<forall>i < length steps. \<forall>ri. ps_runIf (steps ! i) = Some ri \<longrightarrow>
        (\<forall>j < length steps. ps_name (steps ! j) \<in> set (ri_steps ri) \<longrightarrow> j < i))"

definition edge_rel :: "PipelineEdge list \<Rightarrow> (string \<times> string) set" where
  "edge_rel es = (\<lambda>e. (eg_source e, eg_target e)) ` set es"

lemma acyclic_by_rank:
  fixes rank :: "'a \<Rightarrow> nat"
  assumes "\<And>a b. (a, b) \<in> r \<Longrightarrow> rank a < rank b"
  shows "acyclic r"
proof -
  have "r \<subseteq> measure rank" using assms by auto
  then have "wf r" by (rule wf_subset [OF wf_measure])
  then show ?thesis by (rule wf_acyclic)
qed

lemma edge_goes_forward:
  assumes dist: "distinct (map ps_name (sp_steps (pl_spec p)))"
    and bwd: "deps_backward (sp_steps (pl_spec p))"
    and e: "e \<in> set (gr_edges (pipelineToGraph p))"
  shows "\<exists>j i. j < i \<and> i < length (sp_steps (pl_spec p)) \<and>
      eg_source e = ps_name (sp_steps (pl_spec p) ! j) \<and>
      eg_target e = ps_name (sp_steps (pl_spec p) ! i)"
  using e
proof (rule graph_edge_cases)
  let ?steps = "sp_steps (pl_spec p)"
  fix i
  assume i: "i < length ?steps" and ei: "e \<in> set (step_edges ?steps (i, ?steps ! i))"
  have tgt: "eg_target e = ps_name (?steps ! i)"
    using step_edges_endpoints [OF ei i] by simp
  show ?thesis
  proof (cases "ps_runIf (?steps ! i)")
    case None
    with ei have "i > 0" and "eg_source e = ps_name (?steps ! (i - 1))"
      by (auto simp: step_edges_def sequential_edge_def split: if_splits)
    with i tgt show ?thesis by (intro exI [of _ "i - 1"] exI [of _ i]) auto
  next
    case (Some ri)
    with ei have "eg_source e \<in> set (ri_steps ri)" and "eg_source e \<in> set (map ps_name ?steps)"
      by (auto simp: step_edges_def runif_edge_def)
    then obtain j where "j < length ?steps" and "eg_source e = ps_name (?steps ! j)"
      and "ps_name (?steps ! j) \<in> set (ri_steps ri)"
      by (metis in_set_conv_nth length_map nth_map)
    moreover from this have "j < i"
      using bwd i Some by (auto simp: deps_backward_def)
    ultimately show ?thesis using i tgt by blast
  qed
qed

text \<open>
  C4: when the step names are distinct and every \<open>runIf\<close> names only steps that come earlier in
  the pipeline, the graph is acyclic, so the layered layout it is given to is defined.
\<close>

theorem pipelineToGraph_acyclic:
  assumes "distinct (map ps_name (sp_steps (pl_spec p)))"
    and "deps_backward (sp_steps (pl_spec p))"
  shows "acyclic (edge_rel (gr_edges (pipelineToGraph p)))"
proof -
  let ?steps = "sp_steps (pl_spec p)"
  define rank where "rank n = the_inv_into {..<length ?steps} (\<lambda>i. ps_name (?steps ! i)) n" for n
  have inj: "inj_on (\<lambda>i. ps_name (?steps ! i)) {..<length ?steps}"
    using assms(1) by (auto simp: inj_on_def distinct_conv_nth)
  have rank: "rank (ps_name (?steps ! i)) = i" if "i < length ?steps" for i
    using the_inv_into_f_f [OF inj, of i] that by (simp add: rank_def)
  show ?thesis
  proof (rule acyclic_by_rank [where rank = rank])
    fix a b
    assume "(a, b) \<in> edge_rel (gr_edges (pipelineToGraph p))"
    then obtain e where e: "e \<in> set (gr_edges (pipelineToGraph p))"
      and [simp]: "a = eg_source e" "b = eg_target e"
      by (auto simp: edge_rel_def)
    from edge_goes_forward [OF assms e] show "rank a < rank b"
      by (auto simp: rank)
  qed
qed

definition example_steps :: "PipelineStep list" where
  "example_steps =
     [createDefaultStep ''build'',
      (createDefaultStep ''test'')
        \<lparr>ps_runIf := Some \<lparr>ri_condition = None, ri_operator = None, ri_steps = [''build'']\<rparr>\<rparr>,
      createDefaultStep ''deploy'']"

definition example_pipeline :: Pipeline where
  "example_pipeline =
     (createEmptyPipeline ''demo'' ''default'')\<lparr>pl_spec := no_spec example_steps\<rparr>"

lemma example_spec [simp]: "sp_steps (pl_spec example_pipeline) = example_steps"
  by (simp add: example_pipeline_def no_spec_def)

lemma example_facts:
  "distinct (map ps_name example_steps)" "deps_backward example_steps"
  by (auto simp: example_steps_def createDefaultStep_def deps_backward_def less_Suc_eq
      numeral_2_eq_2 numeral_3_eq_3)

theorem pipelineToGraph_acyclic_witness:
  "acyclic (edge_rel (gr_edges (pipelineToGraph example_pipeline)))"
  by (rule pipelineToGraph_acyclic) (simp_all add: example_facts)

text \<open>
  The layout moves the nodes and nothing else: the ids, steps and statuses of the nodes and
  all the edges are those of the graph that went in, and a rejection of the layout engine is
  passed on.
\<close>

theorem layoutGraph_only_moves:
  "case layoutGraph elk g of
     Inl e \<Rightarrow> elk (elk_graph g) = Inl e
   | Inr g' \<Rightarrow>
       gr_edges g' = gr_edges g \<and>
       map (\<lambda>n. (nd_id n, nd_step n, nd_status n)) (gr_nodes g') =
         map (\<lambda>n. (nd_id n, nd_step n, nd_status n)) (gr_nodes g)"
  by (auto simp: layoutGraph_def place_node_def split: sum.split option.split)

end
