(* ===== verification/Cycle_Check.thy ===== *)
theory Cycle_Check
  imports Graph_Layout
begin

section \<open>The cycle check (\<open>wouldCreateCycle\<close> in \<open>ui/src/lib/graph-layout.ts\<close>)\<close>

text \<open>
  A recursive depth-first search over a JavaScript \<open>Map\<close> from a node to the \<open>Set\<close> of its
  successors, both kept in insertion order as lists.  The set \<open>visited\<close> and the recursion stack
  are the state the search threads through its calls.  The recursion of the code has no bound
  of its own; the model spends one unit of fuel per nested call, and \<open>hasCycle_spec\<close> shows that
  one unit per node that is not yet visited is enough, so that the fuel \<open>wouldCreateCycle\<close>
  starts with never runs out.
\<close>

subsection \<open>The adjacency map\<close>

type_synonym adjacency = "(string \<times> string list) list"

definition set_add :: "string \<Rightarrow> string list \<Rightarrow> string list" where
  "set_add t ts = (if t \<in> set ts then ts else ts @ [t])"

definition adj_add :: "string \<Rightarrow> string \<Rightarrow> adjacency \<Rightarrow> adjacency" where
  "adj_add s t adj =
     (let adj' = (if s \<in> fst ` set adj then adj else adj @ [(s, [])])
      in map (\<lambda>(k, ts). if k = s then (k, set_add t ts) else (k, ts)) adj')"

definition build_adjacency :: "PipelineEdge list \<Rightarrow> adjacency" where
  "build_adjacency es = foldl (\<lambda>adj e. adj_add (eg_source e) (eg_target e) adj) [] es"

definition neighbors :: "adjacency \<Rightarrow> string \<Rightarrow> string list" where
  "neighbors adj n = list_or (map_of adj n)"

subsection \<open>The search\<close>

text \<open>
  \<open>hasCycle\<close> is the nested function of the code and \<open>cycle_loop\<close> its loop over the neighbours.
  A result is the answer with the new \<open>visited\<close> set and recursion stack.
\<close>

type_synonym search = "(bool \<times> string list \<times> string list) option"

function (sequential)
  hasCycle :: "nat \<Rightarrow> adjacency \<Rightarrow> string \<Rightarrow> string list \<Rightarrow> string list \<Rightarrow> search" and
  cycle_loop :: "nat \<Rightarrow> adjacency \<Rightarrow> string list \<Rightarrow> string list \<Rightarrow> string list \<Rightarrow> search"
where
  "hasCycle 0 adj node visited stack = None"
| "hasCycle (Suc fuel) adj node visited stack =
     (case cycle_loop fuel adj (neighbors adj node) (set_add node visited) (set_add node stack) of
        None \<Rightarrow> None
      | Some (True, v, st) \<Rightarrow> Some (True, v, st)
      | Some (False, v, st) \<Rightarrow> Some (False, v, filter (\<lambda>x. x \<noteq> node) st))"
| "cycle_loop fuel adj [] visited stack = Some (False, visited, stack)"
| "cycle_loop fuel adj (m # ms) visited stack =
     (if m \<notin> set visited then
        (case hasCycle fuel adj m visited stack of
           None \<Rightarrow> None
         | Some (True, v, st) \<Rightarrow> Some (True, v, st)
         | Some (False, v, st) \<Rightarrow> cycle_loop fuel adj ms v st)
      else if m \<in> set stack then Some (True, visited, stack)
      else cycle_loop fuel adj ms visited stack)"
  by pat_completeness auto
termination
  by (relation "measures [case_sum (\<lambda>(fuel, _). fuel) (\<lambda>(fuel, _). fuel),
        case_sum (\<lambda>_. 0) (\<lambda>(_, _, ms, _). Suc (length ms))]") auto

text \<open>The loop over \<open>adjacency.keys()\<close> that starts a search at every node not yet visited.\<close>

fun cycle_roots ::
    "nat \<Rightarrow> adjacency \<Rightarrow> string list \<Rightarrow> string list \<Rightarrow> string list \<Rightarrow> bool option" where
  "cycle_roots fuel adj [] visited stack = Some False"
| "cycle_roots fuel adj (n # ns) visited stack =
     (if n \<notin> set visited then
        (case hasCycle fuel adj n visited stack of
           None \<Rightarrow> None
         | Some (True, v, st) \<Rightarrow> Some True
         | Some (False, v, st) \<Rightarrow> cycle_roots fuel adj ns v st)
      else cycle_roots fuel adj ns visited stack)"

definition wouldCreateCycle :: "PipelineEdge list \<Rightarrow> string \<Rightarrow> string \<Rightarrow> bool option" where
  "wouldCreateCycle edges newSource newTarget =
     (let adj = adj_add newSource newTarget (build_adjacency edges)
      in cycle_roots (2 * length edges + 3) adj (map fst adj) [] [])"

subsection \<open>The graph of an adjacency map\<close>

definition adj_rel :: "adjacency \<Rightarrow> (string \<times> string) set" where
  "adj_rel adj = {(n, m). m \<in> set (neighbors adj n)}"

lemma set_set_add [simp]: "set (set_add t ts) = insert t (set ts)"
  by (auto simp: set_add_def)

lemma map_of_adj_map:
  "map_of (map (\<lambda>(k, ts). if k = s then (k, f ts) else (k, ts)) adj) n =
     (if n = s then map_option f (map_of adj n) else map_of adj n)"
  by (induction adj) auto

lemma map_of_snoc: "map_of (adj @ [(s, ts)]) n =
    (case map_of adj n of None \<Rightarrow> if n = s then Some ts else None | Some x \<Rightarrow> Some x)"
  by (induction adj) auto

lemma neighbors_adj_add:
  "set (neighbors (adj_add s t adj) n) =
     (if n = s then insert t (set (neighbors adj n)) else set (neighbors adj n))"
proof (cases "map_of adj s")
  case None
  then have "s \<notin> fst ` set adj" by (simp add: map_of_eq_None_iff)
  with None show ?thesis
    by (cases "map_of adj n")
       (auto simp: adj_add_def neighbors_def Let_def map_of_adj_map map_of_snoc
         simp del: map_of_append)
next
  case (Some ts)
  then have "s \<in> fst ` set adj" by (metis map_of_eq_None_iff option.distinct(1))
  with Some show ?thesis
    by (simp add: adj_add_def neighbors_def Let_def map_of_adj_map)
qed

lemma adj_rel_add: "adj_rel (adj_add s t adj) = insert (s, t) (adj_rel adj)"
  by (auto simp: adj_rel_def neighbors_adj_add split: if_splits)

lemma adj_rel_build: "adj_rel (build_adjacency es) = edge_rel es"
proof -
  have "adj_rel (foldl (\<lambda>adj e. adj_add (eg_source e) (eg_target e) adj) adj es) =
      adj_rel adj \<union> edge_rel es" for adj
    by (induction es arbitrary: adj) (auto simp: adj_rel_add edge_rel_def)
  moreover have "adj_rel [] = {}" by (simp add: adj_rel_def neighbors_def)
  ultimately show ?thesis by (simp add: build_adjacency_def)
qed

lemma adj_rel_source: "(n, m) \<in> adj_rel adj \<Longrightarrow> n \<in> fst ` set adj"
  by (cases "map_of adj n") (auto simp: adj_rel_def neighbors_def dest: map_of_SomeD
      intro: rev_image_eqI)

subsection \<open>Correctness of the search\<close>

text \<open>
  The nodes that are visited and no longer on the stack are finished.  They are closed under
  successors and there is no cycle among them.
\<close>

definition dfs_ok :: "(string \<times> string) set \<Rightarrow> string set \<Rightarrow> string set \<Rightarrow> bool" where
  "dfs_ok E V S = (S \<subseteq> V \<and> E `` (V - S) \<subseteq> V - S \<and> acyclic (E \<inter> (V - S) \<times> UNIV))"

text \<open>
  What a call achieves: it answers \<open>True\<close> only when there is a cycle, and when it answers
  \<open>False\<close> the stack is as before, the nodes it was asked about are finished, and the
  finished nodes are still cycle-free.
\<close>

definition dfs_post ::
    "(string \<times> string) set \<Rightarrow> string list \<Rightarrow> string list \<Rightarrow> string list \<Rightarrow> search \<Rightarrow> bool" where
  "dfs_post E ms V S r =
     (case r of
        None \<Rightarrow> False
      | Some (True, V', S') \<Rightarrow> \<not> acyclic E
      | Some (False, V', S') \<Rightarrow>
          set S' = set S \<and> set V \<subseteq> set V' \<and> set ms \<subseteq> set V' - set S \<and>
          dfs_ok E (set V') (set S))"

lemma acyclic_insert_top:
  assumes acy: "acyclic (E \<inter> B \<times> UNIV)" and closed: "E `` B \<subseteq> B"
    and n: "n \<notin> B" "E `` {n} \<subseteq> B"
  shows "acyclic (E \<inter> insert n B \<times> UNIV)"
proof -
  let ?R = "E \<inter> insert n B \<times> UNIV"
  have stay: "y \<in> B \<and> (x, y) \<in> (E \<inter> B \<times> UNIV)\<^sup>+" if "(x, y) \<in> ?R\<^sup>+" "x \<in> B" for x y
    using that(1)
  proof (induction rule: trancl_induct)
    case (base y)
    then show ?case using that(2) n closed by auto
  next
    case (step y z)
    then have "(y, z) \<in> E \<inter> B \<times> UNIV" using n by auto
    with step closed show ?case by (auto intro: trancl_into_trancl)
  qed
  have below: "y \<in> B" if "(n, y) \<in> ?R\<^sup>+" for y
    using that
  proof (induction rule: trancl_induct)
    case (step y z)
    then show ?case using closed by auto
  qed (use n in auto)
  show ?thesis
    unfolding acyclic_def
  proof (intro allI notI)
    fix x
    assume xx: "(x, x) \<in> ?R\<^sup>+"
    then have "x \<in> insert n B" by (auto dest: tranclD)
    then show False
      using stay [OF xx] below [of x] xx acy n(1) by (auto simp: acyclic_def)
  qed
qed

lemma dfs_ok_push: "n \<notin> V \<Longrightarrow> dfs_ok E V S \<Longrightarrow> dfs_ok E (insert n V) (insert n S)"
proof -
  assume n: "n \<notin> V" and ok: "dfs_ok E V S"
  have "insert n V - insert n S = V - S" using n by auto
  with ok show ?thesis unfolding dfs_ok_def by auto
qed

lemma dfs_ok_pop:
  assumes ok: "dfs_ok E V (insert n S)" and n: "n \<notin> S" and succ: "E `` {n} \<subseteq> V - insert n S"
  shows "dfs_ok E V S"
proof -
  have eq: "V - S = insert n (V - insert n S)" using ok n by (auto simp: dfs_ok_def)
  have "acyclic (E \<inter> insert n (V - insert n S) \<times> UNIV)"
    using ok succ by (intro acyclic_insert_top) (auto simp: dfs_ok_def)
  with ok succ show ?thesis unfolding dfs_ok_def eq by auto
qed

lemma hasCycle_spec:
  "adj_rel adj \<subseteq> N \<times> N \<Longrightarrow> finite N \<Longrightarrow> n \<in> N \<Longrightarrow> n \<notin> set V \<Longrightarrow> dfs_ok (adj_rel adj) (set V) (set S) \<Longrightarrow>
     \<forall>s \<in> set S. (s, n) \<in> (adj_rel adj)\<^sup>+ \<Longrightarrow> card (N - set V) \<le> fuel \<Longrightarrow>
     dfs_post (adj_rel adj) [n] V S (hasCycle fuel adj n V S)"
  and cycle_loop_spec:
  "adj_rel adj \<subseteq> N \<times> N \<Longrightarrow> finite N \<Longrightarrow> set ms \<subseteq> adj_rel adj `` {c} \<Longrightarrow>
     dfs_ok (adj_rel adj) (set V) (set S) \<Longrightarrow> \<forall>s \<in> set S. (s, c) \<in> (adj_rel adj)\<^sup>* \<Longrightarrow>
     card (N - set V) \<le> fuel \<Longrightarrow>
     dfs_post (adj_rel adj) ms V S (cycle_loop fuel adj ms V S)"
proof (induction fuel adj n V S and fuel adj ms V S arbitrary: and c
    rule: hasCycle_cycle_loop.induct)
  case (1 adj n V S)
  then have "N - set V \<noteq> {}" "finite (N - set V)" by auto
  with 1 show ?case by simp
next
  case (2 fuel adj n V S)
  let ?E = "adj_rel adj"
  have succ: "set (neighbors adj n) = ?E `` {n}" by (auto simp: adj_rel_def)
  have notS: "n \<notin> set S" using 2 by (auto simp: dfs_ok_def)
  have "card (N - insert n (set V)) < card (N - set V)"
    using 2 by (intro psubset_card_mono) auto
  then have "card (N - insert n (set V)) \<le> fuel" using 2 by simp
  with 2 have "dfs_post ?E (neighbors adj n) (set_add n V) (set_add n S)
      (cycle_loop fuel adj (neighbors adj n) (set_add n V) (set_add n S))"
    by (intro "2.IH" [of n]) (auto simp: succ dfs_ok_push intro: trancl_into_rtrancl)
  moreover have "dfs_ok ?E V' (set S)"
    if "dfs_ok ?E V' (insert n (set S))" "set (neighbors adj n) \<subseteq> V' - insert n (set S)" for V'
    using dfs_ok_pop [OF that(1) notS] that(2) unfolding succ by blast
  ultimately show ?case
    using notS unfolding dfs_post_def
    by (auto split: option.splits prod.splits bool.splits)
next
  case (3 fuel adj V S)
  then show ?case by (simp add: dfs_post_def)
next
  case (4 fuel adj m ms V S)
  let ?E = "adj_rel adj"
  have cm: "(c, m) \<in> ?E" using 4 by auto
  show ?case
  proof (cases "m \<in> set V")
    case True
    show ?thesis
    proof (cases "m \<in> set S")
      case True
      with 4 have "(m, c) \<in> ?E\<^sup>*" by blast
      with cm have "(m, m) \<in> ?E\<^sup>+" by simp
      with True \<open>m \<in> set V\<close> show ?thesis by (auto simp: dfs_post_def acyclic_def)
    next
      case False
      with 4 True have "dfs_post ?E ms V S (cycle_loop fuel adj ms V S)"
        by (intro "4.IH"(3) [of c]) auto
      with True False show ?thesis
        by (auto simp: dfs_post_def split: option.splits prod.splits bool.splits)
    qed
  next
    case False
    have mN: "m \<in> N" using cm 4 by auto
    have "\<forall>s \<in> set S. (s, m) \<in> ?E\<^sup>+" using 4 cm by (auto intro: rtrancl_into_trancl1)
    then have node: "dfs_post ?E [m] V S (hasCycle fuel adj m V S)"
      using 4 False mN by (intro "4.IH"(1)) auto
    show ?thesis
    proof (cases "hasCycle fuel adj m V S")
      case None
      with node show ?thesis by (simp add: dfs_post_def)
    next
      case (Some r)
      obtain b V1 S1 where r: "r = (b, V1, S1)" by (cases r) auto
      show ?thesis
      proof (cases b)
        case True
        with node Some r False show ?thesis by (simp add: dfs_post_def)
      next
        case notb: False
        with node Some r have S1: "set S1 = set S" and V1: "set V \<subseteq> set V1"
          and m1: "m \<in> set V1 - set S" and ok1: "dfs_ok ?E (set V1) (set S)"
          by (simp_all add: dfs_post_def)
        have "card (N - set V1) \<le> card (N - set V)"
          using V1 4 by (intro card_mono) auto
        with 4 have "card (N - set V1) \<le> fuel" by linarith
        with 4 False Some r notb S1 ok1
        have "dfs_post ?E ms V1 S1 (cycle_loop fuel adj ms V1 S1)"
          by (intro "4.IH"(2) [of "(b, V1, S1)" b "(V1, S1)" V1 S1 c]) auto
        with Some r notb False S1 V1 m1 show ?thesis
          by (auto simp: dfs_post_def split: option.splits prod.splits bool.splits)
      qed
    qed
  qed
qed

lemma cycle_roots_spec:
  assumes "adj_rel adj \<subseteq> N \<times> N" "finite N" "card N \<le> fuel"
  shows "set ns \<subseteq> N \<Longrightarrow> dfs_ok (adj_rel adj) (set V) {} \<Longrightarrow> set S = {} \<Longrightarrow>
    (case cycle_roots fuel adj ns V S of
       None \<Rightarrow> False
     | Some True \<Rightarrow> \<not> acyclic (adj_rel adj)
     | Some False \<Rightarrow> \<exists>V'. set V \<subseteq> V' \<and> set ns \<subseteq> V' \<and> dfs_ok (adj_rel adj) V' {})"
proof (induction ns arbitrary: V S)
  case Nil
  then show ?case by auto
next
  case (Cons n ns)
  show ?case
  proof (cases "n \<in> set V")
    case True
    with Cons.IH [of V S] Cons.prems show ?thesis
      by (auto split: option.splits bool.splits)
  next
    case False
    have "card (N - set V) \<le> fuel"
      using assms card_mono [of N "N - set V"] by auto
    then have node: "dfs_post (adj_rel adj) [n] V S (hasCycle fuel adj n V S)"
      using assms Cons.prems False by (intro hasCycle_spec) auto
    then obtain b V1 S1 where r: "hasCycle fuel adj n V S = Some (b, V1, S1)"
      by (cases "hasCycle fuel adj n V S") (auto simp: dfs_post_def)
    show ?thesis
    proof (cases b)
      case True
      with node r False show ?thesis by (simp add: dfs_post_def)
    next
      case notb: False
      with node r Cons.prems have S1: "set S1 = {}" and V1: "set V \<subseteq> set V1" "n \<in> set V1"
        and ok1: "dfs_ok (adj_rel adj) (set V1) {}"
        by (auto simp: dfs_post_def)
      have eq: "cycle_roots fuel adj (n # ns) V S = cycle_roots fuel adj ns V1 S1"
        using r notb False by simp
      have ns: "set ns \<subseteq> N" using Cons.prems by simp
      note IH = Cons.IH [OF ns ok1 S1]
      show ?thesis
      proof (cases "cycle_roots fuel adj ns V1 S1")
        case None
        with IH show ?thesis by simp
      next
        case (Some b1)
        show ?thesis
        proof (cases b1)
          case True
          with IH Some show ?thesis unfolding eq by simp
        next
          case False
          with IH Some obtain V2 where "set V1 \<subseteq> V2" "set ns \<subseteq> V2" "dfs_ok (adj_rel adj) V2 {}"
            by auto
          with V1 have "set V \<subseteq> V2 \<and> set (n # ns) \<subseteq> V2 \<and> dfs_ok (adj_rel adj) V2 {}"
            by auto
          with Some False show ?thesis unfolding eq by auto
        qed
      qed
    qed
  qed
qed

definition edge_nodes :: "PipelineEdge list \<Rightarrow> string list" where
  "edge_nodes es = map eg_source es @ map eg_target es"

lemma keys_adj_add: "fst ` set (adj_add s t adj) = insert s (fst ` set adj)"
  by (force simp: adj_add_def Let_def)

lemma keys_build: "fst ` set (build_adjacency es) = eg_source ` set es"
proof -
  have "fst ` set (foldl (\<lambda>adj e. adj_add (eg_source e) (eg_target e) adj) adj es) =
      fst ` set adj \<union> eg_source ` set es" for adj
    by (induction es arbitrary: adj) (auto simp: keys_adj_add)
  then show ?thesis by (simp add: build_adjacency_def)
qed

text \<open>
  C1: \<open>wouldCreateCycle\<close> always answers, and it answers whether the graph of the given edges
  together with the new edge has a cycle.
\<close>

theorem wouldCreateCycle_correct:
  "wouldCreateCycle edges s t = Some (\<not> acyclic (insert (s, t) (edge_rel edges)))"
proof -
  let ?adj = "adj_add s t (build_adjacency edges)"
  let ?N = "set (s # t # edge_nodes edges)"
  have E: "adj_rel ?adj = insert (s, t) (edge_rel edges)"
    by (simp add: adj_rel_add adj_rel_build)
  then have sub: "adj_rel ?adj \<subseteq> ?N \<times> ?N"
    by (auto simp: edge_rel_def edge_nodes_def)
  have keys: "set (map fst ?adj) \<subseteq> ?N"
    by (auto simp: keys_adj_add keys_build edge_nodes_def image_set [symmetric] simp del: image_set)
  have "card ?N \<le> 2 * length edges + 3"
    using card_length [of "s # t # edge_nodes edges"] by (simp add: edge_nodes_def)
  then have spec: "case wouldCreateCycle edges s t of
       None \<Rightarrow> False
     | Some True \<Rightarrow> \<not> acyclic (adj_rel ?adj)
     | Some False \<Rightarrow> \<exists>V'. set [] \<subseteq> V' \<and> set (map fst ?adj) \<subseteq> V' \<and> dfs_ok (adj_rel ?adj) V' {}"
    unfolding wouldCreateCycle_def Let_def
    by (intro cycle_roots_spec [OF sub _ _ keys]) (simp_all add: dfs_ok_def acyclic_def)
  have "acyclic (adj_rel ?adj)" if "set (map fst ?adj) \<subseteq> V'" "dfs_ok (adj_rel ?adj) V' {}" for V'
  proof -
    have "adj_rel ?adj \<inter> (V' - {}) \<times> UNIV = adj_rel ?adj"
      using that(1) by (auto dest: adj_rel_source)
    with that(2) show ?thesis by (simp add: dfs_ok_def)
  qed
  with spec show ?thesis
    unfolding E by (auto split: option.splits bool.splits)
qed

end
