(* ===== verification/Web_Encoding.thy ===== *)
theory Web_Encoding
  imports Js_Prelude "HOL-Library.Word"
begin

section \<open>Query strings and base64\<close>

text \<open>
  The two encodings of the web platform the client relies on.  \<open>url_params\<close> is the text of a
  \<open>URLSearchParams\<close> object (\<open>application/x-www-form-urlencoded\<close>, over UTF-8); \<open>btoa\<close> and
  \<open>atob\<close> are the base64 functions of the browser.  The values of a secret are sequences of
  16-bit code units, because \<open>btoa\<close> rejects a unit above 255.
\<close>

subsection \<open>URLSearchParams\<close>

definition utf8 :: "char \<Rightarrow> nat list" where
  "utf8 c = (let n = char_code c
     in if n < 128 then [n] else [192 + n div 64, 128 + n mod 64])"

definition utf8_bytes :: "string \<Rightarrow> nat list" where
  "utf8_bytes s = concat (map utf8 s)"

definition form_safe :: "nat \<Rightarrow> bool" where
  "form_safe b = (48 \<le> b \<and> b \<le> 57 \<or> 65 \<le> b \<and> b \<le> 90 \<or> 97 \<le> b \<and> b \<le> 122 \<or>
     b \<in> {42, 45, 46, 95})"

definition hex_digit :: "nat \<Rightarrow> char" where
  "hex_digit d = (if d < 10 then char_of (48 + d) else char_of (55 + d))"

definition form_byte :: "nat \<Rightarrow> string" where
  "form_byte b =
     (if form_safe b then [char_of b]
      else if b = 32 then ''+''
      else [CHR ''%'', hex_digit (b div 16), hex_digit (b mod 16)])"

definition form_encode :: "string \<Rightarrow> string" where
  "form_encode s = concat (map form_byte (utf8_bytes s))"

definition url_params :: "(string \<times> string) list \<Rightarrow> string" where
  "url_params ps = js_join ''&'' (map (\<lambda>(k, v). form_encode k @ ''='' @ form_encode v) ps)"

text \<open>The server's side: decoding of one component, as the URL standard describes it.\<close>

definition hex_val :: "char \<Rightarrow> nat" where
  "hex_val c = (let n = char_code c in if n \<le> 57 then n - 48 else n - 55)"

fun form_decode :: "string \<Rightarrow> nat list" where
  "form_decode [] = []"
| "form_decode (c # s) =
     (if c = CHR ''%'' then
        (case s of a # b # r \<Rightarrow> (16 * hex_val a + hex_val b) # form_decode r | _ \<Rightarrow> [37])
      else if c = CHR ''+'' then 32 # form_decode s
      else char_code c # form_decode s)"

fun utf8_decode :: "nat list \<Rightarrow> string" where
  "utf8_decode [] = []"
| "utf8_decode [b] = [char_of b]"
| "utf8_decode (b # c # bs) =
     (if b < 128 then char_of b # utf8_decode (c # bs)
      else char_of ((b - 192) * 64 + (c - 128)) # utf8_decode bs)"

lemma char_code_less [simp]: "char_code c < 256"
  by (simp add: char_code_def)

lemma char_of_char_code [simp]: "char_of (char_code c) = c"
  by (simp add: char_code_def)

lemma char_code_char_of [simp]: "n < 256 \<Longrightarrow> char_code (char_of n) = n"
  by (simp add: char_code_def)

lemma char_code_inject [simp]: "char_code c = char_code d \<longleftrightarrow> c = d"
  by (metis char_of_char_code)

lemma utf8_decode_utf8 [simp]: "utf8_decode (utf8 c @ bs) = c # utf8_decode bs"
proof (cases "char_code c < 128")
  case True
  then show ?thesis by (cases bs) (simp_all add: utf8_def)
next
  case False
  then have "char_code c div 64 * 64 + char_code c mod 64 = char_code c" by simp
  with False show ?thesis by (simp add: utf8_def Let_def)
qed

lemma utf8_decode_bytes [simp]: "utf8_decode (utf8_bytes s) = s"
  by (induction s) (simp_all add: utf8_bytes_def)

lemma utf8_bytes_less: "b \<in> set (utf8_bytes s) \<Longrightarrow> b < 256"
proof -
  have "b < 256" if "b \<in> set (utf8 c)" for c
  proof -
    have "char_code c div 64 < 4"
      using char_code_less [of c] by (simp add: div_less_iff_less_mult)
    with that show ?thesis by (auto simp: utf8_def Let_def split: if_splits)
  qed
  then show "b \<in> set (utf8_bytes s) \<Longrightarrow> b < 256"
    by (auto simp: utf8_bytes_def)
qed

lemma hex_val_digit [simp]: "d < 16 \<Longrightarrow> hex_val (hex_digit d) = d"
  by (auto simp: hex_val_def hex_digit_def Let_def)

lemma form_decode_byte: "b < 256 \<Longrightarrow> form_decode (form_byte b @ s) = b # form_decode s"
proof -
  assume b: "b < 256"
  have neq: "char_of b \<noteq> CHR ''%''" "char_of b \<noteq> CHR ''+''" if "form_safe b"
  proof -
    have "char_code (CHR ''%'') = 37" "char_code (CHR ''+'') = 43"
      by (simp_all add: char_code_def)
    moreover have "b \<noteq> 37" "b \<noteq> 43" using that by (auto simp: form_safe_def)
    ultimately show "char_of b \<noteq> CHR ''%''" "char_of b \<noteq> CHR ''+''"
      using char_code_char_of [OF b] by auto
  qed
  have "16 * (b div 16) + b mod 16 = b" by simp
  then show ?thesis
    using b neq by (auto simp: form_byte_def)
qed

lemma form_decode_encode: "form_decode (form_encode s) = utf8_bytes s"
proof -
  have "form_decode (concat (map form_byte bs)) = bs" if "\<forall>b \<in> set bs. b < 256" for bs
    using that by (induction bs) (simp_all add: form_decode_byte)
  then show ?thesis by (simp add: form_encode_def utf8_bytes_less)
qed

lemma form_encode_inject: "form_encode s = form_encode t \<longleftrightarrow> s = t"
  by (metis form_decode_encode utf8_decode_bytes)

text \<open>No reserved character of a URL survives the encoding.\<close>

definition form_char :: "char \<Rightarrow> bool" where
  "form_char c = (form_safe (char_code c) \<or> c = CHR ''+'' \<or> c = CHR ''%'')"

lemma form_encode_chars: "list_all form_char (form_encode s)"
proof -
  have hex: "form_char (hex_digit d)" if "d < 16" for d
    using that by (auto simp: form_char_def hex_digit_def form_safe_def)
  have "list_all form_char (form_byte b)" if "b < 256" for b
  proof -
    have "form_char (char_of b)" if "form_safe b"
      using that \<open>b < 256\<close> by (simp add: form_char_def)
    moreover have "b div 16 < 16" using that by simp
    ultimately show ?thesis
      by (auto simp: form_byte_def intro!: hex) (simp_all add: form_char_def)
  qed
  then show ?thesis
    by (auto simp: form_encode_def list_all_iff dest: utf8_bytes_less)
qed

subsection \<open>Base64\<close>

type_synonym jstring = "16 word list"

definition units :: "string \<Rightarrow> jstring" where
  "units s = map (\<lambda>c. of_nat (char_code c)) s"

definition b64_char :: "nat \<Rightarrow> char" where
  "b64_char n =
     (if n < 26 then char_of (65 + n)
      else if n < 52 then char_of (71 + n)
      else if n < 62 then char_of (n - 4)
      else if n = 62 then CHR ''+''
      else CHR ''/'')"

definition b64_val :: "char \<Rightarrow> nat option" where
  "b64_val c =
     (let n = char_code c
      in if 65 \<le> n \<and> n \<le> 90 then Some (n - 65)
         else if 97 \<le> n \<and> n \<le> 122 then Some (n - 71)
         else if 48 \<le> n \<and> n \<le> 57 then Some (n + 4)
         else if n = 43 then Some 62
         else if n = 47 then Some 63
         else None)"

fun sextets :: "nat list \<Rightarrow> nat list" where
  "sextets [] = []"
| "sextets [a] = [a div 4, a mod 4 * 16]"
| "sextets [a, b] = [a div 4, a mod 4 * 16 + b div 16, b mod 16 * 4]"
| "sextets (a # b # c # r) =
     a div 4 # (a mod 4 * 16 + b div 16) # (b mod 16 * 4 + c div 64) # c mod 64 # sextets r"

fun octets :: "nat list \<Rightarrow> nat list" where
  "octets (p # q # r # t # rest) =
     (p * 4 + q div 16) # (q mod 16 * 16 + r div 4) # (r mod 4 * 64 + t) # octets rest"
| "octets [p, q, r] = [p * 4 + q div 16, q mod 16 * 16 + r div 4]"
| "octets [p, q] = [p * 4 + q div 16]"
| "octets _ = []"

definition padding :: "nat \<Rightarrow> string" where
  "padding n = replicate ((3 - n mod 3) mod 3) (CHR ''='')"

definition b64_encode :: "nat list \<Rightarrow> string" where
  "b64_encode bs = map b64_char (sextets bs) @ padding (length bs)"

definition b64_space :: "char \<Rightarrow> bool" where
  "b64_space c = (char_code c \<in> {9, 10, 12, 13, 32})"

definition strip_padding :: "string \<Rightarrow> string" where
  "strip_padding s =
     (if length s mod 4 \<noteq> 0 then s
      else if drop (length s - 2) s = ''=='' then take (length s - 2) s
      else if drop (length s - 1) s = ''='' then take (length s - 1) s
      else s)"

definition b64_decode :: "string \<Rightarrow> nat list option" where
  "b64_decode s0 =
     (let s = strip_padding (filter (\<lambda>c. \<not> b64_space c) s0)
      in if length s mod 4 = 1 \<or> list_ex (\<lambda>c. b64_val c = None) s then None
         else Some (octets (map (\<lambda>c. the (b64_val c)) s)))"

text \<open>
  \<open>btoa\<close> and \<open>atob\<close> throw an \<open>InvalidCharacterError\<close>; its message is the browser's own (here
  Chromium's).
\<close>

definition btoa :: "jstring \<Rightarrow> string outcome" where
  "btoa us =
     (if list_ex (\<lambda>u. 255 < unat u) us
      then Inl (ErrorObj ''InvalidCharacterError''
        ''The string to be encoded contains characters outside of the Latin1 range.'')
      else Inr (b64_encode (map unat us)))"

definition atob :: "string \<Rightarrow> jstring outcome" where
  "atob s =
     (case b64_decode s of
        None \<Rightarrow> Inl (ErrorObj ''InvalidCharacterError''
          ''The string to be decoded is not correctly encoded.'')
      | Some bs \<Rightarrow> Inr (map of_nat bs))"

lemma char_code_marks [simp]:
  "char_code (CHR ''+'') = 43" "char_code (CHR ''/'') = 47" "char_code (CHR ''='') = 61"
  by (simp_all add: char_code_def)

lemma b64_char_facts:
  assumes "n < 64"
  shows "b64_val (b64_char n) = Some n" "\<not> b64_space (b64_char n)" "b64_char n \<noteq> CHR ''=''"
proof -
  have code: "char_code (b64_char n) =
      (if n < 26 then 65 + n else if n < 52 then 71 + n else if n < 62 then n - 4
       else if n = 62 then 43 else 47)"
    using assms by (simp add: b64_char_def)
  show "b64_val (b64_char n) = Some n"
    using assms by (simp add: b64_val_def Let_def code) arith
  show "\<not> b64_space (b64_char n)"
    using assms by (auto simp: b64_space_def code)
  have "char_code (b64_char n) \<noteq> char_code (CHR ''='')"
    using assms by (auto simp: code)
  then show "b64_char n \<noteq> CHR ''=''" by metis
qed

lemma sextets_less: "\<forall>b \<in> set bs. b < 256 \<Longrightarrow> \<forall>p \<in> set (sextets bs). p < 64"
  by (induction bs rule: sextets.induct) auto

lemma div_parts:
  fixes b c :: nat
  shows "b < 256 \<Longrightarrow> b div 16 div 16 = 0" "b < 256 \<Longrightarrow> b div 16 mod 16 = b div 16"
    and "c < 256 \<Longrightarrow> c div 64 div 4 = 0" "c < 256 \<Longrightarrow> c div 64 mod 4 = c div 64"
  by (simp_all add: div_less_iff_less_mult)

lemma sextets_octets: "\<forall>b \<in> set bs. b < 256 \<Longrightarrow> octets (sextets bs) = bs"
  by (induction bs rule: sextets.induct) (simp_all add: div_parts)

lemma length_sextets:
  "length (sextets bs) mod 4 = (if length bs mod 3 = 0 then 0 else length bs mod 3 + 1)"
proof (induction bs rule: sextets.induct)
  case (4 a b c r)
  have "length (a # b # c # r) mod 3 = length r mod 3" by simp
  moreover have "length (sextets (a # b # c # r)) mod 4 = length (sextets r) mod 4" by simp
  ultimately show ?case using 4 by simp
qed simp_all

lemma strip_padding_encode:
  assumes "\<forall>b \<in> set bs. b < 256"
  shows "strip_padding (b64_encode bs) = map b64_char (sextets bs)"
proof -
  let ?t = "map b64_char (sextets bs)"
  have len: "length ?t mod 4 = (if length bs mod 3 = 0 then 0 else length bs mod 3 + 1)"
    by (simp add: length_sextets)
  have not_eq: "CHR ''='' \<notin> set ?t"
    using sextets_less [OF assms] b64_char_facts(3) by (metis (no_types, lifting) in_set_conv_nth length_map nth_map nth_mem)
  consider (zero) "length bs mod 3 = 0" | (one) "length bs mod 3 = 1" | (two) "length bs mod 3 = 2"
    by linarith
  then show ?thesis
  proof cases
    case zero
    then have enc: "b64_encode bs = ?t" and l4: "length ?t mod 4 = 0"
      using len by (simp_all add: b64_encode_def padding_def)
    have "drop k ?t \<noteq> w" if "CHR ''='' \<in> set w" for k w
      using not_eq that by (metis in_set_dropD)
    then have "drop (length ?t - 2) ?t \<noteq> ''==''" "drop (length ?t - 1) ?t \<noteq> ''=''"
      by simp_all
    then show ?thesis by (simp only: enc strip_padding_def l4) simp
  next
    case one
    then have enc: "b64_encode bs = ?t @ ''==''" and l4: "(length ?t + 2) mod 4 = 0"
      using len by (simp_all add: b64_encode_def padding_def numeral_2_eq_2 mod_Suc)
    then show ?thesis by (simp add: enc strip_padding_def)
  next
    case two
    then have enc: "b64_encode bs = ?t @ ''=''" and l4: "(length ?t + 1) mod 4 = 0"
      using len by (simp_all add: b64_encode_def padding_def mod_Suc)
    have "drop (length ?t - 1) ?t @ ''='' \<noteq> ''==''"
      using not_eq by (cases "sextets bs" rule: rev_cases) auto
    with l4 show ?thesis
      by (cases "sextets bs" rule: rev_cases) (auto simp: enc strip_padding_def)
  qed
qed

lemma b64_decode_encode:
  assumes "\<forall>b \<in> set bs. b < 256"
  shows "b64_decode (b64_encode bs) = Some bs"
proof -
  have less: "\<forall>p \<in> set (sextets bs). p < 64"
    using sextets_less [OF assms] .
  have "filter (\<lambda>c. \<not> b64_space c) (b64_encode bs) = b64_encode bs"
    using less b64_char_facts(2)
    by (auto simp: b64_encode_def padding_def b64_space_def intro!: filter_True)
  moreover have "map (\<lambda>c. the (b64_val c)) (map b64_char (sextets bs)) = sextets bs"
    using less b64_char_facts(1) by (simp add: map_idI)
  moreover have "\<not> list_ex (\<lambda>c. b64_val c = None) (map b64_char (sextets bs))"
    using less b64_char_facts(1) by (auto simp: list_ex_iff)
  moreover have "length (sextets bs) mod 4 \<noteq> 1"
    by (simp add: length_sextets)
  ultimately show ?thesis
    by (simp add: b64_decode_def strip_padding_encode [OF assms] sextets_octets [OF assms])
qed

lemma atob_btoa: "btoa us = Inr s \<Longrightarrow> atob s = Inr us"
proof -
  assume "btoa us = Inr s"
  then have s: "s = b64_encode (map unat us)" and ok: "\<forall>b \<in> set (map unat us). b < 256"
    by (auto simp: btoa_def list_ex_iff not_less split: if_splits)
  from ok have "b64_decode s = Some (map unat us)"
    unfolding s by (rule b64_decode_encode)
  then show "atob s = Inr us"
    by (simp add: atob_def comp_def)
qed

lemma btoa_fails_iff: "(\<exists>e. btoa us = Inl e) \<longleftrightarrow> (\<exists>u \<in> set us. 255 < unat u)"
  by (auto simp: btoa_def list_ex_iff)

end
