(* ===== verification/K8s_Client.thy ===== *)
theory K8s_Client
  imports Pipeline_Types Web_Encoding
begin

section \<open>The Kubernetes client (\<open>ui/src/lib/k8s-client.ts\<close>)\<close>

text \<open>
  Every operation of \<open>K8sClient\<close> builds one request and reads one response.  The server is a
  parameter \<open>fetch\<close>, from the request to the way the promise of \<open>fetch\<close> settles; an operation
  applied to \<open>fetch\<close> gives the way its own promise settles.  A response carries its status, the
  text of its body, what \<open>JSON.parse\<close> makes of that text, and the value as the caller's type
  reads it (the cast of \<open>response.json()\<close> is not checked by the code).  The two streaming
  operations are state machines over what the connection delivers.
\<close>

subsection \<open>Requests and responses\<close>

datatype Body = PipelineBody Pipeline | JsonBody json

record RequestInit =
  ri_method :: "string option"
  ri_headers :: "string obj option"
  ri_body :: "Body option"

record Request =
  rq_url :: string
  rq_method :: string
  rq_headers :: "string obj"
  rq_body :: "Body option"

record 'a Response =
  rs_status :: int
  rs_text :: string
  rs_parsed :: "json outcome"
  rs_typed :: 'a

type_synonym 'a fetch = "Request \<Rightarrow> 'a Response outcome"

definition rs_ok :: "'a Response \<Rightarrow> bool" where
  "rs_ok r = (200 \<le> rs_status r \<and> rs_status r \<le> 299)"

definition no_options :: RequestInit where
  "no_options = \<lparr>ri_method = None, ri_headers = None, ri_body = None\<rparr>"

text \<open>
  A body can be read once: the second of two reads rejects, whatever became of the first.
  The flag says whether the body has been read.
\<close>

definition body_used_error :: thrown where
  "body_used_error = ErrorObj ''TypeError'' ''body stream already read''"

definition read_json :: "bool \<Rightarrow> 'a Response \<Rightarrow> json outcome \<times> bool" where
  "read_json used r = (if used then Inl body_used_error else rs_parsed r, True)"

definition read_text :: "bool \<Rightarrow> 'a Response \<Rightarrow> string outcome \<times> bool" where
  "read_text used r = (if used then Inl body_used_error else Inr (rs_text r), True)"

text \<open>\<open>error.message || errorMessage\<close> for any JSON value \<open>error\<close>; \<open>null\<close> has no properties.\<close>

fun json_text :: "json \<Rightarrow> string" where
  "json_text JNull = ''null''"
| "json_text (JBool b) = (if b then ''true'' else ''false'')"
| "json_text (JNum n) = int_str n"
| "json_text (JStr s) = s"
| "json_text (JArr xs) = js_join '','' (map (\<lambda>x. if x = JNull then [] else json_text x) xs)"
| "json_text (JObj ob) = ''[object Object]''"

fun json_truthy :: "json \<Rightarrow> bool" where
  "json_truthy JNull = False"
| "json_truthy (JBool b) = b"
| "json_truthy (JNum n) = (n \<noteq> 0)"
| "json_truthy (JStr s) = (s \<noteq> [])"
| "json_truthy _ = True"

definition error_property :: "json \<Rightarrow> string \<Rightarrow> string outcome" where
  "error_property j fallback =
     (case j of
        JNull \<Rightarrow> Inl (ErrorObj ''TypeError'' ''Cannot read properties of null'')
      | JObj ob \<Rightarrow>
          (case map_of ob ''message'' of
             Some v \<Rightarrow> Inr (if json_truthy v then json_text v else fallback)
           | None \<Rightarrow> Inr fallback)
      | _ \<Rightarrow> Inr fallback)"

definition http_message :: "'a Response \<Rightarrow> string" where
  "http_message r = ''HTTP '' @ int_str (rs_status r)"

definition error_message :: "'a Response \<Rightarrow> string outcome" where
  "error_message r =
     (let (parsed, used) = read_json False r
      in case (case parsed of Inl e \<Rightarrow> Inl e | Inr j \<Rightarrow> error_property j (http_message r)) of
           Inr m \<Rightarrow> Inr m
         | Inl _ \<Rightarrow>
             (case fst (read_text used r) of
                Inl e \<Rightarrow> Inl e
              | Inr t \<Rightarrow> Inr (text_or t (http_message r))))"

definition request_headers :: "RequestInit \<Rightarrow> string obj" where
  "request_headers opts =
     foldl (\<lambda>h (k, v). AList.update k v h)
       [(''Content-Type'', ''application/json''), (''Accept'', ''application/json'')]
       (list_or (ri_headers opts))"

definition request :: "'a fetch \<Rightarrow> string \<Rightarrow> string \<Rightarrow> RequestInit \<Rightarrow> 'a outcome" where
  "request fetch base path opts =
     (case fetch \<lparr>rq_url = base @ path, rq_method = str_or (ri_method opts) ''GET'',
                  rq_headers = request_headers opts, rq_body = ri_body opts\<rparr> of
        Inl e \<Rightarrow> Inl e
      | Inr r \<Rightarrow>
          if \<not> rs_ok r then
            (case error_message r of
               Inl e \<Rightarrow> Inl e
             | Inr m \<Rightarrow> Inl (ErrorObj ''Error'' m))
          else (case fst (read_json False r) of
                  Inl e \<Rightarrow> Inl e
                | Inr j \<Rightarrow> Inr (rs_typed r)))"

definition with_method :: "string \<Rightarrow> Body option \<Rightarrow> RequestInit" where
  "with_method m b = \<lparr>ri_method = Some m, ri_headers = None, ri_body = b\<rparr>"

definition ignore_result :: "'a outcome \<Rightarrow> unit outcome" where
  "ignore_result r = (case r of Inl e \<Rightarrow> Inl e | Inr _ \<Rightarrow> Inr ())"

subsection \<open>Pipelines\<close>

definition pipelines_path :: "string \<Rightarrow> string" where
  "pipelines_path namespace =
     (if namespace = ''_all'' then ''/apis/pipeline.yaacov.io/v1/pipelines''
      else ''/apis/pipeline.yaacov.io/v1/namespaces/'' @ namespace @ ''/pipelines'')"

definition pipeline_path :: "string \<Rightarrow> string \<Rightarrow> string" where
  "pipeline_path namespace name =
     ''/apis/pipeline.yaacov.io/v1/namespaces/'' @ namespace @ ''/pipelines/'' @ name"

definition listPipelines ::
    "PipelineList fetch \<Rightarrow> string \<Rightarrow> string \<Rightarrow> Pipeline list outcome" where
  "listPipelines fetch base namespace =
     (case request fetch base (pipelines_path namespace) no_options of
        Inl e \<Rightarrow> Inl e
      | Inr result \<Rightarrow> Inr (list_or (pll_items result)))"

definition getPipeline :: "Pipeline fetch \<Rightarrow> string \<Rightarrow> string \<Rightarrow> string \<Rightarrow> Pipeline outcome" where
  "getPipeline fetch base namespace name =
     request fetch base (pipeline_path namespace name) no_options"

definition createPipeline ::
    "Pipeline fetch \<Rightarrow> string \<Rightarrow> string \<Rightarrow> Pipeline \<Rightarrow> Pipeline outcome" where
  "createPipeline fetch base namespace pipeline =
     request fetch base
       (''/apis/pipeline.yaacov.io/v1/namespaces/'' @ namespace @ ''/pipelines'')
       (with_method ''POST'' (Some (PipelineBody pipeline)))"

definition updatePipeline ::
    "Pipeline fetch \<Rightarrow> string \<Rightarrow> string \<Rightarrow> string \<Rightarrow> Pipeline \<Rightarrow> Pipeline outcome" where
  "updatePipeline fetch base namespace name pipeline =
     request fetch base (pipeline_path namespace name)
       (with_method ''PUT'' (Some (PipelineBody pipeline)))"

definition deletePipeline_request ::
    "'a fetch \<Rightarrow> string \<Rightarrow> string \<Rightarrow> string \<Rightarrow> unit outcome" where
  "deletePipeline_request fetch base namespace name =
     ignore_result (request fetch base (pipeline_path namespace name) (with_method ''DELETE'' None))"

subsection \<open>Watching pipelines\<close>

text \<open>
  \<open>watchPipelines\<close> reads the body of one long response chunk by chunk (decoded, as the
  \<open>TextDecoder\<close> hands it over), keeps the unfinished last line in \<open>buffer\<close>, and calls back for
  every other line that is not blank and parses.  A failure that is not the abort waits five
  seconds and connects again.
\<close>

definition watch_url :: "string \<Rightarrow> string \<Rightarrow> string option \<Rightarrow> string" where
  "watch_url base namespace resourceVersion =
     base @ pipelines_path namespace @ ''?'' @
     url_params ((''watch'', ''true'') #
       (case resourceVersion of
          None \<Rightarrow> []
        | Some v \<Rightarrow> if v = [] then [] else [(''resourceVersion'', v)]))"

datatype watch_phase = Connecting | Reading string | Waiting | Stopped

record 'e watch =
  wt_phase :: watch_phase
  wt_aborted :: bool
  wt_events :: "'e list"

datatype watch_input =
    Connected bool
  | Chunk string
  | Finished
  | Failed thrown
  | TimerFires
  | Abort

definition newline :: char where
  "newline = CHR 0x0A"

definition parse_line :: "(string \<Rightarrow> 'e outcome) \<Rightarrow> string \<Rightarrow> 'e list" where
  "parse_line parse line =
     (if js_trim line \<noteq> [] then (case parse line of Inl _ \<Rightarrow> [] | Inr e \<Rightarrow> [e]) else [])"

definition feed_chunk :: "string \<Rightarrow> string \<Rightarrow> string list \<times> string" where
  "feed_chunk buffer chunk =
     (let lines = split_on newline (buffer @ chunk) in (butlast lines, last lines))"

definition is_abort :: "thrown \<Rightarrow> bool" where
  "is_abort e = (case e of ErrorObj n _ \<Rightarrow> n = ''AbortError'' | OtherThrown \<Rightarrow> False)"

fun watch_step :: "(string \<Rightarrow> 'e outcome) \<Rightarrow> 'e watch \<Rightarrow> watch_input \<Rightarrow> 'e watch" where
  "watch_step parse w (Connected has_body) =
     (if wt_phase w = Connecting
      then w\<lparr>wt_phase := if has_body then Reading [] else Stopped\<rparr> else w)"
| "watch_step parse w (Chunk chunk) =
     (case wt_phase w of
        Reading buffer \<Rightarrow>
          (let (lines, buffer') = feed_chunk buffer chunk
           in w\<lparr>wt_phase := Reading buffer',
                wt_events := wt_events w @ concat (map (parse_line parse) lines)\<rparr>)
      | _ \<Rightarrow> w)"
| "watch_step parse w Finished =
     (case wt_phase w of Reading _ \<Rightarrow> w\<lparr>wt_phase := Stopped\<rparr> | _ \<Rightarrow> w)"
| "watch_step parse w (Failed e) =
     (case wt_phase w of
        Stopped \<Rightarrow> w
      | Waiting \<Rightarrow> w
      | _ \<Rightarrow> w\<lparr>wt_phase := if is_abort e then Stopped else Waiting\<rparr>)"
| "watch_step parse w TimerFires =
     (if wt_phase w = Waiting
      then w\<lparr>wt_phase := if wt_aborted w then Stopped else Connecting\<rparr> else w)"
| "watch_step parse w Abort =
     w\<lparr>wt_aborted := True,
       wt_phase := if wt_phase w = Waiting then Waiting else Stopped\<rparr>"

definition watch_start :: "'e watch" where
  "watch_start = \<lparr>wt_phase = Connecting, wt_aborted = False, wt_events = []\<rparr>"

definition watch_run :: "(string \<Rightarrow> 'e outcome) \<Rightarrow> watch_input list \<Rightarrow> 'e watch" where
  "watch_run parse inputs = foldl (watch_step parse) watch_start inputs"

subsection \<open>Logs\<close>

record LogOptions =
  lo_container :: "string option"
  lo_follow :: "bool option"
  lo_tailLines :: "int option"
  lo_sinceSeconds :: "int option"

definition no_log_options :: LogOptions where
  "no_log_options =
     \<lparr>lo_container = None, lo_follow = None, lo_tailLines = None, lo_sinceSeconds = None\<rparr>"

definition text_param :: "string \<Rightarrow> string option \<Rightarrow> (string \<times> string) list" where
  "text_param k x = (case x of None \<Rightarrow> [] | Some s \<Rightarrow> if s = [] then [] else [(k, s)])"

definition num_param :: "string \<Rightarrow> int option \<Rightarrow> (string \<times> string) list" where
  "num_param k x = (case x of None \<Rightarrow> [] | Some n \<Rightarrow> if n = 0 then [] else [(k, int_str n)])"

definition log_path :: "string \<Rightarrow> string \<Rightarrow> string" where
  "log_path namespace podName = ''/api/v1/namespaces/'' @ namespace @ ''/pods/'' @ podName @ ''/log?''"

definition getPodLogs ::
    "unit fetch \<Rightarrow> string \<Rightarrow> string \<Rightarrow> string \<Rightarrow> LogOptions \<Rightarrow> string outcome" where
  "getPodLogs fetch base namespace podName options =
     (let params = text_param ''container'' (lo_container options) @
            (if lo_follow options = Some True then [(''follow'', ''true'')] else []) @
            num_param ''tailLines'' (lo_tailLines options) @
            num_param ''sinceSeconds'' (lo_sinceSeconds options)
      in case fetch \<lparr>rq_url = base @ log_path namespace podName @ url_params params,
                     rq_method = ''GET'', rq_headers = [], rq_body = None\<rparr> of
           Inl e \<Rightarrow> Inl e
         | Inr r \<Rightarrow>
             if \<not> rs_ok r
             then Inl (ErrorObj ''Error'' (''Failed to get logs: '' @ int_str (rs_status r)))
             else fst (read_text False r))"

text \<open>
  \<open>streamPodLogs\<close> splits every chunk by itself and calls back for every part that is not
  empty; it keeps nothing from one chunk to the next.
\<close>

definition stream_url :: "string \<Rightarrow> string \<Rightarrow> string \<Rightarrow> LogOptions \<Rightarrow> string" where
  "stream_url base namespace podName options =
     base @ log_path namespace podName @
     url_params ((''follow'', ''true'') # text_param ''container'' (lo_container options) @
       num_param ''tailLines'' (lo_tailLines options))"

definition stream_chunk :: "string \<Rightarrow> string list" where
  "stream_chunk chunk = filter (\<lambda>line. line \<noteq> []) (split_on newline chunk)"

definition streamPodLogs :: "string list \<Rightarrow> string list" where
  "streamPodLogs chunks = concat (map stream_chunk chunks)"

subsection \<open>Events, namespaces, jobs and pods\<close>

record KubeEvent =
  ke_type :: string
  ke_reason :: string
  ke_message :: string
  ke_firstTimestamp :: string
  ke_lastTimestamp :: string
  ke_count :: int

definition list_items :: "'a list option outcome \<Rightarrow> 'a list outcome" where
  "list_items r = (case r of Inl e \<Rightarrow> Inl e | Inr items \<Rightarrow> Inr (list_or items))"

definition getEvents ::
    "KubeEvent list option fetch \<Rightarrow> string \<Rightarrow> string \<Rightarrow> string \<Rightarrow> KubeEvent list outcome" where
  "getEvents fetch base namespace fieldSelector =
     list_items (request fetch base
       (''/api/v1/namespaces/'' @ namespace @ ''/events?'' @
        url_params [(''fieldSelector'', fieldSelector)]) no_options)"

text \<open>
  \<open>result.items.map(...)\<close> throws inside the \<open>try\<close> when there are no items, and every failure
  gives the default namespace.
\<close>

definition listNamespaces :: "ObjectMeta list option fetch \<Rightarrow> string \<Rightarrow> string list" where
  "listNamespaces fetch base =
     (case request fetch base ''/api/v1/namespaces'' no_options of
        Inr (Some items) \<Rightarrow> map om_name items
      | _ \<Rightarrow> [''default''])"

definition getJob :: "'a fetch \<Rightarrow> string \<Rightarrow> string \<Rightarrow> string \<Rightarrow> 'a outcome" where
  "getJob fetch base namespace name =
     request fetch base (''/apis/batch/v1/namespaces/'' @ namespace @ ''/jobs/'' @ name) no_options"

definition getPod :: "'a fetch \<Rightarrow> string \<Rightarrow> string \<Rightarrow> string \<Rightarrow> 'a outcome" where
  "getPod fetch base namespace name =
     request fetch base (''/api/v1/namespaces/'' @ namespace @ ''/pods/'' @ name) no_options"

record PodInfo =
  pi_name :: string
  pi_namespace :: string
  pi_phase :: string

definition listPods ::
    "PodInfo list option fetch \<Rightarrow> string \<Rightarrow> string \<Rightarrow> string \<Rightarrow> PodInfo list outcome" where
  "listPods fetch base namespace labelSelector =
     list_items (request fetch base
       (''/api/v1/namespaces/'' @ namespace @ ''/pods?'' @
        url_params [(''labelSelector'', labelSelector)]) no_options)"

subsection \<open>Volumes\<close>

record PVC =
  pvc_name :: string
  pvc_namespace :: string
  pvc_creationTimestamp :: "string option"
  pvc_accessModes :: "string list option"
  pvc_storageClassName :: "string option"
  pvc_volumeMode :: "string option"
  pvc_storage :: "string option"
  pvc_phase :: string

text \<open>The \<open>catch\<close> of the listing operations: any failure becomes the empty list.\<close>

definition or_empty :: "'a list outcome \<Rightarrow> 'a list outcome" where
  "or_empty r = (case r of Inl _ \<Rightarrow> Inr [] | Inr xs \<Rightarrow> Inr xs)"

definition pvcs_path :: "string \<Rightarrow> string" where
  "pvcs_path namespace = ''/api/v1/namespaces/'' @ namespace @ ''/persistentvolumeclaims''"

definition listPVCs :: "PVC list option fetch \<Rightarrow> string \<Rightarrow> string \<Rightarrow> PVC list outcome" where
  "listPVCs fetch base namespace =
     or_empty (list_items (request fetch base (pvcs_path namespace) no_options))"

record NewPVC =
  np_name :: string
  np_storageClassName :: "string option"
  np_accessModes :: "string list"
  np_volumeMode :: string
  np_storage :: string

definition pvc_body :: "string \<Rightarrow> NewPVC \<Rightarrow> json" where
  "pvc_body namespace pvc =
     JObj [(''apiVersion'', JStr ''v1''), (''kind'', JStr ''PersistentVolumeClaim''),
       (''metadata'', JObj [(''name'', JStr (np_name pvc)), (''namespace'', JStr namespace)]),
       (''spec'', JObj ([(''accessModes'', JArr (map JStr (np_accessModes pvc))),
          (''volumeMode'', JStr (np_volumeMode pvc))] @
          (if truthy (np_storageClassName pvc)
           then [(''storageClassName'', JStr (the (np_storageClassName pvc)))] else []) @
          [(''resources'', JObj [(''requests'', JObj [(''storage'', JStr (np_storage pvc))])])]))]"

definition createPVC :: "'a fetch \<Rightarrow> string \<Rightarrow> string \<Rightarrow> NewPVC \<Rightarrow> unit outcome" where
  "createPVC fetch base namespace pvc =
     ignore_result (request fetch base (pvcs_path namespace)
       (with_method ''POST'' (Some (JsonBody (pvc_body namespace pvc)))))"

definition deletePVC_request :: "'a fetch \<Rightarrow> string \<Rightarrow> string \<Rightarrow> string \<Rightarrow> unit outcome" where
  "deletePVC_request fetch base namespace name =
     ignore_result (request fetch base (pvcs_path namespace @ ''/'' @ name)
       (with_method ''DELETE'' None))"

record StorageClass =
  stc_name :: string
  stc_provisioner :: string
  stc_reclaimPolicy :: "string option"
  stc_volumeBindingMode :: "string option"
  stc_allowVolumeExpansion :: "bool option"

definition listStorageClasses ::
    "StorageClass list option fetch \<Rightarrow> string \<Rightarrow> StorageClass list outcome" where
  "listStorageClasses fetch base =
     or_empty (list_items (request fetch base ''/apis/storage.k8s.io/v1/storageclasses'' no_options))"

subsection \<open>Secrets\<close>

record Secret =
  sec_name :: string
  sec_namespace :: string
  sec_creationTimestamp :: "string option"
  sec_type :: string
  sec_data :: "string obj option"

definition secrets_path :: "string \<Rightarrow> string" where
  "secrets_path namespace = ''/api/v1/namespaces/'' @ namespace @ ''/secrets''"

definition listSecrets :: "Secret list option fetch \<Rightarrow> string \<Rightarrow> string \<Rightarrow> Secret list outcome" where
  "listSecrets fetch base namespace =
     or_empty (list_items (request fetch base (secrets_path namespace) no_options))"

definition getSecret :: "Secret fetch \<Rightarrow> string \<Rightarrow> string \<Rightarrow> string \<Rightarrow> Secret outcome" where
  "getSecret fetch base namespace name =
     request fetch base (secrets_path namespace @ ''/'' @ name) no_options"

fun encode_entries :: "string obj \<Rightarrow> (string \<times> jstring) list \<Rightarrow> string obj outcome" where
  "encode_entries acc [] = Inr acc"
| "encode_entries acc ((k, v) # es) =
     (case btoa v of
        Inl e \<Rightarrow> Inl e
      | Inr b \<Rightarrow> encode_entries (obj_set acc k b) es)"

definition encode_data :: "jstring obj \<Rightarrow> string obj outcome" where
  "encode_data data = encode_entries [] (obj_entries data)"

definition secret_body :: "string \<Rightarrow> string \<Rightarrow> string obj \<Rightarrow> json" where
  "secret_body namespace name data =
     JObj [(''apiVersion'', JStr ''v1''), (''kind'', JStr ''Secret''),
       (''metadata'', JObj [(''name'', JStr name), (''namespace'', JStr namespace)]),
       (''type'', JStr ''Opaque''),
       (''data'', JObj (map (\<lambda>(k, v). (k, JStr v)) data))]"

definition createSecret ::
    "'a fetch \<Rightarrow> string \<Rightarrow> string \<Rightarrow> string \<Rightarrow> jstring obj \<Rightarrow> unit outcome" where
  "createSecret fetch base namespace name data =
     (case encode_data data of
        Inl e \<Rightarrow> Inl e
      | Inr encoded \<Rightarrow> ignore_result (request fetch base (secrets_path namespace)
          (with_method ''POST'' (Some (JsonBody (secret_body namespace name encoded))))))"

definition deleteSecret_request :: "'a fetch \<Rightarrow> string \<Rightarrow> string \<Rightarrow> string \<Rightarrow> unit outcome" where
  "deleteSecret_request fetch base namespace name =
     ignore_result (request fetch base (secrets_path namespace @ ''/'' @ name)
       (with_method ''DELETE'' None))"

definition updateSecret ::
    "'a fetch \<Rightarrow> string \<Rightarrow> string \<Rightarrow> string \<Rightarrow> jstring obj \<Rightarrow> unit outcome" where
  "updateSecret fetch base namespace name data =
     (case encode_data data of
        Inl e \<Rightarrow> Inl e
      | Inr encoded \<Rightarrow> ignore_result (request fetch base (secrets_path namespace @ ''/'' @ name)
          (with_method ''PUT'' (Some (JsonBody (secret_body namespace name encoded))))))"

subsection \<open>Requests and their failures\<close>

lemma error_message_unparsable:
  "rs_parsed r = Inl e \<Longrightarrow> error_message r = Inl body_used_error"
  by (simp add: error_message_def read_json_def read_text_def)

text \<open>
  C38: a response outside 200--299 makes every request fail.  When its body
  is a JSON object the failure carries the object's \<open>message\<close>, or \<open>HTTP n\<close> when that is missing
  or empty; when it is not JSON at all the failure is the \<open>TypeError\<close> of reading the body twice,
  so the text of the body never reaches the user.
\<close>

theorem request_failure:
  assumes "fetch \<lparr>rq_url = base @ path, rq_method = str_or (ri_method opts) ''GET'',
      rq_headers = request_headers opts, rq_body = ri_body opts\<rparr> = Inr r"
    and "\<not> rs_ok r"
  shows "request fetch base path opts =
    Inl (case rs_parsed r of
           Inr (JObj ob) \<Rightarrow> ErrorObj ''Error''
             (case map_of ob ''message'' of
                Some (JStr m) \<Rightarrow> text_or m (''HTTP '' @ int_str (rs_status r))
              | Some v \<Rightarrow> (if json_truthy v then json_text v else ''HTTP '' @ int_str (rs_status r))
              | None \<Rightarrow> ''HTTP '' @ int_str (rs_status r))
         | Inr JNull \<Rightarrow> body_used_error
         | Inr _ \<Rightarrow> ErrorObj ''Error'' (''HTTP '' @ int_str (rs_status r))
         | Inl _ \<Rightarrow> body_used_error)"
proof (cases "rs_parsed r")
  case (Inl e)
  with assms show ?thesis by (simp add: request_def error_message_unparsable)
next
  case (Inr j)
  with assms show ?thesis
    by (cases j)
       (auto simp: request_def error_message_def read_json_def read_text_def error_property_def
          http_message_def text_or_def split: option.split json.split)
qed

definition refusing :: "'a \<Rightarrow> 'a fetch" where
  "refusing v = (\<lambda>rq. Inr \<lparr>rs_status = 403, rs_text = ''{}'',
     rs_parsed = Inr (JObj [(''message'', JStr ''forbidden'')]), rs_typed = v\<rparr>)"

theorem request_failure_witness:
  "request (refusing ()) ''/k8s'' ''/api/v1/namespaces'' no_options =
     Inl (ErrorObj ''Error'' ''forbidden'')"
  using request_failure [where fetch = "refusing ()" and base = "''/k8s''"
      and path = "''/api/v1/namespaces''" and opts = no_options
      and r = "\<lparr>rs_status = 403, rs_text = ''{}'',
        rs_parsed = Inr (JObj [(''message'', JStr ''forbidden'')]), rs_typed = ()\<rparr>"]
  by (simp add: refusing_def rs_ok_def text_or_def)

text \<open>
  An operation succeeds only on a response in 200--299 whose body is
  JSON, and then hands on that body unchanged; whatever the server does, nothing else succeeds.
\<close>

theorem request_success:
  "request fetch base path opts = Inr v \<longleftrightarrow>
     (\<exists>r. fetch \<lparr>rq_url = base @ path, rq_method = str_or (ri_method opts) ''GET'',
            rq_headers = request_headers opts, rq_body = ri_body opts\<rparr> = Inr r \<and>
          rs_ok r \<and> (\<exists>j. rs_parsed r = Inr j) \<and> rs_typed r = v)"
  by (auto simp: request_def read_json_def split: sum.splits if_splits)

subsection \<open>The path of a pipeline\<close>

lemma split_on_path:
  "CHR ''/'' \<notin> set x \<Longrightarrow> CHR ''/'' \<notin> set y \<Longrightarrow>
     (x @ CHR ''/'' # u = y @ CHR ''/'' # v) = (x = y \<and> u = v)"
proof (induction x arbitrary: y)
  case Nil
  then show ?case by (cases y) auto
next
  case (Cons c x)
  then show ?case by (cases y) auto
qed

text \<open>
  Names and namespaces are put into the path as they are; for names
  without a slash, so for all that the API server accepts, different pipelines have different
  paths, and no pipeline shares its path with the list of a namespace.
\<close>

theorem pipeline_path_inject:
  assumes "CHR ''/'' \<notin> set ns" and "CHR ''/'' \<notin> set ns'"
  shows "(pipeline_path ns n = pipeline_path ns' n') = (ns = ns' \<and> n = n') \<and>
    pipeline_path ns n \<noteq> pipelines_path ns'"
  using split_on_path [OF assms, of "''pipelines/'' @ n" "''pipelines/'' @ n'"]
    split_on_path [OF assms, of "''pipelines/'' @ n" "''pipelines''"]
  by (auto simp: pipeline_path_def pipelines_path_def)

theorem pipeline_path_inject_witness:
  "pipeline_path ''dev'' ''build'' \<noteq> pipeline_path ''prod'' ''build'' \<and>
   pipeline_path ''dev'' ''build'' \<noteq> pipelines_path ''prod''"
  using pipeline_path_inject [of "''dev''" "''prod''" "''build''" "''build''"]
  by simp

subsection \<open>Watching\<close>

lemma split_on_append:
  "split_on c (x @ y) = butlast (split_on c x) @ split_on c (last (split_on c x) @ y)"
proof (induction x)
  case Nil
  then show ?case by simp
next
  case (Cons a x)
  show ?case
  proof (cases "split_on c x")
    case Nil
    then show ?thesis by (simp only: split_on_not_Nil)
  next
    case eq: (Cons l ls)
    show ?thesis
      using Cons.IH unfolding eq
      by (cases ls) (auto split: list.splits simp: eq)
  qed
qed

lemma last_split_on_no_sep: "split_on c (last (split_on c x)) = [last (split_on c x)]"
  by (rule split_on_no_sep) (rule split_on_parts_no_sep [of _ c x], simp)

lemma butlast_split_on_append:
  "butlast (split_on c (x @ y)) =
     butlast (split_on c x) @ butlast (split_on c (last (split_on c x) @ y))"
  by (simp add: split_on_append [of c x y] butlast_append)

lemma last_split_on_append:
  "last (split_on c (x @ y)) = last (split_on c (last (split_on c x) @ y))"
  by (simp add: split_on_append [of c x y])

lemma watch_chunks:
  "foldl (watch_step parse)
     \<lparr>wt_phase = Reading (last (split_on newline seen)), wt_aborted = b, wt_events = es\<rparr>
     (map Chunk chunks) =
   \<lparr>wt_phase = Reading (last (split_on newline (seen @ concat chunks))), wt_aborted = b,
    wt_events = es @ concat (map (parse_line parse)
      (butlast (split_on newline (last (split_on newline seen) @ concat chunks))))\<rparr>"
proof (induction chunks arbitrary: seen es)
  case Nil
  then show ?case by (simp add: last_split_on_no_sep)
next
  case (Cons chunk chunks)
  let ?l = "last (split_on newline seen)"
  have "foldl (watch_step parse)
      \<lparr>wt_phase = Reading ?l, wt_aborted = b, wt_events = es\<rparr> (map Chunk (chunk # chunks)) =
    foldl (watch_step parse)
      \<lparr>wt_phase = Reading (last (split_on newline (seen @ chunk))), wt_aborted = b,
       wt_events = es @ concat (map (parse_line parse) (butlast (split_on newline (?l @ chunk))))\<rparr>
      (map Chunk chunks)"
    by (simp add: feed_chunk_def Let_def last_split_on_append [of newline seen chunk])
  then show ?case
    using butlast_split_on_append [of newline "?l @ chunk" "concat chunks"]
      last_split_on_append [of newline seen chunk]
      last_split_on_append [of newline seen "chunk @ concat chunks"]
    by (simp add: Cons.IH)
qed

lemma watch_reads:
  "watch_run parse (Connected True # map Chunk chunks) =
     \<lparr>wt_phase = Reading (last (split_on newline (concat chunks))), wt_aborted = False,
      wt_events = concat (map (parse_line parse) (butlast (split_on newline (concat chunks))))\<rparr>"
  using watch_chunks [of parse "[]" False "[]" chunks]
  by (simp add: watch_run_def watch_start_def)

text \<open>
  C14: the events a watch reports are the complete lines of everything
  received, blank ones and unparsable ones left out, each once and in order, however the
  connection cuts the stream into chunks; the unfinished line is kept for the next chunk.
\<close>

theorem watch_chunking:
  "watch_run parse (Connected True # map Chunk chunks) =
     \<lparr>wt_phase = Reading (last (split_on newline (concat chunks))), wt_aborted = False,
      wt_events = concat (map (parse_line parse) (butlast (split_on newline (concat chunks))))\<rparr>"
  by (rule watch_reads)

lemma watch_aborted_step:
  "wt_aborted w \<and> wt_phase w \<in> {Waiting, Stopped} \<Longrightarrow>
     wt_aborted (watch_step parse w i) \<and> wt_phase (watch_step parse w i) \<in> {Waiting, Stopped} \<and>
     wt_events (watch_step parse w i) = wt_events w"
  by (cases i) (auto simp: Let_def split: prod.splits)

lemma watch_aborted_steps:
  "wt_aborted w \<and> wt_phase w \<in> {Waiting, Stopped} \<Longrightarrow>
     wt_aborted (foldl (watch_step parse) w is) \<and>
     wt_phase (foldl (watch_step parse) w is) \<in> {Waiting, Stopped} \<and>
     wt_events (foldl (watch_step parse) w is) = wt_events w"
proof (induction "is" arbitrary: w)
  case Nil
  then show ?case by simp
next
  case (Cons i "is")
  from watch_aborted_step [OF Cons.prems, of parse i] Cons.IH [of "watch_step parse w i"]
  show ?case by simp
qed

text \<open>
  Once the watch is stopped it never connects again and reports no
  further event, whatever the connection and the retry timer still do.
\<close>

theorem watch_abort_final:
  "wt_events (watch_run parse (before @ Abort # after)) = wt_events (watch_run parse before) \<and>
   wt_phase (watch_run parse (before @ Abort # after)) \<in> {Waiting, Stopped} \<and>
   wt_phase (watch_run parse (before @ Abort # after @ [TimerFires])) = Stopped"
proof -
  let ?w = "watch_run parse (before @ [Abort])"
  have w: "wt_aborted ?w \<and> wt_phase ?w \<in> {Waiting, Stopped}"
    "wt_events ?w = wt_events (watch_run parse before)"
    by (auto simp: watch_run_def)
  have run: "watch_run parse (before @ Abort # after) = foldl (watch_step parse) ?w after"
    by (simp add: watch_run_def)
  let ?v = "foldl (watch_step parse) ?w after"
  have v: "wt_aborted ?v \<and> wt_phase ?v \<in> {Waiting, Stopped} \<and> wt_events ?v = wt_events ?w"
    using watch_aborted_steps [OF w(1)] by blast
  have "watch_run parse (before @ Abort # after @ [TimerFires]) = watch_step parse ?v TimerFires"
    by (simp add: watch_run_def)
  moreover have "wt_phase (watch_step parse ?v TimerFires) = Stopped"
    using v by auto
  ultimately show ?thesis using v w(2) run by simp
qed

lemma watch_stopped_step:
  "wt_phase w = Stopped \<Longrightarrow>
     wt_phase (watch_step parse w i) = Stopped \<and>
     wt_events (watch_step parse w i) = wt_events w"
  by (cases i) auto

lemma watch_stopped_steps:
  "wt_phase w = Stopped \<Longrightarrow>
     wt_phase (foldl (watch_step parse) w is) = Stopped \<and>
     wt_events (foldl (watch_step parse) w is) = wt_events w"
proof (induction "is" arbitrary: w)
  case Nil
  then show ?case by simp
next
  case (Cons i "is")
  from watch_stopped_step [OF Cons.prems, of parse i] Cons.IH [of "watch_step parse w i"]
  show ?case by simp
qed

text \<open>
  Only a failure is retried.  When the server ends the response in the
  ordinary way (as an API server does after its watch timeout) the watch is over: it reports no
  event after that, although nobody stopped it.
\<close>

theorem watch_not_resumed:
  "wt_phase (watch_run parse (Connected True # map Chunk chunks @ Finished # after)) = Stopped \<and>
   wt_events (watch_run parse (Connected True # map Chunk chunks @ Finished # after)) =
     wt_events (watch_run parse (Connected True # map Chunk chunks))"
proof -
  let ?w = "watch_run parse (Connected True # map Chunk chunks)"
  have "watch_run parse (Connected True # map Chunk chunks @ Finished # after) =
      foldl (watch_step parse) (watch_step parse ?w Finished) after"
    by (simp add: watch_run_def)
  moreover have "wt_phase (watch_step parse ?w Finished) = Stopped"
    "wt_events (watch_step parse ?w Finished) = wt_events ?w"
    by (simp_all add: watch_reads)
  ultimately show ?thesis using watch_stopped_steps [of "watch_step parse ?w Finished"] by simp
qed

subsection \<open>Streaming logs\<close>

lemma concat_split_on: "concat (split_on c s) = filter (\<lambda>x. x \<noteq> c) s"
proof (induction s)
  case (Cons a s)
  then show ?case by (cases "split_on c s") auto
qed simp

lemma concat_nonempty: "concat (filter (\<lambda>x. x \<noteq> []) xss) = concat xss"
  by (induction xss) auto

lemma stream_chunk_nonempty_parts:
  "line \<in> set (stream_chunk chunk) \<Longrightarrow> line \<noteq> [] \<and> newline \<notin> set line"
  by (auto simp: stream_chunk_def dest: split_on_parts_no_sep)

text \<open>
  Streaming loses and reorders nothing but line breaks: the lines
  it reports, put together, are the received text without its newlines, and none of them is
  empty or holds a newline.
\<close>

theorem streamPodLogs_content:
  "concat (streamPodLogs chunks) = filter (\<lambda>c. c \<noteq> newline) (concat chunks) \<and>
   list_all (\<lambda>line. line \<noteq> [] \<and> newline \<notin> set line) (streamPodLogs chunks)"
proof
  show "concat (streamPodLogs chunks) = filter (\<lambda>c. c \<noteq> newline) (concat chunks)"
    by (induction chunks)
       (simp_all add: streamPodLogs_def stream_chunk_def concat_nonempty concat_split_on)
  show "list_all (\<lambda>line. line \<noteq> [] \<and> newline \<notin> set line) (streamPodLogs chunks)"
    by (auto simp: list_all_iff streamPodLogs_def dest: stream_chunk_nonempty_parts)
qed

text \<open>
  Unlike the watch, the log stream keeps no buffer: a line that
  the connection delivers in two chunks is reported as two lines.
\<close>

theorem streamPodLogs_splits_lines:
  assumes "x \<noteq> []" and "y \<noteq> []" and "newline \<notin> set x" and "newline \<notin> set y"
  shows "streamPodLogs [x @ y] = [x @ y] \<and> streamPodLogs [x, y] = [x, y]"
  using assms by (simp add: streamPodLogs_def stream_chunk_def split_on_no_sep)

theorem streamPodLogs_splits_lines_witness:
  "streamPodLogs [''error: '' @ ''disk full''] = [''error: disk full''] \<and>
   streamPodLogs [''error: '', ''disk full''] = [''error: '', ''disk full'']"
  using streamPodLogs_splits_lines [of "''error: ''" "''disk full''"]
  by (simp add: newline_def)

subsection \<open>Listings and selectors\<close>

text \<open>
  The listings of volumes, storage classes and secrets never fail:
  whatever goes wrong, a refused permission included, their callers see an empty list, so the
  error branches of the callers are never taken.
\<close>

theorem listings_never_fail:
  "listPVCs fetch_pvc base namespace = Inr
     (case request fetch_pvc base (pvcs_path namespace) no_options of
        Inr (Some items) \<Rightarrow> items | _ \<Rightarrow> []) \<and>
   listStorageClasses fetch_class base = Inr
     (case request fetch_class base ''/apis/storage.k8s.io/v1/storageclasses'' no_options of
        Inr (Some items) \<Rightarrow> items | _ \<Rightarrow> []) \<and>
   listSecrets fetch_secret base namespace = Inr
     (case request fetch_secret base (secrets_path namespace) no_options of
        Inr (Some items) \<Rightarrow> items | _ \<Rightarrow> [])"
  by (auto simp: listPVCs_def listStorageClasses_def listSecrets_def or_empty_def list_items_def
      split: sum.split option.split)

lemma form_encode_no_delimiter:
  "CHR ''&'' \<notin> set (form_encode s) \<and> CHR ''='' \<notin> set (form_encode s) \<and>
   CHR ''#'' \<notin> set (form_encode s)"
  using form_encode_chars [of s]
  by (auto simp: list_all_iff form_char_def form_safe_def char_code_def)

text \<open>
  Whatever text a field or label selector holds, it reaches the
  server as the value of one query parameter: the encoded value has no delimiter of a query and
  decodes to the selector.
\<close>

theorem selectors_do_not_inject:
  "\<exists>enc. getEvents fetch_event base namespace selector = list_items (request fetch_event base
       (''/api/v1/namespaces/'' @ namespace @ ''/events?fieldSelector='' @ enc) no_options) \<and>
     listPods fetch_pod base namespace selector = list_items (request fetch_pod base
       (''/api/v1/namespaces/'' @ namespace @ ''/pods?labelSelector='' @ enc) no_options) \<and>
     CHR ''&'' \<notin> set enc \<and> CHR ''='' \<notin> set enc \<and> CHR ''#'' \<notin> set enc \<and>
     utf8_decode (form_decode enc) = selector"
proof (intro exI conjI)
  have key: "form_encode ''fieldSelector'' = ''fieldSelector''"
    "form_encode ''labelSelector'' = ''labelSelector''"
    by code_simp+
  show "getEvents fetch_event base namespace selector = list_items (request fetch_event base
       (''/api/v1/namespaces/'' @ namespace @ ''/events?fieldSelector='' @ form_encode selector)
       no_options)"
    by (simp add: getEvents_def url_params_def key)
  show "listPods fetch_pod base namespace selector = list_items (request fetch_pod base
       (''/api/v1/namespaces/'' @ namespace @ ''/pods?labelSelector='' @ form_encode selector)
       no_options)"
    by (simp add: listPods_def url_params_def key)
qed (simp_all add: form_encode_no_delimiter form_decode_encode)

subsection \<open>The data of a secret\<close>

lemma encode_entries_lookup:
  assumes "encode_entries acc es = Inr enc" and "distinct (map fst es)"
  shows "map_of enc k =
    (if k = ''__proto__'' then map_of acc k
     else case map_of es k of
            None \<Rightarrow> map_of acc k
          | Some v \<Rightarrow> (case btoa v of Inl e \<Rightarrow> None | Inr b \<Rightarrow> Some b))"
  using assms
proof (induction es arbitrary: acc)
  case Nil
  then show ?case by simp
next
  case (Cons e es)
  obtain a v where e: "e = (a, v)" by (cases e)
  from Cons.prems obtain b where b: "btoa v = Inr b" "encode_entries (obj_set acc a b) es = Inr enc"
    by (auto simp: e split: sum.splits)
  have fresh: "map_of es a = None"
    using Cons.prems(2) by (simp add: e map_of_eq_None_iff)
  show ?case
    using Cons.IH [OF b(2)] Cons.prems(2) b(1) fresh
    by (auto simp: e map_of_obj_set split: option.splits)
qed

lemma encode_entries_succeeds:
  "\<forall>kv \<in> set es. \<forall>u \<in> set (snd kv). \<not> 255 < unat u \<Longrightarrow> \<exists>enc. encode_entries acc es = Inr enc"
proof (induction es arbitrary: acc)
  case (Cons e es)
  then have "\<not> (\<exists>x. btoa (snd e) = Inl x)"
    unfolding btoa_fails_iff by auto
  then obtain b where "btoa (snd e) = Inr b" by (cases "btoa (snd e)") auto
  with Cons show ?case by (cases e) auto
qed simp

lemma encode_entries_fails:
  "(k, v) \<in> set es \<Longrightarrow> u \<in> set v \<Longrightarrow> 255 < unat u \<Longrightarrow> \<exists>e. encode_entries acc es = Inl e"
proof (induction es arbitrary: acc)
  case (Cons e es)
  obtain a w where e: "e = (a, w)" by (cases e)
  show ?case
  proof (cases "btoa w")
    case (Inr b)
    with Cons.prems have "(k, v) \<noteq> e"
      using btoa_fails_iff [of v] by (auto simp: e)
    with Cons.prems(1) have "(k, v) \<in> set es" by auto
    from Cons.IH [OF this Cons.prems(2,3), of "obj_set acc a b"] Inr show ?thesis by (simp add: e)
  qed (simp add: e)
qed simp

lemma obj_entries_facts:
  assumes "distinct (map fst ob)"
  shows "distinct (map fst (obj_entries ob))" "set (obj_entries ob) = set ob"
proof -
  show dist: "distinct (map fst (obj_entries ob))"
    using distinct_obj_keys [OF assms] by (simp add: obj_entries_def comp_def)
  show "set (obj_entries ob) = set ob"
    using map_of_obj_entries [of ob] map_of_eq_Some_iff [OF assms] map_of_eq_Some_iff [OF dist]
    by (metis subrelI subset_antisym)
qed

text \<open>
  C15: when every value of a secret is Latin-1, both \<open>createSecret\<close> and
  \<open>updateSecret\<close> send a body whose data has exactly the keys given, each with a base64 text
  that \<open>atob\<close> turns back into its value --- except the key \<open>__proto__\<close>, which is dropped.
\<close>

theorem secret_data_roundtrip:
  assumes "distinct (map fst data)"
    and "\<forall>kv \<in> set data. \<forall>u \<in> set (snd kv). unat u \<le> 255"
  shows "\<exists>enc.
    createSecret fetch base namespace name data = ignore_result (request fetch base
      (secrets_path namespace)
      (with_method ''POST'' (Some (JsonBody (secret_body namespace name enc))))) \<and>
    updateSecret fetch base namespace name data = ignore_result (request fetch base
      (secrets_path namespace @ ''/'' @ name)
      (with_method ''PUT'' (Some (JsonBody (secret_body namespace name enc))))) \<and>
    map_of enc ''__proto__'' = None \<and>
    (\<forall>k. k \<noteq> ''__proto__'' \<longrightarrow>
       rel_option (\<lambda>v b. atob b = Inr v) (map_of data k) (map_of enc k))"
proof -
  note entries = obj_entries_facts [OF assms(1)]
  obtain enc where enc: "encode_entries [] (obj_entries data) = Inr enc"
    using encode_entries_succeeds [of "obj_entries data" "[]"] assms(2) entries(2)
    by (auto simp: not_less)
  have look: "map_of enc k = (if k = ''__proto__'' then None else case map_of data k of
      None \<Rightarrow> None | Some v \<Rightarrow> (case btoa v of Inl e \<Rightarrow> None | Inr b \<Rightarrow> Some b))" for k
    unfolding encode_entries_lookup [OF enc entries(1)] map_of_obj_entries map_of.simps ..
  have "rel_option (\<lambda>v b. atob b = Inr v) (map_of data k) (map_of enc k)"
    if "k \<noteq> ''__proto__''" for k
  proof (cases "map_of data k")
    case (Some v)
    then have "\<not> (\<exists>e. btoa v = Inl e)"
      unfolding btoa_fails_iff using assms(2) map_of_SomeD [OF Some] by fastforce
    then obtain b where "btoa v = Inr b" by (cases "btoa v") auto
    with Some that look [of k] atob_btoa [of v b] show ?thesis by simp
  qed (use that look in simp)
  with enc look show ?thesis
    by (intro exI [of _ enc]) (simp add: createSecret_def updateSecret_def encode_data_def)
qed

theorem secret_data_roundtrip_witness:
  "\<exists>enc. map_of enc ''__proto__'' = None \<and>
     rel_option (\<lambda>v b. atob b = Inr v) (Some (units ''s3cret'')) (map_of enc ''password'')"
proof -
  have "\<forall>kv \<in> set [(''password'', units ''s3cret'')]. \<forall>u \<in> set (snd kv). unat u \<le> 255"
    by (simp add: units_def char_code_def)
  from secret_data_roundtrip [OF _ this, of "refusing ()" "''/k8s''" "''default''" "''db''"]
  obtain enc where enc: "map_of enc ''__proto__'' = None"
    "\<forall>k. k \<noteq> ''__proto__'' \<longrightarrow> rel_option (\<lambda>v b. atob b = Inr v)
       (map_of [(''password'', units ''s3cret'')] k) (map_of enc k)"
    by auto
  from enc(2) have "rel_option (\<lambda>v b. atob b = Inr v)
       (map_of [(''password'', units ''s3cret'')] ''password'') (map_of enc ''password'')"
    by (rule allE [of _ "''password''"]) simp
  with enc(1) show ?thesis by (intro exI [of _ enc]) simp
qed

text \<open>
  A secret with a value that holds a character beyond Latin-1 (an
  emoji, a CJK character) cannot be saved: \<open>btoa\<close> throws before any request is made, so the
  answer does not depend on the server.
\<close>

theorem secret_data_rejected:
  assumes "distinct (map fst data)" and "(k, v) \<in> set data" and "u \<in> set v" and "255 < unat u"
  shows "\<exists>e. \<forall>fetch. createSecret fetch base namespace name data = Inl e \<and>
    updateSecret fetch base namespace name data = Inl e"
proof -
  have "(k, v) \<in> set (obj_entries data)"
    using obj_entries_facts(2) [OF assms(1)] assms(2) by simp
  from encode_entries_fails [OF this assms(3,4), of "[]"]
  obtain e where "encode_entries [] (obj_entries data) = Inl e" by auto
  then show ?thesis
    by (intro exI [of _ e]) (simp add: createSecret_def updateSecret_def encode_data_def)
qed

theorem secret_data_rejected_witness:
  "\<exists>e. \<forall>fetch :: unit fetch. createSecret fetch ''/k8s'' ''default'' ''db'' [(''motd'', [0x4F60, 0x597D])] = Inl e \<and>
     updateSecret fetch ''/k8s'' ''default'' ''db'' [(''motd'', [0x4F60, 0x597D])] = Inl e"
  using secret_data_rejected [where data = "[(''motd'', [0x4F60, 0x597D])]" and k = "''motd''"
      and v = "[0x4F60, 0x597D]" and u = "0x4F60"]
  by simp

end
