(* ===== verification/App_Router.thy ===== *)
theory App_Router
  imports Js_Regex K8s_Client
begin

section \<open>The router and the application shell (\<open>ui/src/lib/router.ts\<close>, \<open>app-shell.ts\<close>)\<close>

text \<open>
  The state is the router's own fields together with what they act on: the children of the
  outlet, the location and the history of the window, the events dispatched, and the path the
  application shell shows as current.  \<open>navigate\<close> and \<open>go\<close> call each other without a bound (a
  redirect may lead to a redirect), so \<open>navigate\<close> is a partial function, and that it returns for
  the routes of the application is a theorem.  A path that starts with two slashes names another
  host and is outside the model.
\<close>

subsection \<open>Paths\<close>

text \<open>
  The characters that stay as they are in a path are given by their codes.  The \<open>pathname\<close> of \<open>new URL(path, origin)\<close> for a path from the root: tabs and line breaks are
  removed, query and fragment cut off, reserved characters percent-encoded and dot segments
  resolved.
\<close>

definition path_safe :: "char \<Rightarrow> bool" where
  "path_safe c =
     (32 < char_code c \<and> char_code c < 127 \<and>
      char_code c \<notin> {34, 35, 60, 62, 63, 92, 94, 96, 123, 125})"

definition path_char :: "char \<Rightarrow> string" where
  "path_char c =
     (if c = CHR 0x5C then ''/''
      else if path_safe c then [c]
      else concat (map (\<lambda>b. ''%'' @ [hex_digit (b div 16), hex_digit (b mod 16)]) (utf8 c)))"

definition single_dot :: "string \<Rightarrow> bool" where
  "single_dot s = (toLowerCase s \<in> {''.'', ''%2e''})"

definition double_dot :: "string \<Rightarrow> bool" where
  "double_dot s = (toLowerCase s \<in> {''..'', ''.%2e'', ''%2e.'', ''%2e%2e''})"

fun resolve_dots :: "string list \<Rightarrow> string list \<Rightarrow> string list" where
  "resolve_dots acc [] = acc"
| "resolve_dots acc [s] =
     (if double_dot s then butlast acc @ [[]]
      else if single_dot s then acc @ [[]] else acc @ [s])"
| "resolve_dots acc (s # t # ss) =
     (if double_dot s then resolve_dots (butlast acc) (t # ss)
      else if single_dot s then resolve_dots acc (t # ss)
      else resolve_dots (acc @ [s]) (t # ss))"

definition slash :: char where
  "slash = CHR ''/''"

definition url_pathname :: "string \<Rightarrow> string" where
  "url_pathname path =
     (let trimmed = rev (dropWhile (\<lambda>c. char_code c \<le> 32)
            (rev (dropWhile (\<lambda>c. char_code c \<le> 32) path)));
          kept = filter (\<lambda>c. char_code c \<notin> {9, 10, 13}) trimmed;
          body = takeWhile (\<lambda>c. c \<notin> {CHR ''?'', CHR ''#''}) kept;
          encoded = concat (map path_char body);
          relative = (case encoded of [] \<Rightarrow> [] | c # cs \<Rightarrow> if c = slash then cs else c # cs)
      in slash # js_join [slash] (resolve_dots [] (split_on slash relative)))"

subsection \<open>Routes and their patterns\<close>

datatype pattern_part = Literal string | Group string

definition parse_part :: "string \<Rightarrow> pattern_part" where
  "parse_part s = (case s of [] \<Rightarrow> Literal [] | c # n \<Rightarrow> if c = CHR '':'' then Group n else Literal s)"

definition URLPattern :: "string \<Rightarrow> pattern_part list" where
  "URLPattern path = map parse_part (split_on slash path)"

fun match_parts :: "pattern_part list \<Rightarrow> string list \<Rightarrow> (string \<times> string) list option" where
  "match_parts [] [] = Some []"
| "match_parts (Literal l # ps) (s # ss) = (if s = l then match_parts ps ss else None)"
| "match_parts (Group n # ps) (s # ss) =
     (if s = [] then None
      else (case match_parts ps ss of None \<Rightarrow> None | Some g \<Rightarrow> Some ((n, s) # g)))"
| "match_parts _ _ = None"

record Route =
  rt_pattern :: "pattern_part list"
  rt_component :: string
  rt_name :: string

record RouteMatch =
  rm_route :: Route
  rm_params :: "string obj"

record RouteConfig =
  rc_path :: string
  rc_component :: string
  rc_redirect :: "string option"

text \<open>The replacement \<open>path.replace(/:(\w+)/g, ':$1')\<close> puts every match back as it was.\<close>

definition addRoute :: "string \<Rightarrow> string \<Rightarrow> string option \<Rightarrow> Route list \<Rightarrow> Route list" where
  "addRoute path component name routes =
     routes @ [\<lparr>rt_pattern = URLPattern path, rt_component = component,
                rt_name = str_or name component\<rparr>]"

definition setRoutes :: "RouteConfig list \<Rightarrow> Route list" where
  "setRoutes configs = foldl (\<lambda>routes c.
     if truthy (rc_redirect c)
     then addRoute (rc_path c) (''__redirect:'' @ the (rc_redirect c)) (Some ''redirect'') routes
     else addRoute (rc_path c) (rc_component c) None routes) [] configs"

fun match_route :: "Route list \<Rightarrow> string list \<Rightarrow> RouteMatch option" where
  "match_route [] segments = None"
| "match_route (r # rs) segments =
     (case match_parts (rt_pattern r) segments of
        Some g \<Rightarrow> Some \<lparr>rm_route = r, rm_params = g\<rparr>
      | None \<Rightarrow> match_route rs segments)"

definition match :: "Route list \<Rightarrow> string \<Rightarrow> RouteMatch option" where
  "match routes path = match_route routes (split_on slash (url_pathname path))"

subsection \<open>Navigation\<close>

record Element =
  elt_key :: nat
  elt_tag :: string
  elt_params :: "string obj"

record NavigationEvent =
  ne_path :: string
  ne_params :: "string obj"
  ne_component :: string

record App =
  app_routes :: "Route list"
  app_outlet :: "Element list option"
  app_current :: "Element option"
  app_fresh :: nat
  app_location :: string
  app_history :: "string list"
  app_dispatched :: "NavigationEvent list"
  app_currentPath :: string

text \<open>
  \<open>renderComponent\<close> ends with the event \<open>router-navigate\<close>, which the shell answers by reading the
  location (\<open>updateCurrentPath\<close>).
\<close>

definition updateCurrentPath :: "App \<Rightarrow> App" where
  "updateCurrentPath a = a\<lparr>app_currentPath := app_location a\<rparr>"

definition renderComponent :: "string \<Rightarrow> string obj \<Rightarrow> App \<Rightarrow> App" where
  "renderComponent tag params a =
     (case app_outlet a of
        None \<Rightarrow> a
      | Some children \<Rightarrow>
          (let kept = (case app_current a of
                 None \<Rightarrow> children
               | Some c \<Rightarrow> filter (\<lambda>d. elt_key d \<noteq> elt_key c) children);
               component = \<lparr>elt_key = app_fresh a, elt_tag = tag, elt_params = params\<rparr>
           in updateCurrentPath
                (a\<lparr>app_outlet := Some (kept @ [component]), app_current := Some component,
                   app_fresh := Suc (app_fresh a),
                   app_dispatched := app_dispatched a @
                     [\<lparr>ne_path = app_location a, ne_params = params, ne_component = tag\<rparr>]\<rparr>)))"

definition pushState :: "string \<Rightarrow> App \<Rightarrow> App" where
  "pushState path a =
     a\<lparr>app_location := url_pathname path, app_history := app_history a @ [url_pathname path]\<rparr>"

definition redirect_prefix :: string where
  "redirect_prefix = ''__redirect:''"

partial_function (option) navigate :: "string \<Rightarrow> App \<Rightarrow> App option" where
  "navigate path a =
     (case match (app_routes a) path of
        None \<Rightarrow> if path \<noteq> ''/'' then navigate ''/'' (pushState ''/'' a) else Some a
      | Some mt \<Rightarrow>
          (let component = rt_component (rm_route mt)
           in if startsWith component redirect_prefix
              then (let target = drop (length redirect_prefix) component
                    in navigate target (pushState target a))
              else Some (renderComponent component (rm_params mt) a)))"

definition go :: "string \<Rightarrow> App \<Rightarrow> App option" where
  "go path a = navigate path (pushState path a)"

lemma pushState_simps [simp]:
  "app_location (pushState path a) = url_pathname path"
  "app_history (pushState path a) = app_history a @ [url_pathname path]"
  "app_routes (pushState path a) = app_routes a"
  "app_outlet (pushState path a) = app_outlet a"
  "app_current (pushState path a) = app_current a"
  by (simp_all add: pushState_def)

lemma navigate_go:
  "navigate path a =
     (case match (app_routes a) path of
        None \<Rightarrow> if path \<noteq> ''/'' then go ''/'' a else Some a
      | Some mt \<Rightarrow>
          (let component = rt_component (rm_route mt)
           in if startsWith component redirect_prefix
              then go (drop (length redirect_prefix) component) a
              else Some (renderComponent component (rm_params mt) a)))"
  by (subst navigate.simps) (simp add: go_def Let_def split: option.split)

definition getCurrentParams :: "App \<Rightarrow> string obj" where
  "getCurrentParams a =
     (case match (app_routes a) (app_location a) of None \<Rightarrow> [] | Some mt \<Rightarrow> rm_params mt)"

text \<open>\<open>initRouter\<close> sets the routes of the application and starts the router in its outlet.\<close>

definition app_configs :: "RouteConfig list" where
  "app_configs =
     [\<lparr>rc_path = ''/'', rc_component = ''pipeline-list'', rc_redirect = Some ''/pipelines''\<rparr>,
      \<lparr>rc_path = ''/pipelines'', rc_component = ''pipeline-list'', rc_redirect = None\<rparr>,
      \<lparr>rc_path = ''/pipelines/:namespace/:name'', rc_component = ''pipeline-detail'',
       rc_redirect = None\<rparr>,
      \<lparr>rc_path = ''/builder'', rc_component = ''pipeline-canvas'', rc_redirect = None\<rparr>,
      \<lparr>rc_path = ''/builder/:namespace/:name'', rc_component = ''pipeline-canvas'',
       rc_redirect = None\<rparr>,
      \<lparr>rc_path = ''/storage'', rc_component = ''pvc-list'', rc_redirect = None\<rparr>,
      \<lparr>rc_path = ''/secrets'', rc_component = ''secret-list'', rc_redirect = None\<rparr>]"

definition initRouter :: "App \<Rightarrow> App option" where
  "initRouter a =
     (let b = a\<lparr>app_routes := setRoutes app_configs, app_outlet := Some []\<rparr>
      in navigate (app_location b) b)"

text \<open>What can happen afterwards: a click on a link, \<open>popstate\<close>, a call of \<open>go\<close>.\<close>

datatype app_event = LinkClick "string option" | PopState string | Go string

fun app_step :: "App \<Rightarrow> app_event \<Rightarrow> App option" where
  "app_step a (LinkClick href) =
     (case href of
        None \<Rightarrow> Some a
      | Some h \<Rightarrow> if startsWith h ''/'' then go h a else Some a)"
| "app_step a (PopState path) =
     (let b = updateCurrentPath (a\<lparr>app_location := url_pathname path\<rparr>)
      in navigate (app_location b) b)"
| "app_step a (Go path) = go path a"

fun app_run :: "App \<Rightarrow> app_event list \<Rightarrow> App option" where
  "app_run a [] = Some a"
| "app_run a (e # es) = (case app_step a e of None \<Rightarrow> None | Some b \<Rightarrow> app_run b es)"

definition page_loaded :: "string \<Rightarrow> App" where
  "page_loaded path =
     \<lparr>app_routes = [], app_outlet = None, app_current = None, app_fresh = 0,
      app_location = url_pathname path, app_history = [url_pathname path], app_dispatched = [],
      app_currentPath = url_pathname path\<rparr>"

subsection \<open>The shell\<close>

record AppShell =
  sh_namespace :: string
  sh_namespaces :: "string list"

definition shell_start :: AppShell where
  "shell_start = \<lparr>sh_namespace = ''default'', sh_namespaces = [''default'']\<rparr>"

definition loadNamespaces :: "ObjectMeta list option fetch \<Rightarrow> string \<Rightarrow> AppShell \<Rightarrow> AppShell" where
  "loadNamespaces fetch base sh = sh\<lparr>sh_namespaces := listNamespaces fetch base\<rparr>"

definition isActive :: "App \<Rightarrow> string \<Rightarrow> bool" where
  "isActive a path = startsWith (app_currentPath a) path"

definition handleNavClick :: "string \<Rightarrow> App \<Rightarrow> App option" where
  "handleNavClick path a = go path a"

text \<open>The result is the new state and the namespace in the event \<open>namespace-change\<close>.\<close>

definition handleNamespaceChange :: "string \<Rightarrow> AppShell \<Rightarrow> AppShell \<times> string" where
  "handleNamespaceChange v sh = (let sh' = sh\<lparr>sh_namespace := v\<rparr> in (sh', sh_namespace sh'))"

subsection \<open>The location is a fixed point of the URL parser\<close>

lemma path_safe_slash [simp]: "path_safe slash"
  by (simp add: path_safe_def slash_def char_code_def)

lemma path_safe_hex: "d < 16 \<Longrightarrow> path_safe (hex_digit d)"
  by (auto simp: path_safe_def hex_digit_def)

lemma path_char_safe: "c \<in> set (path_char d) \<Longrightarrow> path_safe c"
proof -
  assume c: "c \<in> set (path_char d)"
  have "path_safe (CHR ''%'')" by (simp add: path_safe_def char_code_def)
  moreover have "b div 16 < 16 \<and> b mod 16 < 16" if "b \<in> set (utf8 d)" for b
    using utf8_bytes_less [of b "[d]"] that by (simp add: utf8_bytes_def)
  ultimately show ?thesis
    using c path_safe_slash
    by (auto simp: path_char_def slash_def split: if_splits intro!: path_safe_hex)
qed

lemma path_unsafe: "\<not> path_safe (CHR ''?'')" "\<not> path_safe (CHR ''#'')"
  by (simp_all add: path_safe_def char_code_def)

lemma path_char_id: "path_safe c \<Longrightarrow> path_char c = [c]"
proof -
  have "\<not> path_safe (CHR 0x5C)" by (simp add: path_safe_def char_code_def)
  then show "path_safe c \<Longrightarrow> path_char c = [c]" by (auto simp: path_char_def)
qed

lemma resolve_dots_nonempty: "ss \<noteq> [] \<Longrightarrow> resolve_dots acc ss \<noteq> []"
  by (induction acc ss rule: resolve_dots.induct) auto

lemma resolve_dots_set: "set (resolve_dots acc ss) \<subseteq> set acc \<union> set ss \<union> {[]}"
  by (induction acc ss rule: resolve_dots.induct) (auto dest: in_set_butlastD)

lemma dots_Nil [simp]: "\<not> single_dot []" "\<not> double_dot []"
  by (simp_all add: single_dot_def double_dot_def toLowerCase_def)

lemma resolve_dots_no_dots:
  "\<forall>s \<in> set acc. \<not> single_dot s \<and> \<not> double_dot s \<Longrightarrow> s \<in> set (resolve_dots acc ss) \<Longrightarrow>
     \<not> single_dot s \<and> \<not> double_dot s"
  by (induction acc ss rule: resolve_dots.induct) (auto split: if_splits dest: in_set_butlastD)

lemma resolve_dots_id:
  "\<forall>s \<in> set ss. \<not> single_dot s \<and> \<not> double_dot s \<Longrightarrow> resolve_dots acc ss = acc @ ss"
  by (induction acc ss rule: resolve_dots.induct) auto

lemma set_js_join: "set (js_join sep xs) \<subseteq> set sep \<union> \<Union> (set ` set xs)"
  by (induction sep xs rule: js_join.induct) auto

lemma set_split_on: "x \<in> set (split_on c s) \<Longrightarrow> set x \<subseteq> set s"
proof (induction s arbitrary: x)
  case (Cons a s)
  have "\<forall>y \<in> set (split_on c s). set y \<subseteq> set s" using Cons.IH by blast
  with Cons.prems show ?case by (cases "split_on c s") (auto split: if_splits)
qed simp

lemma url_pathname_safe:
  assumes safe: "\<forall>c \<in> set p. path_safe c"
  shows "url_pathname p = slash # js_join [slash] (resolve_dots [] (split_on slash
    (case p of [] \<Rightarrow> [] | c # cs \<Rightarrow> if c = slash then cs else c # cs)))"
proof -
  have big: "\<forall>c \<in> set p. \<not> char_code c \<le> 32" using safe by (auto simp: path_safe_def)
  have drop: "dropWhile (\<lambda>c. char_code c \<le> 32) q = q" if "set q \<subseteq> set p" for q
    using that big by (cases q) auto
  have kept: "filter (\<lambda>c. char_code c \<notin> {9, 10, 13}) p = p"
    using big by (intro filter_True ballI) (auto dest!: bspec)
  have body: "takeWhile (\<lambda>c. c \<notin> {CHR ''?'', CHR ''#''}) p = p"
    using safe path_unsafe unfolding takeWhile_eq_all_conv by blast
  have enc: "concat (map path_char p) = p"
    using safe by (induction p) (auto simp: path_char_id)
  show ?thesis
    unfolding url_pathname_def Let_def
    by (simp only: drop [of p] drop [of "rev p"] set_rev subset_refl rev_rev_ident kept body enc)
qed

lemma url_pathname_normal:
  assumes "R \<noteq> []" and "\<forall>s \<in> set R. \<not> single_dot s \<and> \<not> double_dot s"
    and "\<forall>s \<in> set R. slash \<notin> set s" and "\<forall>s \<in> set R. \<forall>c \<in> set s. path_safe c"
  shows "url_pathname (slash # js_join [slash] R) = slash # js_join [slash] R"
proof -
  let ?p = "slash # js_join [slash] R"
  have "c = slash \<or> (\<exists>s \<in> set R. c \<in> set s)" if "c \<in> set ?p" for c
    using set_js_join [of "[slash]" R] that by auto
  then have "\<forall>c \<in> set ?p. path_safe c"
    using assms(4) path_safe_slash by blast
  from url_pathname_safe [OF this] show ?thesis
    using assms(1-3) by (simp add: split_on_js_join resolve_dots_id)
qed

lemma url_pathname_parts:
  obtains R where "url_pathname path = slash # js_join [slash] R" and "R \<noteq> []"
    and "\<forall>s \<in> set R. \<not> single_dot s \<and> \<not> double_dot s"
    and "\<forall>s \<in> set R. slash \<notin> set s" and "\<forall>s \<in> set R. \<forall>c \<in> set s. path_safe c"
proof -
  define body where "body = takeWhile (\<lambda>c. c \<notin> {CHR ''?'', CHR ''#''})
    (filter (\<lambda>c. char_code c \<notin> {9, 10, 13}) (rev (dropWhile (\<lambda>c. char_code c \<le> 32)
       (rev (dropWhile (\<lambda>c. char_code c \<le> 32) path)))))"
  define enc where "enc = concat (map path_char body)"
  define rel where "rel = (case enc of [] \<Rightarrow> [] | c # cs \<Rightarrow> if c = slash then cs else c # cs)"
  define R where "R = resolve_dots [] (split_on slash rel)"
  have "\<forall>c \<in> set enc. path_safe c"
    by (auto simp: enc_def dest: path_char_safe)
  then have rel: "\<forall>c \<in> set rel. path_safe c"
    by (auto simp: rel_def split: list.splits if_splits)
  have sub: "set R \<subseteq> set (split_on slash rel) \<union> {[]}"
    using resolve_dots_set [of "[]" "split_on slash rel"] by (simp add: R_def)
  have "url_pathname path = slash # js_join [slash] R"
    unfolding url_pathname_def Let_def body_def [symmetric] enc_def [symmetric]
      rel_def [symmetric] R_def [symmetric] ..
  moreover have "R \<noteq> []" by (simp add: R_def resolve_dots_nonempty)
  moreover have "\<forall>s \<in> set R. \<not> single_dot s \<and> \<not> double_dot s"
    using resolve_dots_no_dots [of "[]"] by (auto simp: R_def)
  moreover have "\<forall>s \<in> set R. slash \<notin> set s"
    using sub by (auto dest: split_on_parts_no_sep)
  moreover have "\<forall>s \<in> set R. \<forall>c \<in> set s. path_safe c"
    using sub rel set_split_on [of _ slash rel] by fastforce
  ultimately show ?thesis using that by blast
qed

lemma url_pathname_idem [simp]: "url_pathname (url_pathname path) = url_pathname path"
proof (rule url_pathname_parts [of path])
  fix R
  assume "url_pathname path = slash # js_join [slash] R" and "R \<noteq> []"
    "\<forall>s \<in> set R. \<not> single_dot s \<and> \<not> double_dot s"
    "\<forall>s \<in> set R. slash \<notin> set s" "\<forall>s \<in> set R. \<forall>c \<in> set s. path_safe c"
  then show ?thesis using url_pathname_normal by metis
qed

lemma match_url_pathname [simp]: "match routes (url_pathname path) = match routes path"
  by (simp add: match_def)

subsection \<open>Navigation among the routes of the application\<close>

lemma app_routes_unfold:
  "setRoutes app_configs =
     [\<lparr>rt_pattern = [Literal [], Literal []], rt_component = ''__redirect:/pipelines'',
       rt_name = ''redirect''\<rparr>,
      \<lparr>rt_pattern = [Literal [], Literal ''pipelines''], rt_component = ''pipeline-list'',
       rt_name = ''pipeline-list''\<rparr>,
      \<lparr>rt_pattern = [Literal [], Literal ''pipelines'', Group ''namespace'', Group ''name''],
       rt_component = ''pipeline-detail'', rt_name = ''pipeline-detail''\<rparr>,
      \<lparr>rt_pattern = [Literal [], Literal ''builder''], rt_component = ''pipeline-canvas'',
       rt_name = ''pipeline-canvas''\<rparr>,
      \<lparr>rt_pattern = [Literal [], Literal ''builder'', Group ''namespace'', Group ''name''],
       rt_component = ''pipeline-canvas'', rt_name = ''pipeline-canvas''\<rparr>,
      \<lparr>rt_pattern = [Literal [], Literal ''storage''], rt_component = ''pvc-list'',
       rt_name = ''pvc-list''\<rparr>,
      \<lparr>rt_pattern = [Literal [], Literal ''secrets''], rt_component = ''secret-list'',
       rt_name = ''secret-list''\<rparr>]"
  by code_simp

definition page_tags :: "string list" where
  "page_tags = [''pipeline-list'', ''pipeline-detail'', ''pipeline-canvas'', ''pvc-list'', ''secret-list'']"

lemma menu_segment:
  assumes "s \<in> {''pipelines'', ''storage'', ''secrets''}"
  shows "\<forall>c \<in> set s. path_safe c" "slash \<notin> set s" "\<not> single_dot s" "\<not> double_dot s" "s \<noteq> []"
  using assms
  by (auto simp: path_safe_def slash_def char_code_def single_dot_def double_dot_def
      toLowerCase_def lower_char_def char_of_eq_iff)

lemma menu_pathname:
  assumes "s \<in> {''pipelines'', ''storage'', ''secrets''}"
  shows "url_pathname (''/'' @ s) = ''/'' @ s"
  using url_pathname_normal [of "[s]"] menu_segment [OF assms] by (simp add: slash_def)

lemma menu_pathnames:
  "url_pathname ''/'' = ''/''" "url_pathname ''/pipelines'' = ''/pipelines''"
  "url_pathname ''/storage'' = ''/storage''" "url_pathname ''/secrets'' = ''/secrets''"
  using url_pathname_normal [of "[[]]"] menu_pathname [of "''pipelines''"]
    menu_pathname [of "''storage''"] menu_pathname [of "''secrets''"]
  by (simp_all add: slash_def)

lemma menu_matches:
  "match (setRoutes app_configs) ''/'' =
     Some \<lparr>rm_route = hd (setRoutes app_configs), rm_params = []\<rparr>"
  "match (setRoutes app_configs) ''/pipelines'' =
     Some \<lparr>rm_route = setRoutes app_configs ! 1, rm_params = []\<rparr>"
  "match (setRoutes app_configs) ''/storage'' =
     Some \<lparr>rm_route = setRoutes app_configs ! 5, rm_params = []\<rparr>"
  "match (setRoutes app_configs) ''/secrets'' =
     Some \<lparr>rm_route = setRoutes app_configs ! 6, rm_params = []\<rparr>"
  unfolding match_def app_routes_unfold menu_pathnames by (simp_all add: slash_def)

lemma match_route_in: "match_route rs segs = Some mt \<Longrightarrow> rm_route mt \<in> set rs"
  by (induction rs) (auto split: option.splits)

lemma match_tag:
  assumes "match (setRoutes app_configs) path = Some mt"
  shows "rt_component (rm_route mt) = ''__redirect:/pipelines'' \<or>
    rt_component (rm_route mt) \<in> set page_tags \<and>
    \<not> startsWith (rt_component (rm_route mt)) redirect_prefix"
proof -
  have "rm_route mt \<in> set (setRoutes app_configs)"
    using assms match_route_in by (auto simp: match_def)
  then show ?thesis
    unfolding app_routes_unfold
    by (auto simp: page_tags_def startsWith_def redirect_prefix_def)
qed

text \<open>What the outlet shows is what the location asks for, and nothing else is in it.\<close>

definition settled :: "App \<Rightarrow> bool" where
  "settled a =
     (app_routes a = setRoutes app_configs \<and>
      app_location a = url_pathname (app_location a) \<and>
      app_currentPath a = app_location a \<and>
      (case match (app_routes a) (app_location a) of
         None \<Rightarrow> False
       | Some mt \<Rightarrow>
           rt_component (rm_route mt) \<in> set page_tags \<and>
           (case app_current a of
              None \<Rightarrow> False
            | Some c \<Rightarrow> elt_tag c = rt_component (rm_route mt) \<and> elt_params c = rm_params mt \<and>
                app_outlet a = Some [c])))"

definition ready :: "App \<Rightarrow> bool" where
  "ready a =
     (app_routes a = setRoutes app_configs \<and>
      app_outlet a = Some (case app_current a of None \<Rightarrow> [] | Some c \<Rightarrow> [c]))"

lemma ready_pushState [simp]: "ready (pushState path a) = ready a"
  by (simp add: ready_def)

lemma settled_ready: "settled a \<Longrightarrow> ready a"
  by (auto simp: settled_def ready_def split: option.splits)

lemma navigate_render:
  assumes "ready a" and "app_location a = url_pathname path"
    and "match (setRoutes app_configs) path = Some mt"
    and "rt_component (rm_route mt) \<in> set page_tags"
  shows "\<exists>b. navigate path a = Some b \<and> settled b \<and> app_location b = app_location a \<and>
    app_history b = app_history a"
proof -
  let ?tag = "rt_component (rm_route mt)"
  let ?b = "renderComponent ?tag (rm_params mt) a"
  have routes: "app_routes a = setRoutes app_configs" using assms(1) by (simp add: ready_def)
  have "?tag \<noteq> ''__redirect:/pipelines''" using assms(4) by (auto simp: page_tags_def)
  then have "\<not> startsWith ?tag redirect_prefix" using match_tag [OF assms(3)] by blast
  with assms(3) routes have nav: "navigate path a = Some ?b"
    by (subst navigate.simps) (simp add: Let_def)
  have "settled ?b"
    using assms
    by (auto simp: ready_def settled_def renderComponent_def updateCurrentPath_def Let_def
        split: option.splits)
  moreover have "app_location ?b = app_location a" "app_history ?b = app_history a"
    by (simp_all add: renderComponent_def updateCurrentPath_def Let_def split: option.split)
  ultimately show ?thesis using nav by blast
qed

lemma navigate_redirect:
  assumes "ready a" and "match (setRoutes app_configs) path = Some mt"
    and "rt_component (rm_route mt) = ''__redirect:/pipelines''"
  shows "navigate path a = navigate ''/pipelines'' (pushState ''/pipelines'' a)"
proof -
  have "startsWith ''__redirect:/pipelines'' redirect_prefix"
    "drop (length redirect_prefix) ''__redirect:/pipelines'' = ''/pipelines''"
    by (simp_all add: startsWith_def redirect_prefix_def)
  with assms show ?thesis
    by (subst navigate.simps) (simp add: ready_def Let_def)
qed

lemma navigate_pipelines:
  assumes "ready a"
  shows "\<exists>b. navigate ''/pipelines'' (pushState ''/pipelines'' a) = Some b \<and> settled b \<and>
    app_history b = app_history a @ [''/pipelines'']"
proof -
  have "rt_component (rm_route \<lparr>rm_route = setRoutes app_configs ! 1, rm_params = []\<rparr>) \<in> set page_tags"
    unfolding app_routes_unfold by (simp add: page_tags_def)
  from navigate_render [OF _ _ menu_matches(2) this, of "pushState ''/pipelines'' a"] assms
  show ?thesis by (auto simp: menu_pathnames)
qed

lemma navigate_settles:
  assumes "ready a" and "app_location a = url_pathname path"
  shows "\<exists>b hops. navigate path a = Some b \<and> settled b \<and>
    app_history b = app_history a @ hops \<and> length hops \<le> 2"
proof (cases "match (setRoutes app_configs) path")
  case (Some mt)
  show ?thesis
  proof (cases "rt_component (rm_route mt) \<in> set page_tags")
    case True
    from navigate_render [OF assms Some True] show ?thesis by fastforce
  next
    case False
    then have "rt_component (rm_route mt) = ''__redirect:/pipelines''"
      using match_tag [OF Some] by blast
    from navigate_redirect [OF assms(1) Some this] navigate_pipelines [OF assms(1)]
    show ?thesis by fastforce
  qed
next
  case None
  then have "path \<noteq> ''/''" using menu_matches(1) by auto
  moreover have "app_routes a = setRoutes app_configs" using assms(1) by (simp add: ready_def)
  ultimately have "navigate path a = navigate ''/'' (pushState ''/'' a)"
    using None by (subst navigate.simps) simp
  also have "\<dots> = navigate ''/pipelines'' (pushState ''/pipelines'' (pushState ''/'' a))"
    using assms(1)
    by (intro navigate_redirect [OF _ menu_matches(1)]) (simp_all add: app_routes_unfold)
  finally show ?thesis
    using navigate_pipelines [of "pushState ''/'' a"] assms(1)
    by (auto intro!: exI [of _ "[''/'', ''/pipelines'']"] simp: menu_pathnames)
qed


lemma initRouter_settles: "\<exists>b. initRouter (page_loaded path) = Some b \<and> settled b"
proof -
  let ?b = "(page_loaded path)\<lparr>app_routes := setRoutes app_configs, app_outlet := Some []\<rparr>"
  have "ready ?b" "app_location ?b = url_pathname (app_location ?b)"
    by (simp_all add: ready_def page_loaded_def)
  from navigate_settles [OF this] show ?thesis by (auto simp: initRouter_def Let_def)
qed

lemma app_step_settles: "settled a \<Longrightarrow> \<exists>b. app_step a e = Some b \<and> settled b"
proof (cases e)
  case (LinkClick href)
  assume "settled a"
  then show ?thesis
    using LinkClick navigate_settles [of "pushState (the href) a" "the href"] settled_ready [of a]
    by (cases href) (auto simp: go_def)
next
  case (PopState path)
  assume a: "settled a"
  let ?b = "updateCurrentPath (a\<lparr>app_location := url_pathname path\<rparr>)"
  have "ready ?b" using settled_ready [OF a] by (simp add: ready_def updateCurrentPath_def)
  moreover have "app_location ?b = url_pathname (app_location ?b)"
    by (simp add: updateCurrentPath_def)
  ultimately show ?thesis
    using navigate_settles [of ?b "app_location ?b"] PopState by (auto simp: Let_def)
next
  case (Go path)
  assume a: "settled a"
  then show ?thesis
    using navigate_settles [of "pushState path a" path] settled_ready [OF a] Go
    by (auto simp: go_def)
qed

text \<open>
  From the first load of any path on, after any links clicked, history
  steps and calls of \<open>go\<close>, the outlet holds exactly one page, the page and the parameters are
  those of the location, and the path the shell marks as current is the location.
\<close>

theorem app_always_settled:
  "case initRouter (page_loaded path) of
     None \<Rightarrow> False
   | Some a \<Rightarrow> (case app_run a events of None \<Rightarrow> False | Some b \<Rightarrow> settled b)"
proof -
  obtain a where a: "initRouter (page_loaded path) = Some a" "settled a"
    using initRouter_settles by blast
  have "case app_run a events of None \<Rightarrow> False | Some b \<Rightarrow> settled b"
    using a(2)
  proof (induction events arbitrary: a)
    case (Cons e es)
    from app_step_settles [OF Cons.prems, of e] obtain b where "app_step a e = Some b" "settled b"
      by blast
    with Cons.IH [of b] show ?case by simp
  qed simp
  with a(1) show ?thesis by simp
qed

subsection \<open>Links to pipelines\<close>

definition k8s_name :: "string \<Rightarrow> bool" where
  "k8s_name s = (s \<noteq> [] \<and> lower_alnum (hd s) \<and> list_all (\<lambda>c. name_char c \<or> c = CHR ''.'') s)"

lemma name_char_safe:
  "name_char c \<or> c = CHR ''.'' \<Longrightarrow> path_safe c \<and> c \<noteq> slash"
  by (auto simp: name_char_def lower_alnum_def is_lower_def is_digit_def path_safe_def slash_def
      char_code_def)

lemma k8s_name_facts:
  assumes "k8s_name s"
  shows "\<forall>c \<in> set s. path_safe c" "slash \<notin> set s" "\<not> single_dot s" "\<not> double_dot s" "s \<noteq> []"
proof -
  show "\<forall>c \<in> set s. path_safe c" "slash \<notin> set s" "s \<noteq> []"
    using assms name_char_safe by (auto simp: k8s_name_def list_all_iff)
  obtain c cs where s: "s = c # cs" and c: "lower_alnum c"
    using assms by (cases s) (auto simp: k8s_name_def)
  have "lower_char c = c \<and> c \<noteq> CHR ''.'' \<and> c \<noteq> CHR ''%''"
    using c by (auto simp: lower_alnum_def is_lower_def is_digit_def lower_char_def char_code_def)
  then show "\<not> single_dot s" "\<not> double_dot s"
    by (auto simp: s single_dot_def double_dot_def toLowerCase_def)
qed

definition detail_link :: "string \<Rightarrow> string \<Rightarrow> string" where
  "detail_link namespace name = ''/pipelines/'' @ namespace @ ''/'' @ name"

lemma pipelines_segment:
  "\<forall>c \<in> set ''pipelines''. path_safe c" "slash \<notin> set ''pipelines''"
  "\<not> single_dot ''pipelines''" "\<not> double_dot ''pipelines''"
  by (rule menu_segment, blast)+

lemma detail_link_pathname:
  assumes "k8s_name ns" and "k8s_name n"
  shows "url_pathname (detail_link ns n) = detail_link ns n"
    and "split_on slash (detail_link ns n) = [[], ''pipelines'', ns, n]"
proof -
  let ?R = "[''pipelines'', ns, n]"
  have join: "detail_link ns n = slash # js_join [slash] ?R"
    by (simp add: detail_link_def slash_def)
  show "url_pathname (detail_link ns n) = detail_link ns n"
    unfolding join
    using k8s_name_facts [OF assms(1)] k8s_name_facts [OF assms(2)] pipelines_segment
    by (intro url_pathname_normal) auto
  have "split_on slash (js_join [slash] ?R) = ?R"
    using k8s_name_facts [OF assms(1)] k8s_name_facts [OF assms(2)] pipelines_segment
    by (intro split_on_js_join) auto
  then show "split_on slash (detail_link ns n) = [[], ''pipelines'', ns, n]"
    unfolding join by simp
qed

lemma match_detail_link:
  assumes "k8s_name ns" and "k8s_name n"
  shows "match (setRoutes app_configs) (detail_link ns n) =
    Some \<lparr>rm_route = setRoutes app_configs ! 2,
          rm_params = [(''namespace'', ns), (''name'', n)]\<rparr>"
  using k8s_name_facts(5) [OF assms(1)] k8s_name_facts(5) [OF assms(2)]
  unfolding match_def detail_link_pathname [OF assms] app_routes_unfold by simp

text \<open>
  The link the list and the builder build for a pipeline is read
  back exactly: it opens the detail page with the namespace and the name it was built from,
  without a redirect.
\<close>

theorem detail_link_roundtrip:
  assumes "k8s_name ns" and "k8s_name n"
  shows "match (setRoutes app_configs) (detail_link ns n) =
    Some \<lparr>rm_route = setRoutes app_configs ! 2,
          rm_params = [(''namespace'', ns), (''name'', n)]\<rparr> \<and>
    rt_component (setRoutes app_configs ! 2) = ''pipeline-detail''"
  unfolding match_detail_link [OF assms] by (simp add: app_routes_unfold)

theorem detail_link_roundtrip_witness:
  "match (setRoutes app_configs) (detail_link ''ci'' ''build.v1-2'') =
     Some \<lparr>rm_route = setRoutes app_configs ! 2,
           rm_params = [(''namespace'', ''ci''), (''name'', ''build.v1-2'')]\<rparr>"
  using detail_link_roundtrip [of "''ci''" "''build.v1-2''"]
  by (simp add: k8s_name_def name_char_def lower_alnum_def is_lower_def is_digit_def char_code_def)

lemma settled_pipelines:
  "settled (the (initRouter (page_loaded ''/pipelines'')))"
  using initRouter_settles [of "''/pipelines''"] by auto


end
