(* ===== verification/List_View.thy ===== *)
theory List_View
  imports K8s_Client
begin

section \<open>What the three lists share\<close>

text \<open>
  The lists of pipelines, volumes and secrets are written alike: each loads its items for the
  current namespace (at once, at every tick of a timer and at every change of namespace), filters
  them by a search text, sorts them and shows one page.  This theory holds the shared state and
  functions; the theories of the lists instantiate them with the functions of each file.

  A load is two steps, since the code awaits the answer: the request is sent for the namespace of
  that moment, and the answer, whenever it comes, replaces the items.
\<close>

subsection \<open>Loading\<close>

record 'a Loader =
  ld_items :: "'a list"
  ld_loading :: bool
  ld_error :: "string option"
  ld_namespace :: string
  ld_pending :: "(nat \<times> string) list"
  ld_next :: nat
  ld_polling :: bool
  ld_listeners :: nat

definition load_start :: "('a, 'b) Loader_scheme \<Rightarrow> ('a, 'b) Loader_scheme" where
  "load_start l =
     l\<lparr>ld_pending := ld_pending l @ [(ld_next l, ld_namespace l)], ld_next := Suc (ld_next l)\<rparr>"

definition load_end ::
    "string \<Rightarrow> nat \<Rightarrow> 'a list outcome \<Rightarrow> ('a, 'b) Loader_scheme \<Rightarrow> ('a, 'b) Loader_scheme" where
  "load_end fallback key result l =
     (if key \<in> fst ` set (ld_pending l)
      then (case result of
              Inr items \<Rightarrow> l\<lparr>ld_items := items, ld_error := None\<rparr>
            | Inl e \<Rightarrow> l\<lparr>ld_error := Some (message_or e fallback)\<rparr>)
           \<lparr>ld_loading := False, ld_pending := filter (\<lambda>(k, ns). k \<noteq> key) (ld_pending l)\<rparr>
      else l)"

definition namespace_changed :: "string \<Rightarrow> ('a, 'b) Loader_scheme \<Rightarrow> ('a, 'b) Loader_scheme" where
  "namespace_changed ns l = load_start (l\<lparr>ld_namespace := ns\<rparr>)"

text \<open>
  \<open>connectedCallback\<close> starts the timer and adds a listener for the change of namespace;
  \<open>disconnectedCallback\<close> stops the timer only.
\<close>

definition list_connected :: "('a, 'b) Loader_scheme \<Rightarrow> ('a, 'b) Loader_scheme" where
  "list_connected l = load_start (l\<lparr>ld_polling := True, ld_listeners := Suc (ld_listeners l)\<rparr>)"

definition list_disconnected :: "('a, 'b) Loader_scheme \<Rightarrow> ('a, 'b) Loader_scheme" where
  "list_disconnected l = l\<lparr>ld_polling := False\<rparr>"

definition poll_tick :: "('a, 'b) Loader_scheme \<Rightarrow> ('a, 'b) Loader_scheme" where
  "poll_tick l = (if ld_polling l then load_start l else l)"

text \<open>The window calls the listener once per registration.\<close>

definition window_namespace :: "string \<Rightarrow> ('a, 'b) Loader_scheme \<Rightarrow> ('a, 'b) Loader_scheme" where
  "window_namespace ns l = (namespace_changed ns ^^ ld_listeners l) l"

datatype 'a load_event =
    ListConnected
  | ListDisconnected
  | PollTick
  | NamespaceChange string
  | Answer nat "'a list outcome"

primrec loader_step ::
    "string \<Rightarrow> ('a, 'b) Loader_scheme \<Rightarrow> 'a load_event \<Rightarrow> ('a, 'b) Loader_scheme" where
  "loader_step fallback l ListConnected = list_connected l"
| "loader_step fallback l ListDisconnected = list_disconnected l"
| "loader_step fallback l PollTick = poll_tick l"
| "loader_step fallback l (NamespaceChange ns) = window_namespace ns l"
| "loader_step fallback l (Answer key result) = load_end fallback key result l"

subsection \<open>Searching, sorting and paging\<close>

datatype SortDirection = Asc | Desc

definition matches_query :: "string \<Rightarrow> string \<Rightarrow> bool" where
  "matches_query query name = (query = [] \<or> str_includes (toLowerCase name) (toLowerCase query))"

definition directed :: "SortDirection \<Rightarrow> ('a \<Rightarrow> 'a \<Rightarrow> int) \<Rightarrow> 'a \<Rightarrow> 'a \<Rightarrow> int" where
  "directed dir cmp a b = (if dir = Asc then cmp a b else - cmp a b)"

definition total_pages :: "int \<Rightarrow> 'a list \<Rightarrow> int" where
  "total_pages pageSize xs = - (- int (length xs) div pageSize)"

definition page_items :: "int \<Rightarrow> int \<Rightarrow> 'a list \<Rightarrow> 'a list" where
  "page_items pageSize currentPage xs =
     (let start = (currentPage - 1) * pageSize in js_slice xs start (start + pageSize))"

datatype page_item = Page int | Ellipsis

definition pagination_range :: "int \<Rightarrow> int \<Rightarrow> page_item list" where
  "pagination_range pages current =
     (if pages \<le> 7 then map Page [1..pages]
      else [Page 1] @ (if current > 3 then [Ellipsis] else []) @
        map Page [max 2 (current - 1)..min (pages - 1) (current + 1)] @
        (if current < pages - 2 then [Ellipsis] else []) @ [Page pages])"

text \<open>The state of a list view.\<close>

record 'a ListView = "'a Loader" +
  lv_searchQuery :: string
  lv_sortDirection :: SortDirection
  lv_currentPage :: int
  lv_pageSize :: int

definition set_page :: "int \<Rightarrow> ('a, 'b) ListView_scheme \<Rightarrow> ('a, 'b) ListView_scheme" where
  "set_page p s = s\<lparr>lv_currentPage := p\<rparr>"

definition set_query :: "string \<Rightarrow> ('a, 'b) ListView_scheme \<Rightarrow> ('a, 'b) ListView_scheme" where
  "set_query q s = s\<lparr>lv_searchQuery := q, lv_currentPage := 1\<rparr>"

definition flip_direction :: "SortDirection \<Rightarrow> SortDirection" where
  "flip_direction d = (if d = Asc then Desc else Asc)"

text \<open>
  Filtering by the search text and sorting by a comparator: every filtered list has this shape.
\<close>

definition filtered ::
    "('a \<Rightarrow> string) \<Rightarrow> (SortDirection \<Rightarrow> 'a \<Rightarrow> 'a \<Rightarrow> int) \<Rightarrow> ('a, 'b) ListView_scheme \<Rightarrow> 'a list" where
  "filtered name cmp s =
     sort_by (cmp (lv_sortDirection s))
       (filter (\<lambda>x. matches_query (lv_searchQuery s) (name x)) (ld_items s))"

lemma mset_filtered:
  "mset (filtered name cmp s) =
     mset (filter (\<lambda>x. matches_query (lv_searchQuery s) (name x)) (ld_items s))"
  by (simp add: filtered_def)

lemma filtered_set_page [simp]: "filtered name cmp (set_page p s) = filtered name cmp s"
  by (simp add: filtered_def set_page_def)

lemma set_page_simps [simp]:
  "lv_currentPage (set_page p s) = p" "lv_pageSize (set_page p s) = lv_pageSize s"
  by (simp_all add: set_page_def)

lemma directed_comparator:
  "comparator cmp carrier \<Longrightarrow> comparator (directed dir cmp) carrier"
  using comparator_uminus [of cmp carrier] by (cases dir) (simp_all add: directed_def [abs_def])

lemma filtered_sorted:
  assumes "comparator (cmp (lv_sortDirection s)) carrier" and "set (ld_items s) \<subseteq> carrier"
  shows "sorted_wrt (\<lambda>a b. cmp (lv_sortDirection s) a b \<le> 0) (filtered name cmp s)"
    and "z \<in> carrier \<Longrightarrow> filter (\<lambda>y. cmp (lv_sortDirection s) y z = 0) (filtered name cmp s) =
      filter (\<lambda>y. cmp (lv_sortDirection s) y z = 0)
        (filter (\<lambda>x. matches_query (lv_searchQuery s) (name x)) (ld_items s))"
proof -
  let ?xs = "filter (\<lambda>x. matches_query (lv_searchQuery s) (name x)) (ld_items s)"
  have sub: "set ?xs \<subseteq> carrier" using assms(2) by auto
  show "sorted_wrt (\<lambda>a b. cmp (lv_sortDirection s) a b \<le> 0) (filtered name cmp s)"
    using comparator.sorted_sort_by [OF assms(1) sub] by (simp add: filtered_def)
  show "z \<in> carrier \<Longrightarrow> filter (\<lambda>y. cmp (lv_sortDirection s) y z = 0) (filtered name cmp s) =
      filter (\<lambda>y. cmp (lv_sortDirection s) y z = 0) ?xs"
    using comparator.stable_sort_by [OF assms(1) sub] by (simp add: filtered_def)
qed

subsection \<open>Times\<close>

text \<open>
  \<open>new Date(iso).getTime()\<close> for the format of Kubernetes timestamps,
  \<open>2024-05-01T12:00:00Z\<close>, as milliseconds since 1970; \<open>None\<close> is \<open>NaN\<close>.  The days up to a date of
  the Gregorian calendar are counted from March, so that the leap day is the last of its year.
\<close>

definition days_from_civil :: "int \<Rightarrow> int \<Rightarrow> int \<Rightarrow> int" where
  "days_from_civil y m d =
     (let y' = (if m \<le> 2 then y - 1 else y); m' = (if m \<le> 2 then m + 9 else m - 3)
      in 365 * y' + y' div 4 - y' div 100 + y' div 400 + (153 * m' + 2) div 5 + d - 1 - 719468)"

definition digits_at :: "nat \<Rightarrow> nat \<Rightarrow> string \<Rightarrow> int option" where
  "digits_at i n s =
     (let t = take n (drop i s)
      in if length t = n \<and> list_all is_digit t then Some (int (dec_val t)) else None)"

definition leap_year :: "int \<Rightarrow> bool" where
  "leap_year y = (y mod 4 = 0 \<and> (y mod 100 \<noteq> 0 \<or> y mod 400 = 0))"

definition month_days :: "int \<Rightarrow> int \<Rightarrow> int" where
  "month_days y m =
     (if m = 2 then (if leap_year y then 29 else 28) else if m \<in> {4, 6, 9, 11} then 30 else 31)"

definition date_time :: "string \<Rightarrow> int option" where
  "date_time s =
     (case (digits_at 0 4 s, digits_at 5 2 s, digits_at 8 2 s, digits_at 11 2 s,
            digits_at 14 2 s, digits_at 17 2 s) of
        (Some y, Some mo, Some d, Some h, Some mi, Some sec) \<Rightarrow>
          if length s = 20 \<and> s ! 4 = CHR ''-'' \<and> s ! 7 = CHR ''-'' \<and> s ! 10 = CHR ''T'' \<and>
             s ! 13 = CHR '':'' \<and> s ! 16 = CHR '':'' \<and> s ! 19 = CHR ''Z'' \<and>
             1 \<le> mo \<and> mo \<le> 12 \<and> 1 \<le> d \<and> d \<le> month_days y mo \<and> h \<le> 23 \<and> mi \<le> 59 \<and> sec \<le> 59
          then Some (1000 * (86400 * days_from_civil y mo d + 3600 * h + 60 * mi + sec))
          else None
      | _ \<Rightarrow> None)"

text \<open>\<open>now\<close> is \<open>new Date()\<close>; how a browser writes a date is the parameter \<open>localeDate\<close>.\<close>

definition format_time :: "(int \<Rightarrow> string) \<Rightarrow> int \<Rightarrow> string \<Rightarrow> string" where
  "format_time localeDate now isoString =
     (case date_time isoString of
        None \<Rightarrow> ''Invalid Date''
      | Some t \<Rightarrow>
          (let diffMins = (now - t) div 60000; diffHours = diffMins div 60; diffDays = diffHours div 24
           in if diffMins < 1 then ''just now''
              else if diffMins < 60 then int_str diffMins @ ''m ago''
              else if diffHours < 24 then int_str diffHours @ ''h ago''
              else if diffDays < 7 then int_str diffDays @ ''d ago''
              else localeDate t))"

subsection \<open>Answers that overtake each other\<close>

definition loader_run ::
    "string \<Rightarrow> ('a, 'b) Loader_scheme \<Rightarrow> 'a load_event list \<Rightarrow> ('a, 'b) Loader_scheme" where
  "loader_run fallback l es = foldl (loader_step fallback) l es"

text \<open>What is known of the items: for which namespace they were asked (a ghost of the run).\<close>

fun shown_namespace :: "('a, 'b) Loader_scheme \<Rightarrow> string option \<Rightarrow> 'a load_event \<Rightarrow> string option" where
  "shown_namespace l ns (Answer key (Inr items)) =
     (case map_of (ld_pending l) key of None \<Rightarrow> ns | Some m \<Rightarrow> Some m)"
| "shown_namespace l ns _ = ns"

fun shown_after ::
    "string \<Rightarrow> ('a, 'b) Loader_scheme \<Rightarrow> string option \<Rightarrow> 'a load_event list \<Rightarrow> string option" where
  "shown_after fallback l ns [] = ns"
| "shown_after fallback l ns (e # es) =
     shown_after fallback (loader_step fallback l e) (shown_namespace l ns e) es"

definition loader_start :: "'a Loader" where
  "loader_start = \<lparr>ld_items = [], ld_loading = True, ld_error = None, ld_namespace = ''default'',
     ld_pending = [], ld_next = 0, ld_polling = False, ld_listeners = 0\<rparr>"

text \<open>
  Nothing ties an answer to the namespace now selected.  When the answer
  for the old namespace comes after the one for the new namespace, the list shows the items of the
  old namespace under the name of the new one, with no load left that would correct it.
\<close>

theorem late_answer_wins:
  "let l = loader_run fallback loader_start
       [ListConnected, NamespaceChange ns, Answer 1 (Inr new_items), Answer 0 (Inr old_items)]
   in ld_namespace l = ns \<and> ld_items l = old_items \<and> ld_pending l = [] \<and>
      shown_after fallback (loader_start :: 'a Loader) None
        [ListConnected, NamespaceChange ns, Answer 1 (Inr new_items), Answer 0 (Inr old_items)] =
        Some ''default''"
  by (simp add: loader_run_def loader_start_def list_connected_def window_namespace_def
      namespace_changed_def load_start_def load_end_def)

definition last_current :: "('a, 'b) Loader_scheme \<Rightarrow> bool" where
  "last_current l = (ld_pending l = [] \<or> snd (last (ld_pending l)) = ld_namespace l)"

definition distinct_keys :: "('a, 'b) Loader_scheme \<Rightarrow> bool" where
  "distinct_keys l =
     (distinct (map fst (ld_pending l)) \<and> (\<forall>r \<in> set (ld_pending l). fst r < ld_next l))"

primrec in_order :: "('a, 'b) Loader_scheme \<Rightarrow> 'a load_event \<Rightarrow> bool" where
  "in_order l ListConnected = True"
| "in_order l ListDisconnected = True"
| "in_order l PollTick = True"
| "in_order l (NamespaceChange ns) = True"
| "in_order l (Answer key result) =
     (case ld_pending l of [] \<Rightarrow> True | r # rs \<Rightarrow> fst r = key)"

fun all_in_order :: "string \<Rightarrow> ('a, 'b) Loader_scheme \<Rightarrow> 'a load_event list \<Rightarrow> bool" where
  "all_in_order fallback l [] = True"
| "all_in_order fallback l (e # es) =
     (in_order l e \<and> all_in_order fallback (loader_step fallback l e) es)"

lemma load_start_ok:
  "distinct_keys l \<Longrightarrow> distinct_keys (load_start l) \<and> last_current (load_start l)"
  by (fastforce simp: distinct_keys_def last_current_def load_start_def less_Suc_eq)

lemma namespaces_ok:
  "distinct_keys l \<and> last_current l \<Longrightarrow>
     distinct_keys ((namespace_changed ns ^^ n) l) \<and> last_current ((namespace_changed ns ^^ n) l)"
proof (induction n)
  case (Suc n)
  let ?l = "(namespace_changed ns ^^ n) l"
  have "distinct_keys (?l\<lparr>ld_namespace := ns\<rparr>)"
    using Suc by (simp add: distinct_keys_def)
  from load_start_ok [OF this] show ?case
    by (simp only: funpow.simps comp_apply namespace_changed_def [of ns ?l])
qed simp

lemma filter_head:
  "distinct (map fst (r # rs)) \<Longrightarrow> filter (\<lambda>(k, ns). k \<noteq> fst r) (r # rs) = rs"
  by (cases r) (force simp: filter_id_conv)

lemma load_end_pending:
  "ld_pending (load_end fallback key result l) =
     (if key \<in> fst ` set (ld_pending l) then filter (\<lambda>(k, ns). k \<noteq> key) (ld_pending l) else ld_pending l)"
  "ld_namespace (load_end fallback key result l) = ld_namespace l"
  "ld_next (load_end fallback key result l) = ld_next l"
  by (simp_all add: load_end_def split: sum.split)

lemma load_end_ok:
  assumes ok: "distinct_keys l" "last_current l" and order: "in_order l (Answer key result)"
  shows "distinct_keys (load_end fallback key result l) \<and>
    last_current (load_end fallback key result l)"
proof (cases "ld_pending l")
  case Nil
  then show ?thesis using ok by (simp add: distinct_keys_def last_current_def load_end_pending)
next
  case (Cons r rs)
  then have "ld_pending (load_end fallback key result l) = rs"
    using ok(1) order filter_head [of r rs]
    by (auto simp: load_end_pending distinct_keys_def split: if_splits)
  then show ?thesis
    using ok Cons by (auto simp: distinct_keys_def last_current_def load_end_pending)
qed

lemma loader_step_ok:
  assumes "distinct_keys l \<and> last_current l" and "in_order l e"
  shows "distinct_keys (loader_step fallback l e) \<and> last_current (loader_step fallback l e)"
proof (cases e)
  case ListConnected
  have "distinct_keys (l\<lparr>ld_polling := True, ld_listeners := Suc (ld_listeners l)\<rparr>)"
    using assms(1) by (simp add: distinct_keys_def)
  from load_start_ok [OF this] show ?thesis by (simp add: ListConnected list_connected_def)
next
  case ListDisconnected
  then show ?thesis
    using assms(1) by (simp add: list_disconnected_def distinct_keys_def last_current_def)
next
  case PollTick
  then show ?thesis using assms(1) load_start_ok [of l] by (simp add: poll_tick_def)
next
  case (NamespaceChange ns)
  then show ?thesis using namespaces_ok [OF assms(1)] by (simp add: window_namespace_def)
next
  case (Answer key result)
  then show ?thesis using assms load_end_ok by auto
qed

lemma loader_run_ok:
  "distinct_keys l \<and> last_current l \<Longrightarrow> all_in_order fallback l es \<Longrightarrow>
     distinct_keys (loader_run fallback l es) \<and> last_current (loader_run fallback l es)"
proof (induction es arbitrary: l)
  case (Cons e es)
  from Cons.prems have "distinct_keys (loader_step fallback l e) \<and> last_current (loader_step fallback l e)"
    by (intro loader_step_ok) simp_all
  from Cons.IH [OF this] Cons.prems(2) show ?case by (simp add: loader_run_def)
qed (simp add: loader_run_def)



definition visits :: "nat \<Rightarrow> 'a load_event list" where
  "visits n = concat (replicate n [ListConnected, ListDisconnected])"

lemma visits_listeners:
  "ld_listeners (loader_run fallback l (visits n)) = ld_listeners l + n"
proof (induction n arbitrary: l)
  case 0
  then show ?case by (simp add: visits_def loader_run_def)
next
  case (Suc n)
  show ?case
    using Suc.IH [of "list_disconnected (list_connected l)"]
    by (simp add: visits_def loader_run_def list_connected_def list_disconnected_def load_start_def)
qed

lemma namespaces_pending:
  "length (ld_pending ((namespace_changed ns ^^ n) l)) = length (ld_pending l) + n"
  by (induction n) (simp_all add: namespace_changed_def load_start_def)

lemma visits_polling:
  "ld_polling (loader_run fallback l (visits n)) = (ld_polling l \<and> n = 0)"
proof (induction n arbitrary: l)
  case 0
  then show ?case by (simp add: visits_def loader_run_def)
next
  case (Suc n)
  show ?case
    using Suc.IH [of "list_disconnected (list_connected l)"]
    by (simp add: visits_def loader_run_def list_connected_def list_disconnected_def load_start_def)
qed

text \<open>
  A list that has left the page goes on listening for the change of
  namespace: after \<open>n\<close> visits one change sends \<open>n\<close> requests.
\<close>

theorem list_listener_leak:
  "let l = loader_run fallback loader_start (visits n)
   in ld_polling l = False \<and>
      length (ld_pending (loader_step fallback l (NamespaceChange ns))) = length (ld_pending l) + n"
proof -
  show ?thesis
    using visits_listeners [of fallback loader_start n]
    by (simp add: Let_def window_namespace_def namespaces_pending visits_polling loader_start_def)
qed

subsection \<open>The interface of a paged list\<close>

text \<open>
  A paged list has the items after filtering, a current page and a page size; going to a page
  writes the current page and nothing the other two read.
\<close>

definition go_to_page ::
    "('s \<Rightarrow> 'a list) \<Rightarrow> ('s \<Rightarrow> int) \<Rightarrow> (int \<Rightarrow> 's \<Rightarrow> 's) \<Rightarrow> int \<Rightarrow> 's \<Rightarrow> 's" where
  "go_to_page items page_size put_page page s =
     (if page \<ge> 1 \<and> page \<le> total_pages (page_size s) (items s) then put_page page s else s)"

lemma ceiling_div:
  assumes "0 < (k::int)" and "0 \<le> n"
  shows "n \<le> k * (- (- n div k))" and "k * (- (- n div k)) < n + k"
proof -
  have "k * (- n div k) + (- n) mod k = - n" by simp
  moreover have "0 \<le> (- n) mod k" "(- n) mod k < k" using assms(1) by simp_all
  moreover have "k * (- (- n div k)) = - (k * (- n div k))" by simp
  ultimately show "n \<le> k * (- (- n div k))" and "k * (- (- n div k)) < n + k" by linarith+
qed

lemma total_pages_bounds:
  assumes "0 < k"
  shows "int (length xs) \<le> k * total_pages k xs" "k * total_pages k xs < int (length xs) + k"
    "0 \<le> total_pages k xs"
proof -
  show le: "int (length xs) \<le> k * total_pages k xs" "k * total_pages k xs < int (length xs) + k"
    using ceiling_div [OF assms, of "int (length xs)"] by (simp_all add: total_pages_def)
  have "0 \<le> k * total_pages k xs" using le(1) by linarith
  then show "0 \<le> total_pages k xs" using assms by (simp add: zero_le_mult_iff)
qed

lemma page_items_take_drop:
  "0 < k \<Longrightarrow> 1 \<le> p \<Longrightarrow> page_items k p xs = take (nat k) (drop (nat ((p - 1) * k)) xs)"
  by (simp add: page_items_def Let_def js_slice_nonneg nat_add_distrib)

lemma take_chunks: "concat (map (\<lambda>i. take k (drop (i * k) xs)) [0..<n]) = take (n * k) xs"
  by (induction n) (simp_all add: take_add [symmetric] add.commute)

lemma upto_upt: "[1..int n] = map (\<lambda>i. int i + 1) [0..<n]"
  by (induction n) (simp_all add: upto_rec2 add.commute)

lemma pages_partition:
  assumes "0 < k"
  shows "concat (map (\<lambda>p. page_items k p xs) [1..total_pages k xs]) = xs"
proof -
  obtain n where n: "total_pages k xs = int n"
    using total_pages_bounds(3) [OF assms, of xs] nonneg_int_cases by blast
  obtain m where m: "k = int m" "0 < m" using assms zero_less_imp_eq_int by blast
  have "page_items k (int i + 1) xs = take m (drop (i * m) xs)" for i
    using page_items_take_drop [OF assms, of "int i + 1" xs] m
    by (simp flip: of_nat_mult)
  then have "concat (map (\<lambda>p. page_items k p xs) [1..total_pages k xs]) =
      concat (map (\<lambda>i. take m (drop (i * m) xs)) [0..<n])"
    by (simp add: n upto_upt comp_def)
  also have "\<dots> = take (n * m) xs" by (rule take_chunks)
  also have "\<dots> = xs"
    using total_pages_bounds(1) [OF assms, of xs] n m
    by (simp add: mult.commute flip: of_nat_mult)
  finally show ?thesis .
qed

lemma page_beyond_empty:
  assumes "0 < k" and "total_pages k xs < p"
  shows "page_items k p xs = []"
proof -
  have "1 \<le> p" using total_pages_bounds(3) [OF assms(1), of xs] assms(2) by linarith
  have "int (length xs) \<le> k * total_pages k xs" by (rule total_pages_bounds [OF assms(1)])
  also have "\<dots> \<le> k * (p - 1)" using assms by (intro mult_left_mono) simp_all
  finally have "length xs \<le> nat ((p - 1) * k)" by (simp add: mult.commute)
  then show ?thesis by (simp add: page_items_take_drop [OF assms(1) \<open>1 \<le> p\<close>])
qed

lemma page_within_nonempty:
  assumes "0 < k" and "1 \<le> p" and "p \<le> total_pages k xs"
  shows "page_items k p xs \<noteq> []" "int (length (page_items k p xs)) \<le> k"
proof -
  have "k * p \<le> k * total_pages k xs" using assms by (intro mult_left_mono) simp_all
  also have "\<dots> < int (length xs) + k" by (rule total_pages_bounds [OF assms(1)])
  finally have "(p - 1) * k < int (length xs)" by (simp add: algebra_simps)
  moreover have "0 \<le> (p - 1) * k" using assms by simp
  ultimately have "nat ((p - 1) * k) < length xs" by linarith
  then show "page_items k p xs \<noteq> []" "int (length (page_items k p xs)) \<le> k"
    using page_items_take_drop [OF assms(1,2), of xs] assms(1) by simp_all
qed

locale paged_list =
  fixes items :: "'s \<Rightarrow> 'a list" and page :: "'s \<Rightarrow> int" and page_size :: "'s \<Rightarrow> int"
    and put_page :: "int \<Rightarrow> 's \<Rightarrow> 's" and ok :: "'s \<Rightarrow> bool"
  assumes size_pos: "ok s \<Longrightarrow> 0 < page_size s"
    and items_set: "items (put_page p s) = items s"
    and size_set: "page_size (put_page p s) = page_size s"
    and page_set: "page (put_page p s) = p"
begin

definition current_page :: "'s \<Rightarrow> 'a list" where
  "current_page s = page_items (page_size s) (page s) (items s)"

definition pages :: "'s \<Rightarrow> int" where
  "pages s = total_pages (page_size s) (items s)"

lemma go_valid:
  "1 \<le> p \<and> p \<le> pages s \<Longrightarrow> page (go_to_page items page_size put_page p s) = p"
  by (simp add: go_to_page_def pages_def page_set)

lemma go_invalid:
  "\<not> (1 \<le> p \<and> p \<le> pages s) \<Longrightarrow> go_to_page items page_size put_page p s = s"
  by (auto simp: go_to_page_def pages_def)

lemma shown_after_go:
  "1 \<le> p \<and> p \<le> pages s \<Longrightarrow>
     current_page (go_to_page items page_size put_page p s) = page_items (page_size s) p (items s)"
  by (simp add: current_page_def go_to_page_def pages_def page_set items_set size_set)

lemma pages_cover:
  "ok s \<Longrightarrow> concat (map (\<lambda>p. page_items (page_size s) p (items s)) [1..pages s]) = items s"
  unfolding pages_def by (rule pages_partition [OF size_pos])

lemma shown_nonempty_iff:
  "ok s \<Longrightarrow> 1 \<le> page s \<Longrightarrow> (current_page s \<noteq> []) = (page s \<le> pages s)"
  using page_beyond_empty [OF size_pos, of s "items s" "page s"]
    page_within_nonempty(1) [OF size_pos, of s "page s" "items s"]
  by (cases "page s \<le> pages s") (auto simp: current_page_def pages_def)

lemma shown_at_most:
  "ok s \<Longrightarrow> 1 \<le> page s \<Longrightarrow> int (length (current_page s)) \<le> page_size s"
  using page_items_take_drop [OF size_pos, of s "page s" "items s"] size_pos [of s]
  by (simp add: current_page_def)

end

subsection \<open>The numbers under a list\<close>

fun well_spaced :: "page_item list \<Rightarrow> bool" where
  "well_spaced [Page a] = True"
| "well_spaced (Page a # Page b # r) = (b = a + 1 \<and> well_spaced (Page b # r))"
| "well_spaced (Page a # Ellipsis # Page b # r) = (a + 1 < b \<and> well_spaced (Page b # r))"
| "well_spaced _ = False"

lemma well_spaced_upto: "a \<le> b \<Longrightarrow> well_spaced (map Page [a..b])"
proof (induction "nat (b - a)" arbitrary: a)
  case 0
  then have "b = a" by simp
  then show ?case by simp
next
  case (Suc n)
  then have "a + 1 \<le> b" by simp
  moreover from this Suc have "well_spaced (map Page [a + 1..b])" by simp
  ultimately show ?case
    by (simp add: upto_rec1 [of a] upto_rec1 [of "a + 1"])
qed

lemma three_pages:
  fixes c n :: int
  assumes "1 \<le> c" and "c \<le> n" and "7 < n"
  shows "[max 2 (c - 1)..min (n - 1) (c + 1)] =
    (if c = 1 then [2] else if c = 2 then [2, 3] else if c = n - 1 then [n - 2, n - 1]
     else if c = n then [n - 1] else [c - 1, c, c + 1])"
  using assms by (auto simp: upto.simps)

text \<open>
  For every page of a list the row of page numbers starts with 1, ends
  with the last page, shows the current page with its neighbours, and is ascending, with an
  ellipsis exactly where numbers are left out; every number in it is a page of the list.
\<close>

theorem pagination_range_ok:
  assumes "1 \<le> current" and "current \<le> pages"
  shows "let r = pagination_range pages current
    in well_spaced r \<and> hd r = Page 1 \<and> last r = Page pages \<and>
       list_all (\<lambda>i. 1 \<le> i \<and> i \<le> pages \<longrightarrow> Page i \<in> set r) [current - 1, current, current + 1] \<and>
       list_all (\<lambda>x. case x of Page i \<Rightarrow> 1 \<le> i \<and> i \<le> pages | Ellipsis \<Rightarrow> True) r"
proof (cases "pages \<le> 7")
  case True
  have "1 \<le> pages" using assms by simp
  then have "[1..pages] = 1 # [2..pages]" "[1..pages] = [1..pages - 1] @ [pages]"
    using upto_rec1 [of 1 pages] upto_rec2 [of 1 pages] by simp_all
  then have "hd [1..pages] = 1" "last [1..pages] = pages" "[1..pages] \<noteq> []"
    by (metis list.sel(1), metis last_snoc, metis list.discI)
  then show ?thesis
    using well_spaced_upto [OF \<open>1 \<le> pages\<close>] True
    by (auto simp: pagination_range_def Let_def hd_map last_map list_all_iff)
next
  case False
  then have n: "7 < pages" by simp
  have range: "pagination_range pages current = [Page 1] @ (if current > 3 then [Ellipsis] else []) @
      map Page [max 2 (current - 1)..min (pages - 1) (current + 1)] @
      (if current < pages - 2 then [Ellipsis] else []) @ [Page pages]"
    using n by (simp add: pagination_range_def)
  consider "current = 1" | "current = 2" | "current = 3" | "3 < current \<and> current < pages - 2"
    | "current = pages - 2" | "current = pages - 1" | "current = pages"
    using assms by linarith
  then show ?thesis
    unfolding range Let_def three_pages [OF assms n]
    by cases (use assms n in simp_all)
qed

theorem pagination_range_ok_witness:
  "well_spaced (pagination_range 12 6) \<and> Page 5 \<in> set (pagination_range 12 6)"
  using pagination_range_ok [of 6 12] by (simp add: Let_def)

subsection \<open>Relative times\<close>

lemma int_div_less:
  fixes a k n :: int
  assumes "0 < k"
  shows "(a div k < n) = (a < n * k)"
proof
  assume "a div k < n"
  then have "k * (a div k) \<le> k * (n - 1)" using assms by (intro mult_left_mono) simp_all
  moreover have "k * (a div k) + a mod k = a" "a mod k < k" using assms by simp_all
  moreover have "k * (n - 1) = n * k - k" by (simp add: algebra_simps)
  ultimately show "a < n * k" by linarith
next
  assume "a < n * k"
  moreover have "k * n \<le> a" if "n \<le> a div k"
  proof -
    have "k * n \<le> k * (a div k)" using that assms by (intro mult_left_mono) simp_all
    also have "\<dots> \<le> a" using mult_div_mod_eq [of k a] pos_mod_sign [OF assms, of a] by linarith
    finally show ?thesis .
  qed
  ultimately show "a div k < n" by (metis mult.commute not_le)
qed

text \<open>
  A past time less than a week old is shown as whole minutes, hours or
  days, rounded down, and never as 0 of a unit; a time in the future is \<open>just now\<close>.
\<close>

theorem format_time_ranges:
  assumes "date_time stamp = Some t"
  shows "format_time localeDate now stamp =
    (if now - t < 60000 then ''just now''
     else if now - t < 3600000 then int_str ((now - t) div 60000) @ ''m ago''
     else if now - t < 86400000 then int_str ((now - t) div 3600000) @ ''h ago''
     else if now - t < 604800000 then int_str ((now - t) div 86400000) @ ''d ago''
     else localeDate t)"
proof -
  let ?d = "now - t"
  have div_lt: "(?d div 60000 < 1) = (?d < 60000)" "(?d div 60000 < 60) = (?d < 3600000)"
    "(?d div 3600000 < 24) = (?d < 86400000)" "(?d div 86400000 < 7) = (?d < 604800000)"
    by (simp_all add: int_div_less)
  have hours: "?d div 60000 div 60 = ?d div 3600000" "?d div 3600000 div 24 = ?d div 86400000"
    by (simp_all flip: zdiv_zmult2_eq)
  show ?thesis
    unfolding format_time_def assms option.case Let_def hours
    by (simp only: div_lt)
qed

theorem format_time_ranges_witness:
  "format_time (\<lambda>t. ''earlier'') 1714565100000 ''2024-05-01T12:00:00Z'' = ''5m ago''"
proof -
  have "date_time ''2024-05-01T12:00:00Z'' = Some 1714564800000" by code_simp
  from format_time_ranges [OF this, of "\<lambda>t. ''earlier''" 1714565100000]
  moreover have "int_str 5 = ''5''" by code_simp
  ultimately show ?thesis by simp
qed

end
