(* ===== verification/Html_View.thy ===== *)
theory Html_View
  imports Web_Encoding
begin

section \<open>Templates\<close>

text \<open>
  What a \<open>render\<close> method returns: a tree of elements with their attributes, their properties and
  the listeners attached to them.  A listener holds the action it runs, a value of a type of the
  component; listeners for typed text, chosen options and check boxes take the new value.  Identifiers
  and icons are kept only where they are computed, style classes also where they decide what is on
  the screen.

  \<open>ClickStop\<close> is a listener that stops the event, \<open>ClickSelf\<close> one that looks whether the event comes
  from its own element, and \<open>KeyEnter\<close> one for the keys Enter and Space that prevents the default
  action.  Interpolated text is a node of its own; a value of 16-bit code units is \<open>Units\<close>.
\<close>

datatype property =
    Attr string string
  | Flag string bool
  | Prop string string
  | PropUnits string jstring

datatype 'a listener =
    Click 'a
  | ClickStop 'a
  | ClickSelf 'a
  | KeyEnter 'a
  | Input "string \<Rightarrow> 'a"
  | InputUnits "jstring \<Rightarrow> 'a"
  | Change "string \<Rightarrow> 'a"
  | Check "bool \<Rightarrow> 'a"
  | Event string 'a

datatype 'a Html =
    Text string
  | Units jstring
  | Elem string "property list" "'a listener list" "'a Html list"

abbreviation node :: "string \<Rightarrow> 'a Html list \<Rightarrow> 'a Html" where
  "node t hs \<equiv> Elem t [] [] hs"

abbreviation labelled :: "string \<Rightarrow> string \<Rightarrow> 'a Html" where
  "labelled t s \<equiv> Elem t [] [] [Text s]"

definition bool_str :: "bool \<Rightarrow> string" where
  "bool_str b = (if b then ''true'' else ''false'')"

subsection \<open>What is on the page\<close>

fun texts :: "'a Html \<Rightarrow> string list" where
  "texts (Text s) = [s]"
| "texts (Units u) = []"
| "texts (Elem t ps ls hs) = concat (map texts hs)"

fun elements :: "'a Html \<Rightarrow> 'a Html list" where
  "elements (Text s) = []"
| "elements (Units u) = []"
| "elements (Elem t ps ls hs) = Elem t ps ls hs # concat (map elements hs)"

fun tag_of :: "'a Html \<Rightarrow> string" where
  "tag_of (Elem t ps ls hs) = t"
| "tag_of _ = []"

fun props_of :: "'a Html \<Rightarrow> property list" where
  "props_of (Elem t ps ls hs) = ps"
| "props_of _ = []"

fun listeners_of :: "'a Html \<Rightarrow> 'a listener list" where
  "listeners_of (Elem t ps ls hs) = ls"
| "listeners_of _ = []"

text \<open>The elements of a list of nodes with a tag.\<close>

definition by_tag :: "string \<Rightarrow> 'a Html list \<Rightarrow> 'a Html list" where
  "by_tag t hs = filter (\<lambda>h. tag_of h = t) (concat (map elements hs))"

text \<open>
  What one sees: the tree without its listeners, the value of a password field replaced by as many
  bullets.
\<close>

definition bullet :: "16 word" where
  "bullet = 0x2022"

definition password_field :: "property list \<Rightarrow> bool" where
  "password_field ps = (Attr ''type'' ''password'' \<in> set ps)"

fun obscure :: "property \<Rightarrow> property" where
  "obscure (PropUnits n v) = PropUnits n (replicate (length v) bullet)"
| "obscure p = p"

fun on_screen :: "'a Html \<Rightarrow> unit Html" where
  "on_screen (Text s) = Text s"
| "on_screen (Units u) = Units u"
| "on_screen (Elem t ps ls hs) =
     Elem t (if password_field ps then map obscure ps else ps) [] (map on_screen hs)"

subsection \<open>What the user can do\<close>

text \<open>
  Every element that is not disabled and not within a disabled one, with the listeners on its way
  to the root: those of the element first, then those of its ancestors.
\<close>

definition disabled :: "property list \<Rightarrow> bool" where
  "disabled ps = (Flag ''disabled'' True \<in> set ps)"

fun chains :: "'a Html \<Rightarrow> ('a Html \<times> 'a listener list list) list" where
  "chains (Text s) = []"
| "chains (Units u) = []"
| "chains (Elem t ps ls hs) =
     (if disabled ps then []
      else (Elem t ps ls hs, [ls]) # map (\<lambda>(e, c). (e, c @ [ls])) (concat (map chains hs)))"

definition all_chains :: "'a Html list \<Rightarrow> ('a Html \<times> 'a listener list list) list" where
  "all_chains hs = concat (map chains hs)"

fun target_acts :: "'a listener \<Rightarrow> 'a list" where
  "target_acts (Click a) = [a]"
| "target_acts (ClickStop a) = [a]"
| "target_acts (ClickSelf a) = [a]"
| "target_acts _ = []"

fun bubble_acts :: "'a listener \<Rightarrow> 'a list" where
  "bubble_acts (Click a) = [a]"
| "bubble_acts (ClickStop a) = [a]"
| "bubble_acts _ = []"

fun is_stop :: "'a listener \<Rightarrow> bool" where
  "is_stop (ClickStop a) = True"
| "is_stop _ = False"

fun key_acts :: "'a listener \<Rightarrow> 'a list" where
  "key_acts (KeyEnter a) = [a]"
| "key_acts _ = []"

text \<open>
  A click runs the listeners of its target and then of the ancestors until one stops the event.
  The result also tells whether the event reaches the listeners of the document.
\<close>

fun bubble :: "'a listener list list \<Rightarrow> 'a list \<times> bool" where
  "bubble [] = ([], True)"
| "bubble (ls # c) =
     (let own = concat (map bubble_acts ls)
      in if list_ex is_stop ls then (own, False)
         else (own @ fst (bubble c), snd (bubble c)))"

fun click_run :: "'a listener list list \<Rightarrow> 'a list \<times> bool" where
  "click_run [] = ([], True)"
| "click_run (ls # c) =
     (let own = concat (map target_acts ls)
      in if list_ex is_stop ls then (own, False)
         else (own @ fst (bubble c), snd (bubble c)))"

definition clicks :: "'a Html list \<Rightarrow> ('a list \<times> bool) list" where
  "clicks hs = map (\<lambda>(e, c). click_run c) (all_chains hs)"

text \<open>
  Enter or Space on an element that has the focus: the listeners for these keys run, and only if
  there is none on the way does the default action follow, the click of a button or a link.
\<close>

definition focusable :: "'a Html \<Rightarrow> bool" where
  "focusable e =
     (tag_of e \<in> {''button'', ''rh-button'', ''a''} \<or> Attr ''tabindex'' ''0'' \<in> set (props_of e))"

definition has_default :: "'a Html \<Rightarrow> bool" where
  "has_default e = (tag_of e \<in> {''button'', ''rh-button'', ''a''})"

definition key_run :: "'a Html \<Rightarrow> 'a listener list list \<Rightarrow> 'a list \<times> bool" where
  "key_run e c =
     (let acts = concat (map key_acts (concat c))
      in if acts \<noteq> [] then (acts, False)
         else if has_default e then click_run c else ([], False))"

definition keys :: "'a Html list \<Rightarrow> ('a list \<times> bool) list" where
  "keys hs = map (\<lambda>(e, c). key_run e c) (filter (\<lambda>(e, c). focusable e) (all_chains hs))"

text \<open>
  The listeners for typed text, for options and for check boxes that can be reached.  A choice can
  only take the values of its options.
\<close>

definition reachable :: "'a Html list \<Rightarrow> 'a listener list" where
  "reachable hs = concat (map (\<lambda>(e, c). listeners_of e) (all_chains hs))"

fun type_acts :: "string \<Rightarrow> 'a listener \<Rightarrow> 'a list" where
  "type_acts v (Input f) = [f v]"
| "type_acts v _ = []"

fun units_acts :: "jstring \<Rightarrow> 'a listener \<Rightarrow> 'a list" where
  "units_acts u (InputUnits f) = [f u]"
| "units_acts u _ = []"

fun check_acts :: "bool \<Rightarrow> 'a listener \<Rightarrow> 'a list" where
  "check_acts b (Check f) = [f b]"
| "check_acts b _ = []"

fun event_acts :: "'a listener \<Rightarrow> 'a list" where
  "event_acts (Event n a) = [a]"
| "event_acts _ = []"

definition typed :: "'a Html list \<Rightarrow> string \<Rightarrow> 'a list" where
  "typed hs v = concat (map (type_acts v) (reachable hs))"

definition typed_units :: "'a Html list \<Rightarrow> jstring \<Rightarrow> 'a list" where
  "typed_units hs u = concat (map (units_acts u) (reachable hs))"

definition checked :: "'a Html list \<Rightarrow> bool \<Rightarrow> 'a list" where
  "checked hs b = concat (map (check_acts b) (reachable hs))"

definition emitted :: "'a Html list \<Rightarrow> 'a list" where
  "emitted hs = concat (map event_acts (reachable hs))"

definition option_value :: "'a Html \<Rightarrow> string list" where
  "option_value h =
     (if tag_of h = ''option''
      then concat (map (\<lambda>p. case p of Attr n v \<Rightarrow> if n = ''value'' then [v] else [] | _ \<Rightarrow> []) (props_of h))
      else [])"

fun options_of :: "'a Html \<Rightarrow> string list" where
  "options_of (Elem t ps ls hs) = concat (map option_value hs)"
| "options_of _ = []"

definition selects :: "'a Html \<Rightarrow> 'a list" where
  "selects e =
     concat (map (\<lambda>l. case l of Change f \<Rightarrow> map f (options_of e) | _ \<Rightarrow> []) (listeners_of e))"

definition chosen :: "'a Html list \<Rightarrow> 'a list" where
  "chosen hs = concat (map (\<lambda>(e, c). selects e) (all_chains hs))"

subsection \<open>Views put together\<close>

lemma all_chains_simps [simp]:
  "all_chains [] = []"
  "all_chains (h # hs) = chains h @ all_chains hs"
  "all_chains (hs @ hs') = all_chains hs @ all_chains hs'"
  by (simp_all add: all_chains_def)

lemma chains_Elem:
  "chains (Elem t ps ls hs) =
     (if disabled ps then []
      else (Elem t ps ls hs, [ls]) # map (\<lambda>(e, c). (e, c @ [ls])) (all_chains hs))"
  by (simp add: all_chains_def)

lemma chains_cases:
  assumes "(e, c) \<in> set (chains (Elem t ps ls hs))"
  obtains "e = Elem t ps ls hs" "c = [ls]" "\<not> disabled ps"
    | c' where "(e, c') \<in> set (all_chains hs)" "c = c' @ [ls]" "\<not> disabled ps"
  using assms unfolding chains_Elem by (auto simp del: chains.simps split: if_splits)

lemma in_all_chains: "x \<in> set (all_chains hs) \<longleftrightarrow> (\<exists>h \<in> set hs. x \<in> set (chains h))"
  by (auto simp: all_chains_def)

lemma clicks_simps [simp]:
  "clicks [] = []"
  "clicks (hs @ hs') = clicks hs @ clicks hs'"
  by (simp_all add: clicks_def)

lemma keys_simps [simp]:
  "keys [] = []"
  "keys (hs @ hs') = keys hs @ keys hs'"
  by (simp_all add: keys_def)

lemma reachable_simps [simp]:
  "reachable [] = []"
  "reachable (hs @ hs') = reachable hs @ reachable hs'"
  by (simp_all add: reachable_def)

lemma chain_within:
  "(e, c) \<in> set (all_chains hs) \<Longrightarrow> \<not> disabled ps \<Longrightarrow> (e, c @ [ls]) \<in> set (chains (Elem t ps ls hs))"
  by (force simp: chains_Elem simp del: chains.simps)

lemma chain_self: "\<not> disabled ps \<Longrightarrow> (Elem t ps ls hs, [ls]) \<in> set (chains (Elem t ps ls hs))"
  by simp

lemma not_disabled_Nil [simp]: "\<not> disabled []"
  by (simp add: disabled_def)

text \<open>
  The actions a view holds: those of its listeners, with every value that may be typed.  Whatever
  the user does runs actions of the view.
\<close>

definition view_acts :: "'a Html list \<Rightarrow> 'a set" where
  "view_acts hs = (\<Union>h \<in> set hs. set_Html h)"

lemma view_acts_simps [simp]:
  "view_acts [] = {}"
  "view_acts (h # hs) = set_Html h \<union> view_acts hs"
  "view_acts (hs @ hs') = view_acts hs \<union> view_acts hs'"
  by (auto simp: view_acts_def)

lemma view_acts_map: "view_acts (map f xs) = (\<Union>x \<in> set xs. set_Html (f x))"
  by (auto simp: view_acts_def)

lemma set_Html_Elem:
  "set_Html (Elem t ps ls hs) = (\<Union>l \<in> set ls. set_listener l) \<union> view_acts hs"
  by (simp add: view_acts_def)

lemma chain_listeners:
  "(e, c) \<in> set (chains h) \<Longrightarrow> ls \<in> set c \<Longrightarrow> l \<in> set ls \<Longrightarrow> set_listener l \<subseteq> set_Html h"
proof (induction h arbitrary: e c)
  case (Elem t ps ls' hs)
  from Elem.prems(1) consider "c = [ls']"
    | h c' where "h \<in> set hs" "(e, c') \<in> set (chains h)" "c = c' @ [ls']"
    by (auto split: if_splits)
  then show ?case
  proof cases
    case 1
    with Elem.prems show ?thesis by (auto simp: set_Html_Elem)
  next
    case (2 h c')
    show ?thesis
    proof (cases "ls = ls'")
      case True
      with Elem.prems show ?thesis by (auto simp: set_Html_Elem)
    next
      case False
      with 2 Elem.prems have "set_listener l \<subseteq> set_Html h" by (intro Elem.IH) auto
      with 2 show ?thesis by (auto simp: set_Html_Elem view_acts_def)
    qed
  qed
qed simp_all

lemma chain_acts:
  assumes "(e, c) \<in> set (all_chains hs)" and "ls \<in> set c" and "l \<in> set ls"
  shows "set_listener l \<subseteq> view_acts hs"
  using assms chain_listeners by (force simp: in_all_chains view_acts_def)

text \<open>The actions a click or a key can run are those of the listeners for them.\<close>

fun press_set :: "'a Html \<Rightarrow> 'a set" where
  "press_set (Text s) = {}"
| "press_set (Units u) = {}"
| "press_set (Elem t ps ls hs) =
     (\<Union>l \<in> set ls. set (target_acts l @ key_acts l)) \<union> (\<Union>h \<in> set hs. press_set h)"

definition press_acts :: "'a Html list \<Rightarrow> 'a set" where
  "press_acts hs = (\<Union>h \<in> set hs. press_set h)"

lemma press_acts_simps [simp]:
  "press_acts [] = {}"
  "press_acts (h # hs) = press_set h \<union> press_acts hs"
  "press_acts (hs @ hs') = press_acts hs \<union> press_acts hs'"
  by (auto simp: press_acts_def)

lemma listener_acts:
  "set (target_acts l) \<subseteq> set_listener l" "set (key_acts l) \<subseteq> set_listener l"
  "set (bubble_acts l) \<subseteq> set (target_acts l)"
  by (cases l; simp)+

lemma press_set_subset: "press_set h \<subseteq> set_Html h"
proof (induction h)
  case (Elem t ps ls hs)
  have "(\<Union>l \<in> set ls. set (target_acts l @ key_acts l)) \<subseteq> (\<Union>l \<in> set ls. set_listener l)"
    using listener_acts(1,2) by fastforce
  moreover have "(\<Union>h \<in> set hs. press_set h) \<subseteq> view_acts hs"
    using Elem by (fastforce simp: view_acts_def)
  ultimately show ?case unfolding set_Html_Elem press_set.simps by blast
qed simp_all

definition way_acts :: "'a listener list list \<Rightarrow> 'a set" where
  "way_acts c = (\<Union>ls \<in> set c. \<Union>l \<in> set ls. set (target_acts l @ key_acts l))"

lemma way_acts_simps [simp]:
  "way_acts [] = {}"
  "way_acts (ls # c) = (\<Union>l \<in> set ls. set (target_acts l @ key_acts l)) \<union> way_acts c"
  "way_acts (c @ c') = way_acts c \<union> way_acts c'"
  by (auto simp: way_acts_def)

lemma way_acts_chain: "(e, c) \<in> set (chains h) \<Longrightarrow> way_acts c \<subseteq> press_set h"
proof (induction h arbitrary: e c)
  case (Elem t ps ls hs)
  from Elem.prems show ?case
  proof (cases rule: chains_cases)
    case 1
    then show ?thesis by auto
  next
    case (2 c')
    then obtain h where "h \<in> set hs" "(e, c') \<in> set (chains h)" by (auto simp: in_all_chains)
    with Elem.IH have "way_acts c' \<subseteq> press_set h" by blast
    with \<open>h \<in> set hs\<close> 2(2) show ?thesis by auto
  qed
qed simp_all

lemma way_acts_view: "(e, c) \<in> set (all_chains hs) \<Longrightarrow> way_acts c \<subseteq> press_acts hs"
  using way_acts_chain by (fastforce simp: in_all_chains press_acts_def)

lemma bubble_subset: "set (fst (bubble c)) \<subseteq> way_acts c"
proof (induction c)
  case (Cons ls c)
  have "set (concat (map bubble_acts ls)) \<subseteq> (\<Union>l \<in> set ls. set (target_acts l @ key_acts l))"
    using listener_acts(3) by fastforce
  with Cons show ?case by (auto simp: Let_def)
qed simp

lemma click_run_subset: "set (fst (click_run c)) \<subseteq> way_acts c"
proof (cases c)
  case (Cons ls c')
  then show ?thesis using bubble_subset [of c'] by (auto simp: Let_def)
qed simp

lemma key_acts_subset: "set (concat (map key_acts (concat c))) \<subseteq> way_acts c"
  by (induction c) auto

lemma key_run_subset: "set (fst (key_run e c)) \<subseteq> way_acts c"
  using click_run_subset [of c] key_acts_subset [of c]
  by (simp only: key_run_def Let_def split: if_split) simp

lemma runs_pressed:
  "r \<in> set (clicks hs) \<Longrightarrow> set (fst r) \<subseteq> press_acts hs"
  "r \<in> set (keys hs) \<Longrightarrow> set (fst r) \<subseteq> press_acts hs"
proof -
  assume "r \<in> set (clicks hs)"
  then obtain e c where "(e, c) \<in> set (all_chains hs)" "r = click_run c" by (auto simp: clicks_def)
  with way_acts_view [of e c hs] click_run_subset [of c] show "set (fst r) \<subseteq> press_acts hs" by simp
next
  assume "r \<in> set (keys hs)"
  then obtain e c where "(e, c) \<in> set (all_chains hs)" "r = key_run e c" by (auto simp: keys_def)
  with way_acts_view [of e c hs] key_run_subset [of e c] show "set (fst r) \<subseteq> press_acts hs" by simp
qed

lemma press_acts_subset: "press_acts hs \<subseteq> view_acts hs"
  using press_set_subset by (fastforce simp: press_acts_def view_acts_def)

lemma runs_within_view:
  "r \<in> set (clicks hs) \<Longrightarrow> set (fst r) \<subseteq> view_acts hs"
  "r \<in> set (keys hs) \<Longrightarrow> set (fst r) \<subseteq> view_acts hs"
  using runs_pressed [of r hs] press_acts_subset [of hs] by blast+

lemma chain_own: "(e, c) \<in> set (chains h) \<Longrightarrow> \<exists>c'. c = listeners_of e # c'"
proof (induction h arbitrary: e c)
  case (Elem t ps ls hs)
  then show ?case by (fastforce split: if_splits)
qed simp_all

lemma reachable_acts:
  assumes "l \<in> set (reachable hs)"
  shows "set_listener l \<subseteq> view_acts hs"
proof -
  from assms obtain e c where e: "(e, c) \<in> set (all_chains hs)" and l: "l \<in> set (listeners_of e)"
    by (auto simp: reachable_def)
  from e have "listeners_of e \<in> set c" using chain_own by (fastforce simp: in_all_chains)
  from chain_acts [OF e this l] show ?thesis .
qed

lemma chosen_within_view:
  assumes "a \<in> set (chosen hs)"
  shows "a \<in> view_acts hs"
proof -
  from assms obtain e c where e: "(e, c) \<in> set (all_chains hs)" and a: "a \<in> set (selects e)"
    by (auto simp: chosen_def)
  from a obtain l where l: "l \<in> set (listeners_of e)"
    "a \<in> set (case l of Change f \<Rightarrow> map f (options_of e) | _ \<Rightarrow> [])"
    by (auto simp: selects_def)
  from e l(1) have "l \<in> set (reachable hs)" by (force simp: reachable_def)
  with reachable_acts have "set_listener l \<subseteq> view_acts hs" by blast
  with l(2) show ?thesis by (auto split: listener.splits)
qed

lemma entry_acts:
  "set (type_acts v l) \<subseteq> set_listener l" "set (units_acts u l) \<subseteq> set_listener l"
  "set (check_acts b l) \<subseteq> set_listener l" "set (event_acts l) \<subseteq> set_listener l"
  by (cases l; simp)+

lemma typed_within_view:
  "a \<in> set (typed hs v) \<Longrightarrow> a \<in> view_acts hs"
  "a \<in> set (typed_units hs u) \<Longrightarrow> a \<in> view_acts hs"
  "a \<in> set (checked hs b) \<Longrightarrow> a \<in> view_acts hs"
  "a \<in> set (emitted hs) \<Longrightarrow> a \<in> view_acts hs"
proof -
  have within: "a \<in> set (concat (map f (reachable hs))) \<Longrightarrow> a \<in> view_acts hs"
    if "\<And>l. set (f l) \<subseteq> set_listener l" for f
    using reachable_acts that by fastforce
  show "a \<in> set (typed hs v) \<Longrightarrow> a \<in> view_acts hs"
    unfolding typed_def by (rule within) (rule entry_acts)
  show "a \<in> set (typed_units hs u) \<Longrightarrow> a \<in> view_acts hs"
    unfolding typed_units_def by (rule within) (rule entry_acts)
  show "a \<in> set (checked hs b) \<Longrightarrow> a \<in> view_acts hs"
    unfolding checked_def by (rule within) (rule entry_acts)
  show "a \<in> set (emitted hs) \<Longrightarrow> a \<in> view_acts hs"
    unfolding emitted_def by (rule within) (rule entry_acts)
qed

text \<open>
  The clicks on an element are those on its parts, each followed by the listeners of the element
  unless the event was stopped, and the click on itself.
\<close>

definition run_through :: "'a listener list \<Rightarrow> 'a list \<times> bool \<Rightarrow> 'a list \<times> bool" where
  "run_through ls r =
     (if snd r then (fst r @ concat (map bubble_acts ls), \<not> list_ex is_stop ls) else r)"

lemma run_through_Nil [simp]: "run_through [] r = r"
  by (cases r) (simp add: run_through_def)

lemma bubble_snoc: "bubble (c @ [ls]) = run_through ls (bubble c)"
  by (induction c) (auto simp: run_through_def Let_def)

lemma click_run_snoc: "c \<noteq> [] \<Longrightarrow> click_run (c @ [ls]) = run_through ls (click_run c)"
  by (cases c) (auto simp: bubble_snoc run_through_def Let_def)

lemma clicks_Elem:
  "clicks [Elem t ps ls hs] =
     (if disabled ps then [] else click_run [ls] # map (run_through ls) (clicks hs))"
proof -
  have "click_run (snd x @ [ls]) = run_through ls (click_run (snd x))" if "x \<in> set (all_chains hs)" for x
  proof -
    obtain e c where x: "x = (e, c)" by (cases x)
    with that have "\<exists>h \<in> set hs. (e, c) \<in> set (chains h)" by (simp add: in_all_chains)
    with chain_own have "c \<noteq> []" by blast
    with x show ?thesis by (simp add: click_run_snoc)
  qed
  then have "map (\<lambda>x. click_run (snd x @ [ls])) (all_chains hs) =
      map (run_through ls) (map (\<lambda>x. click_run (snd x)) (all_chains hs))"
    by simp
  then show ?thesis
    by (simp add: clicks_def chains_Elem case_prod_unfold comp_def del: chains.simps click_run.simps)
qed

lemma clicks_Cons: "hs \<noteq> [] \<Longrightarrow> clicks (h # hs) = clicks [h] @ clicks hs"
  using clicks_simps(2) [of "[h]" hs] by simp

lemma clicks_leaf [simp]: "clicks [Text s] = []" "clicks [Units u] = []"
  by (simp_all add: clicks_def)

lemma clicks_node: "clicks [node t hs] = ([], True) # clicks hs"
proof -
  have "disabled [] = False" by (simp add: disabled_def)
  moreover have "map (run_through []) rs = rs" for rs :: "('a list \<times> bool) list"
    by (simp add: map_idI)
  ultimately show ?thesis by (simp add: clicks_Elem)
qed

lemma clicks_map: "clicks (map f xs) = concat (map (\<lambda>x. clicks [f x]) xs)"
proof (induction xs)
  case (Cons x xs)
  then show ?case using clicks_simps(2) [of "[f x]" "map f xs"] by simp
qed simp

lemma set_clicks_map: "set (clicks (map f xs)) = (\<Union>x \<in> set xs. set (clicks [f x]))"
  by (auto simp: clicks_map)

lemmas clicks_compute = clicks_node clicks_Elem clicks_Cons clicks_map disabled_def run_through_def

lemma keys_Cons: "hs \<noteq> [] \<Longrightarrow> keys (h # hs) = keys [h] @ keys hs"
  using keys_simps(2) [of "[h]" hs] by simp

lemma set_keys_map: "set (keys (map f xs)) = (\<Union>x \<in> set xs. set (keys [f x]))"
proof (induction xs)
  case (Cons x xs)
  then show ?case using keys_simps(2) [of "[f x]" "map f xs"] by simp
qed simp

text \<open>An element without listeners adds nothing to what its parts do when a key is pressed.\<close>

lemma key_run_Nil: "c \<noteq> [] \<Longrightarrow> key_run e (c @ [[]]) = key_run e c"
  by (simp add: key_run_def Let_def click_run_snoc)

lemma keys_plain:
  "r \<in> set (keys [Elem t ps [] hs]) \<Longrightarrow> fst r = [] \<or> r \<in> set (keys hs)"
proof -
  assume "r \<in> set (keys [Elem t ps [] hs])"
  then obtain e c where ec: "(e, c) \<in> set (chains (Elem t ps [] hs))" "focusable e" "r = key_run e c"
    by (auto simp: keys_def)
  from ec(1) show ?thesis
  proof (cases rule: chains_cases)
    case 1
    with ec show ?thesis by (simp add: key_run_def)
  next
    case (2 c')
    then have "c' \<noteq> []" using chain_own by (fastforce simp: in_all_chains)
    with 2 ec have "r = key_run e c'" by (simp add: key_run_Nil)
    with 2(1) ec(2) show ?thesis by (force simp: keys_def)
  qed
qed

text \<open>
  Everything within an element that listens to Enter and Space runs that listener, if there is no
  other for these keys inside.
\<close>

fun key_free :: "'a Html \<Rightarrow> bool" where
  "key_free (Text s) = True"
| "key_free (Units u) = True"
| "key_free (Elem t ps ls hs) = (list_all (\<lambda>l. key_acts l = []) ls \<and> list_all key_free hs)"

lemma key_free_chain:
  "(e, c) \<in> set (chains h) \<Longrightarrow> key_free h \<Longrightarrow> concat (map key_acts (concat c)) = []"
proof (induction h arbitrary: e c)
  case (Elem t ps ls hs)
  then have own: "concat (map key_acts ls) = []" by (simp add: list_all_iff)
  from Elem.prems(1) show ?case
  proof (cases rule: chains_cases)
    case 1
    with own show ?thesis by simp
  next
    case (2 c')
    then obtain h where "h \<in> set hs" "(e, c') \<in> set (chains h)" by (auto simp: in_all_chains)
    moreover from this(1) Elem.prems(2) have "key_free h" by (simp add: list_all_iff)
    ultimately have "concat (map key_acts (concat c')) = []" using Elem.IH by blast
    with own 2(2) show ?thesis by simp
  qed
qed simp_all

lemma keys_captured:
  assumes "r \<in> set (keys [Elem t ps ls hs])" and "concat (map key_acts ls) = [a]"
    and "list_all key_free hs"
  shows "r = ([a], False)"
proof -
  from assms(1) obtain e c where ec: "(e, c) \<in> set (chains (Elem t ps ls hs))" "r = key_run e c"
    by (auto simp: keys_def)
  have "concat (map key_acts (concat c)) = [a]"
    using ec(1)
  proof (cases rule: chains_cases)
    case 1
    with assms(2) show ?thesis by simp
  next
    case (2 c')
    then obtain h where "h \<in> set hs" "(e, c') \<in> set (chains h)" by (auto simp: in_all_chains)
    moreover from this(1) assms(3) have "key_free h" by (simp add: list_all_iff)
    ultimately have "concat (map key_acts (concat c')) = []" using key_free_chain by blast
    with assms(2) 2(2) show ?thesis by simp
  qed
  with ec(2) show ?thesis by (simp add: key_run_def)
qed

text \<open>What can be typed or chosen in an element and its parts.\<close>

lemma reachable_Elem:
  "reachable [Elem t ps ls hs] = (if disabled ps then [] else ls @ reachable hs)"
  by (simp add: reachable_def chains_Elem case_prod_unfold comp_def del: chains.simps)

lemma reachable_leaf [simp]: "reachable [Text x] = []" "reachable [Units u] = []"
  by (simp_all add: reachable_def)

lemma reachable_Cons: "hs \<noteq> [] \<Longrightarrow> reachable (h # hs) = reachable [h] @ reachable hs"
  using reachable_simps(2) [of "[h]" hs] by simp

lemma set_reachable_map: "set (reachable (map f xs)) = (\<Union>x \<in> set xs. set (reachable [f x]))"
proof (induction xs)
  case (Cons x xs)
  then show ?case using reachable_simps(2) [of "[f x]" "map f xs"] by simp
qed simp

lemma chosen_Elem:
  "chosen [Elem t ps ls hs] = (if disabled ps then [] else selects (Elem t ps ls hs) @ chosen hs)"
  by (simp add: chosen_def chains_Elem case_prod_unfold comp_def del: chains.simps)

lemma chosen_simps [simp]:
  "chosen [] = []" "chosen [Text x] = []" "chosen [Units u] = []"
  "chosen (hs @ hs') = chosen hs @ chosen hs'"
  by (simp_all add: chosen_def)

lemma chosen_Cons: "hs \<noteq> [] \<Longrightarrow> chosen (h # hs) = chosen [h] @ chosen hs"
  using chosen_simps(4) [of "[h]" hs] by simp

lemma set_chosen_map: "set (chosen (map f xs)) = (\<Union>x \<in> set xs. set (chosen [f x]))"
proof (induction xs)
  case (Cons x xs)
  then show ?case using chosen_simps(4) [of "[f x]" "map f xs"] by simp
qed simp

lemma selects_simps [simp]:
  "selects (Elem t ps [] hs) = []"
  "selects (Elem t ps (Click a # ls) hs) = selects (Elem t ps ls hs)"
  "selects (Elem t ps (ClickStop a # ls) hs) = selects (Elem t ps ls hs)"
  "selects (Elem t ps (ClickSelf a # ls) hs) = selects (Elem t ps ls hs)"
  "selects (Elem t ps (KeyEnter a # ls) hs) = selects (Elem t ps ls hs)"
  "selects (Elem t ps (Input f # ls) hs) = selects (Elem t ps ls hs)"
  "selects (Elem t ps (InputUnits g # ls) hs) = selects (Elem t ps ls hs)"
  "selects (Elem t ps (Check k # ls) hs) = selects (Elem t ps ls hs)"
  "selects (Elem t ps (Event n a # ls) hs) = selects (Elem t ps ls hs)"
  unfolding selects_def options_of.simps listeners_of.simps by simp_all

text \<open>Parts that listen to nothing: a click on them runs nothing, and a key runs nothing.\<close>

fun still :: "'a Html \<Rightarrow> bool" where
  "still (Text s) = True"
| "still (Units u) = True"
| "still (Elem t ps ls hs) = (ls = [] \<and> list_all still hs)"

lemma still_chain: "(e, c) \<in> set (chains h) \<Longrightarrow> still h \<Longrightarrow> c \<noteq> [] \<and> set c \<subseteq> {[]}"
proof (induction h arbitrary: e c)
  case (Elem t ps ls hs)
  from Elem.prems(1) show ?case
  proof (cases rule: chains_cases)
    case 1
    with Elem.prems show ?thesis by simp
  next
    case (2 c')
    then obtain h where "h \<in> set hs" "(e, c') \<in> set (chains h)" by (auto simp: in_all_chains)
    with Elem 2 show ?thesis by (fastforce simp: list_all_iff)
  qed
qed simp_all

lemma bubble_still: "set c \<subseteq> {[]} \<Longrightarrow> bubble c = ([], True)"
  by (induction c) auto

lemma clicks_still: "list_all still hs \<Longrightarrow> set (clicks hs) \<subseteq> {([], True)}"
proof
  fix r
  assume hs: "list_all still hs" and "r \<in> set (clicks hs)"
  then obtain e c h where "h \<in> set hs" "(e, c) \<in> set (chains h)" "r = click_run c"
    by (auto simp: clicks_def in_all_chains)
  with hs still_chain have "c \<noteq> []" "set c \<subseteq> {[]}" "r = click_run c" by (fastforce simp: list_all_iff)+
  then show "r \<in> {([], True)}" by (cases c) (auto simp: bubble_still)
qed

lemma keys_still: "list_all still hs \<Longrightarrow> set (keys hs) \<subseteq> {([], True), ([], False)}"
proof
  fix r
  assume hs: "list_all still hs" and "r \<in> set (keys hs)"
  then obtain e c h where "h \<in> set hs" "(e, c) \<in> set (chains h)" and r: "r = key_run e c"
    by (auto simp: keys_def in_all_chains)
  with hs still_chain have c: "c \<noteq> []" "set c \<subseteq> {[]}" by (fastforce simp: list_all_iff)+
  from c have "click_run c = ([], True)" by (cases c) (auto simp: bubble_still)
  moreover have "concat c = []" using c(2) by auto
  ultimately show "r \<in> {([], True), ([], False)}"
    unfolding r key_run_def by (simp del: concat_eq_Nil_conv)
qed

text \<open>What can be pressed in a part can be pressed in the whole, if nothing around it listens.\<close>

lemma keys_within:
  assumes "r \<in> set (keys hs)" and "\<not> disabled ps"
  shows "r \<in> set (keys [Elem t ps [] hs])"
proof -
  from assms(1) obtain e c where ec: "(e, c) \<in> set (all_chains hs)" "focusable e" "r = key_run e c"
    by (auto simp: keys_def)
  from ec(1) have "c \<noteq> []" using chain_own by (fastforce simp: in_all_chains)
  with ec(3) have "r = key_run e (c @ [[]])" by (simp add: key_run_Nil)
  moreover from chain_within [OF ec(1) assms(2)]
  have "(e, c @ [[]]) \<in> set (all_chains [Elem t ps [] hs])" by (simp add: all_chains_def)
  ultimately show ?thesis using ec(2) by (force simp: keys_def)
qed

lemma keys_Cons_iff: "r \<in> set (keys (h # hs)) \<longleftrightarrow> r \<in> set (keys [h]) \<or> r \<in> set (keys hs)"
  by (cases "hs = []") (simp_all add: keys_Cons)

lemma clicks_Cons_iff: "r \<in> set (clicks (h # hs)) \<longleftrightarrow> r \<in> set (clicks [h]) \<or> r \<in> set (clicks hs)"
  by (cases "hs = []") (simp_all add: clicks_Cons)

lemma press_list:
  "r \<in> set (clicks [h]) \<Longrightarrow> r \<in> set (clicks (h # hs))" "r \<in> set (clicks hs) \<Longrightarrow> r \<in> set (clicks (h # hs))"
  "r \<in> set (keys [h]) \<Longrightarrow> r \<in> set (keys (h # hs))" "r \<in> set (keys hs) \<Longrightarrow> r \<in> set (keys (h # hs))"
  using clicks_Cons_iff [of r h hs] keys_Cons_iff [of r h hs] by blast+

lemmas clicks_first = press_list(1) and clicks_later = press_list(2)
  and keys_first = press_list(3) and keys_later = press_list(4)

lemma clicks_within:
  "r \<in> set (clicks hs) \<Longrightarrow> \<not> disabled ps \<Longrightarrow> r \<in> set (clicks [Elem t ps [] hs])"
  by (simp add: clicks_Elem)

end
