(* ===== verification/List_Panel.thy ===== *)
theory List_Panel
  imports List_View Html_View
begin

section \<open>What the three lists show alike\<close>

text \<open>
  The panels the three lists share: the spinner of the first load, the error with its button, and
  the line under the table with the numbers of the pages.  The lists of the application repeat this
  part of their templates word for word, up to the noun.
\<close>

definition loading_panel :: "string \<Rightarrow> 'a Html list" where
  "loading_panel message = [node ''div'' [node ''rh-spinner'' [], labelled ''span'' message]]"

definition error_panel :: "string \<Rightarrow> string \<Rightarrow> 'a \<Rightarrow> 'a Html list" where
  "error_panel title message retry =
     [node ''div'' [labelled ''h4'' title, labelled ''p'' message,
        Elem ''rh-button'' [] [Click retry] [Text ''Retry'']]]"

definition page_button :: "(int \<Rightarrow> 'a) \<Rightarrow> int \<Rightarrow> page_item \<Rightarrow> 'a Html" where
  "page_button goto current item =
     (case item of
        Ellipsis \<Rightarrow> labelled ''span'' ''...''
      | Page i \<Rightarrow>
          Elem ''button''
            [Attr ''class'' (''pagination-btn '' @ (if i = current then ''active'' else [])),
             Attr ''aria-label'' (''Page '' @ int_str i),
             Attr ''aria-current'' (if i = current then ''page'' else ''false'')]
            [Click (goto i)] [Text (int_str i)])"

definition pagination_text :: "string \<Rightarrow> int \<Rightarrow> int \<Rightarrow> int \<Rightarrow> string" where
  "pagination_text noun current pageSize n =
     (let first = (current - 1) * pageSize + 1; final = min (current * pageSize) n
      in ''Showing '' @ int_str first @ ''-'' @ int_str final @ '' of '' @ int_str n @ '' '' @ noun)"

definition render_pagination ::
    "string \<Rightarrow> (int \<Rightarrow> 'a) \<Rightarrow> int \<Rightarrow> int \<Rightarrow> int \<Rightarrow> int \<Rightarrow> page_item list \<Rightarrow> 'a Html" where
  "render_pagination noun goto current pageSize n pages numbers =
     node ''div''
       [labelled ''span'' (pagination_text noun current pageSize n),
        node ''div''
          ([Elem ''button'' [Flag ''disabled'' (current = 1), Attr ''aria-label'' ''Previous page'']
              [Click (goto (current - 1))] [node ''rh-icon'' []]] @
           map (page_button goto current) numbers @
           [Elem ''button'' [Flag ''disabled'' (current = pages), Attr ''aria-label'' ''Next page'']
              [Click (goto (current + 1))] [node ''rh-icon'' []]])]"

text \<open>The time in a row, or a dash.\<close>

definition created_text :: "(string \<Rightarrow> string) \<Rightarrow> string option \<Rightarrow> string" where
  "created_text format stamp = (if truthy stamp then format (the stamp) else ''-'')"

text \<open>The arrow beside the name in the lists that sort by name only.\<close>

definition direction_icon :: "SortDirection \<Rightarrow> string" where
  "direction_icon d = (if d = Asc then ''arrow-up'' else ''arrow-down'')"

lemma view_acts_panels [simp]:
  "view_acts (loading_panel m) = {}" "view_acts (error_panel t m a) = {a}"
  by (auto simp: loading_panel_def error_panel_def)

subsection \<open>Parts of the dialogs\<close>

text \<open>
  A dialog: a click beside it or on its cross closes it.
\<close>

definition dialog :: "'a \<Rightarrow> string \<Rightarrow> 'a Html list \<Rightarrow> 'a Html list \<Rightarrow> 'a Html" where
  "dialog close title body footer =
     Elem ''div'' [] [ClickSelf close]
       [Elem ''div'' [Attr ''role'' ''dialog''] []
          [node ''div'' [labelled ''h2'' title,
             Elem ''button'' [Attr ''aria-label'' ''Close''] [Click close] [node ''rh-icon'' []]],
           node ''div'' body, node ''div'' footer]]"

text \<open>A choice with its options: value, text, and whether it is the one selected at first.\<close>

definition choice ::
    "string \<Rightarrow> (string \<Rightarrow> 'a) \<Rightarrow> (string \<times> string \<times> bool) list \<Rightarrow> 'a Html" where
  "choice v act options =
     Elem ''select'' [Prop ''value'' v] [Change act]
       (map (\<lambda>(x, t, b). Elem ''option'' [Attr ''value'' x, Flag ''selected'' b] [] [Text t]) options)"

definition form_error :: "string option \<Rightarrow> 'a Html list" where
  "form_error e = (if truthy e then [labelled ''div'' (the e)] else [])"

lemma chosen_choice:
  fixes act :: "string \<Rightarrow> 'a"
  shows "set (chosen [choice v act options]) = act ` fst ` set options"
proof -
  let ?option = "(\<lambda>(x, t, b). Elem ''option'' [Attr ''value'' x, Flag ''selected'' b] [] [Text t])
    :: string \<times> string \<times> bool \<Rightarrow> 'a Html"
  have "concat (map option_value (map ?option options)) = map fst options"
    by (induction options) (auto simp: option_value_def)
  moreover have "set (chosen (map ?option options)) = {}"
    unfolding set_chosen_map by (auto simp: chosen_Elem disabled_def)
  ultimately show ?thesis
    by (simp add: choice_def chosen_Elem selects_def image_image disabled_def del: map_map)
qed

lemma set_Html_choice: "set_Html (choice v act options) = range act"
  by (auto simp: choice_def)

lemma chosen_form_error [simp]: "chosen (form_error e) = []"
  by (simp add: form_error_def chosen_Elem)

lemma reachable_options:
  "reachable (map (\<lambda>(x, t, b). Elem ''option'' [Attr ''value'' x, Flag ''selected'' b] [] [Text t]) options) = []"
  (is "reachable (map ?f options) = []")
proof -
  have "set (reachable (map ?f options)) = {}"
    unfolding set_reachable_map by (auto simp: reachable_Elem disabled_def)
  then show ?thesis by simp
qed

lemma reachable_choice [simp]: "reachable [choice x act options] = [Change act]"
  by (simp add: choice_def reachable_Elem reachable_options disabled_def)

lemma reachable_form_error [simp]: "reachable (form_error e) = []"
  by (simp add: form_error_def reachable_Elem)

subsection \<open>Which pages the controls lead to\<close>

lemma clicks_page_button:
  "clicks [page_button goto current item] =
     (case item of Ellipsis \<Rightarrow> [([], True)] | Page i \<Rightarrow> [([goto i], True)])"
  by (simp add: page_button_def clicks_compute split: page_item.split)

text \<open>The actions that a click on a control runs.\<close>

definition click_acts :: "'a Html list \<Rightarrow> 'a set" where
  "click_acts hs = (\<Union>r \<in> set (clicks hs). set (fst r))"

lemma click_acts_simps [simp]:
  "click_acts [] = {}"
  "click_acts (hs @ hs') = click_acts hs \<union> click_acts hs'"
  by (simp_all add: click_acts_def)

lemma click_acts_node: "click_acts [node t hs] = click_acts hs"
  by (simp add: click_acts_def clicks_node)

lemma click_acts_pagination:
  "click_acts [render_pagination noun goto current pageSize n pages numbers] =
     (if current = 1 then {} else {goto (current - 1)}) \<union>
     {goto i | i. Page i \<in> set numbers} \<union>
     (if current = pages then {} else {goto (current + 1)})"
proof -
  have icon: "clicks [node ''rh-icon'' []] = [([], True)]" by (simp add: clicks_node)
  have arrow: "click_acts [Elem ''button'' [Flag ''disabled'' b, Attr ''aria-label'' l] [Click a]
      [node ''rh-icon'' []]] = (if b then {} else {a})" for b l a
    by (simp add: click_acts_def clicks_Elem disabled_def run_through_def icon)
  have numbers: "click_acts (map (page_button goto current) numbers) = {goto i | i. Page i \<in> set numbers}"
    by (auto simp: click_acts_def clicks_map clicks_page_button split: page_item.splits)
  have "click_acts [render_pagination noun goto current pageSize n pages numbers] =
      click_acts ([Elem ''button'' [Flag ''disabled'' (current = 1), Attr ''aria-label'' ''Previous page'']
              [Click (goto (current - 1))] [node ''rh-icon'' []]] @
           map (page_button goto current) numbers @
           [Elem ''button'' [Flag ''disabled'' (current = pages), Attr ''aria-label'' ''Next page'']
              [Click (goto (current + 1))] [node ''rh-icon'' []]])"
    by (simp add: render_pagination_def click_acts_def clicks_node clicks_Cons)
  then show ?thesis unfolding click_acts_simps arrow numbers by auto
qed

text \<open>A click there runs one action at most, and the event goes on to the document.\<close>

lemma clicks_pagination:
  "r \<in> set (clicks [render_pagination noun goto current pageSize n pages numbers]) \<Longrightarrow>
     snd r \<and> (fst r = [] \<or> (\<exists>i. fst r = [goto i]))"
proof -
  define R :: "('a list \<times> bool) set" where "R = {([], True)} \<union> {([goto i], True) | i. True}"
  have "set (clicks [page_button goto current x]) \<subseteq> R" for x
    by (cases x) (auto simp: clicks_page_button R_def)
  then have numbers: "set (clicks (map (page_button goto current) numbers)) \<subseteq> R"
    unfolding set_clicks_map by blast
  have icon: "clicks [node ''rh-icon'' []] = [([], True)]" by (simp add: clicks_node)
  have arrow: "set (clicks [Elem ''button'' ps [Click (goto i)] [node ''rh-icon'' []]]) \<subseteq> R" for ps i
    by (auto simp: clicks_Elem run_through_def icon R_def)
  have "([], True) \<in> R" by (simp add: R_def)
  then have "set (clicks [render_pagination noun goto current pageSize n pages numbers]) \<subseteq> R"
    unfolding render_pagination_def clicks_node
    by (simp add: clicks_node clicks_Cons numbers arrow)
  moreover have "snd x \<and> (fst x = [] \<or> (\<exists>i. fst x = [goto i]))" if "x \<in> R" for x
    using that by (auto simp: R_def)
  ultimately show "r \<in> set (clicks [render_pagination noun goto current pageSize n pages numbers]) \<Longrightarrow>
     snd r \<and> (fst r = [] \<or> (\<exists>i. fst r = [goto i]))"
    by blast
qed

lemma set_page_button: "set_Html (page_button goto current x) \<subseteq> range goto"
  by (cases x) (auto simp: page_button_def)

lemma set_pagination:
  "set_Html (render_pagination noun goto current pageSize n pages numbers) \<subseteq> range goto"
  using set_page_button [of goto current] by (fastforce simp: render_pagination_def)

subsection \<open>The controls reach every page and no other\<close>

text \<open>One click on a control under the table, from page to page.\<close>

inductive page_click :: "string \<Rightarrow> int \<Rightarrow> int \<Rightarrow> int \<Rightarrow> int \<Rightarrow> int \<Rightarrow> bool"
  for noun pageSize n pages where
  click: "c' \<in> click_acts [render_pagination noun (\<lambda>i. i) c pageSize n pages (pagination_range pages c)] \<Longrightarrow>
    page_click noun pageSize n pages c c'"

inductive_simps page_click_iff: "page_click noun pageSize n pages c c'"

lemma range_pages:
  assumes "1 \<le> c" and "c \<le> pages" and "Page i \<in> set (pagination_range pages c)"
  shows "1 \<le> i \<and> i \<le> pages"
  using assms by (auto simp: pagination_range_def split: if_splits)

lemma page_click_valid:
  assumes "1 \<le> c" and "c \<le> pages"
  shows "page_click noun pageSize n pages c c' \<Longrightarrow> 1 \<le> c' \<and> c' \<le> pages"
  using assms range_pages [OF assms]
  by (auto simp: page_click_iff click_acts_pagination split: if_splits)

lemma page_click_next: "c \<noteq> pages \<Longrightarrow> page_click noun pageSize n pages c (c + 1)"
  and page_click_previous: "c \<noteq> 1 \<Longrightarrow> page_click noun pageSize n pages c (c - 1)"
  by (simp_all add: page_click_iff click_acts_pagination)

lemma page_clicks_up:
  assumes "c + int k \<le> pages"
  shows "(page_click noun pageSize n pages)\<^sup>*\<^sup>* c (c + int k)"
  using assms
proof (induction k)
  case (Suc k)
  then have "(page_click noun pageSize n pages)\<^sup>*\<^sup>* c (c + int k)" by simp
  moreover have "page_click noun pageSize n pages (c + int k) (c + int k + 1)"
    using Suc.prems by (intro page_click_next) simp
  ultimately show ?case by (simp add: rtranclp.rtrancl_into_rtrancl algebra_simps)
qed simp

lemma page_clicks_down:
  assumes "1 \<le> c - int k"
  shows "(page_click noun pageSize n pages)\<^sup>*\<^sup>* c (c - int k)"
  using assms
proof (induction k)
  case (Suc k)
  then have "(page_click noun pageSize n pages)\<^sup>*\<^sup>* c (c - int k)" by simp
  moreover have "page_click noun pageSize n pages (c - int k) (c - int k - 1)"
    using Suc.prems by (intro page_click_previous) simp
  ultimately show ?case by (simp add: rtranclp.rtrancl_into_rtrancl algebra_simps)
qed simp

text \<open>
  From any page of a list the controls under the table lead, by some clicks,
  to every page of the list, and never to a number that is not a page.
\<close>

theorem page_controls:
  assumes "1 \<le> c" and "c \<le> pages"
  shows "{c'. (page_click noun pageSize n pages)\<^sup>*\<^sup>* c c'} = {1..pages}"
proof (intro equalityI subsetI)
  fix d assume "d \<in> {c'. (page_click noun pageSize n pages)\<^sup>*\<^sup>* c c'}"
  then have "(page_click noun pageSize n pages)\<^sup>*\<^sup>* c d" by simp
  then have "1 \<le> d \<and> d \<le> pages"
    by (induction rule: rtranclp_induct) (use assms page_click_valid in blast)+
  then show "d \<in> {1..pages}" by simp
next
  fix d assume d: "d \<in> {1..pages}"
  show "d \<in> {c'. (page_click noun pageSize n pages)\<^sup>*\<^sup>* c c'}"
  proof (cases "c \<le> d")
    case True
    then show ?thesis using page_clicks_up [of c "nat (d - c)" pages] d by simp
  next
    case False
    then show ?thesis using page_clicks_down [of c "nat (c - d)" noun pageSize n pages] d by simp
  qed
qed

theorem page_controls_witness: "(page_click ''PVCs'' 10 95 10)\<^sup>*\<^sup>* 4 9"
  using page_controls [of 4 10 "''PVCs''" 10 95] by (simp add: set_eq_iff)

end
