(* ===== verification/Shell_View.thy ===== *)
theory Shell_View
  imports App_Router List_Panel
begin

section \<open>The view of the shell (\<open>app-shell.ts\<close>, \<open>render\<close>)\<close>

text \<open>
  The template of the shell around the outlet: the choice of the namespace and the links to the
  pages.  The outlet itself is the slot of the template.
\<close>

subsection \<open>The template\<close>

datatype shell_action = ShNav string | ShNamespace string

definition nav_link :: "App \<Rightarrow> string \<Rightarrow> string \<Rightarrow> shell_action Html" where
  "nav_link a path title =
     Elem ''rh-navigation-link'' [Attr ''href'' path, Flag ''current-page'' (isActive a path)]
       [Click (ShNav path)] [node ''rh-icon'' [], Text title]"

definition namespace_select :: "AppShell \<Rightarrow> shell_action Html" where
  "namespace_select sh =
     choice (sh_namespace sh) ShNamespace (map (\<lambda>ns. (ns, ns, ns = sh_namespace sh)) (sh_namespaces sh))"

definition shell_render :: "App \<Rightarrow> AppShell \<Rightarrow> shell_action Html list" where
  "shell_render a sh =
     [Elem ''a'' [Attr ''href'' ''#main-content'', Attr ''class'' ''skip-link''] [] [Text ''Skip to main content''],
      node ''rh-navigation-primary''
        [Elem ''a'' [Attr ''slot'' ''logo'', Attr ''href'' ''/'', Attr ''class'' ''logo''] [Click (ShNav ''/pipelines'')]
           [labelled ''span'' ''JobRunner'']],
      Elem ''div'' [Attr ''class'' ''layout''] []
        [Elem ''aside'' [Attr ''class'' ''sidebar'', Attr ''role'' ''navigation''] []
           [Elem ''div'' [Attr ''class'' ''sidebar-section''] []
              [Elem ''span'' [Attr ''class'' ''sidebar-label''] [] [Text ''Namespace''], namespace_select sh],
            Elem ''div'' [Attr ''class'' ''nav-section''] []
              [node ''rh-navigation-vertical''
                 [nav_link a ''/pipelines'' ''Pipelines'', nav_link a ''/storage'' ''Storage'',
                  nav_link a ''/secrets'' ''Secrets'']]],
         Elem ''main'' [Attr ''role'' ''main''] []
           [Elem ''div'' [Attr ''class'' ''main-container''] [] [node ''slot'' []]]]]"

subsection \<open>What an action does\<close>

definition shell_do :: "shell_action \<Rightarrow> App \<times> AppShell \<Rightarrow> (App \<times> AppShell) option" where
  "shell_do act = (\<lambda>(a, sh).
     case act of
       ShNav path \<Rightarrow> map_option (\<lambda>b. (b, sh)) (handleNavClick path a)
     | ShNamespace v \<Rightarrow> Some (a, fst (handleNamespaceChange v sh)))"

subsection \<open>The links\<close>

text \<open>The links that are marked as the current page.\<close>

definition link_paths :: "'a Html \<Rightarrow> string list" where
  "link_paths h = concat (map (\<lambda>p. case p of Attr n v \<Rightarrow> if n = ''href'' then [v] else [] | _ \<Rightarrow> []) (props_of h))"

definition marked_links :: "'a Html list \<Rightarrow> string list" where
  "marked_links hs =
     concat (map link_paths
       (filter (\<lambda>h. Flag ''current-page'' True \<in> set (props_of h)) (by_tag ''rh-navigation-link'' hs)))"

definition page_of_link :: "string \<Rightarrow> string" where
  "page_of_link path =
     (if path = ''/storage'' then ''pvc-list''
      else if path = ''/secrets'' then ''secret-list'' else ''pipeline-list'')"

lemma by_tag_simps:
  "by_tag t [] = []" "by_tag t (g # h # hs) = by_tag t [g] @ by_tag t (h # hs)"
  "by_tag t [Elem u ps ls hs] = (if u = t then [Elem u ps ls hs] else []) @ by_tag t hs"
  "by_tag t [Text s] = []"
  by (simp_all add: by_tag_def)

lemma by_tag_choice:
  assumes "t \<noteq> ''select''" and "t \<noteq> ''option''"
  shows "by_tag t [choice v act options] = []"
proof -
  have "by_tag t (map (\<lambda>(x, s, b). Elem ''option'' [Attr ''value'' x, Flag ''selected'' b] [] [Text s]) options) = []"
    using assms(2) by (induction options) (auto simp: by_tag_def)
  then show ?thesis using assms(1) by (simp add: choice_def by_tag_simps)
qed

lemma by_tag_nav_link: "by_tag ''rh-navigation-link'' [nav_link a path title] = [nav_link a path title]"
  by (simp add: nav_link_def by_tag_simps)

lemma shell_links:
  "by_tag ''rh-navigation-link'' (shell_render a sh) =
     [nav_link a ''/pipelines'' ''Pipelines'', nav_link a ''/storage'' ''Storage'',
      nav_link a ''/secrets'' ''Secrets'']"
  by (simp add: shell_render_def by_tag_simps by_tag_nav_link namespace_select_def by_tag_choice)

lemma marked_shell:
  "marked_links (shell_render a sh) = filter (isActive a) [''/pipelines'', ''/storage'', ''/secrets'']"
  unfolding marked_links_def shell_links by (simp add: nav_link_def link_paths_def)

lemma run_through_quiet:
  "map (run_through []) rs = rs" "map (run_through [Change act]) rs = rs"
  by (auto simp: run_through_def intro!: map_idI)

lemma clicks_choice: "set (clicks [choice v act options]) \<subseteq> {([], True)}"
proof -
  have parts: "set (clicks (map (\<lambda>(x, s, b). Elem ''option'' [Attr ''value'' x, Flag ''selected'' b] []
      [Text s]) options)) \<subseteq> {([], True)}"
    by (auto simp: set_clicks_map clicks_compute)
  have own: "click_run [[Change act]] = ([], True)" by simp
  show ?thesis
    using parts unfolding choice_def clicks_Elem run_through_quiet own by (simp add: disabled_def)
qed

lemma shell_clicks:
  assumes "r \<in> set (clicks (shell_render a sh))"
  shows "r = ([], True) \<or> (\<exists>path \<in> {''/pipelines'', ''/storage'', ''/secrets''}. r = ([ShNav path], True))"
proof -
  define R :: "(shell_action list \<times> bool) set" where
    "R = insert ([], True) ((\<lambda>path. ([ShNav path], True)) ` {''/pipelines'', ''/storage'', ''/secrets''})"
  have nav: "clicks [nav_link a path title] = [([ShNav path], True), ([ShNav path], True)]" for path title
    by (simp add: nav_link_def clicks_compute)
  have choice: "set (clicks [namespace_select sh]) \<subseteq> R"
    using clicks_choice [of "sh_namespace sh" ShNamespace] unfolding namespace_select_def R_def by blast
  have "set (clicks (shell_render a sh)) \<subseteq> R"
    using choice
    by (simp add: shell_render_def clicks_Cons clicks_node clicks_Elem nav disabled_def
        run_through_quiet run_through_def [of "[Click x]" for x]) (simp add: R_def)
  with assms show ?thesis unfolding R_def by blast
qed

lemma nav_opens:
  assumes "settled a" and "path \<in> {''/pipelines'', ''/storage'', ''/secrets''}"
  shows "\<exists>b c. go path a = Some b \<and> settled b \<and> app_location b = path \<and> app_outlet b = Some [c] \<and>
    elt_tag c = page_of_link path"
proof -
  have path: "url_pathname path = path" using assms(2) menu_pathnames by blast
  obtain mt where mt: "match (setRoutes app_configs) path = Some mt" "rt_component (rm_route mt) = page_of_link path"
    using assms(2) menu_matches unfolding app_routes_unfold by (auto simp: page_of_link_def)
  then have "rt_component (rm_route mt) \<in> set page_tags" by (simp add: page_of_link_def page_tags_def)
  from navigate_render [OF _ _ mt(1) this, of "pushState path a"] settled_ready [OF assms(1)]
  obtain b where b: "go path a = Some b" "settled b" "app_location b = path"
    by (auto simp: go_def path)
  moreover from b(2) have "app_routes b = setRoutes app_configs" by (simp add: settled_def)
  ultimately show ?thesis using mt b(2) by (auto simp: settled_def split: option.splits)
qed



end
