(* ===== verification/Row_Editor.thy ===== *)
theory Row_Editor
  imports Js_Prelude
begin

section \<open>Editors of rows\<close>

text \<open>
  Three components edit a list of rows that lives somewhere inside their state: the variables of
  a step, the variables of the pod template and the entries of a secret.  They read the rows,
  compute a new list (\<open>[...rows, blank]\<close>, \<open>rows.filter((_, i) => i !== index)\<close>,
  \<open>rows.map((r, i) => i === index ? f(r) : r)\<close>) and write it back.  The locale states what reading
  and writing must promise, and proves once that such an editor behaves as a list.
\<close>

datatype 'r row_op = AddRow 'r | DropRow nat | EditRow nat "'r \<Rightarrow> 'r"

primrec row_result :: "'r row_op \<Rightarrow> 'r list \<Rightarrow> 'r list" where
  "row_result (AddRow r) rs = rs @ [r]"
| "row_result (DropRow i) rs = remove_at i rs"
| "row_result (EditRow i f) rs = map_at i f rs"

definition row_edit :: "('s \<Rightarrow> 'r list) \<Rightarrow> ('r list \<Rightarrow> 's \<Rightarrow> 's) \<Rightarrow> 'r row_op \<Rightarrow> 's \<Rightarrow> 's" where
  "row_edit get put op s = put (row_result op (get s)) s"

text \<open>The same operations with their effect written on positions.\<close>

primrec row_spec :: "'r row_op \<Rightarrow> 'r list \<Rightarrow> 'r list" where
  "row_spec (AddRow r) rs = rs @ [r]"
| "row_spec (DropRow i) rs = take i rs @ drop (Suc i) rs"
| "row_spec (EditRow i f) rs = (if i < length rs then rs[i := f (rs ! i)] else rs)"

lemma row_op_spec: "row_result op rs = row_spec op rs"
  by (cases op) (simp_all add: remove_at_take_drop map_at_list_update map_at_beyond)

locale row_editor =
  fixes get :: "'s \<Rightarrow> 'r list" and put :: "'r list \<Rightarrow> 's \<Rightarrow> 's" and ok :: "'s \<Rightarrow> bool"
  assumes get_put: "ok s \<Longrightarrow> get (put rs s) = rs"
    and ok_put: "ok s \<Longrightarrow> ok (put rs s)"
    and put_put: "ok s \<Longrightarrow> put rs (put qs s) = put rs s"
begin

lemma get_edit: "ok s \<Longrightarrow> get (row_edit get put op s) = row_spec op (get s)"
  by (simp add: row_edit_def get_put row_op_spec)

lemma ok_edit: "ok s \<Longrightarrow> ok (row_edit get put op s)"
  by (simp add: row_edit_def ok_put)

lemma edits:
  "ok s \<Longrightarrow> ok (foldl (\<lambda>s op. row_edit get put op s) s ops) \<and>
     get (foldl (\<lambda>s op. row_edit get put op s) s ops) =
       foldl (\<lambda>rs op. row_spec op rs) (get s) ops"
  by (induction ops arbitrary: s) (simp_all add: ok_edit get_edit)

lemma edits_elsewhere:
  assumes keep: "\<And>rs s. ok s \<Longrightarrow> rest (put rs s) = rest s"
  shows "ok s \<Longrightarrow> rest (foldl (\<lambda>s op. row_edit get put op s) s ops) = rest s"
  by (induction ops arbitrary: s) (simp_all add: ok_edit, simp add: row_edit_def keep)

lemma add_then_drop:
  "ok s \<Longrightarrow> row_edit get put (DropRow (length (get s))) (row_edit get put (AddRow r) s) =
     put (get s) s"
  by (simp add: row_edit_def get_put put_put remove_at_snoc)

end

end
