(* ===== verification/Shared_Widgets.thy ===== *)
theory Shared_Widgets
  imports Pipeline_Types
begin

section \<open>Shared widgets (\<open>ui/src/components/shared\<close>)\<close>

text \<open>
  The code editor, the side drawer and the status badge.  CodeMirror is a third-party package:
  what a document holds after a text has been put into it is the parameter \<open>nl\<close> (CodeMirror
  unifies line ends).  The listeners a component registers are the identities of the function
  objects it passes, since that is what \<open>removeEventListener\<close> compares.
\<close>

subsection \<open>The code editor (\<open>code-editor.ts\<close>)\<close>

datatype EditorLanguage = EdBash | EdPython | EdYaml | EdJavascript | EdText

primrec languageLabels :: "EditorLanguage \<Rightarrow> string" where
  "languageLabels EdBash = ''Bash/Shell''"
| "languageLabels EdPython = ''Python''"
| "languageLabels EdYaml = ''YAML''"
| "languageLabels EdJavascript = ''JavaScript''"
| "languageLabels EdText = ''Plain Text''"

datatype LanguageExtension = Lang string | NoExtension

primrec getLanguageExtension :: "EditorLanguage \<Rightarrow> LanguageExtension" where
  "getLanguageExtension EdPython = Lang ''python''"
| "getLanguageExtension EdJavascript = Lang ''javascript''"
| "getLanguageExtension EdYaml = Lang ''yaml''"
| "getLanguageExtension EdBash = Lang ''shell''"
| "getLanguageExtension EdText = NoExtension"

record EditorView =
  vw_doc :: string
  vw_language :: LanguageExtension
  vw_readonly :: bool
  vw_minHeight :: string

record CodeEditor =
  ce_value :: string
  ce_language :: EditorLanguage
  ce_readonly :: bool
  ce_minHeight :: string
  ce_editorView :: "EditorView option"
  ce_destroyed :: nat
  ce_changes :: "string list"
  ce_language_changes :: "EditorLanguage list"

definition createEditorState :: "(string \<Rightarrow> string) \<Rightarrow> CodeEditor \<Rightarrow> EditorView" where
  "createEditorState nl ed =
     \<lparr>vw_doc = nl (ce_value ed), vw_language = getLanguageExtension (ce_language ed),
      vw_readonly = ce_readonly ed, vw_minHeight = ce_minHeight ed\<rparr>"

text \<open>The \<open>updateListener\<close>, called when the document of the view has changed.\<close>

definition doc_changed :: "CodeEditor \<Rightarrow> CodeEditor" where
  "doc_changed ed =
     (case ce_editorView ed of
        None \<Rightarrow> ed
      | Some v \<Rightarrow>
          if vw_doc v \<noteq> ce_value ed
          then ed\<lparr>ce_value := vw_doc v, ce_changes := ce_changes ed @ [vw_doc v]\<rparr> else ed)"

definition initEditor :: "(string \<Rightarrow> string) \<Rightarrow> CodeEditor \<Rightarrow> CodeEditor" where
  "initEditor nl ed =
     ed\<lparr>ce_destroyed := ce_destroyed ed + (if ce_editorView ed = None then 0 else 1),
        ce_editorView := Some (createEditorState nl ed)\<rparr>"

definition set_doc :: "(string \<Rightarrow> string) \<Rightarrow> string \<Rightarrow> CodeEditor \<Rightarrow> CodeEditor" where
  "set_doc nl txt ed =
     (case ce_editorView ed of
        None \<Rightarrow> ed
      | Some v \<Rightarrow> doc_changed (ed\<lparr>ce_editorView := Some (v\<lparr>vw_doc := nl txt\<rparr>)\<rparr>))"

text \<open>\<open>updated\<close> with the two properties whose change it looks at.\<close>

definition updated :: "(string \<Rightarrow> string) \<Rightarrow> bool \<Rightarrow> bool \<Rightarrow> CodeEditor \<Rightarrow> CodeEditor" where
  "updated nl has_language has_value ed =
     (let ed1 = (if has_language then initEditor nl ed else ed)
      in if has_value
         then (case ce_editorView ed1 of
                 None \<Rightarrow> ed1
               | Some v \<Rightarrow> if vw_doc v \<noteq> ce_value ed1 then set_doc nl (ce_value ed1) ed1 else ed1)
         else ed1)"

definition first_render :: "(string \<Rightarrow> string) \<Rightarrow> CodeEditor \<Rightarrow> CodeEditor" where
  "first_render nl ed = updated nl True True (initEditor nl ed)"

text \<open>
  What happens to an editor: the parent sets \<open>value\<close> or \<open>language\<close>, the user types (the document
  becomes a new text) or picks a language.
\<close>

datatype editor_event =
    SetValue string
  | SetLanguage EditorLanguage
  | UserEdit string
  | PickLanguage EditorLanguage

definition set_value :: "(string \<Rightarrow> string) \<Rightarrow> string \<Rightarrow> CodeEditor \<Rightarrow> CodeEditor" where
  "set_value nl v ed =
     (if v = ce_value ed then ed else updated nl False True (ed\<lparr>ce_value := v\<rparr>))"

definition set_language :: "(string \<Rightarrow> string) \<Rightarrow> EditorLanguage \<Rightarrow> CodeEditor \<Rightarrow> CodeEditor" where
  "set_language nl l ed =
     (if l = ce_language ed then ed else updated nl True False (ed\<lparr>ce_language := l\<rparr>))"

definition handleLanguageChange ::
    "(string \<Rightarrow> string) \<Rightarrow> EditorLanguage \<Rightarrow> CodeEditor \<Rightarrow> CodeEditor" where
  "handleLanguageChange nl l ed =
     (let ed' = set_language nl l ed
      in ed'\<lparr>ce_language_changes := ce_language_changes ed' @ [l]\<rparr>)"

primrec editor_step :: "(string \<Rightarrow> string) \<Rightarrow> CodeEditor \<Rightarrow> editor_event \<Rightarrow> CodeEditor" where
  "editor_step nl ed (SetValue v) = set_value nl v ed"
| "editor_step nl ed (SetLanguage l) = set_language nl l ed"
| "editor_step nl ed (UserEdit txt) = set_doc nl txt ed"
| "editor_step nl ed (PickLanguage l) = handleLanguageChange nl l ed"

definition editor_synced :: "CodeEditor \<Rightarrow> bool" where
  "editor_synced ed =
     (case ce_editorView ed of
        None \<Rightarrow> False
      | Some v \<Rightarrow> vw_doc v = ce_value ed \<and> vw_language v = getLanguageExtension (ce_language ed))"

subsection \<open>The side drawer (\<open>side-drawer.ts\<close>)\<close>

record SideDrawer =
  sd_open :: bool
  sd_wide :: bool
  sd_fresh :: nat
  sd_listeners :: "nat list"
  sd_closes :: nat

definition drawer_start :: SideDrawer where
  "drawer_start =
     \<lparr>sd_open = False, sd_wide = False, sd_fresh = 0, sd_listeners = [], sd_closes = 0\<rparr>"

definition handleClose :: "SideDrawer \<Rightarrow> SideDrawer" where
  "handleClose d = d\<lparr>sd_open := False, sd_closes := Suc (sd_closes d)\<rparr>"

definition toggleWidth :: "SideDrawer \<Rightarrow> SideDrawer" where
  "toggleWidth d = d\<lparr>sd_wide := \<not> sd_wide d\<rparr>"

definition handleOverlayClick :: "bool \<Rightarrow> SideDrawer \<Rightarrow> SideDrawer" where
  "handleOverlayClick on_overlay d = (if on_overlay then handleClose d else d)"

definition handleKeyDown :: "string \<Rightarrow> SideDrawer \<Rightarrow> SideDrawer" where
  "handleKeyDown key d = (if key = ''Escape'' then handleClose d else d)"

text \<open>\<open>bind\<close> makes a new function object every time it is called.\<close>

definition connectedCallback :: "SideDrawer \<Rightarrow> SideDrawer" where
  "connectedCallback d =
     d\<lparr>sd_listeners := sd_listeners d @ [sd_fresh d], sd_fresh := Suc (sd_fresh d)\<rparr>"

definition disconnectedCallback :: "SideDrawer \<Rightarrow> SideDrawer" where
  "disconnectedCallback d =
     d\<lparr>sd_listeners := remove1 (sd_fresh d) (sd_listeners d), sd_fresh := Suc (sd_fresh d)\<rparr>"

definition document_keydown :: "string \<Rightarrow> SideDrawer \<Rightarrow> SideDrawer" where
  "document_keydown key d = foldl (\<lambda>d _. handleKeyDown key d) d (sd_listeners d)"

datatype drawer_event =
    DrawerConnect | DrawerDisconnect | DrawerKey string | DrawerOverlay bool
  | DrawerCloseButton | DrawerWidth | DrawerOpen bool

primrec drawer_step :: "SideDrawer \<Rightarrow> drawer_event \<Rightarrow> SideDrawer" where
  "drawer_step d DrawerConnect = connectedCallback d"
| "drawer_step d DrawerDisconnect = disconnectedCallback d"
| "drawer_step d (DrawerKey key) = document_keydown key d"
| "drawer_step d (DrawerOverlay on_overlay) = handleOverlayClick on_overlay d"
| "drawer_step d DrawerCloseButton = handleClose d"
| "drawer_step d DrawerWidth = toggleWidth d"
| "drawer_step d (DrawerOpen b) = d\<lparr>sd_open := b\<rparr>"

definition drawer_run :: "drawer_event list \<Rightarrow> SideDrawer" where
  "drawer_run es = foldl drawer_step drawer_start es"

subsection \<open>The status badge (\<open>status-badge.ts\<close>)\<close>

datatype TagColor = Gray | Blue | Green | Cyan | Orange | Red | Purple | Teal

record StatusConfig =
  scf_color :: TagColor
  scf_label :: string

definition STATUS_CONFIG :: "StatusConfig obj" where
  "STATUS_CONFIG =
     [(''Pending'', \<lparr>scf_color = Gray, scf_label = ''Pending''\<rparr>),
      (''Running'', \<lparr>scf_color = Cyan, scf_label = ''Running''\<rparr>),
      (''Succeeded'', \<lparr>scf_color = Green, scf_label = ''Succeeded''\<rparr>),
      (''Failed'', \<lparr>scf_color = Red, scf_label = ''Failed''\<rparr>),
      (''Skipped'', \<lparr>scf_color = Gray, scf_label = ''Skipped''\<rparr>),
      (''Suspended'', \<lparr>scf_color = Orange, scf_label = ''Suspended''\<rparr>)]"

definition getConfig :: "string \<Rightarrow> StatusConfig" where
  "getConfig status =
     (case map_of STATUS_CONFIG status of
        None \<Rightarrow> the (map_of STATUS_CONFIG ''Pending'')
      | Some c \<Rightarrow> c)"

record Tag =
  tg_compact :: bool
  tg_color :: TagColor
  tg_running :: bool
  tg_label :: string

definition render_badge :: "string \<Rightarrow> string \<Rightarrow> Tag" where
  "render_badge status sz =
     (let config = getConfig status
      in \<lparr>tg_compact = (sz = ''sm''), tg_color = scf_color config,
          tg_running = (status = ''Running''), tg_label = scf_label config\<rparr>)"

subsection \<open>Properties\<close>

definition editor_ok :: "(string \<Rightarrow> string) \<Rightarrow> CodeEditor \<Rightarrow> bool" where
  "editor_ok nl ed = (editor_synced ed \<and> nl (ce_value ed) = ce_value ed)"

lemma set_doc_ok:
  assumes idem: "\<forall>s. nl (nl s) = nl s" and "ce_editorView ed = Some v"
    and "vw_language v = getLanguageExtension (ce_language ed)"
  shows "editor_ok nl (set_doc nl txt ed)"
proof -
  have "nl (nl txt) = nl txt" using idem by simp
  moreover have "nl txt = ce_value ed \<Longrightarrow> nl (ce_value ed) = ce_value ed"
    using calculation by simp
  ultimately show ?thesis
    using assms(2,3) by (auto simp: editor_ok_def editor_synced_def set_doc_def doc_changed_def)
qed

lemma editor_step_ok:
  assumes idem: "\<forall>s. nl (nl s) = nl s" and ok: "editor_ok nl ed"
  shows "editor_ok nl (editor_step nl ed e)"
proof -
  from ok obtain v where v: "ce_editorView ed = Some v" "vw_doc v = ce_value ed"
    "vw_language v = getLanguageExtension (ce_language ed)" "nl (ce_value ed) = ce_value ed"
    by (auto simp: editor_ok_def editor_synced_def split: option.splits)
  have lang: "editor_ok nl (set_language nl l ed)" for l
    using v by (simp add: editor_ok_def editor_synced_def set_language_def updated_def
        initEditor_def createEditorState_def Let_def)
  show ?thesis
  proof (cases e)
    case (SetValue x)
    have "editor_ok nl (set_doc nl x (ed\<lparr>ce_value := x\<rparr>))"
      by (rule set_doc_ok [OF idem, where v = v]) (simp_all add: v)
    then show ?thesis
      using ok v SetValue by (auto simp: set_value_def updated_def Let_def)
  next
    case (UserEdit t)
    then show ?thesis using set_doc_ok [OF idem v(1,3)] by simp
  next
    case (PickLanguage l)
    then show ?thesis
      using lang [of l]
      by (auto simp: handleLanguageChange_def Let_def editor_ok_def editor_synced_def
          split: option.splits)
  next
    case (SetLanguage l)
    then show ?thesis using lang [of l] by simp
  qed
qed

text \<open>
  Whatever the parent sets and the user does, after every event the
  editor shows its \<open>value\<close> in its current language: the document of the view is the \<open>value\<close> and
  its extension is the one of \<open>language\<close>.
\<close>

theorem code_editor_in_sync:
  assumes "\<forall>s. nl (nl s) = nl s"
  shows "editor_synced (foldl (editor_step nl) (first_render nl ed) events)"
proof -
  let ?b = "initEditor nl (initEditor nl ed)"
  have view: "ce_editorView ?b = Some (createEditorState nl (initEditor nl ed))"
    "vw_doc (createEditorState nl (initEditor nl ed)) = nl (ce_value ed)"
    "vw_language (createEditorState nl (initEditor nl ed)) = getLanguageExtension (ce_language ?b)"
    "ce_value ?b = ce_value ed"
    by (simp_all add: initEditor_def createEditorState_def)
  have set: "editor_ok nl (set_doc nl (ce_value ed) ?b)"
    by (rule set_doc_ok [OF assms view(1,3)])
  have "editor_ok nl ?b" if "nl (ce_value ed) = ce_value ed"
    using view that by (simp add: editor_ok_def editor_synced_def)
  with set have "editor_ok nl (first_render nl ed)"
    by (auto simp: first_render_def updated_def Let_def view)
  then have "editor_ok nl (foldl (editor_step nl) (first_render nl ed) events)"
    by (induction events rule: rev_induct) (simp_all add: editor_step_ok [OF assms])
  then show ?thesis by (simp add: editor_ok_def)
qed

definition unify_line_ends :: "string \<Rightarrow> string" where
  "unify_line_ends s = map (\<lambda>c. if c = CHR 0x0D then CHR 0x0A else c) s"

definition new_editor :: CodeEditor where
  "new_editor = \<lparr>ce_value = [], ce_language = EdBash, ce_readonly = False, ce_minHeight = ''150px'',
     ce_editorView = None, ce_destroyed = 0, ce_changes = [], ce_language_changes = []\<rparr>"

theorem code_editor_in_sync_witness:
  "editor_synced (foldl (editor_step unify_line_ends) (first_render unify_line_ends new_editor)
     [SetValue ''echo hi'', UserEdit ''echo hello'', PickLanguage EdPython])"
  by (rule code_editor_in_sync) (simp add: unify_line_ends_def)

text \<open>
  A value set by the parent is not reported back as a change of the
  user's, provided its line ends are already the editor's; a value with other line ends is, once.
\<close>

theorem code_editor_no_echo:
  assumes "editor_synced ed"
  shows "ce_changes (set_value nl v ed) =
    ce_changes ed @ (if v \<noteq> ce_value ed \<and> nl v \<noteq> v then [nl v] else [])"
  using assms
  by (auto simp: editor_synced_def set_value_def updated_def set_doc_def doc_changed_def Let_def
      split: option.splits)

theorem code_editor_no_echo_witness:
  "ce_changes (set_value unify_line_ends ''ls'' (first_render unify_line_ends new_editor)) = []"
proof -
  have "editor_synced (first_render unify_line_ends new_editor)" by code_simp
  from code_editor_no_echo [OF this, of unify_line_ends "''ls''"]
  have "ce_changes (set_value unify_line_ends ''ls'' (first_render unify_line_ends new_editor)) =
      ce_changes (first_render unify_line_ends new_editor)"
    by (simp add: unify_line_ends_def)
  also have "\<dots> = []" by code_simp
  finally show ?thesis .
qed

lemma foldl_handleKeyDown:
  "foldl (\<lambda>d _. handleKeyDown ''Escape'' d) d ls =
     (if ls = [] then d else d\<lparr>sd_open := False, sd_closes := sd_closes d + length ls\<rparr>)"
  by (induction ls arbitrary: d) (auto simp: handleKeyDown_def handleClose_def)

lemma foldl_other_key: "key \<noteq> ''Escape'' \<Longrightarrow> foldl (\<lambda>d _. handleKeyDown key d) d ls = d"
  by (induction ls arbitrary: d) (auto simp: handleKeyDown_def)

definition connects :: "drawer_event list \<Rightarrow> nat" where
  "connects es = length (filter (\<lambda>e. e = DrawerConnect) es)"

lemma drawer_listeners:
  "length (sd_listeners (drawer_run es)) = connects es \<and>
   (\<forall>l \<in> set (sd_listeners (drawer_run es)). l < sd_fresh (drawer_run es))"
proof (induction es rule: rev_induct)
  case Nil
  then show ?case by (simp add: drawer_run_def drawer_start_def connects_def)
next
  case (snoc e es)
  have step: "drawer_run (es @ [e]) = drawer_step (drawer_run es) e"
    by (simp add: drawer_run_def)
  let ?d = "drawer_run es"
  have "sd_fresh ?d \<notin> set (sd_listeners ?d)" using snoc by auto
  then have fresh: "remove1 (sd_fresh ?d) (sd_listeners ?d) = sd_listeners ?d"
    by (rule remove1_idem)
  have keydown: "sd_listeners (document_keydown key ?d) = sd_listeners ?d \<and>
      sd_fresh (document_keydown key ?d) = sd_fresh ?d" for key
    unfolding document_keydown_def
    by (cases "key = ''Escape''") (simp_all add: foldl_handleKeyDown foldl_other_key)
  show ?case
    using snoc keydown unfolding step
    by (cases e)
       (auto simp: connectedCallback_def disconnectedCallback_def fresh connects_def
          handleOverlayClick_def handleClose_def toggleWidth_def less_Suc_eq)
qed

text \<open>
  Removing a drawer from the page never removes its key listener
  (the two calls of \<open>bind\<close> give different functions), so after any history the document still
  holds one listener per time the drawer was connected, and each of them answers \<open>Escape\<close> with
  a \<open>close\<close> event of its own, whether or not the drawer is open or even on the page.
\<close>

theorem drawer_listener_leak:
  "length (sd_listeners (drawer_run es)) = connects es \<and>
   sd_closes (drawer_run (es @ [DrawerKey ''Escape''])) = sd_closes (drawer_run es) + connects es"
  using drawer_listeners [of es]
  by (auto simp: drawer_run_def document_keydown_def foldl_handleKeyDown)

text \<open>
  Every phase of a pipeline and of a step has a configuration of its own
  name, so the badge shows the phase, and it pulses for running ones only.
\<close>

theorem badge_shows_phase:
  "tg_label (render_badge (pipeline_phase_text p) sz) = pipeline_phase_text p \<and>
   tg_label (render_badge (step_phase_text t) sz) = step_phase_text t \<and>
   tg_running (render_badge (pipeline_phase_text p) sz) = (p = PlRunning) \<and>
   tg_running (render_badge (step_phase_text t) sz) = (t = StRunning)"
  by (cases p; cases t) (simp_all add: render_badge_def getConfig_def STATUS_CONFIG_def Let_def)

end
