(* ===== verification/Step_Editor.thy ===== *)
theory Step_Editor
  imports Graph_Layout K8s_Client Shared_Widgets Row_Editor
begin

section \<open>The step editor (\<open>ui/src/components/builder/step-editor.ts\<close>)\<close>

text \<open>
  The editor never changes the step it shows.  Every control computes a partial step and
  dispatches it as the event \<open>update\<close>; the canvas merges it into the step.  An operation is
  modelled by what it dispatches: \<open>None\<close> is no event, \<open>Some u\<close> the event with the detail \<open>u\<close>.  In
  a partial step each property is present (with a value, which may be \<open>undefined\<close>) or absent.
\<close>

subsection \<open>State and events\<close>

record SecretInfo =
  si_name :: string
  si_keys :: "string list"

record StepUpdates =
  su_name :: "string option"
  su_runIf :: "RunIfCondition option option"
  su_jobSpec :: "JobSpec option"

record StepEditor =
  se_step :: "PipelineStep option"
  se_allSteps :: "string list"
  se_namespace :: string
  se_nameError :: "string option"
  se_showAdvanced :: bool
  se_availableSecrets :: "SecretInfo list"
  se_loadingSecrets :: bool
  se_editorLanguage :: EditorLanguage

definition no_updates :: StepUpdates where
  "no_updates = \<lparr>su_name = None, su_runIf = None, su_jobSpec = None\<rparr>"

text \<open>\<open>{ ...step, ...updates }\<close>\<close>

definition apply_updates :: "StepUpdates \<Rightarrow> 'a PipelineStep_scheme \<Rightarrow> 'a PipelineStep_scheme" where
  "apply_updates u s =
     s\<lparr>ps_name := (case su_name u of None \<Rightarrow> ps_name s | Some n \<Rightarrow> n),
       ps_runIf := (case su_runIf u of None \<Rightarrow> ps_runIf s | Some r \<Rightarrow> r),
       ps_jobSpec := (case su_jobSpec u of None \<Rightarrow> ps_jobSpec s | Some j \<Rightarrow> j)\<rparr>"

definition step_containers :: "PipelineStep \<Rightarrow> Container list" where
  "step_containers s = pod_containers (pts_spec (js_template (ps_jobSpec s)))"

definition with_containers :: "Container list \<Rightarrow> JobSpec \<Rightarrow> JobSpec" where
  "with_containers cs j =
     j\<lparr>js_template := (js_template j)\<lparr>pts_spec := (pts_spec (js_template j))\<lparr>pod_containers := cs\<rparr>\<rparr>\<rparr>"

text \<open>
  The shape that six operations share: copy the containers, replace the first one when there is
  one, and dispatch the job with the copy.
\<close>

definition update_first :: "(Container \<Rightarrow> Container) \<Rightarrow> PipelineStep \<Rightarrow> StepUpdates" where
  "update_first f s =
     no_updates\<lparr>su_jobSpec := Some (with_containers
       (case step_containers s of [] \<Rightarrow> [] | c # cs \<Rightarrow> f c # cs) (ps_jobSpec s))\<rparr>"

subsection \<open>Secrets and the language\<close>

definition fetchSecrets :: "Secret list option fetch \<Rightarrow> string \<Rightarrow> StepEditor \<Rightarrow> StepEditor" where
  "fetchSecrets fetch base ed =
     (case listSecrets fetch base (se_namespace ed) of
        Inr secrets \<Rightarrow>
          ed\<lparr>se_availableSecrets :=
               map (\<lambda>s. \<lparr>si_name = sec_name s,
                         si_keys = (case sec_data s of None \<Rightarrow> [] | Some d \<Rightarrow> obj_keys d)\<rparr>)
                 (filter (\<lambda>s. sec_type s = ''Opaque'') secrets),
             se_loadingSecrets := False\<rparr>
      | Inl _ \<Rightarrow> ed\<lparr>se_availableSecrets := [], se_loadingSecrets := False\<rparr>)"

definition handleNamespaceChange ::
    "Secret list option fetch \<Rightarrow> string \<Rightarrow> string \<Rightarrow> StepEditor \<Rightarrow> StepEditor" where
  "handleNamespaceChange fetch base ns ed = fetchSecrets fetch base (ed\<lparr>se_namespace := ns\<rparr>)"

definition getContainer :: "StepEditor \<Rightarrow> Container option" where
  "getContainer ed =
     (case se_step ed of
        None \<Rightarrow> None
      | Some s \<Rightarrow> (case step_containers s of [] \<Rightarrow> None | c # cs \<Rightarrow> Some c))"

definition command_of :: "Container option \<Rightarrow> string list" where
  "command_of c = (case c of None \<Rightarrow> [] | Some x \<Rightarrow> list_or (ct_command x))"

definition script_command :: "string list \<Rightarrow> bool" where
  "script_command cmd = (cmd \<noteq> [] \<and> last cmd = ''-c'')"

definition isScriptMode :: "StepEditor \<Rightarrow> bool" where
  "isScriptMode ed = script_command (command_of (getContainer ed))"

definition detectLanguageFromCommand :: "StepEditor \<Rightarrow> EditorLanguage" where
  "detectLanguageFromCommand ed =
     (let commandStr = toLowerCase (js_join '' '' (command_of (getContainer ed)))
      in if str_includes commandStr ''python'' then EdPython
         else if str_includes commandStr ''node'' \<or> str_includes commandStr ''javascript''
         then EdJavascript
         else EdBash)"

definition step_changed :: "StepEditor \<Rightarrow> StepEditor" where
  "step_changed ed =
     (if se_step ed = None then ed
      else ed\<lparr>se_editorLanguage := detectLanguageFromCommand ed\<rparr>)"

definition handleEditorLanguageChange :: "EditorLanguage \<Rightarrow> StepEditor \<Rightarrow> StepEditor" where
  "handleEditorLanguageChange l ed = ed\<lparr>se_editorLanguage := l\<rparr>"

subsection \<open>Name, image, command and arguments\<close>

definition updateName :: "string \<Rightarrow> StepEditor \<Rightarrow> StepEditor \<times> StepUpdates option" where
  "updateName name ed =
     (let validation = validateStepName name
      in (ed\<lparr>se_nameError :=
               (if vd_valid validation then None
                else case vd_error validation of None \<Rightarrow> None | Some e \<Rightarrow> or_undefined e)\<rparr>,
          Some (no_updates\<lparr>su_name := Some name\<rparr>)))"

definition updateImage :: "string \<Rightarrow> StepEditor \<Rightarrow> StepUpdates option" where
  "updateImage img ed =
     map_option (update_first (\<lambda>c. c\<lparr>ct_image := Some img\<rparr>)) (se_step ed)"

definition parse_command :: "string \<Rightarrow> string list" where
  "parse_command commandStr = (if js_trim commandStr \<noteq> [] then split_spaces commandStr else [])"

definition updateCommand :: "string \<Rightarrow> StepEditor \<Rightarrow> StepUpdates option" where
  "updateCommand commandStr ed =
     map_option (update_first (\<lambda>c. c\<lparr>ct_command := Some (parse_command commandStr)\<rparr>)) (se_step ed)"

definition parse_args :: "bool \<Rightarrow> string \<Rightarrow> string list" where
  "parse_args script argsStr =
     (if script
      then (let s = js_trim argsStr in if s = [] then [] else [s])
      else filter (\<lambda>l. js_trim l \<noteq> []) (split_on newline argsStr))"

definition updateArgs :: "string \<Rightarrow> StepEditor \<Rightarrow> StepUpdates option" where
  "updateArgs argsStr ed =
     map_option (update_first (\<lambda>c. c\<lparr>ct_args := Some (parse_args (isScriptMode ed) argsStr)\<rparr>))
       (se_step ed)"

text \<open>What the inputs show for a container.\<close>

definition shown_command :: "StepEditor \<Rightarrow> string" where
  "shown_command ed = js_join '' '' (command_of (getContainer ed))"

definition shown_args :: "StepEditor \<Rightarrow> string" where
  "shown_args ed =
     js_join [newline] (case getContainer ed of None \<Rightarrow> [] | Some c \<Rightarrow> list_or (ct_args c))"

subsection \<open>Environment variables\<close>

definition getEnvVars :: "StepEditor \<Rightarrow> EnvVar list" where
  "getEnvVars ed = (case getContainer ed of None \<Rightarrow> [] | Some c \<Rightarrow> list_or (ct_env c))"

definition getEnvFrom :: "StepEditor \<Rightarrow> EnvFromSource list" where
  "getEnvFrom ed = (case getContainer ed of None \<Rightarrow> [] | Some c \<Rightarrow> list_or (ct_envFrom c))"

definition updateEnvFrom :: "EnvFromSource list \<Rightarrow> StepEditor \<Rightarrow> StepUpdates option" where
  "updateEnvFrom envFrom ed =
     map_option (update_first
       (\<lambda>c. c\<lparr>ct_envFrom := (if envFrom = [] then None else Some envFrom)\<rparr>)) (se_step ed)"

definition secret_name_of :: "EnvFromSource \<Rightarrow> string option" where
  "secret_name_of e = map_option ses_name (efs_secretRef e)"

definition secret_source :: "string \<Rightarrow> EnvFromSource" where
  "secret_source n = no_envFrom\<lparr>efs_secretRef := Some \<lparr>ses_name = n, ses_optional = None\<rparr>\<rparr>"

definition addSecretEnvFrom :: "string \<Rightarrow> StepEditor \<Rightarrow> StepUpdates option" where
  "addSecretEnvFrom secretName ed =
     (if secretName = [] then None
      else if list_ex (\<lambda>e. secret_name_of e = Some secretName) (getEnvFrom ed) then None
      else updateEnvFrom (getEnvFrom ed @ [secret_source secretName]) ed)"

definition removeSecretEnvFrom :: "string \<Rightarrow> StepEditor \<Rightarrow> StepUpdates option" where
  "removeSecretEnvFrom secretName ed =
     updateEnvFrom (filter (\<lambda>e. secret_name_of e \<noteq> Some secretName) (getEnvFrom ed)) ed"

definition selectable_secrets :: "StepEditor \<Rightarrow> SecretInfo list" where
  "selectable_secrets ed =
     filter (\<lambda>s. \<not> list_ex (\<lambda>e. secret_name_of e = Some (si_name s)) (getEnvFrom ed))
       (se_availableSecrets ed)"

definition updateEnvVars :: "EnvVar list \<Rightarrow> StepEditor \<Rightarrow> StepUpdates option" where
  "updateEnvVars envVars ed =
     map_option (update_first (\<lambda>c. c\<lparr>ct_env := Some envVars\<rparr>)) (se_step ed)"

definition addEnvVar :: "StepEditor \<Rightarrow> StepUpdates option" where
  "addEnvVar ed = updateEnvVars (getEnvVars ed @ [(no_env [])\<lparr>ev_value := Some []\<rparr>]) ed"

definition removeEnvVar :: "nat \<Rightarrow> StepEditor \<Rightarrow> StepUpdates option" where
  "removeEnvVar index ed = updateEnvVars (remove_at index (getEnvVars ed)) ed"

datatype env_field = EnvName | EnvValue

fun set_env_field :: "env_field \<Rightarrow> string \<Rightarrow> EnvVar \<Rightarrow> EnvVar" where
  "set_env_field EnvName v e = e\<lparr>ev_name := v\<rparr>"
| "set_env_field EnvValue v e = e\<lparr>ev_value := Some v\<rparr>"

definition updateEnvVar :: "nat \<Rightarrow> env_field \<Rightarrow> string \<Rightarrow> StepEditor \<Rightarrow> StepUpdates option" where
  "updateEnvVar index field v ed =
     updateEnvVars (map_at index (set_env_field field v) (getEnvVars ed)) ed"

subsection \<open>Conditional execution\<close>

datatype runif_update = SetCondition RunCondition | SetOperator RunOperator | SetSteps "string list"

fun set_runif :: "runif_update \<Rightarrow> RunIfCondition \<Rightarrow> RunIfCondition" where
  "set_runif (SetCondition c) r = r\<lparr>ri_condition := Some c\<rparr>"
| "set_runif (SetOperator op) r = r\<lparr>ri_operator := Some op\<rparr>"
| "set_runif (SetSteps ss) r = r\<lparr>ri_steps := ss\<rparr>"

definition empty_runIf :: RunIfCondition where
  "empty_runIf = \<lparr>ri_condition = None, ri_operator = None, ri_steps = []\<rparr>"

definition updateRunIf :: "runif_update \<Rightarrow> StepEditor \<Rightarrow> StepUpdates option" where
  "updateRunIf u ed =
     map_option (\<lambda>s. no_updates\<lparr>su_runIf := Some (Some (set_runif u
       (case ps_runIf s of None \<Rightarrow> empty_runIf | Some r \<Rightarrow> r)))\<rparr>) (se_step ed)"

definition runif_steps :: "PipelineStep \<Rightarrow> string list" where
  "runif_steps s = (case ps_runIf s of None \<Rightarrow> [] | Some r \<Rightarrow> ri_steps r)"

definition toggleRunIfStep :: "string \<Rightarrow> StepEditor \<Rightarrow> StepUpdates option" where
  "toggleRunIfStep stepName ed =
     (case se_step ed of
        None \<Rightarrow> None
      | Some s \<Rightarrow>
          (let currentSteps = runif_steps s;
               newSteps = (if stepName \<in> set currentSteps
                  then filter (\<lambda>x. x \<noteq> stepName) currentSteps else currentSteps @ [stepName])
           in if newSteps = [] then Some (no_updates\<lparr>su_runIf := Some None\<rparr>)
              else updateRunIf (SetSteps newSteps) ed))"

subsection \<open>Job settings\<close>

text \<open>\<open>parseInt\<close>: leading white space, a sign, then digits; \<open>None\<close> is \<open>NaN\<close>.\<close>

definition parse_digits :: "string \<Rightarrow> nat option" where
  "parse_digits s = (let ds = takeWhile is_digit s in if ds = [] then None else Some (dec_val ds))"

definition parseInt :: "string \<Rightarrow> int option" where
  "parseInt s =
     (case dropWhile is_space s of
        [] \<Rightarrow> None
      | c # cs \<Rightarrow>
          if c = CHR ''-'' then map_option (\<lambda>n. - int n) (parse_digits cs)
          else if c = CHR ''+'' then map_option int (parse_digits cs)
          else map_option int (parse_digits (c # cs)))"

text \<open>\<open>x || d\<close> for a number: \<open>NaN\<close> and 0 are falsy.\<close>

definition num_or :: "int option \<Rightarrow> int \<Rightarrow> int" where
  "num_or x d = (case x of None \<Rightarrow> d | Some n \<Rightarrow> if n = 0 then d else n)"

definition set_backoffLimit :: "string \<Rightarrow> StepEditor \<Rightarrow> StepUpdates option" where
  "set_backoffLimit v ed =
     map_option (\<lambda>s. no_updates\<lparr>su_jobSpec :=
       Some ((ps_jobSpec s)\<lparr>js_backoffLimit := Some (num_or (parseInt v) 6)\<rparr>)\<rparr>) (se_step ed)"

definition shown_backoffLimit :: "PipelineStep \<Rightarrow> string" where
  "shown_backoffLimit s =
     int_str (case js_backoffLimit (ps_jobSpec s) of None \<Rightarrow> 6 | Some n \<Rightarrow> n)"

definition set_activeDeadline :: "string \<Rightarrow> StepEditor \<Rightarrow> StepUpdates option" where
  "set_activeDeadline v ed =
     map_option (\<lambda>s. no_updates\<lparr>su_jobSpec :=
       Some ((ps_jobSpec s)\<lparr>js_activeDeadlineSeconds :=
         (case parseInt v of None \<Rightarrow> None | Some n \<Rightarrow> if n = 0 then None else Some n)\<rparr>)\<rparr>)
       (se_step ed)"

definition toggleAdvanced :: "StepEditor \<Rightarrow> StepEditor" where
  "toggleAdvanced ed = ed\<lparr>se_showAdvanced := \<not> se_showAdvanced ed\<rparr>"

definition otherSteps :: "StepEditor \<Rightarrow> string list" where
  "otherSteps ed =
     filter (\<lambda>s. Some s \<noteq> map_option ps_name (se_step ed)) (se_allSteps ed)"

subsection \<open>An update reaches the first container only\<close>

lemma containers_with [simp]:
  "pod_containers (pts_spec (js_template (with_containers cs j))) = cs"
  "with_containers cs (with_containers ds j) = with_containers cs j"
  by (simp_all add: with_containers_def)

lemma with_containers_same [simp]:
  "with_containers (pod_containers (pts_spec (js_template j))) j = j"
  by (simp add: with_containers_def)

definition edited :: "StepUpdates option \<Rightarrow> PipelineStep \<Rightarrow> PipelineStep" where
  "edited u s = (case u of None \<Rightarrow> s | Some x \<Rightarrow> apply_updates x s)"

definition showing :: "PipelineStep \<Rightarrow> StepEditor \<Rightarrow> StepEditor" where
  "showing s ed = ed\<lparr>se_step := Some s\<rparr>"

lemma getContainer_showing:
  "getContainer (showing s ed) = (case step_containers s of [] \<Rightarrow> None | c # cs \<Rightarrow> Some c)"
  by (simp add: getContainer_def showing_def)

lemma se_step_showing [simp]: "se_step (showing s ed) = Some s"
  by (simp add: showing_def)

lemma edited_simps [simp]: "edited None s = s" "edited (Some u) s = apply_updates u s"
  by (simp_all add: edited_def)

lemma apply_update_first:
  "step_containers (apply_updates (update_first f s) s) =
     (case step_containers s of [] \<Rightarrow> [] | c # cs \<Rightarrow> f c # cs)"
  "ps_name (apply_updates (update_first f s) s) = ps_name s"
  "ps_runIf (apply_updates (update_first f s) s) = ps_runIf s"
  "with_containers [] (ps_jobSpec (apply_updates (update_first f s) s)) =
     with_containers [] (ps_jobSpec s)"
  by (simp_all add: apply_updates_def update_first_def no_updates_def step_containers_def
      split: list.split)

lemma apply_update_first_id:
  assumes "\<And>c cs. step_containers s = c # cs \<Longrightarrow> f c = c"
  shows "apply_updates (update_first f s) s = s"
proof -
  have "(case step_containers s of [] \<Rightarrow> [] | c # cs \<Rightarrow> f c # cs) = step_containers s"
    using assms by (cases "step_containers s") auto
  then show ?thesis
    by (simp add: apply_updates_def update_first_def no_updates_def step_containers_def)
qed

text \<open>
  Changing the image, the command, the arguments, the variables
  or the secrets of a step changes the first container and nothing else: the name, the
  condition, the other containers and every other field of the job are untouched.
\<close>

theorem container_edits_are_local:
  "list_all (\<lambda>u. ps_name (edited u s) = ps_name s \<and> ps_runIf (edited u s) = ps_runIf s \<and>
      length (step_containers (edited u s)) = length (step_containers s) \<and>
      drop 1 (step_containers (edited u s)) = drop 1 (step_containers s) \<and>
      with_containers [] (ps_jobSpec (edited u s)) = with_containers [] (ps_jobSpec s))
    [updateImage txt (showing s ed), updateCommand txt (showing s ed),
     updateArgs txt (showing s ed), updateEnvVars vars (showing s ed),
     updateEnvFrom sources (showing s ed)]"
  by (simp add: updateImage_def updateCommand_def updateArgs_def updateEnvVars_def
      updateEnvFrom_def apply_update_first split: list.split)

subsection \<open>Environment variables\<close>

definition env_get :: "StepEditor \<Rightarrow> PipelineStep \<Rightarrow> EnvVar list" where
  "env_get ed s = getEnvVars (showing s ed)"

definition env_put :: "StepEditor \<Rightarrow> EnvVar list \<Rightarrow> PipelineStep \<Rightarrow> PipelineStep" where
  "env_put ed vars s = edited (updateEnvVars vars (showing s ed)) s"

interpretation step_env: row_editor "env_get ed" "env_put ed" "\<lambda>s. step_containers s \<noteq> []" for ed
proof
  fix vars qs :: "EnvVar list" and s :: PipelineStep
  assume "step_containers s \<noteq> []"
  then obtain c cs where s: "step_containers s = c # cs" by (cases "step_containers s") auto
  show "env_get ed (env_put ed vars s) = vars"
    by (simp add: env_get_def env_put_def getEnvVars_def getContainer_showing updateEnvVars_def
        apply_update_first s)
  show "step_containers (env_put ed vars s) \<noteq> []"
    by (simp add: env_put_def updateEnvVars_def apply_update_first s)
  show "env_put ed vars (env_put ed qs s) = env_put ed vars s"
    using s by (simp add: env_put_def updateEnvVars_def apply_updates_def update_first_def
        no_updates_def step_containers_def)
qed

lemma env_ops:
  "edited (addEnvVar (showing s ed)) s =
     row_edit (env_get ed) (env_put ed) (AddRow ((no_env [])\<lparr>ev_value := Some []\<rparr>)) s"
  "edited (removeEnvVar i (showing s ed)) s = row_edit (env_get ed) (env_put ed) (DropRow i) s"
  "edited (updateEnvVar i field v (showing s ed)) s =
     row_edit (env_get ed) (env_put ed) (EditRow i (set_env_field field v)) s"
  by (simp_all add: row_edit_def env_get_def env_put_def addEnvVar_def removeEnvVar_def
      updateEnvVar_def)

text \<open>
  On a step with a container the rows of variables behave as a list: adding
  appends one empty row, removing takes out exactly the row at the index, and editing changes the
  name or the value of the row at the index and no other row.
\<close>

theorem env_rows:
  assumes "step_containers s \<noteq> []"
  shows "let vars = getEnvVars (showing s ed);
             after = (\<lambda>u. getEnvVars (showing (edited u s) ed))
    in after (addEnvVar (showing s ed)) = vars @ [\<lparr>ev_name = [], ev_value = Some [], ev_valueFrom = None\<rparr>] \<and>
       after (removeEnvVar i (showing s ed)) = take i vars @ drop (Suc i) vars \<and>
       after (updateEnvVar i field v (showing s ed)) =
         (if i < length vars then vars[i := set_env_field field v (vars ! i)] else vars)"
  using step_env.get_edit [OF assms, of ed]
  unfolding Let_def env_ops env_get_def [symmetric]
  by (simp add: no_env_def)

definition blank_editor :: StepEditor where
  "blank_editor =
     \<lparr>se_step = None, se_allSteps = [], se_namespace = ''default'', se_nameError = None,
      se_showAdvanced = False, se_availableSecrets = [], se_loadingSecrets = False,
      se_editorLanguage = EdBash\<rparr>"

theorem env_rows_witness:
  "getEnvVars (showing (edited (addEnvVar (showing (createDefaultStep ''build'') blank_editor))
     (createDefaultStep ''build'')) blank_editor) = [\<lparr>ev_name = [], ev_value = Some [], ev_valueFrom = None\<rparr>]"
proof -
  have c: "step_containers (createDefaultStep ''build'') \<noteq> []"
    "getEnvVars (showing (createDefaultStep ''build'') blank_editor) = []"
    by (simp_all add: createDefaultStep_def step_containers_def no_job_def no_pod_def
        no_container_def getEnvVars_def getContainer_showing)
  show ?thesis
    using env_rows [OF c(1), of blank_editor 0 EnvName "[]"] unfolding Let_def c(2) by simp
qed

text \<open>
  A variable whose value comes from a secret keeps its \<open>valueFrom\<close> when a value is typed in its
  row, and then has both, which the API server refuses.
\<close>

lemma typed_value_keeps_valueFrom:
  "ev_valueFrom (set_env_field EnvValue v e) = ev_valueFrom e \<and>
   ev_value (set_env_field EnvValue v e) = Some v"
  by simp

subsection \<open>Secrets as environment\<close>

definition secret_names :: "EnvFromSource list \<Rightarrow> string list" where
  "secret_names es = concat (map (\<lambda>e. case secret_name_of e of None \<Rightarrow> [] | Some n \<Rightarrow> [n]) es)"

lemma secret_names_append: "secret_names (xs @ ys) = secret_names xs @ secret_names ys"
  by (simp add: secret_names_def)

lemma secret_names_iff:
  "n \<in> set (secret_names es) \<longleftrightarrow> list_ex (\<lambda>e. secret_name_of e = Some n) es"
  by (induction es) (auto simp: secret_names_def split: option.splits)

lemma secret_names_source [simp]: "secret_names [secret_source n] = [n]"
  by (simp add: secret_names_def secret_source_def secret_name_of_def no_envFrom_def)

lemma secret_names_filter:
  "secret_names (filter (\<lambda>e. secret_name_of e \<noteq> Some n) es) =
     filter (\<lambda>m. m \<noteq> n) (secret_names es)"
  by (induction es) (auto simp: secret_names_def split: option.splits)

lemma envFrom_after_update:
  assumes "step_containers s \<noteq> []"
  shows "getEnvFrom (showing (edited (updateEnvFrom es (showing s ed)) s) ed) = es"
  using assms
  by (cases "step_containers s")
     (simp_all add: getEnvFrom_def getContainer_showing updateEnvFrom_def apply_update_first)

text \<open>
  On a step with a container, choosing a secret mounts it exactly once: it
  is appended when it is not yet mounted, and otherwise nothing changes; removing it unmounts
  that secret and no other source.
\<close>

theorem secret_sources:
  assumes "step_containers s \<noteq> []" and "n \<noteq> []"
  shows "let mounted = (\<lambda>t. secret_names (getEnvFrom (showing t ed)))
    in mounted (edited (addSecretEnvFrom n (showing s ed)) s) =
         (if n \<in> set (mounted s) then mounted s else mounted s @ [n]) \<and>
       mounted (edited (removeSecretEnvFrom n (showing s ed)) s) = filter (\<lambda>m. m \<noteq> n) (mounted s)"
  using assms envFrom_after_update [OF assms(1)]
  by (simp add: Let_def addSecretEnvFrom_def removeSecretEnvFrom_def secret_names_append
      secret_names_filter secret_names_iff)

theorem secret_sources_witness:
  "secret_names (getEnvFrom (showing (edited (addSecretEnvFrom ''db'' (showing
     (createDefaultStep ''build'') ed)) (createDefaultStep ''build'')) ed)) = [''db'']"
proof -
  have c: "step_containers (createDefaultStep ''build'') \<noteq> []"
    "getEnvFrom (showing (createDefaultStep ''build'') ed) = []"
    by (simp_all add: createDefaultStep_def step_containers_def no_job_def no_pod_def
        no_container_def getEnvFrom_def getContainer_showing)
  show ?thesis
    using secret_sources [OF c(1), of "''db''" ed] unfolding Let_def c(2)
    by (simp add: secret_names_def)
qed

subsection \<open>Conditional execution\<close>

text \<open>
  Ticking a step in the list of dependencies adds or removes exactly that
  step; the condition and the operator chosen before are kept as long as one dependency is left,
  and with the last one the whole condition goes.
\<close>

theorem toggle_runIf:
  "let s' = edited (toggleRunIfStep n (showing s ed)) s
   in set (runif_steps s') =
        (if n \<in> set (runif_steps s) then set (runif_steps s) - {n} else insert n (set (runif_steps s))) \<and>
      (ps_runIf s' = None) = (set (runif_steps s) = {n}) \<and>
      (case ps_runIf s' of None \<Rightarrow> True | Some r \<Rightarrow>
         (case ps_runIf s of
            None \<Rightarrow> ri_condition r = None \<and> ri_operator r = None
          | Some q \<Rightarrow> ri_condition r = ri_condition q \<and> ri_operator r = ri_operator q)) \<and>
      ps_name s' = ps_name s \<and> ps_jobSpec s' = ps_jobSpec s"
proof -
  have filter_empty: "filter (\<lambda>x. x \<noteq> n) xs = [] \<longleftrightarrow> set xs \<subseteq> {n}" for xs :: "string list"
    by (auto simp: filter_empty_conv)
  show ?thesis
    by (cases "ps_runIf s")
       (auto simp: Let_def toggleRunIfStep_def updateRunIf_def apply_updates_def no_updates_def
          runif_steps_def empty_runIf_def filter_empty)
qed

subsection \<open>The text of a command and of arguments\<close>

definition word :: "string \<Rightarrow> bool" where
  "word w = (w \<noteq> [] \<and> list_all (\<lambda>c. \<not> is_space c) w)"

lemma is_space_blank: "is_space (CHR '' '')"
  by (simp add: is_space_def char_code_def)

lemma word_takeWhile:
  "word w \<Longrightarrow> takeWhile (\<lambda>c. \<not> is_space c) (w @ CHR '' '' # s) = w \<and>
     dropWhile (\<lambda>c. \<not> is_space c) (w @ CHR '' '' # s) = CHR '' '' # s"
  by (induction w) (auto simp: word_def is_space_blank list_all_iff)

lemma word_alone: "word w \<Longrightarrow> split_spaces w = [w]"
proof -
  assume "word w"
  then have "takeWhile (\<lambda>c. \<not> is_space c) w = w" "dropWhile (\<lambda>c. \<not> is_space c) w = []"
    by (simp_all add: word_def list_all_iff takeWhile_eq_all_conv dropWhile_eq_Nil_conv)
  then show ?thesis by (subst split_spaces.simps) simp
qed

lemma split_spaces_word:
  "word w \<Longrightarrow> split_spaces (w @ CHR '' '' # s) = w # split_spaces (dropWhile is_space s)"
  using word_takeWhile [of w s] is_space_blank
  by (subst split_spaces.simps) (simp add: Let_def)

lemma word_dropWhile: "word w \<Longrightarrow> dropWhile is_space (w @ s) = w @ s"
  by (cases w) (simp_all add: word_def)

lemma split_spaces_join:
  "\<forall>w \<in> set ws. word w \<Longrightarrow> ws \<noteq> [] \<Longrightarrow> split_spaces (js_join '' '' ws) = ws"
proof (induction ws)
  case (Cons w ws)
  show ?case
  proof (cases ws)
    case Nil
    with Cons.prems show ?thesis by (simp add: word_alone)
  next
    case (Cons v vs)
    have "dropWhile is_space (js_join '' '' ws) = js_join '' '' ws"
      using Cons.prems word_dropWhile [of v] by (cases vs) (auto simp: Cons word_dropWhile [of v "[]", simplified])
    with Cons.prems Cons.IH Cons show ?thesis
      by (simp add: split_spaces_word)
  qed
qed simp

lemma split_spaces_trailing:
  "\<forall>w \<in> set ws. word w \<Longrightarrow> ws \<noteq> [] \<Longrightarrow> split_spaces (js_join '' '' ws @ '' '') = ws @ [[]]"
proof (induction ws)
  case (Cons w ws)
  show ?case
  proof (cases ws)
    case Nil
    with Cons.prems show ?thesis
      by (simp add: split_spaces_word) (simp add: split_spaces.simps [of "[]"])
  next
    case (Cons v vs)
    have "dropWhile is_space (js_join '' '' ws @ '' '') = js_join '' '' ws @ '' ''"
      using Cons.prems word_dropWhile [of v] by (cases vs) (auto simp: Cons)
    with Cons.prems Cons.IH Cons show ?thesis
      by (simp add: split_spaces_word)
  qed
qed simp

lemma js_trim_starts_with_word: "word w \<Longrightarrow> js_trim (w @ s) \<noteq> []"
proof -
  assume w: "word w"
  then have "\<not> (\<forall>c \<in> set (rev (w @ s)). is_space c)"
    by (cases w) (auto simp: word_def)
  then show ?thesis
    by (simp add: js_trim_def word_dropWhile [OF w] dropWhile_eq_Nil_conv del: rev_append)
qed

lemma js_join_word_start:
  "ws \<noteq> [] \<Longrightarrow> \<exists>s. js_join sep ws = hd ws @ s"
  by (cases ws; cases "tl ws") auto

text \<open>
  The command input shows the words of a command separated by blanks;
  typing that text sets the same command again.  With one blank after it --- which the input
  shows in the same way --- the command gets an empty word at its end, and is no longer one that
  takes its script as an argument.
\<close>

theorem command_roundtrip:
  assumes "ws \<noteq> []" and "\<forall>w \<in> set ws. word w"
  shows "parse_command (js_join '' '' ws) = ws \<and>
    parse_command (js_join '' '' ws @ '' '') = ws @ [[]] \<and>
    \<not> script_command (parse_command (js_join '' '' ws @ '' ''))"
proof -
  from assms have hd: "word (hd ws)" by simp
  from js_join_word_start [OF assms(1)] obtain s where s: "js_join '' '' ws = hd ws @ s" ..
  have "js_trim (js_join '' '' ws) \<noteq> []" "js_trim (js_join '' '' ws @ '' '') \<noteq> []"
    using js_trim_starts_with_word [OF hd] by (simp_all add: s)
  then show ?thesis
    using assms by (simp add: parse_command_def split_spaces_join split_spaces_trailing script_command_def)
qed

theorem command_roundtrip_witness:
  "parse_command ''sh -c'' = [''sh'', ''-c''] \<and> parse_command ''sh -c '' = [''sh'', ''-c'', []]"
  using command_roundtrip [of "[''sh'', ''-c'']"]
  by (simp add: word_def is_space_def char_code_def)

text \<open>
  What the arguments editor shows is read back as the same arguments: as
  one script when the command ends in \<open>-c\<close> (a script without white space around it), and as one
  argument per line otherwise (arguments that are single lines and not blank).
\<close>

theorem args_roundtrip:
  assumes "if script then length args \<le> 1 \<and> list_all (\<lambda>a. a \<noteq> [] \<and> js_trim a = a) args
    else list_all (\<lambda>a. js_trim a \<noteq> [] \<and> newline \<notin> set a) args"
  shows "parse_args script (js_join [newline] args) = args"
proof (cases script)
  case True
  then show ?thesis
    using assms by (cases args) (auto simp: parse_args_def Let_def js_trim_def)
next
  case False
  then have args: "\<forall>a \<in> set args. js_trim a \<noteq> [] \<and> newline \<notin> set a"
    using assms by (simp add: list_all_iff)
  show ?thesis
  proof (cases "args = []")
    case True
    then show ?thesis using False by (simp add: parse_args_def js_trim_def)
  next
    case ne: False
    then show ?thesis
      using False args split_on_js_join [OF ne, of newline]
      by (simp add: parse_args_def filter_id_conv)
  qed
qed

theorem args_roundtrip_witness:
  "parse_args False (js_join [newline] [''--all'', ''-o yaml'']) = [''--all'', ''-o yaml'']"
  by (rule args_roundtrip)
     (simp add: js_trim_def is_space_def char_code_def newline_def)

subsection \<open>The backoff limit\<close>

lemma takeWhile_digits: "takeWhile is_digit (nat_str n) = nat_str n"
  by (simp add: takeWhile_eq_all_conv nat_str_digits)

lemma parse_digits_nat_str [simp]: "parse_digits (nat_str n) = Some n"
  by (simp add: parse_digits_def takeWhile_digits)

lemma digit_not_sign: "is_digit c \<Longrightarrow> \<not> is_space c \<and> c \<noteq> CHR ''-'' \<and> c \<noteq> CHR ''+''"
  by (auto simp: is_digit_def is_space_def char_code_def)

lemma parseInt_nat_str [simp]: "parseInt (nat_str n) = Some (int n)"
proof -
  obtain c cs where s: "nat_str n = c # cs" by (cases "nat_str n") auto
  have "is_digit c" using nat_str_digits [of c n] by (simp add: s)
  moreover have "parse_digits (c # cs) = Some n" using parse_digits_nat_str [of n] by (simp add: s)
  ultimately show ?thesis using digit_not_sign [of c] by (simp add: parseInt_def s)
qed

text \<open>
  The backoff limit can be set to every positive number, but never to
  0: a 0 typed into the input (whose minimum is 0) is taken for a missing value and becomes 6.
\<close>

theorem backoff_never_zero:
  "js_backoffLimit (ps_jobSpec (edited (set_backoffLimit (nat_str n) (showing s ed)) s)) =
     Some (if n = 0 then 6 else int n)"
  by (simp add: set_backoffLimit_def apply_updates_def no_updates_def num_or_def)

end
