(* ===== verification/Global_Settings.thy ===== *)
theory Global_Settings
  imports Row_Editor K8s_Client Step_Editor
begin

section \<open>Pipeline-wide settings (\<open>ui/src/components/builder/global-settings.ts\<close>)\<close>

text \<open>
  The settings edit a copy of the pipeline and hand the new pipeline to the canvas with the
  event \<open>update\<close> after every edit.  An operation is modelled by the new pipeline, which is at once
  the new property of the component and the detail of the event; without a pipeline nothing
  happens.
\<close>

subsection \<open>State\<close>

record PVCInfo =
  pvi_name :: string
  pvi_storage :: "string option"
  pvi_phase :: string

record GlobalSettings =
  gs_pipeline :: "Pipeline option"
  gs_activeTab :: nat
  gs_availablePVCs :: "PVCInfo list"
  gs_loadingPVCs :: bool
  gs_lastFetchedNamespace :: string

definition fetchPVCs :: "PVC list option fetch \<Rightarrow> string \<Rightarrow> string \<Rightarrow> GlobalSettings \<Rightarrow> GlobalSettings" where
  "fetchPVCs fetch base namespace gs =
     gs\<lparr>gs_lastFetchedNamespace := namespace,
        gs_availablePVCs :=
          (case listPVCs fetch base namespace of
             Inl _ \<Rightarrow> []
           | Inr pvcs \<Rightarrow> map (\<lambda>p. \<lparr>pvi_name = pvc_name p, pvi_storage = pvc_storage p,
               pvi_phase = pvc_phase p\<rparr>) pvcs),
        gs_loadingPVCs := False\<rparr>"

definition settings_namespace :: "GlobalSettings \<Rightarrow> string" where
  "settings_namespace gs =
     (case gs_pipeline gs of
        None \<Rightarrow> ''default''
      | Some p \<Rightarrow> str_or (om_namespace (pl_metadata p)) ''default'')"

definition settings_updated :: "PVC list option fetch \<Rightarrow> string \<Rightarrow> GlobalSettings \<Rightarrow> GlobalSettings" where
  "settings_updated fetch base gs =
     (let namespace = settings_namespace gs
      in if gs_activeTab gs = 2 \<and> namespace \<noteq> gs_lastFetchedNamespace gs
         then fetchPVCs fetch base namespace gs else gs)"

subsection \<open>Edits of the pipeline\<close>

definition update_spec :: "(PipelineSpec \<Rightarrow> PipelineSpec) \<Rightarrow> Pipeline \<Rightarrow> Pipeline" where
  "update_spec f p = p\<lparr>pl_spec := f (pl_spec p)\<rparr>"

definition dispatch_spec :: "(PipelineSpec \<Rightarrow> PipelineSpec) \<Rightarrow> GlobalSettings \<Rightarrow> GlobalSettings" where
  "dispatch_spec f gs = gs\<lparr>gs_pipeline := map_option (update_spec f) (gs_pipeline gs)\<rparr>"

definition updateServiceAccount :: "string \<Rightarrow> GlobalSettings \<Rightarrow> GlobalSettings" where
  "updateServiceAccount v = dispatch_spec (\<lambda>sp. sp\<lparr>sp_serviceAccountName := or_undefined v\<rparr>)"

definition updateNamespace :: "string \<Rightarrow> GlobalSettings \<Rightarrow> GlobalSettings" where
  "updateNamespace v gs =
     gs\<lparr>gs_pipeline := map_option
       (\<lambda>p. p\<lparr>pl_metadata := (pl_metadata p)\<lparr>om_namespace := Some v\<rparr>\<rparr>) (gs_pipeline gs)\<rparr>"

text \<open>The fields of the pod template the settings have an input for.\<close>

datatype template_update =
    TemplateImage string
  | TemplatePriorityClass string
  | TemplateScheduler string
  | TemplateEnv "EnvVar list option"

primrec set_template :: "template_update \<Rightarrow> PodTemplateDefaults \<Rightarrow> PodTemplateDefaults" where
  "set_template (TemplateImage v) t = t\<lparr>pt_image := or_undefined v\<rparr>"
| "set_template (TemplatePriorityClass v) t = t\<lparr>pt_priorityClassName := or_undefined v\<rparr>"
| "set_template (TemplateScheduler v) t = t\<lparr>pt_schedulerName := or_undefined v\<rparr>"
| "set_template (TemplateEnv v) t = t\<lparr>pt_env := v\<rparr>"

definition updatePodTemplate :: "template_update \<Rightarrow> GlobalSettings \<Rightarrow> GlobalSettings" where
  "updatePodTemplate u = dispatch_spec (\<lambda>sp. sp\<lparr>sp_podTemplate :=
     Some (set_template u
       (case sp_podTemplate sp of None \<Rightarrow> no_podTemplate | Some t \<Rightarrow> t))\<rparr>)"

subsection \<open>The shared volume\<close>

datatype volume_update =
    VolumeName string
  | VolumeMountPath string
  | VolumeEmptyDir "EmptyDir option"
  | VolumeClaim "string option"

primrec set_volume :: "volume_update \<Rightarrow> SharedVolumeSpec \<Rightarrow> SharedVolumeSpec" where
  "set_volume (VolumeName v) s = s\<lparr>sv_name := Some v\<rparr>"
| "set_volume (VolumeMountPath v) s = s\<lparr>sv_mountPath := Some v\<rparr>"
| "set_volume (VolumeEmptyDir e) s = s\<lparr>sv_emptyDir := e\<rparr>"
| "set_volume (VolumeClaim c) s = s\<lparr>sv_persistentVolumeClaim := c\<rparr>"

definition updateSharedVolume :: "volume_update \<Rightarrow> GlobalSettings \<Rightarrow> GlobalSettings" where
  "updateSharedVolume u = dispatch_spec (\<lambda>sp. sp\<lparr>sp_sharedVolume :=
     Some (set_volume u (case sp_sharedVolume sp of None \<Rightarrow> no_volume | Some v \<Rightarrow> v))\<rparr>)"

definition empty_dir :: EmptyDir where
  "empty_dir = \<lparr>ed_medium = None, ed_sizeLimit = None\<rparr>"

definition toggleSharedVolume :: "bool \<Rightarrow> GlobalSettings \<Rightarrow> GlobalSettings" where
  "toggleSharedVolume enabled =
     dispatch_spec (\<lambda>sp. sp\<lparr>sp_sharedVolume :=
       (if enabled
        then Some (no_volume\<lparr>sv_name := Some ''workspace'', sv_mountPath := Some ''/workspace'',
          sv_emptyDir := Some empty_dir\<rparr>)
        else None)\<rparr>)"

definition selectVolumeType :: "string \<Rightarrow> GlobalSettings \<Rightarrow> GlobalSettings" where
  "selectVolumeType type gs =
     (if type = ''emptyDir''
      then updateSharedVolume (VolumeClaim None) (updateSharedVolume (VolumeEmptyDir (Some empty_dir)) gs)
      else updateSharedVolume (VolumeClaim (Some [])) (updateSharedVolume (VolumeEmptyDir None) gs))"

subsection \<open>Variables of every step\<close>

definition gs_getEnvVars :: "GlobalSettings \<Rightarrow> EnvVar list" where
  "gs_getEnvVars gs =
     (case gs_pipeline gs of
        None \<Rightarrow> []
      | Some p \<Rightarrow> (case sp_podTemplate (pl_spec p) of None \<Rightarrow> [] | Some t \<Rightarrow> list_or (pt_env t)))"

definition gs_updateEnvVars :: "EnvVar list \<Rightarrow> GlobalSettings \<Rightarrow> GlobalSettings" where
  "gs_updateEnvVars envVars =
     updatePodTemplate (TemplateEnv (if envVars = [] then None else Some envVars))"

definition gs_addEnvVar :: "GlobalSettings \<Rightarrow> GlobalSettings" where
  "gs_addEnvVar gs = gs_updateEnvVars (gs_getEnvVars gs @ [(no_env [])\<lparr>ev_value := Some []\<rparr>]) gs"

definition gs_removeEnvVar :: "nat \<Rightarrow> GlobalSettings \<Rightarrow> GlobalSettings" where
  "gs_removeEnvVar index gs = gs_updateEnvVars (remove_at index (gs_getEnvVars gs)) gs"

definition gs_updateEnvVar :: "nat \<Rightarrow> env_field \<Rightarrow> string \<Rightarrow> GlobalSettings \<Rightarrow> GlobalSettings" where
  "gs_updateEnvVar index field v gs =
     gs_updateEnvVars (map_at index (set_env_field field v) (gs_getEnvVars gs)) gs"

interpretation template_env: row_editor gs_getEnvVars gs_updateEnvVars "\<lambda>gs. gs_pipeline gs \<noteq> None"
proof
  fix rs qs :: "EnvVar list" and gs :: GlobalSettings
  assume "gs_pipeline gs \<noteq> None"
  then show "gs_getEnvVars (gs_updateEnvVars rs gs) = rs"
    by (auto simp: gs_getEnvVars_def gs_updateEnvVars_def updatePodTemplate_def dispatch_spec_def
        update_spec_def)
  show "gs_pipeline (gs_updateEnvVars rs gs) \<noteq> None"
    using \<open>gs_pipeline gs \<noteq> None\<close>
    by (simp add: gs_updateEnvVars_def updatePodTemplate_def dispatch_spec_def)
  show "gs_updateEnvVars rs (gs_updateEnvVars qs gs) = gs_updateEnvVars rs gs"
    by (cases "gs_pipeline gs")
       (auto simp: gs_updateEnvVars_def updatePodTemplate_def dispatch_spec_def update_spec_def)
qed

text \<open>What the settings may do to the pipeline, as one sequence of edits.\<close>

datatype settings_edit =
    EditServiceAccount string
  | EditNamespace string
  | EditTemplate template_update
  | EditVolume volume_update
  | ToggleVolume bool
  | SelectVolumeType string
  | AddVariable
  | RemoveVariable nat
  | EditVariable nat env_field string

primrec settings_step :: "GlobalSettings \<Rightarrow> settings_edit \<Rightarrow> GlobalSettings" where
  "settings_step gs (EditServiceAccount v) = updateServiceAccount v gs"
| "settings_step gs (EditNamespace v) = updateNamespace v gs"
| "settings_step gs (EditTemplate u) = updatePodTemplate u gs"
| "settings_step gs (EditVolume u) = updateSharedVolume u gs"
| "settings_step gs (ToggleVolume b) = toggleSharedVolume b gs"
| "settings_step gs (SelectVolumeType t) = selectVolumeType t gs"
| "settings_step gs AddVariable = gs_addEnvVar gs"
| "settings_step gs (RemoveVariable i) = gs_removeEnvVar i gs"
| "settings_step gs (EditVariable i field v) = gs_updateEnvVar i field v gs"

definition settings_run :: "GlobalSettings \<Rightarrow> settings_edit list \<Rightarrow> GlobalSettings" where
  "settings_run gs es = foldl settings_step gs es"

lemmas settings_ops = updateServiceAccount_def updateNamespace_def updatePodTemplate_def
  updateSharedVolume_def toggleSharedVolume_def selectVolumeType_def gs_addEnvVar_def
  gs_removeEnvVar_def gs_updateEnvVar_def gs_updateEnvVars_def dispatch_spec_def update_spec_def

lemma settings_step_frame:
  "map_option (\<lambda>p. (sp_steps (pl_spec p), pl_status p, om_name (pl_metadata p), pl_apiVersion p, pl_kind p))
     (gs_pipeline (settings_step gs e)) =
   map_option (\<lambda>p. (sp_steps (pl_spec p), pl_status p, om_name (pl_metadata p), pl_apiVersion p, pl_kind p))
     (gs_pipeline gs)"
  by (cases e; cases "gs_pipeline gs") (simp_all add: settings_ops)

lemma settings_run_frame:
  "map_option (\<lambda>p. (sp_steps (pl_spec p), pl_status p, om_name (pl_metadata p), pl_apiVersion p, pl_kind p))
     (gs_pipeline (settings_run gs es)) =
   map_option (\<lambda>p. (sp_steps (pl_spec p), pl_status p, om_name (pl_metadata p), pl_apiVersion p, pl_kind p))
     (gs_pipeline gs)"
  by (induction es rule: rev_induct) (simp_all add: settings_run_def settings_step_frame)

text \<open>
  No sequence of edits in the settings touches the steps of the pipeline, its
  status, its name or its kind, so merging the settings into the canvas cannot lose a step.
\<close>

theorem settings_frame:
  "map_option (\<lambda>p. (sp_steps (pl_spec p), pl_status p, om_name (pl_metadata p), pl_apiVersion p, pl_kind p))
     (gs_pipeline (settings_run gs es)) =
   map_option (\<lambda>p. (sp_steps (pl_spec p), pl_status p, om_name (pl_metadata p), pl_apiVersion p, pl_kind p))
     (gs_pipeline gs)"
  by (rule settings_run_frame)

text \<open>
  After a volume type has been chosen the shared volume has exactly one
  of an empty directory and a claim, whatever it had before; a name and mount path given before
  are kept; and a config map or secret of a loaded pipeline stays beside it.
\<close>

theorem shared_volume_kind:
  assumes "gs_pipeline gs = Some p"
  shows "case gs_pipeline (selectVolumeType type gs) of
      None \<Rightarrow> False
    | Some q \<Rightarrow>
        (case sp_sharedVolume (pl_spec q) of
           None \<Rightarrow> False
         | Some v \<Rightarrow>
             (sv_emptyDir v = None) = (sv_persistentVolumeClaim v \<noteq> None) \<and>
             (sv_emptyDir v \<noteq> None) = (type = ''emptyDir'') \<and>
             (case sp_sharedVolume (pl_spec p) of
                None \<Rightarrow> sv_name v = None \<and> sv_mountPath v = None
              | Some w \<Rightarrow> sv_name v = sv_name w \<and> sv_mountPath v = sv_mountPath w \<and>
                  sv_configMap v = sv_configMap w \<and> sv_secret v = sv_secret w))"
  using assms by (simp add: settings_ops no_volume_def split: option.split)

definition example_settings :: GlobalSettings where
  "example_settings = \<lparr>gs_pipeline = Some example_pipeline, gs_activeTab = 0,
     gs_availablePVCs = [], gs_loadingPVCs = False, gs_lastFetchedNamespace = []\<rparr>"

theorem shared_volume_kind_witness:
  "case gs_pipeline (selectVolumeType ''pvc'' example_settings) of
      None \<Rightarrow> False
    | Some q \<Rightarrow> (case sp_sharedVolume (pl_spec q) of None \<Rightarrow> False | Some v \<Rightarrow> sv_emptyDir v = None)"
  using shared_volume_kind [of example_settings example_pipeline "''pvc''"]
  by (auto simp: example_settings_def split: option.splits)

fun variable_rows :: "EnvVar list \<Rightarrow> settings_edit \<Rightarrow> EnvVar list" where
  "variable_rows rows AddVariable = rows @ [\<lparr>ev_name = [], ev_value = Some [], ev_valueFrom = None\<rparr>]"
| "variable_rows rows (RemoveVariable i) = take i rows @ drop (Suc i) rows"
| "variable_rows rows (EditVariable i field v) =
     (if i < length rows then rows[i := set_env_field field v (rows ! i)] else rows)"
| "variable_rows rows (EditTemplate (TemplateEnv v)) = list_or v"
| "variable_rows rows _ = rows"

lemma variable_rows_step:
  assumes "gs_pipeline gs = Some p"
  shows "gs_getEnvVars (settings_step gs e) = variable_rows (gs_getEnvVars gs) e"
proof -
  have "gs_pipeline gs \<noteq> None" using assms by simp
  note row = template_env.get_edit [OF this, unfolded row_edit_def]
  show ?thesis
  proof (cases e)
    case (EditTemplate u)
    then show ?thesis
      by (cases u)
         (auto simp: settings_ops assms gs_getEnvVars_def no_podTemplate_def split: option.split)
  next
    case AddVariable
    then show ?thesis using row [of "AddRow ((no_env [])\<lparr>ev_value := Some []\<rparr>)"]
      by (simp add: gs_addEnvVar_def no_env_def)
  next
    case (RemoveVariable i)
    then show ?thesis using row [of "DropRow i"] by (simp add: gs_removeEnvVar_def)
  next
    case (EditVariable i field v)
    then show ?thesis using row [of "EditRow i (set_env_field field v)"]
      by (simp add: gs_updateEnvVar_def)
  qed (simp_all add: settings_ops assms gs_getEnvVars_def)
qed

text \<open>
  The rows of variables of the pod template behave as a list under any
  sequence of edits in the settings: adding appends one empty row, removing takes out exactly the
  row at the index, editing changes that row only, and the other edits leave the rows alone.
\<close>

theorem template_rows:
  assumes "gs_pipeline gs = Some p"
  shows "gs_getEnvVars (settings_run gs es) = foldl variable_rows (gs_getEnvVars gs) es"
proof (induction es rule: rev_induct)
  case Nil
  then show ?case by (simp add: settings_run_def)
next
  case (snoc e es)
  obtain q where "gs_pipeline (settings_run gs es) = Some q"
    using settings_run_frame [of gs es] assms by (cases "gs_pipeline (settings_run gs es)") auto
  from variable_rows_step [OF this, of e] snoc show ?case
    by (simp add: settings_run_def)
qed

theorem template_rows_witness:
  "map ev_name (gs_getEnvVars (settings_run example_settings
     [AddVariable, EditVariable 0 EnvName ''CI'', AddVariable, RemoveVariable 1])) = [''CI'']"
  using template_rows [of example_settings example_pipeline
      "[AddVariable, EditVariable 0 EnvName ''CI'', AddVariable, RemoveVariable 1]"]
  by (simp add: example_settings_def gs_getEnvVars_def example_pipeline_def no_spec_def)

end
