(* ===== verification/Pipeline_Canvas.thy ===== *)
theory Pipeline_Canvas
  imports Global_Settings Step_Editor App_Router
begin

section \<open>The pipeline builder (\<open>ui/src/components/builder/pipeline-canvas.ts\<close>)\<close>

text \<open>
  The state is the reactive state of the component with two records of what it has done to the
  outside: the pipelines it has asked the API to create and the paths it has navigated to.  The
  YAML package is third-party: \<open>yamlParse\<close> (which may throw) and \<open>yamlStringify\<close> are parameters.
  A parsed document may lack every property, so it is a record of options; a sequence is an
  object without these properties, and metadata without a name has the empty name, which the
  code treats alike.
\<close>

subsection \<open>State\<close>

datatype ViewMode = Builder | Yaml

record CanvasStep = PipelineStep +
  cs_x :: int
  cs_y :: int

record YamlSpec =
  ys_steps :: "PipelineStep list option"
  ys_serviceAccountName :: "string option"
  ys_sharedVolume :: "SharedVolumeSpec option"
  ys_podTemplate :: "PodTemplateDefaults option"

record YamlDocument =
  yd_apiVersion :: "string option"
  yd_kind :: "string option"
  yd_metadata :: "ObjectMeta option"
  yd_spec :: "YamlSpec option"
  yd_status :: "PipelineStatus option"

datatype YamlValue = YamlObject YamlDocument | YamlOther

record Canvas =
  cv_pipeline :: Pipeline
  cv_canvasSteps :: "CanvasStep list"
  cv_selectedStep :: "string option"
  cv_showStepEditor :: bool
  cv_showGlobalSettings :: bool
  cv_saving :: bool
  cv_error :: "string option"
  cv_draggedStepIndex :: "nat option"
  cv_existingPipelineNames :: "string list"
  cv_nameError :: "string option"
  cv_viewMode :: ViewMode
  cv_yamlContent :: string
  cv_yamlError :: "string option"
  cv_posted :: "(string \<times> Pipeline) list"
  cv_navigated :: "string list"

definition canvas_step_of :: "int \<Rightarrow> int \<Rightarrow> PipelineStep \<Rightarrow> CanvasStep" where
  "canvas_step_of x y s = PipelineStep.extend s (CanvasStep.fields x y)"

definition plain_step :: "CanvasStep \<Rightarrow> PipelineStep" where
  "plain_step s = PipelineStep.truncate s"

text \<open>\<open>steps.map((step, index) => ({ ...step, x: 0, y: index * 120 }))\<close>\<close>

definition place_steps :: "PipelineStep list \<Rightarrow> CanvasStep list" where
  "place_steps ss = map (\<lambda>(i, s). canvas_step_of 0 (int i * 120) s) (enumerate 0 ss)"

definition canvas_start :: Canvas where
  "canvas_start =
     \<lparr>cv_pipeline = createEmptyPipeline ''new-pipeline'' ''default'', cv_canvasSteps = [],
      cv_selectedStep = None, cv_showStepEditor = False, cv_showGlobalSettings = False,
      cv_saving = False, cv_error = None, cv_draggedStepIndex = None,
      cv_existingPipelineNames = [], cv_nameError = None, cv_viewMode = Builder,
      cv_yamlContent = [], cv_yamlError = None, cv_posted = [], cv_navigated = []\<rparr>"

definition with_name :: "string \<Rightarrow> Pipeline \<Rightarrow> Pipeline" where
  "with_name n p = p\<lparr>pl_metadata := (pl_metadata p)\<lparr>om_name := n\<rparr>\<rparr>"

definition with_namespace :: "string \<Rightarrow> Pipeline \<Rightarrow> Pipeline" where
  "with_namespace n p = p\<lparr>pl_metadata := (pl_metadata p)\<lparr>om_namespace := Some n\<rparr>\<rparr>"

definition with_steps :: "PipelineStep list \<Rightarrow> Pipeline \<Rightarrow> Pipeline" where
  "with_steps ss p = p\<lparr>pl_spec := (pl_spec p)\<lparr>sp_steps := ss\<rparr>\<rparr>"

subsection \<open>Loading\<close>

text \<open>
  The loop that looks for a free name: it goes on to \<open>next (counter + 1)\<close> as long as the name is
  taken.  That it ends is a theorem.
\<close>

partial_function (option) unique_name ::
    "(nat \<Rightarrow> string) \<Rightarrow> string list \<Rightarrow> string \<Rightarrow> nat \<Rightarrow> string option" where
  "unique_name next taken uniqueName counter =
     (if uniqueName \<in> set taken
      then unique_name next taken (next (counter + 1)) (counter + 1)
      else Some uniqueName)"

declare unique_name.simps [code]

definition copy_suffix :: regex where
  "copy_suffix = RSeq (RLit ''-copy'') (ROpt (RSeq (RLit ''-'') (RPlus (RChar is_digit))))"

definition numbered_copy :: "string \<Rightarrow> nat \<Rightarrow> string" where
  "numbered_copy baseName k = strip_match copy_suffix baseName @ ''-copy-'' @ nat_str k"

definition numbered :: "string \<Rightarrow> nat \<Rightarrow> string" where
  "numbered baseName k = baseName @ ''-'' @ nat_str k"

definition loadExistingPipelines ::
    "PipelineList fetch \<Rightarrow> string \<Rightarrow> string \<Rightarrow> Canvas \<Rightarrow> Canvas option" where
  "loadExistingPipelines fetch base shell_namespace c =
     (let namespace = str_or (om_namespace (pl_metadata (cv_pipeline c))) shell_namespace
      in case listPipelines fetch base namespace of
           Inl _ \<Rightarrow> Some c
         | Inr pipelines \<Rightarrow>
             (let taken = map (\<lambda>p. om_name (pl_metadata p)) pipelines
              in case unique_name (numbered ''new-pipeline'') taken ''new-pipeline'' 1 of
                   None \<Rightarrow> None
                 | Some n \<Rightarrow> Some (c\<lparr>cv_existingPipelineNames := taken,
                     cv_pipeline := with_namespace namespace (with_name n (cv_pipeline c))\<rparr>)))"

definition loadFromCopiedPipeline ::
    "PipelineList fetch \<Rightarrow> string \<Rightarrow> Pipeline \<Rightarrow> Canvas \<Rightarrow> Canvas option" where
  "loadFromCopiedPipeline fetch base copied c =
     (let namespace = str_or (om_namespace (pl_metadata copied)) ''default'';
          load_steps = (\<lambda>c. if sp_steps (pl_spec copied) \<noteq> []
            then c\<lparr>cv_canvasSteps := place_steps (sp_steps (pl_spec copied))\<rparr> else c)
      in case listPipelines fetch base namespace of
           Inl _ \<Rightarrow> Some (load_steps (c\<lparr>cv_pipeline := copied\<rparr>))
         | Inr pipelines \<Rightarrow>
             (let taken = map (\<lambda>p. om_name (pl_metadata p)) pipelines;
                  baseName = om_name (pl_metadata copied)
              in case unique_name (numbered_copy baseName) taken baseName 1 of
                   None \<Rightarrow> None
                 | Some n \<Rightarrow> Some (load_steps
                     (c\<lparr>cv_existingPipelineNames := taken, cv_pipeline := with_name n copied\<rparr>))))"

text \<open>The item \<open>pipeline-copy\<close> of the session storage, as \<open>JSON.parse\<close> reads it.\<close>

definition loadPipelineData ::
    "PipelineList fetch \<Rightarrow> string \<Rightarrow> string \<Rightarrow> Pipeline outcome option \<Rightarrow> Canvas \<Rightarrow> Canvas option" where
  "loadPipelineData fetch base shell_namespace item c =
     (case item of
        Some (Inr copied) \<Rightarrow> loadFromCopiedPipeline fetch base copied c
      | Some (Inl _) \<Rightarrow> loadExistingPipelines fetch base shell_namespace c
      | None \<Rightarrow> loadExistingPipelines fetch base shell_namespace c)"

definition canvas_connected ::
    "PipelineList fetch \<Rightarrow> string \<Rightarrow> string \<Rightarrow> Pipeline outcome option \<Rightarrow> Canvas option" where
  "canvas_connected fetch base shell_namespace item =
     (let c = (if shell_namespace \<noteq> [] \<and> shell_namespace \<noteq> ''default''
        then canvas_start\<lparr>cv_pipeline := createEmptyPipeline ''new-pipeline'' shell_namespace\<rparr>
        else canvas_start)
      in loadPipelineData fetch base shell_namespace item c)"

definition canvas_namespace_change ::
    "PipelineList fetch \<Rightarrow> string \<Rightarrow> string \<Rightarrow> Canvas \<Rightarrow> Canvas option" where
  "canvas_namespace_change fetch base newNamespace c =
     (if cv_canvasSteps c = []
      then loadExistingPipelines fetch base newNamespace
        (c\<lparr>cv_pipeline := with_namespace newNamespace (cv_pipeline c)\<rparr>)
      else Some c)"

subsection \<open>Names\<close>

definition validatePipelineName :: "Canvas \<Rightarrow> string \<Rightarrow> string option" where
  "validatePipelineName c name =
     (let validation = validateStepName name
      in if \<not> vd_valid validation then Some (str_or (vd_error validation) ''Invalid name'')
         else if name \<in> set (cv_existingPipelineNames c)
         then Some (''A pipeline named \"'' @ name @ ''\" already exists in this namespace'')
         else None)"

definition updatePipelineName :: "string \<Rightarrow> Canvas \<Rightarrow> Canvas" where
  "updatePipelineName name c =
     c\<lparr>cv_nameError := validatePipelineName c name, cv_pipeline := with_name name (cv_pipeline c)\<rparr>"

definition getStepImage :: "PipelineStep \<Rightarrow> string" where
  "getStepImage s =
     (case step_containers s of [] \<Rightarrow> ''default'' | ct # _ \<Rightarrow> str_or (ct_image ct) ''default'')"

subsection \<open>Steps\<close>

definition updatePipelineFromCanvas :: "Canvas \<Rightarrow> Canvas" where
  "updatePipelineFromCanvas c =
     c\<lparr>cv_pipeline := with_steps (map plain_step (cv_canvasSteps c)) (cv_pipeline c)\<rparr>"

definition template_container :: "string \<Rightarrow> Container \<Rightarrow> Container" where
  "template_container type ct =
     (if type = ''bash'' then
        ct\<lparr>ct_image := Some ''registry.access.redhat.com/ubi9/ubi-minimal:latest'',
           ct_command := Some [''sh'', ''-c''],
           ct_args := Some [''echo \"Hello from bash step\"'']\<rparr>
      else if type = ''python'' then
        ct\<lparr>ct_image := Some ''registry.access.redhat.com/ubi9/python-311:latest'',
           ct_command := Some [''python'', ''-c''],
           ct_args := Some [''print(\"Hello from Python step\")'']\<rparr>
      else if type = ''kubectl'' then
        ct\<lparr>ct_image := Some ''bitnami/kubectl:latest'', ct_command := Some [''sh'', ''-c''],
           ct_args := Some [''kubectl version --client'']\<rparr>
      else if type = ''custom'' then
        ct\<lparr>ct_image := Some [], ct_command := Some [], ct_args := Some []\<rparr>
      else ct)"

definition new_step :: "string \<Rightarrow> string \<Rightarrow> PipelineStep" where
  "new_step type name =
     (let s = createDefaultStep name
      in s\<lparr>ps_jobSpec := with_containers
           (case step_containers s of [] \<Rightarrow> [] | ct # cts \<Rightarrow> template_container type ct # cts)
           (ps_jobSpec s)\<rparr>)"

definition addStep :: "string \<Rightarrow> Canvas \<Rightarrow> Canvas" where
  "addStep type c =
     (let n = length (cv_canvasSteps c);
          name = ''step-'' @ nat_str (n + 1);
          canvasStep = canvas_step_of 100 (int n * 120 + 50) (new_step type name)
      in (updatePipelineFromCanvas (c\<lparr>cv_canvasSteps := cv_canvasSteps c @ [canvasStep]\<rparr>))
           \<lparr>cv_selectedStep := Some name, cv_showStepEditor := True\<rparr>)"

definition removeStep :: "string \<Rightarrow> Canvas \<Rightarrow> Canvas" where
  "removeStep name c =
     (let c' = updatePipelineFromCanvas
            (c\<lparr>cv_canvasSteps := filter (\<lambda>s. ps_name s \<noteq> name) (cv_canvasSteps c)\<rparr>)
      in if cv_selectedStep c' = Some name
         then c'\<lparr>cv_selectedStep := None, cv_showStepEditor := False\<rparr> else c')"

definition selectStep :: "string \<Rightarrow> Canvas \<Rightarrow> Canvas" where
  "selectStep name c =
     c\<lparr>cv_selectedStep := Some name, cv_showStepEditor := True, cv_showGlobalSettings := False\<rparr>"

definition closeDrawer :: "Canvas \<Rightarrow> Canvas" where
  "closeDrawer c =
     c\<lparr>cv_showStepEditor := False, cv_showGlobalSettings := False, cv_selectedStep := None\<rparr>"

definition openSettings :: "Canvas \<Rightarrow> Canvas" where
  "openSettings c = c\<lparr>cv_showGlobalSettings := True, cv_showStepEditor := False\<rparr>"

definition updateStep :: "string \<Rightarrow> StepUpdates \<Rightarrow> Canvas \<Rightarrow> Canvas" where
  "updateStep name updates c =
     updatePipelineFromCanvas (c\<lparr>cv_canvasSteps :=
       map (\<lambda>s. if ps_name s = name then apply_updates updates s else s) (cv_canvasSteps c)\<rparr>)"

text \<open>The step the open editor shows, and the whole \<open>update\<close> and \<open>delete\<close> handlers of its element.\<close>

definition editor_shows :: "Canvas \<Rightarrow> CanvasStep option" where
  "editor_shows c =
     (case cv_selectedStep c of
        None \<Rightarrow> None
      | Some n \<Rightarrow> List.find (\<lambda>s. ps_name s = n) (cv_canvasSteps c))"

definition on_editor_update :: "StepUpdates \<Rightarrow> Canvas \<Rightarrow> Canvas" where
  "on_editor_update u c =
     (case cv_selectedStep c of None \<Rightarrow> c | Some n \<Rightarrow> if n = [] then c else updateStep n u c)"

definition on_editor_delete :: "Canvas \<Rightarrow> Canvas" where
  "on_editor_delete c =
     (case cv_selectedStep c of
        None \<Rightarrow> c
      | Some n \<Rightarrow> if n = [] then c else closeDrawer (removeStep n c))"

subsection \<open>Dragging\<close>

definition insert_at :: "nat \<Rightarrow> 'a \<Rightarrow> 'a list \<Rightarrow> 'a list" where
  "insert_at i x xs = take i xs @ x # drop i xs"

definition move_item :: "nat \<Rightarrow> nat \<Rightarrow> 'a list \<Rightarrow> 'a list" where
  "move_item i j xs = insert_at j (xs ! i) (take i xs @ drop (Suc i) xs)"

definition handleDragStart :: "nat \<Rightarrow> Canvas \<Rightarrow> Canvas" where
  "handleDragStart index c = c\<lparr>cv_draggedStepIndex := Some index\<rparr>"

definition handleDragEnd :: "Canvas \<Rightarrow> Canvas" where
  "handleDragEnd c = c\<lparr>cv_draggedStepIndex := None\<rparr>"

text \<open>
  The dragged card is one of those shown, so its index is one of the list; an index beyond the
  list, which no card has, is left out.
\<close>

definition handleDragOver :: "nat \<Rightarrow> Canvas \<Rightarrow> Canvas" where
  "handleDragOver index c =
     (case cv_draggedStepIndex c of
        None \<Rightarrow> c
      | Some d \<Rightarrow>
          if d = index \<or> length (cv_canvasSteps c) \<le> d then c
          else updatePipelineFromCanvas
            (c\<lparr>cv_canvasSteps := move_item d index (cv_canvasSteps c),
               cv_draggedStepIndex := Some index\<rparr>))"

definition handleCanvasDrop :: "string option \<Rightarrow> Canvas \<Rightarrow> Canvas" where
  "handleCanvasDrop templateType c =
     (if truthy templateType then addStep (the templateType) c else c)"

subsection \<open>YAML\<close>

definition pipelineToYaml :: "(Pipeline \<Rightarrow> string) \<Rightarrow> Canvas \<Rightarrow> Canvas \<times> string" where
  "pipelineToYaml yamlStringify c =
     (let c' = updatePipelineFromCanvas c in (c', yamlStringify (cv_pipeline c')))"

definition complete_document :: "YamlDocument \<Rightarrow> Pipeline" where
  "complete_document d =
     \<lparr>pl_apiVersion = str_or (yd_apiVersion d) ''pipeline.yaacov.io/v1'',
      pl_kind = str_or (yd_kind d) ''Pipeline'',
      pl_metadata = (case yd_metadata d of None \<Rightarrow> no_meta ''new-pipeline'' | Some md \<Rightarrow> md),
      pl_spec = (case yd_spec d of
          None \<Rightarrow> no_spec []
        | Some sp \<Rightarrow> \<lparr>sp_steps = list_or (ys_steps sp),
            sp_serviceAccountName = ys_serviceAccountName sp,
            sp_sharedVolume = ys_sharedVolume sp, sp_podTemplate = ys_podTemplate sp\<rparr>),
      pl_status = yd_status d\<rparr>"

definition yamlToPipeline ::
    "(string \<Rightarrow> YamlValue outcome) \<Rightarrow> string \<Rightarrow> Canvas \<Rightarrow> Canvas \<times> Pipeline option" where
  "yamlToPipeline yamlParse txt c =
     (case yamlParse txt of
        Inl e \<Rightarrow> (c\<lparr>cv_yamlError := Some (message_or e ''Invalid YAML'')\<rparr>, None)
      | Inr YamlOther \<Rightarrow> (c\<lparr>cv_yamlError := Some ''Invalid YAML: must be an object''\<rparr>, None)
      | Inr (YamlObject d) \<Rightarrow> (c\<lparr>cv_yamlError := None\<rparr>, Some (complete_document d)))"

definition switchToYamlView :: "(Pipeline \<Rightarrow> string) \<Rightarrow> Canvas \<Rightarrow> Canvas" where
  "switchToYamlView yamlStringify c =
     (let (c', txt) = pipelineToYaml yamlStringify c
      in c'\<lparr>cv_yamlContent := txt, cv_yamlError := None, cv_viewMode := Yaml,
            cv_showStepEditor := False, cv_showGlobalSettings := False\<rparr>)"

definition switchToBuilderView :: "(string \<Rightarrow> YamlValue outcome) \<Rightarrow> Canvas \<Rightarrow> Canvas" where
  "switchToBuilderView yamlParse c =
     (case yamlToPipeline yamlParse (cv_yamlContent c) c of
        (c', None) \<Rightarrow> c'
      | (c', Some p) \<Rightarrow>
          c'\<lparr>cv_pipeline := p, cv_canvasSteps := place_steps (sp_steps (pl_spec p)),
             cv_viewMode := Builder\<rparr>)"

definition handleYamlChange :: "(string \<Rightarrow> YamlValue outcome) \<Rightarrow> string \<Rightarrow> Canvas \<Rightarrow> Canvas" where
  "handleYamlChange yamlParse v c =
     (let c' = c\<lparr>cv_yamlContent := v\<rparr> in fst (yamlToPipeline yamlParse (cv_yamlContent c') c'))"

subsection \<open>Saving\<close>

definition post_pipeline ::
    "Pipeline fetch \<Rightarrow> string \<Rightarrow> Pipeline \<Rightarrow> Canvas \<Rightarrow> Canvas" where
  "post_pipeline fetch base p c =
     (let namespace = str_or (om_namespace (pl_metadata p)) ''default'';
          c1 = c\<lparr>cv_saving := False, cv_error := None, cv_posted := cv_posted c @ [(namespace, p)]\<rparr>
      in case createPipeline fetch base namespace p of
           Inr _ \<Rightarrow> c1\<lparr>cv_navigated := cv_navigated c @
             [detail_link namespace (om_name (pl_metadata p))]\<rparr>
         | Inl e \<Rightarrow> c1\<lparr>cv_error := Some (message_or e ''Failed to save pipeline'')\<rparr>)"

definition save_checked :: "Pipeline fetch \<Rightarrow> string \<Rightarrow> Pipeline \<Rightarrow> Canvas \<Rightarrow> Canvas" where
  "save_checked fetch base p c =
     (case validatePipelineName c (om_name (pl_metadata p)) of
        Some e \<Rightarrow> c\<lparr>cv_nameError := Some e, cv_error := Some (''Pipeline name: '' @ e)\<rparr>
      | None \<Rightarrow>
          if sp_steps (pl_spec p) = []
          then c\<lparr>cv_error := Some ''Pipeline must have at least one step''\<rparr>
          else post_pipeline fetch base p c)"

definition savePipeline ::
    "(string \<Rightarrow> YamlValue outcome) \<Rightarrow> Pipeline fetch \<Rightarrow> string \<Rightarrow> Canvas \<Rightarrow> Canvas" where
  "savePipeline yamlParse fetch base c =
     (if cv_viewMode c = Yaml
      then (case yamlToPipeline yamlParse (cv_yamlContent c) c of
              (c', None) \<Rightarrow> c'\<lparr>cv_error := Some (''Cannot save: '' @
                (case cv_yamlError c' of None \<Rightarrow> ''null'' | Some e \<Rightarrow> e))\<rparr>
            | (c', Some p) \<Rightarrow> save_checked fetch base p c')
      else (let c' = updatePipelineFromCanvas c in save_checked fetch base (cv_pipeline c') c'))"

subsection \<open>Everything that can happen to the builder\<close>

datatype canvas_event =
    CanvasAddStep string
  | CanvasRemoveStep string
  | CanvasSelectStep string
  | CanvasCloseDrawer
  | CanvasOpenSettings
  | CanvasEditorUpdate StepUpdates
  | CanvasEditorDelete
  | CanvasDragStart nat
  | CanvasDragEnd
  | CanvasDragOver nat
  | CanvasDrop "string option"
  | CanvasSettings settings_edit
  | CanvasRename string
  | CanvasToYaml
  | CanvasToBuilder
  | CanvasYamlChange string
  | CanvasSave "Pipeline fetch"
  | CanvasNamespace "PipelineList fetch" string

text \<open>The settings drawer shows the pipeline of the canvas and hands back the edited one.\<close>

definition settings_of :: "Pipeline \<Rightarrow> GlobalSettings" where
  "settings_of p = \<lparr>gs_pipeline = Some p, gs_activeTab = 0, gs_availablePVCs = [],
     gs_loadingPVCs = False, gs_lastFetchedNamespace = []\<rparr>"

definition on_settings_update :: "settings_edit \<Rightarrow> Canvas \<Rightarrow> Canvas" where
  "on_settings_update e c =
     (case gs_pipeline (settings_step (settings_of (cv_pipeline c)) e) of
        None \<Rightarrow> c
      | Some p \<Rightarrow> c\<lparr>cv_pipeline := p\<rparr>)"

primrec canvas_step ::
    "(string \<Rightarrow> YamlValue outcome) \<Rightarrow> (Pipeline \<Rightarrow> string) \<Rightarrow> string \<Rightarrow> Canvas \<Rightarrow> canvas_event \<Rightarrow>
     Canvas option" where
  "canvas_step parse str base c (CanvasAddStep type) = Some (addStep type c)"
| "canvas_step parse str base c (CanvasRemoveStep n) = Some (removeStep n c)"
| "canvas_step parse str base c (CanvasSelectStep n) = Some (selectStep n c)"
| "canvas_step parse str base c CanvasCloseDrawer = Some (closeDrawer c)"
| "canvas_step parse str base c CanvasOpenSettings = Some (openSettings c)"
| "canvas_step parse str base c (CanvasEditorUpdate u) = Some (on_editor_update u c)"
| "canvas_step parse str base c CanvasEditorDelete = Some (on_editor_delete c)"
| "canvas_step parse str base c (CanvasDragStart i) = Some (handleDragStart i c)"
| "canvas_step parse str base c CanvasDragEnd = Some (handleDragEnd c)"
| "canvas_step parse str base c (CanvasDragOver i) = Some (handleDragOver i c)"
| "canvas_step parse str base c (CanvasDrop t) = Some (handleCanvasDrop t c)"
| "canvas_step parse str base c (CanvasSettings e) = Some (on_settings_update e c)"
| "canvas_step parse str base c (CanvasRename n) = Some (updatePipelineName n c)"
| "canvas_step parse str base c CanvasToYaml = Some (switchToYamlView str c)"
| "canvas_step parse str base c CanvasToBuilder = Some (switchToBuilderView parse c)"
| "canvas_step parse str base c (CanvasYamlChange v) = Some (handleYamlChange parse v c)"
| "canvas_step parse str base c (CanvasSave fetch) = Some (savePipeline parse fetch base c)"
| "canvas_step parse str base c (CanvasNamespace fetch n) = canvas_namespace_change fetch base n c"

fun canvas_run ::
    "(string \<Rightarrow> YamlValue outcome) \<Rightarrow> (Pipeline \<Rightarrow> string) \<Rightarrow> string \<Rightarrow> Canvas \<Rightarrow> canvas_event list \<Rightarrow>
     Canvas option" where
  "canvas_run parse str base c [] = Some c"
| "canvas_run parse str base c (e # es) =
     (case canvas_step parse str base c e of
        None \<Rightarrow> None
      | Some c' \<Rightarrow> canvas_run parse str base c' es)"

subsection \<open>Free names\<close>

lemma unique_name_free:
  assumes "inj next"
  shows "\<exists>n. unique_name next taken u k = Some n \<and> n \<notin> set taken \<and> (n = u \<or> (\<exists>j > k. n = next j))"
proof -
  have fin: "finite {j. k < j \<and> next j \<in> set taken}" for k
    using finite_vimageI [OF _ assms, of "set taken"]
    by (auto intro: finite_subset [of _ "next -` set taken"])
  show ?thesis
  proof (induction "card {j. k < j \<and> next j \<in> set taken}" arbitrary: u k rule: less_induct)
    case less
    show ?case
    proof (cases "u \<in> set taken")
      case False
      then show ?thesis by (subst unique_name.simps) simp
    next
      case u: True
      show ?thesis
      proof (cases "next (Suc k) \<in> set taken")
        case False
        with u show ?thesis
          by (subst unique_name.simps, simp, subst unique_name.simps) auto
      next
        case True
        have "{j. Suc k < j \<and> next j \<in> set taken} \<subset> {j. k < j \<and> next j \<in> set taken}"
          using True by (auto simp: psubset_eq)
        then have "card {j. Suc k < j \<and> next j \<in> set taken} < card {j. k < j \<and> next j \<in> set taken}"
          by (rule psubset_card_mono [OF fin])
        from less [OF this, of "next (Suc k)"] obtain n where
          n: "unique_name next taken (next (Suc k)) (Suc k) = Some n" "n \<notin> set taken"
            "n = next (Suc k) \<or> (\<exists>j > Suc k. n = next j)"
          by auto
        from u n(1) have "unique_name next taken u k = Some n"
          by (subst unique_name.simps) simp
        with n(2,3) show ?thesis by (auto intro: Suc_lessD)
      qed
    qed
  qed
qed

lemma inj_numbered: "inj (numbered b)" "inj (numbered_copy b)"
  by (auto simp: inj_def numbered_def numbered_copy_def)

text \<open>
  C11: when the pipelines of the namespace can be listed, opening the
  builder ends with a name that none of them has: the search for a free name always stops.  A new
  pipeline is called \<open>new-pipeline\<close> or \<open>new-pipeline-k\<close>; a copy keeps its name when it is free.
\<close>

theorem load_gives_free_name:
  assumes "listPipelines fetch base (str_or (om_namespace (pl_metadata (cv_pipeline c))) shell) = Inr ps"
    and "listPipelines fetch base (str_or (om_namespace (pl_metadata copied)) ''default'') = Inr qs"
  shows "(case loadExistingPipelines fetch base shell c of
       None \<Rightarrow> False
     | Some c' \<Rightarrow>
         om_name (pl_metadata (cv_pipeline c')) \<notin> (\<lambda>p. om_name (pl_metadata p)) ` set ps \<and>
         (om_name (pl_metadata (cv_pipeline c')) = ''new-pipeline'' \<or>
          (\<exists>k > 1. om_name (pl_metadata (cv_pipeline c')) = ''new-pipeline-'' @ nat_str k)) \<and>
         cv_canvasSteps c' = cv_canvasSteps c) \<and>
    (case loadFromCopiedPipeline fetch base copied c of
       None \<Rightarrow> False
     | Some c' \<Rightarrow>
         om_name (pl_metadata (cv_pipeline c')) \<notin> (\<lambda>p. om_name (pl_metadata p)) ` set qs \<and>
         (om_name (pl_metadata copied) \<notin> (\<lambda>p. om_name (pl_metadata p)) ` set qs \<longrightarrow>
          cv_pipeline c' = copied) \<and>
         pl_spec (cv_pipeline c') = pl_spec copied)"
proof -
  let ?names = "\<lambda>ps. map (\<lambda>p. om_name (pl_metadata p)) ps"
  obtain n where n: "unique_name (numbered ''new-pipeline'') (?names ps) ''new-pipeline'' 1 = Some n"
    "n \<notin> set (?names ps)" "n = ''new-pipeline'' \<or> (\<exists>j > 1. n = numbered ''new-pipeline'' j)"
    using unique_name_free [OF inj_numbered(1)] by blast
  obtain m where m: "unique_name (numbered_copy (om_name (pl_metadata copied))) (?names qs)
      (om_name (pl_metadata copied)) 1 = Some m" "m \<notin> set (?names qs)"
    using unique_name_free [OF inj_numbered(2)] by blast
  have keep: "m = om_name (pl_metadata copied)" if "om_name (pl_metadata copied) \<notin> set (?names qs)"
    using m(1) that by (subst (asm) unique_name.simps) simp
  have "(case loadExistingPipelines fetch base shell c of
       None \<Rightarrow> False
     | Some c' \<Rightarrow>
         om_name (pl_metadata (cv_pipeline c')) \<notin> set (?names ps) \<and>
         (om_name (pl_metadata (cv_pipeline c')) = ''new-pipeline'' \<or>
          (\<exists>k > 1. om_name (pl_metadata (cv_pipeline c')) = ''new-pipeline-'' @ nat_str k)) \<and>
         cv_canvasSteps c' = cv_canvasSteps c)"
    using n by (simp add: loadExistingPipelines_def assms(1) Let_def with_name_def
        with_namespace_def numbered_def)
  moreover have "case loadFromCopiedPipeline fetch base copied c of
       None \<Rightarrow> False
     | Some c' \<Rightarrow>
         om_name (pl_metadata (cv_pipeline c')) \<notin> set (?names qs) \<and>
         (om_name (pl_metadata copied) \<notin> set (?names qs) \<longrightarrow> cv_pipeline c' = copied) \<and>
         pl_spec (cv_pipeline c') = pl_spec copied"
    using m keep by (simp add: loadFromCopiedPipeline_def assms(2) Let_def with_name_def)
  ultimately show ?thesis by (simp only: set_map)
qed

subsection \<open>The pipeline and the canvas show the same steps\<close>

definition steps_synced :: "Canvas \<Rightarrow> bool" where
  "steps_synced c = (sp_steps (pl_spec (cv_pipeline c)) = map plain_step (cv_canvasSteps c))"

lemma plain_canvas_step [simp]: "plain_step (canvas_step_of x y s) = s"
  by (simp add: plain_step_def canvas_step_of_def PipelineStep.defs CanvasStep.defs)

lemma plain_place_steps [simp]: "map plain_step (place_steps ss) = ss"
  by (rule nth_equalityI) (auto simp: place_steps_def nth_enumerate_eq)

lemma steps_with_steps [simp]: "sp_steps (pl_spec (with_steps ss p)) = ss"
  by (simp add: with_steps_def)

lemma synced_update [simp]: "steps_synced (updatePipelineFromCanvas c)"
  by (simp add: steps_synced_def updatePipelineFromCanvas_def)

lemma synced_yaml:
  "yamlToPipeline parse txt c = (c', r) \<Longrightarrow> cv_pipeline c' = cv_pipeline c \<and>
     cv_canvasSteps c' = cv_canvasSteps c \<and> cv_posted c' = cv_posted c \<and>
     cv_existingPipelineNames c' = cv_existingPipelineNames c"
  by (auto simp: yamlToPipeline_def split: sum.splits YamlValue.splits)

lemma save_checked_frame:
  "cv_pipeline (save_checked fetch base p c) = cv_pipeline c"
  "cv_canvasSteps (save_checked fetch base p c) = cv_canvasSteps c"
  by (simp_all add: save_checked_def post_pipeline_def Let_def split: option.split sum.split)

lemma settings_steps:
  "gs_pipeline (settings_step (settings_of p) e) = Some q \<Longrightarrow> sp_steps (pl_spec q) = sp_steps (pl_spec p)"
  using settings_step_frame [of "settings_of p" e] by (auto simp: settings_of_def)

lemma loaded_synced:
  assumes "steps_synced c" and "loadExistingPipelines fetch base shell c = Some c'"
  shows "steps_synced c'"
  using assms
  by (auto simp: loadExistingPipelines_def Let_def steps_synced_def with_name_def
      with_namespace_def split: sum.splits option.splits)

lemma synced_edits:
  "steps_synced (addStep type c)" "steps_synced (removeStep n c)" "steps_synced (updateStep n u c)"
  by (simp_all add: steps_synced_def addStep_def removeStep_def updateStep_def
      updatePipelineFromCanvas_def Let_def)

lemma synced_views:
  assumes "steps_synced c"
  shows "steps_synced (selectStep n c)" "steps_synced (closeDrawer c)" "steps_synced (openSettings c)"
    "steps_synced (handleDragStart i c)" "steps_synced (handleDragEnd c)"
    "steps_synced (updatePipelineName n c)" "steps_synced (on_settings_update e c)"
  using assms settings_steps [of "cv_pipeline c" e]
  by (auto simp: steps_synced_def selectStep_def closeDrawer_def openSettings_def
      handleDragStart_def handleDragEnd_def updatePipelineName_def with_name_def
      on_settings_update_def split: option.split)

lemma synced_editor:
  assumes "steps_synced c"
  shows "steps_synced (on_editor_update u c)" "steps_synced (on_editor_delete c)"
    "steps_synced (handleDragOver i c)" "steps_synced (handleCanvasDrop t c)"
  using assms synced_edits synced_views(2) [OF synced_edits(2)]
  by (auto simp: on_editor_update_def on_editor_delete_def handleDragOver_def handleCanvasDrop_def
      split: option.split)

lemma synced_to_yaml: "steps_synced (switchToYamlView str c)"
  by (simp add: switchToYamlView_def pipelineToYaml_def Let_def steps_synced_def
      updatePipelineFromCanvas_def)

lemma synced_from_yaml:
  assumes "steps_synced c"
  shows "steps_synced (switchToBuilderView parse c)" "steps_synced (handleYamlChange parse v c)"
    "steps_synced (savePipeline parse fetch base c)"
proof -
  show "steps_synced (switchToBuilderView parse c)"
  proof -
    obtain d r where d: "yamlToPipeline parse (cv_yamlContent c) c = (d, r)" by fastforce
    then show ?thesis
      using assms synced_yaml [OF d]
      by (cases r) (simp_all add: switchToBuilderView_def steps_synced_def)
  qed
  obtain d r where d: "yamlToPipeline parse v (c\<lparr>cv_yamlContent := v\<rparr>) = (d, r)"
    by fastforce
  then show "steps_synced (handleYamlChange parse v c)"
    using assms synced_yaml [OF d] by (simp add: handleYamlChange_def steps_synced_def)
  obtain d r where d: "yamlToPipeline parse (cv_yamlContent c) c = (d, r)"
    by fastforce
  have "steps_synced (save_checked fetch base p d)" for p
    using assms synced_yaml [OF d] by (simp add: steps_synced_def save_checked_frame)
  moreover have "steps_synced (d\<lparr>cv_error := x\<rparr>)" for x
    using assms synced_yaml [OF d] by (simp add: steps_synced_def)
  moreover have "steps_synced (save_checked fetch base p (updatePipelineFromCanvas c))" for p
    using synced_update [of c] by (simp add: steps_synced_def save_checked_frame)
  ultimately show "steps_synced (savePipeline parse fetch base c)"
    by (simp add: savePipeline_def d Let_def split: option.split)
qed

lemma synced_namespace:
  assumes "steps_synced c" and "canvas_namespace_change fetch base n c = Some c'"
  shows "steps_synced c'"
proof (cases "cv_canvasSteps c = []")
  case True
  have "steps_synced (c\<lparr>cv_pipeline := with_namespace n (cv_pipeline c)\<rparr>)"
    using assms(1) by (simp add: steps_synced_def with_namespace_def)
  then show ?thesis using assms(2) True loaded_synced by (auto simp: canvas_namespace_change_def)
qed (use assms in \<open>simp add: canvas_namespace_change_def\<close>)

lemma canvas_step_synced:
  assumes "steps_synced c" and "canvas_step parse str base c e = Some c'"
  shows "steps_synced c'"
  using assms(2) synced_edits synced_views [OF assms(1)] synced_editor [OF assms(1)]
    synced_to_yaml synced_from_yaml [OF assms(1)] synced_namespace [OF assms(1)]
  by (cases e) (auto simp del: split_paired_All)

lemma canvas_step_returns: "\<exists>c'. canvas_step parse str base c e = Some c'"
proof (cases e)
  case (CanvasNamespace fetch n)
  have name: "\<exists>m. unique_name (numbered ''new-pipeline'') taken ''new-pipeline'' 1 = Some m" for taken
    using unique_name_free [OF inj_numbered(1)] by blast
  have "\<exists>d. loadExistingPipelines fetch base shell b = Some d" for shell b
  proof (cases "listPipelines fetch base (str_or (om_namespace (pl_metadata (cv_pipeline b))) shell)")
    case (Inr ps)
    then show ?thesis
      using name [of "map (\<lambda>p. om_name (pl_metadata p)) ps"]
      by (auto simp: loadExistingPipelines_def Let_def)
  qed (simp add: loadExistingPipelines_def)
  with CanvasNamespace show ?thesis by (simp add: canvas_namespace_change_def)
qed simp_all

lemma opened_synced:
  assumes "canvas_connected fetch base shell item = Some c"
  shows "steps_synced c"
proof -
  have start: "steps_synced d" if "d \<in> {canvas_start,
      canvas_start\<lparr>cv_pipeline := createEmptyPipeline ''new-pipeline'' shell\<rparr>}" for d
    using that by (auto simp: steps_synced_def canvas_start_def createEmptyPipeline_def no_spec_def)
  have empty: "cv_canvasSteps d = []" if "d \<in> {canvas_start,
      canvas_start\<lparr>cv_pipeline := createEmptyPipeline ''new-pipeline'' shell\<rparr>}" for d
    using that by (auto simp: canvas_start_def)
  have copied: "steps_synced c'" if "loadFromCopiedPipeline fetch base p d = Some c'"
      "cv_canvasSteps d = []" for p d c'
    using that by (auto simp: loadFromCopiedPipeline_def Let_def steps_synced_def with_name_def
        split: sum.splits option.splits if_splits)
  let ?d = "if shell \<noteq> [] \<and> shell \<noteq> ''default''
    then canvas_start\<lparr>cv_pipeline := createEmptyPipeline ''new-pipeline'' shell\<rparr> else canvas_start"
  have d: "?d \<in> {canvas_start, canvas_start\<lparr>cv_pipeline := createEmptyPipeline ''new-pipeline'' shell\<rparr>}"
    by simp
  have "loadPipelineData fetch base shell item ?d = Some c"
    using assms by (simp add: canvas_connected_def Let_def)
  then show ?thesis
    using loaded_synced [OF start [OF d]] copied [OF _ empty [OF d]]
    by (auto simp: loadPipelineData_def split: option.splits sum.splits)
qed

text \<open>
  C2: from opening the builder on, after any sequence of edits, drags,
  settings, changes of view, namespace and saves, the steps of the pipeline are the steps on the
  canvas, in the same order and without their positions.
\<close>

theorem canvas_steps_synced:
  assumes "canvas_connected fetch base shell item = Some c"
  shows "case canvas_run parse str base c events of
      None \<Rightarrow> False
    | Some c' \<Rightarrow> sp_steps (pl_spec (cv_pipeline c')) = map plain_step (cv_canvasSteps c')"
  using opened_synced [OF assms]
proof (induction events arbitrary: c)
  case Nil
  then show ?case by (simp add: steps_synced_def)
next
  case (Cons e es)
  obtain d where d: "canvas_step parse str base c e = Some d"
    using canvas_step_returns by blast
  from Cons.IH [OF canvas_step_synced [OF Cons.prems d]] d show ?case by simp
qed

definition offline :: "'a fetch" where
  "offline = (\<lambda>rq. Inl (ErrorObj ''TypeError'' ''Failed to fetch''))"

definition serving :: "'a \<Rightarrow> 'a fetch" where
  "serving v = (\<lambda>rq. Inr \<lparr>rs_status = 200, rs_text = [], rs_parsed = Inr (JObj []), rs_typed = v\<rparr>)"

lemma request_offline: "request offline base path opts = Inl (ErrorObj ''TypeError'' ''Failed to fetch'')"
  by (simp add: request_def offline_def)

lemma request_serving: "request (serving v) base path opts = Inr v"
  by (simp add: request_def serving_def rs_ok_def read_json_def)

definition listing :: "Pipeline list \<Rightarrow> PipelineList" where
  "listing ps = \<lparr>pll_apiVersion = ''pipeline.yaacov.io/v1'', pll_kind = ''PipelineList'',
     pll_metadata = \<lparr>lm_resourceVersion = None, lm_continue = None\<rparr>, pll_items = Some ps\<rparr>"

lemma list_serving: "listPipelines (serving (listing ps)) base ns = Inr ps"
  by (simp add: listPipelines_def request_serving listing_def)

lemma connected_offline: "canvas_connected offline base ''default'' None = Some canvas_start"
  by (simp add: canvas_connected_def loadPipelineData_def loadExistingPipelines_def
      listPipelines_def request_offline Let_def)

theorem canvas_steps_synced_witness:
  "case canvas_run (\<lambda>_. Inl OtherThrown) (\<lambda>p. om_name (pl_metadata p)) ''/k8s'' canvas_start
      [CanvasAddStep ''bash'', CanvasAddStep ''python'', CanvasDragStart 1, CanvasDragOver 0] of
      None \<Rightarrow> False
    | Some c' \<Rightarrow> sp_steps (pl_spec (cv_pipeline c')) = map plain_step (cv_canvasSteps c')"
  by (rule canvas_steps_synced [OF connected_offline])

theorem load_gives_free_name_witness:
  "case loadExistingPipelines (serving (listing [createEmptyPipeline ''new-pipeline'' ''default'']))
       ''/k8s'' ''default'' canvas_start of
     None \<Rightarrow> False
   | Some c' \<Rightarrow> om_name (pl_metadata (cv_pipeline c')) \<noteq> ''new-pipeline''"
  using load_gives_free_name [OF list_serving list_serving,
      where c = canvas_start and shell = "''default''" and base = "''/k8s''"
        and copied = example_pipeline and ps = "[createEmptyPipeline ''new-pipeline'' ''default'']"]
  by (auto simp: createEmptyPipeline_def no_meta_def split: option.splits)

subsection \<open>Saving\<close>

text \<open>
  C7: saving creates at most one pipeline, and creates it exactly when the
  name is a valid label that no listed pipeline has and there is a step; it is the pipeline of the
  canvas, or in the YAML view the one of the text; on success the builder goes to the page of that
  very pipeline, and on failure it stays and shows why.
\<close>

theorem save_posts_checked:
  "let c' = savePipeline parse fetch base c;
       target = (if cv_viewMode c = Yaml
         then (case parse (cv_yamlContent c) of Inr (YamlObject d) \<Rightarrow> Some (complete_document d) | _ \<Rightarrow> None)
         else Some (with_steps (map plain_step (cv_canvasSteps c)) (cv_pipeline c)))
   in case target of
        None \<Rightarrow> cv_posted c' = cv_posted c \<and> cv_navigated c' = cv_navigated c \<and> cv_error c' \<noteq> None
      | Some p \<Rightarrow>
          (let ns = str_or (om_namespace (pl_metadata p)) ''default''; n = om_name (pl_metadata p)
           in if valid_name n \<and> n \<notin> set (cv_existingPipelineNames c) \<and> sp_steps (pl_spec p) \<noteq> []
              then cv_posted c' = cv_posted c @ [(ns, p)] \<and>
                (case createPipeline fetch base ns p of
                   Inr q \<Rightarrow> cv_navigated c' = cv_navigated c @ [detail_link ns n] \<and> cv_error c' = None
                 | Inl e \<Rightarrow> cv_navigated c' = cv_navigated c \<and> cv_error c' \<noteq> None)
              else cv_posted c' = cv_posted c \<and> cv_navigated c' = cv_navigated c \<and> cv_error c' \<noteq> None)"
proof -
  have checked: "let c' = save_checked fetch base p d;
       ns = str_or (om_namespace (pl_metadata p)) ''default''; n = om_name (pl_metadata p)
     in if valid_name n \<and> n \<notin> set (cv_existingPipelineNames d) \<and> sp_steps (pl_spec p) \<noteq> []
        then cv_posted c' = cv_posted d @ [(ns, p)] \<and>
          (case createPipeline fetch base ns p of
             Inr q \<Rightarrow> cv_navigated c' = cv_navigated d @ [detail_link ns n] \<and> cv_error c' = None
           | Inl e \<Rightarrow> cv_navigated c' = cv_navigated d \<and> cv_error c' \<noteq> None)
        else cv_posted c' = cv_posted d \<and> cv_navigated c' = cv_navigated d \<and> cv_error c' \<noteq> None"
    for p d
    by (auto simp: save_checked_def post_pipeline_def validatePipelineName_def vd_valid_iff Let_def
        split: sum.split)
  show ?thesis
  proof (cases "cv_viewMode c = Yaml")
    case True
    show ?thesis
    proof (cases "yamlToPipeline parse (cv_yamlContent c) c")
      case (Pair d r)
      then have d: "cv_posted d = cv_posted c" "cv_navigated d = cv_navigated c"
        "cv_existingPipelineNames d = cv_existingPipelineNames c"
        "r = (case parse (cv_yamlContent c) of
           Inr (YamlObject y) \<Rightarrow> Some (complete_document y) | _ \<Rightarrow> None)"
        by (auto simp: yamlToPipeline_def split: sum.splits YamlValue.splits)
      have target: "(case parse (cv_yamlContent c) of
          Inr (YamlObject y) \<Rightarrow> Some (complete_document y) | _ \<Rightarrow> None) = r"
        using d(4) by simp
      show ?thesis
      proof (cases r)
        case None
        then show ?thesis
          using True d(1,2) unfolding Let_def if_P [OF True] target
          by (simp add: savePipeline_def Pair)
      next
        case (Some p)
        then have save: "savePipeline parse fetch base c = save_checked fetch base p d"
          using True by (simp add: savePipeline_def Pair)
        show ?thesis
          using checked [of p d] unfolding Let_def if_P [OF True] target d(1-3) save Some by simp
      qed
    qed
  next
    case False
    let ?p = "with_steps (map plain_step (cv_canvasSteps c)) (cv_pipeline c)"
    have builder: "cv_viewMode c \<noteq> Yaml" using False .
    have d: "cv_posted (updatePipelineFromCanvas c) = cv_posted c"
      "cv_navigated (updatePipelineFromCanvas c) = cv_navigated c"
      "cv_existingPipelineNames (updatePipelineFromCanvas c) = cv_existingPipelineNames c"
      by (simp_all add: updatePipelineFromCanvas_def)
    have save: "savePipeline parse fetch base c = save_checked fetch base ?p (updatePipelineFromCanvas c)"
      using False by (simp add: savePipeline_def Let_def updatePipelineFromCanvas_def)
    show ?thesis
      using checked [of ?p "updatePipelineFromCanvas c"]
      unfolding Let_def if_not_P [OF builder] save d by (simp only: option.case)
  qed
qed

subsection \<open>Dragging\<close>

lemma mset_move_item: "i < length xs \<Longrightarrow> mset (move_item i j xs) = mset xs"
proof -
  assume "i < length xs"
  have "mset xs = mset (take i xs @ xs ! i # drop (Suc i) xs)"
    by (rule arg_cong [OF id_take_nth_drop [OF \<open>i < length xs\<close>], of mset])
  also have "\<dots> = add_mset (xs ! i) (mset (take i xs @ drop (Suc i) xs))" by simp
  also have "mset (take i xs @ drop (Suc i) xs) =
      mset (take j (take i xs @ drop (Suc i) xs)) + mset (drop j (take i xs @ drop (Suc i) xs))"
    by (simp only: mset_append [symmetric] append_take_drop_id)
  finally show ?thesis by (simp add: move_item_def insert_at_def)
qed

lemma length_move_item: "i < length xs \<Longrightarrow> length (move_item i j xs) = length xs"
  using arg_cong [OF mset_move_item, of i xs size j] by simp

lemma move_item_position:
  "i < length xs \<Longrightarrow> j < length xs \<Longrightarrow> move_item i j xs ! j = xs ! i"
  by (simp add: move_item_def insert_at_def nth_append min_def)

lemma insert_at_others:
  "j \<le> length ys \<Longrightarrow> take j (insert_at j x ys) @ drop (Suc j) (insert_at j x ys) = ys"
  by (simp add: insert_at_def min_def)

lemma move_item_others:
  assumes "i < length xs" and "j < length xs"
  shows "take j (move_item i j xs) @ drop (Suc j) (move_item i j xs) = take i xs @ drop (Suc i) xs"
  unfolding move_item_def by (rule insert_at_others) (use assms in simp)

text \<open>
  C39: dragging a card over another moves the dragged step to that position
  and keeps the order of all others, so no step is lost or doubled; dragging it back gives the
  canvas back.
\<close>

theorem drag_moves_one_step:
  assumes "i < length (cv_canvasSteps c)" and "j < length (cv_canvasSteps c)"
  shows "let xs = cv_canvasSteps c; c' = handleDragOver j (handleDragStart i c); ys = cv_canvasSteps c'
    in mset ys = mset xs \<and> ys ! j = xs ! i \<and>
       take j ys @ drop (Suc j) ys = take i xs @ drop (Suc i) xs \<and>
       cv_canvasSteps (handleDragOver i c') = xs"
proof (cases "i = j")
  case True
  then show ?thesis by (simp add: handleDragOver_def handleDragStart_def Let_def)
next
  case False
  let ?xs = "cv_canvasSteps c"
  let ?ys = "move_item i j ?xs"
  have ys: "cv_canvasSteps (handleDragOver j (handleDragStart i c)) = ?ys"
    "cv_draggedStepIndex (handleDragOver j (handleDragStart i c)) = Some j"
    using False assms
    by (simp_all add: handleDragOver_def handleDragStart_def updatePipelineFromCanvas_def)
  have "move_item j i ?ys = insert_at i (?xs ! i) (take i ?xs @ drop (Suc i) ?xs)"
    unfolding move_item_def [of j i ?ys]
    by (simp only: move_item_others [OF assms] move_item_position [OF assms])
  also have "\<dots> = ?xs"
    using assms(1) id_take_nth_drop [of i ?xs] by (simp add: insert_at_def)
  finally have again: "move_item j i ?ys = ?xs" .
  have "cv_canvasSteps (handleDragOver i (handleDragOver j (handleDragStart i c))) = ?xs"
    using ys False assms length_move_item [OF assms(1), of j] again
    by (simp add: handleDragOver_def [of i] updatePipelineFromCanvas_def)
  then show ?thesis
    using mset_move_item [OF assms(1)] move_item_position [OF assms] move_item_others [OF assms]
    unfolding Let_def ys(1) by simp
qed

definition two_steps :: Canvas where
  "two_steps = addStep ''python'' (addStep ''bash'' canvas_start)"

lemma two_steps_length: "length (cv_canvasSteps two_steps) = 2"
  by (simp add: two_steps_def addStep_def Let_def updatePipelineFromCanvas_def canvas_start_def)

theorem drag_moves_one_step_witness:
  "cv_canvasSteps (handleDragOver 0 (handleDragStart 1 two_steps)) ! 0 = cv_canvasSteps two_steps ! 1"
  using drag_moves_one_step [of 1 two_steps 0] by (simp add: two_steps_length Let_def)

subsection \<open>The two views\<close>

text \<open>
  Provided the YAML package reads back what it writes for the pipeline
  at hand, switching to the YAML view and back changes neither the pipeline nor its steps; only
  the positions of the cards are laid out afresh.
\<close>

theorem yaml_views_roundtrip:
  assumes "steps_synced c"
    and "yamlParse (yamlStringify (cv_pipeline c)) = Inr (YamlObject d)"
    and "complete_document d = cv_pipeline c"
  shows "let c' = switchToBuilderView yamlParse (switchToYamlView yamlStringify c)
    in cv_pipeline c' = cv_pipeline c \<and>
       map plain_step (cv_canvasSteps c') = map plain_step (cv_canvasSteps c) \<and>
       cv_viewMode c' = Builder \<and> cv_yamlError c' = None"
proof -
  from assms(1) have steps: "map plain_step (cv_canvasSteps c) = sp_steps (pl_spec (cv_pipeline c))"
    by (simp add: steps_synced_def)
  have same: "with_steps (sp_steps (pl_spec p)) p = p" for p
    by (simp add: with_steps_def)
  show ?thesis
    using assms(2,3)
    by (simp add: Let_def switchToYamlView_def pipelineToYaml_def switchToBuilderView_def
        yamlToPipeline_def updatePipelineFromCanvas_def steps same)
qed

definition document_of :: "Pipeline \<Rightarrow> YamlDocument" where
  "document_of p =
     \<lparr>yd_apiVersion = Some (pl_apiVersion p), yd_kind = Some (pl_kind p),
      yd_metadata = Some (pl_metadata p),
      yd_spec = Some \<lparr>ys_steps = Some (sp_steps (pl_spec p)),
        ys_serviceAccountName = sp_serviceAccountName (pl_spec p),
        ys_sharedVolume = sp_sharedVolume (pl_spec p), ys_podTemplate = sp_podTemplate (pl_spec p)\<rparr>,
      yd_status = pl_status p\<rparr>"

theorem yaml_views_roundtrip_witness:
  "cv_pipeline (switchToBuilderView (\<lambda>txt. Inr (YamlObject (document_of (cv_pipeline two_steps))))
     (switchToYamlView (\<lambda>p. om_name (pl_metadata p)) two_steps)) = cv_pipeline two_steps"
proof -
  have synced: "steps_synced two_steps" by (simp add: two_steps_def synced_edits)
  have kind: "pl_apiVersion (cv_pipeline two_steps) = ''pipeline.yaacov.io/v1''"
    "pl_kind (cv_pipeline two_steps) = ''Pipeline''"
    by (simp_all add: two_steps_def addStep_def Let_def updatePipelineFromCanvas_def
        canvas_start_def with_steps_def createEmptyPipeline_def)
  have "complete_document (document_of (cv_pipeline two_steps)) = cv_pipeline two_steps"
    by (simp add: complete_document_def document_of_def kind)
  from yaml_views_roundtrip [OF synced refl this, where yamlStringify = "\<lambda>p. om_name (pl_metadata p)"]
  show ?thesis by (simp add: Let_def)
qed

subsection \<open>Names of steps\<close>

lemma addStep_names:
  "map ps_name (cv_canvasSteps (addStep type c)) =
     map ps_name (cv_canvasSteps c) @ [''step-'' @ nat_str (length (cv_canvasSteps c) + 1)]"
  by (simp add: addStep_def Let_def updatePipelineFromCanvas_def canvas_step_of_def
      PipelineStep.defs CanvasStep.defs new_step_def createDefaultStep_def)

lemma removeStep_names:
  "map ps_name (cv_canvasSteps (removeStep n c)) = filter (\<lambda>m. m \<noteq> n) (map ps_name (cv_canvasSteps c))"
  by (simp add: removeStep_def Let_def updatePipelineFromCanvas_def filter_map comp_def)

text \<open>
  A new step is named after the number of steps, so on a fresh canvas
  adding two steps, removing the first and adding another gives two steps with one name; and
  removing one of them then removes both.
\<close>

theorem added_names_collide:
  assumes "cv_canvasSteps c = []"
  shows "let c' = addStep t3 (removeStep ''step-1'' (addStep t2 (addStep t1 c)))
    in map ps_name (cv_canvasSteps c') = [''step-2'', ''step-2''] \<and>
       cv_canvasSteps (removeStep ''step-2'' c') = []"
proof -
  let ?d = "removeStep ''step-1'' (addStep t2 (addStep t1 c))"
  have one: "''step-'' @ nat_str 1 = ''step-1''" "''step-'' @ nat_str 2 = ''step-2''"
    by code_simp+
  have len: "length (cv_canvasSteps (addStep t1 c)) = 1"
    using assms by (simp add: addStep_def Let_def updatePipelineFromCanvas_def)
  have d: "map ps_name (cv_canvasSteps ?d) = [''step-2'']"
    using one by (simp add: removeStep_names addStep_names assms len numeral_2_eq_2)
  then have "length (cv_canvasSteps ?d) = 1" by (metis length_map One_nat_def length_Cons list.size(3))
  with one d have names: "map ps_name (cv_canvasSteps (addStep t3 ?d)) = [''step-2'', ''step-2'']"
    by (simp add: addStep_names numeral_2_eq_2)
  then have "map ps_name (cv_canvasSteps (removeStep ''step-2'' (addStep t3 ?d))) = []"
    by (simp add: removeStep_names)
  with names show ?thesis by (simp add: Let_def)
qed

theorem added_names_collide_witness:
  "map ps_name (cv_canvasSteps (addStep ''bash'' (removeStep ''step-1''
     (addStep ''bash'' (addStep ''bash'' canvas_start))))) = [''step-2'', ''step-2'']"
  using added_names_collide [of canvas_start "''bash''" "''bash''" "''bash''"]
  by (simp add: Let_def canvas_start_def)

lemma updateStep_names:
  "map ps_name (cv_canvasSteps (updateStep n u c)) =
     map (\<lambda>m. if m = n then (case su_name u of None \<Rightarrow> m | Some x \<Rightarrow> x) else m)
       (map ps_name (cv_canvasSteps c))"
  by (simp add: updateStep_def updatePipelineFromCanvas_def apply_updates_def)

text \<open>
  The editor of a step reports every keystroke in its name, but the
  canvas goes on looking for the old name: after the first changed character the editor shows no
  step any more, so a step cannot be renamed by typing.
\<close>

theorem rename_closes_editor:
  assumes "cv_selectedStep c = Some n" and "n \<noteq> []" and "m \<noteq> n"
  shows "editor_shows (on_editor_update (no_updates\<lparr>su_name := Some m\<rparr>) c) = None"
proof -
  let ?c = "updateStep n (no_updates\<lparr>su_name := Some m\<rparr>) c"
  have "n \<notin> set (map ps_name (cv_canvasSteps ?c))"
    using assms(3) unfolding updateStep_names by (auto split: if_splits)
  then have "List.find (\<lambda>s. ps_name s = n) (cv_canvasSteps ?c) = None"
    by (auto simp: find_None_iff)
  moreover have "cv_selectedStep ?c = Some n"
    using assms(1) by (simp add: updateStep_def updatePipelineFromCanvas_def)
  ultimately show ?thesis
    using assms by (simp add: on_editor_update_def editor_shows_def)
qed

theorem rename_closes_editor_witness:
  "editor_shows (on_editor_update (no_updates\<lparr>su_name := Some ''step-2x''\<rparr>)
     (selectStep ''step-2'' two_steps)) = None"
  by (rule rename_closes_editor [of _ "''step-2''"]) (simp_all add: selectStep_def)

end
