(* ===== verification/Form_View.thy ===== *)
theory Form_View
  imports Html_View Step_Editor
begin

section \<open>Forms: fields that show what is typed into them\<close>

text \<open>
  The forms of the builder have no text of their own: a field shows a value computed from the
  state, and typing runs an action whose effect on the state decides what the field shows next.
  This theory says what the fields of a template are, states as an interface what a form promises,
  and holds the row of an environment variable, which two forms repeat word for word.
\<close>

subsection \<open>The fields of a template\<close>

fun text_value :: "property list \<Rightarrow> string" where
  "text_value [] = []"
| "text_value (Prop n v # ps) = (if n = ''value'' then v else text_value ps)"
| "text_value (p # ps) = text_value ps"

fun input_handlers :: "'a listener \<Rightarrow> (string \<Rightarrow> 'a) list" where
  "input_handlers (Input f) = [f]"
| "input_handlers _ = []"

text \<open>The text of every field one can type into, with the action that typing runs.\<close>

fun fields_in :: "'a Html \<Rightarrow> (string \<times> (string \<Rightarrow> 'a)) list" where
  "fields_in (Text s) = []"
| "fields_in (Units u) = []"
| "fields_in (Elem t ps ls hs) =
     (if disabled ps then []
      else map (Pair (text_value ps)) (concat (map input_handlers ls)) @ concat (map fields_in hs))"

definition form_fields :: "'a Html list \<Rightarrow> (string \<times> (string \<Rightarrow> 'a)) list" where
  "form_fields hs = concat (map fields_in hs)"

lemma form_fields_simps [simp]:
  "form_fields [] = []" "form_fields (h # hs) = fields_in h @ form_fields hs"
  "form_fields (hs @ hs') = form_fields hs @ form_fields hs'"
  by (simp_all add: form_fields_def)

lemma fields_in_Elem [simp]:
  "fields_in (Elem t ps ls hs) =
     (if disabled ps then []
      else map (Pair (text_value ps)) (concat (map input_handlers ls)) @ form_fields hs)"
  by (simp add: form_fields_def)

declare fields_in.simps(3) [simp del]

lemma form_fields_map: "form_fields (map f xs) = concat (map (\<lambda>x. fields_in (f x)) xs)"
  by (simp add: form_fields_def comp_def)

lemma form_fields_none: "\<forall>x \<in> set xs. fields_in (f x) = [] \<Longrightarrow> form_fields (map f xs) = []"
  by (simp add: form_fields_map)

text \<open>A handler of a field is one of the listeners that can be reached, so typing is use of the page.\<close>

lemma fields_in_reachable:
  "(v, f) \<in> set (fields_in h) \<Longrightarrow> Input f \<in> set (reachable [h])"
proof (induction h)
  case (Elem t ps ls hs)
  have handler: "f \<in> set (input_handlers l) \<Longrightarrow> l = Input f" for l
    by (cases l) simp_all
  have part: "set (reachable [h]) \<subseteq> set (reachable hs)" if "h \<in> set hs" for h
    using that by (auto simp: reachable_def all_chains_def)
  from Elem.prems show ?case
    using Elem.IH handler part
    by (fastforce simp: reachable_Elem form_fields_def split: if_splits)
qed simp_all

lemma form_fields_typed:
  assumes "(v, f) \<in> set (form_fields hs)"
  shows "f w \<in> set (typed hs w)"
proof -
  from assms obtain h where h: "h \<in> set hs" "(v, f) \<in> set (fields_in h)"
    by (auto simp: form_fields_def)
  have "set (reachable [h]) \<subseteq> set (reachable hs)"
    using h(1) by (auto simp: reachable_def all_chains_def)
  with fields_in_reachable [OF h(2)] have "Input f \<in> set (reachable hs)" by blast
  then have "\<exists>l \<in> set (reachable hs). f w \<in> set (type_acts w l)" by (rule rev_bexI) simp
  then show ?thesis by (simp add: typed_def)
qed

subsection \<open>What a form promises\<close>

text \<open>
  Typing a text into a field changes the text of that field alone, to what the form makes of the
  text, and no field appears, vanishes or changes its action.
\<close>

locale controlled_form =
  fixes fields :: "'s \<Rightarrow> (string \<times> (string \<Rightarrow> 'a)) list"
    and act :: "'a \<Rightarrow> 's \<Rightarrow> 's"
    and settle :: "'s \<Rightarrow> 'a \<Rightarrow> string"
    and ok :: "'s \<Rightarrow> bool"
  assumes typing: "ok s \<Longrightarrow> i < length (fields s) \<Longrightarrow> fields s ! i = (v, f) \<Longrightarrow>
      fields (act (f w) s) = (fields s)[i := (settle s (f w), f)]"
    and ok_typing: "ok s \<Longrightarrow> i < length (fields s) \<Longrightarrow> fields s ! i = (v, f) \<Longrightarrow> ok (act (f w) s)"
begin

definition type_at :: "nat \<times> string \<Rightarrow> 's \<Rightarrow> 's" where
  "type_at = (\<lambda>(i, w) s. if i < length (fields s) then act (snd (fields s ! i) w) s else s)"

lemma fields_type_at:
  assumes "ok s"
  shows "fields (type_at (i, w) s) =
    (if i < length (fields s)
     then (fields s)[i := (settle s (snd (fields s ! i) w), snd (fields s ! i))] else fields s)"
proof (cases "i < length (fields s)")
  case True
  from typing [OF assms True prod.collapse [symmetric], of w] True show ?thesis
    by (simp add: type_at_def)
qed (simp add: type_at_def)

lemma ok_type_at: "ok s \<Longrightarrow> ok (type_at (i, w) s)"
  using ok_typing [OF _ _ prod.collapse [symmetric], of s i w] by (simp add: type_at_def)

lemma ok_types: "ok s \<Longrightarrow> ok (fold type_at es s)"
  by (induction es arbitrary: s) (auto simp: ok_type_at)

text \<open>After any typing the form has the same fields with the same actions.\<close>

lemma handlers_kept: "ok s \<Longrightarrow> map snd (fields (fold type_at es s)) = map snd (fields s)"
proof (induction es arbitrary: s)
  case (Cons e es)
  obtain i w where e: "e = (i, w)" by (cases e)
  have "map snd (fields (type_at e s)) = map snd (fields s)"
    unfolding e fields_type_at [OF Cons.prems]
    by (simp add: map_update) (metis list_update_id nth_map)
  with Cons.IH [OF ok_type_at [OF Cons.prems]] show ?case by (simp add: e)
qed simp

text \<open>A field that is not typed into does not change.\<close>

lemma others_kept:
  "ok s \<Longrightarrow> \<forall>e \<in> set es. fst e \<noteq> j \<Longrightarrow> j < length (fields s) \<Longrightarrow>
     fields (fold type_at es s) ! j = fields s ! j"
proof (induction es arbitrary: s)
  case (Cons e es)
  obtain i w where e: "e = (i, w)" by (cases e)
  have "fields (type_at e s) ! j = fields s ! j \<and> length (fields (type_at e s)) = length (fields s)"
    using Cons.prems(2) unfolding e fields_type_at [OF Cons.prems(1)] by simp
  with Cons.IH [OF ok_type_at [OF Cons.prems(1)]] Cons.prems(2,3) show ?case by (simp add: e)
qed simp

text \<open>A field shows what the form makes of the text typed into it last.\<close>

lemma last_typed:
  assumes "ok s" and "j < length (fields s)" and "\<forall>e \<in> set es'. fst e \<noteq> j"
  shows "\<exists>t. fields (fold type_at (es @ (j, w) # es') s) ! j =
    (settle t (snd (fields s ! j) w), snd (fields s ! j)) \<and> ok t \<and> t = fold type_at es s"
proof -
  let ?t = "fold type_at es s"
  have ok: "ok ?t" by (rule ok_types [OF assms(1)])
  have handlers: "map snd (fields ?t) = map snd (fields s)" by (rule handlers_kept [OF assms(1)])
  then have len: "length (fields ?t) = length (fields s)" by (metis length_map)
  with assms(2) have j: "j < length (fields ?t)" by simp
  have "map snd (fields ?t) ! j = map snd (fields s) ! j" by (simp only: handlers)
  with j assms(2) have snd: "snd (fields ?t ! j) = snd (fields s ! j)" by simp
  have "fields (type_at (j, w) ?t) ! j = (settle ?t (snd (fields s ! j) w), snd (fields s ! j))"
    unfolding fields_type_at [OF ok] using j by (simp add: snd)
  moreover have "j < length (fields (type_at (j, w) ?t))"
    unfolding fields_type_at [OF ok] using j by simp
  ultimately show ?thesis
    using others_kept [OF ok_type_at [OF ok] assms(3)] ok by simp
qed

end

subsection \<open>The rows of variables\<close>

definition variable_row ::
    "(nat \<Rightarrow> env_field \<Rightarrow> string \<Rightarrow> 'a) \<Rightarrow> (nat \<Rightarrow> 'a) \<Rightarrow> nat \<times> EnvVar \<Rightarrow> 'a Html" where
  "variable_row update remove = (\<lambda>(index, env).
     node ''div''
       [Elem ''input''
          [Attr ''type'' ''text'', Attr ''placeholder'' ''Name'', Prop ''value'' (ev_name env),
           Attr ''aria-label'' ''Variable name''] [Input (update index EnvName)] [],
        Elem ''input''
          [Attr ''type'' ''text'', Attr ''placeholder'' ''Value'',
           Prop ''value'' (str_or (ev_value env) []), Attr ''aria-label'' ''Variable value'']
          [Input (update index EnvValue)] [],
        Elem ''button'' [Attr ''title'' ''Remove variable'', Attr ''aria-label'' ''Remove variable'']
          [Click (remove index)] [node ''rh-icon'' []]])"

definition variable_list ::
    "(nat \<Rightarrow> env_field \<Rightarrow> string \<Rightarrow> 'a) \<Rightarrow> (nat \<Rightarrow> 'a) \<Rightarrow> 'a \<Rightarrow> EnvVar list \<Rightarrow> 'a Html" where
  "variable_list update remove add vars =
     node ''div''
       (map (variable_row update remove) (enumerate 0 vars) @
        [Elem ''rh-button'' [Attr ''variant'' ''secondary''] [Click add]
           [node ''rh-icon'' [], Text ''Add Variable'']])"

definition variable_fields ::
    "(nat \<Rightarrow> env_field \<Rightarrow> string \<Rightarrow> 'a) \<Rightarrow> EnvVar list \<Rightarrow> (string \<times> (string \<Rightarrow> 'a)) list" where
  "variable_fields update vars =
     concat (map (\<lambda>(i, e). [(ev_name e, update i EnvName), (str_or (ev_value e) [], update i EnvValue)])
       (enumerate 0 vars))"

lemma fields_variable_list [simp]:
  "fields_in (variable_list update remove add vars) = variable_fields update vars"
  by (simp add: variable_list_def variable_fields_def form_fields_map variable_row_def disabled_def
      case_prod_unfold comp_def)

lemma concat_pairs:
  "length (concat (map (\<lambda>x. [f x, g x]) xs)) = 2 * length xs"
  "i < 2 * length xs \<Longrightarrow>
     concat (map (\<lambda>x. [f x, g x]) xs) ! i = (if even i then f (xs ! (i div 2)) else g (xs ! (i div 2)))"
proof (induction xs arbitrary: i)
  case (Cons x xs)
  {
    case 2
    show ?case
    proof (cases "i < 2")
      case True
      then show ?thesis by (auto simp: less_2_cases_iff)
    next
      case False
      then obtain j where "i = Suc (Suc j)" by (metis less_2_cases_iff not0_implies_Suc One_nat_def)
      with 2 Cons.IH(2) [of j] show ?thesis by simp
    qed
  }
qed simp_all

lemma variable_fields_nth:
  "length (variable_fields update vars) = 2 * length vars"
  "i < 2 * length vars \<Longrightarrow> variable_fields update vars ! i =
     (if even i then (ev_name (vars ! (i div 2)), update (i div 2) EnvName)
      else (str_or (ev_value (vars ! (i div 2))) [], update (i div 2) EnvValue))"
  by (simp_all add: variable_fields_def case_prod_unfold concat_pairs nth_enumerate_eq)

lemma variable_fields_update:
  assumes "i < length (variable_fields update vars)" and "variable_fields update vars ! i = (v, f)"
  obtains k field where "k < length vars" "f = update k field"
    "variable_fields update (map_at k (set_env_field field w) vars) =
       (variable_fields update vars)[i := (w, f)]"
proof -
  let ?k = "i div 2" and ?field = "if even i then EnvName else EnvValue"
  have i: "i < 2 * length vars" using assms(1) by (simp add: variable_fields_nth)
  then have k: "?k < length vars" by simp
  have f: "f = update ?k ?field"
    using assms(2) i by (simp add: variable_fields_nth split: if_splits)
  let ?new = "map_at ?k (set_env_field ?field w) vars"
  have new: "?new = vars[?k := set_env_field ?field w (vars ! ?k)]"
    using k by (simp add: map_at_list_update)
  have "variable_fields update ?new = (variable_fields update vars)[i := (w, f)]"
  proof (rule nth_equalityI)
    show "length (variable_fields update ?new) = length ((variable_fields update vars)[i := (w, f)])"
      by (simp add: variable_fields_nth new)
  next
    fix j assume "j < length (variable_fields update ?new)"
    then have j: "j < 2 * length vars" by (simp add: variable_fields_nth new)
    have same: "j div 2 = i div 2 \<Longrightarrow> even j = even i \<Longrightarrow> j = i" by presburger
    show "variable_fields update ?new ! j = (variable_fields update vars)[i := (w, f)] ! j"
      unfolding new
      using i j k same
      by (cases "j = i"; cases "j div 2 = i div 2"; cases "even i")
        (auto simp: variable_fields_nth f nth_list_update str_or_def)
  qed
  with k f that show ?thesis by blast
qed

end
