(* ===== verification/Settings_View.thy ===== *)
theory Settings_View
  imports Global_Settings Form_View
begin

section \<open>The view of the settings (\<open>global-settings.ts\<close>, \<open>render\<close>)\<close>

text \<open>
  The template of the settings with its four tabs, the actions of its controls, and what the
  fields show after typing.  It interprets the interface of a form.
\<close>

subsection \<open>The template\<close>

datatype settings_action =
    SgTab nat
  | SgEdit settings_edit
  | SgRefresh

definition settings_tab :: "nat \<Rightarrow> nat \<Rightarrow> string \<Rightarrow> settings_action Html" where
  "settings_tab active i title =
     Elem ''button''
       [Attr ''class'' (''tab '' @ (if active = i then ''active'' else [])), Attr ''role'' ''tab'',
        Attr ''aria-selected'' (bool_str (active = i))]
       [Click (SgTab i)] [Text title]"

definition settings_input ::
    "string \<Rightarrow> string \<Rightarrow> string \<Rightarrow> string \<Rightarrow> (string \<Rightarrow> settings_edit) \<Rightarrow> settings_action Html" where
  "settings_input title hint shown placeholder edit =
     node ''div''
       [node ''label'' ([Text title] @ (if hint = [] then [] else [labelled ''span'' hint])),
        Elem ''input''
          ([Attr ''type'' ''text'', Prop ''value'' shown] @
           (if placeholder = [] then [] else [Attr ''placeholder'' placeholder]))
          [Input (\<lambda>v. SgEdit (edit v))] []]"

definition section_info :: "string \<Rightarrow> settings_action Html" where
  "section_info t = node ''div'' [node ''rh-icon'' [], Text t]"

definition renderGeneralTab :: "GlobalSettings \<Rightarrow> settings_action Html list" where
  "renderGeneralTab gs =
     [section_info ''Configure general pipeline settings that apply to all steps.'',
      settings_input ''Namespace'' [] (settings_namespace gs) [] EditNamespace,
      settings_input ''Service Account'' ''(optional)''
        (case gs_pipeline gs of None \<Rightarrow> [] | Some p \<Rightarrow> str_or (sp_serviceAccountName (pl_spec p)) [])
        ''default'' EditServiceAccount]"

definition pod_template_of :: "GlobalSettings \<Rightarrow> PodTemplateDefaults option" where
  "pod_template_of gs =
     (case gs_pipeline gs of None \<Rightarrow> None | Some p \<Rightarrow> sp_podTemplate (pl_spec p))"

definition template_text :: "(PodTemplateDefaults \<Rightarrow> string option) \<Rightarrow> GlobalSettings \<Rightarrow> string" where
  "template_text f gs = (case pod_template_of gs of None \<Rightarrow> [] | Some t \<Rightarrow> str_or (f t) [])"

definition renderPodTab :: "GlobalSettings \<Rightarrow> settings_action Html list" where
  "renderPodTab gs =
     [section_info ''Default pod settings applied to all steps unless overridden.'',
      settings_input ''Default Image'' ''(used when step doesn't specify one)''
        (template_text pt_image gs) ''e.g., registry.access.redhat.com/ubi9/ubi-minimal:latest''
        (\<lambda>v. EditTemplate (TemplateImage v)),
      settings_input ''Priority Class'' ''(optional)'' (template_text pt_priorityClassName gs)
        ''e.g., high-priority'' (\<lambda>v. EditTemplate (TemplatePriorityClass v)),
      settings_input ''Scheduler Name'' ''(optional)'' (template_text pt_schedulerName gs)
        ''default-scheduler'' (\<lambda>v. EditTemplate (TemplateScheduler v))]"

definition shared_volume_of :: "GlobalSettings \<Rightarrow> SharedVolumeSpec option" where
  "shared_volume_of gs =
     (case gs_pipeline gs of None \<Rightarrow> None | Some p \<Rightarrow> sp_sharedVolume (pl_spec p))"

definition claim_option :: "string \<Rightarrow> PVCInfo \<Rightarrow> settings_action Html" where
  "claim_option claim pvc =
     Elem ''option''
       [Attr ''value'' (pvi_name pvc), Flag ''selected'' (claim = pvi_name pvc)] []
       [Text (pvi_name pvc @
          (if truthy (pvi_storage pvc) then '' ('' @ the (pvi_storage pvc) @ '')'' else []) @
          (if pvi_phase pvc \<noteq> ''Bound'' then '' ['' @ pvi_phase pvc @ '']'' else []))]"

definition claim_control :: "string \<Rightarrow> GlobalSettings \<Rightarrow> settings_action Html" where
  "claim_control claim gs =
     (if gs_loadingPVCs gs
      then Elem ''select'' [Flag ''disabled'' True] [] [labelled ''option'' ''Loading PVCs...'']
      else if gs_availablePVCs gs \<noteq> []
      then Elem ''select'' [] [Change (\<lambda>v. SgEdit (EditVolume (VolumeClaim (Some v))))]
        (Elem ''option'' [Attr ''value'' [], Flag ''selected'' (claim = [])] []
           [Text ''-- Select a PVC --''] #
         map (claim_option claim) (gs_availablePVCs gs))
      else Elem ''input''
        [Attr ''type'' ''text'', Prop ''value'' claim,
         Attr ''placeholder'' ''No PVCs found - enter name manually'']
        [Input (\<lambda>v. SgEdit (EditVolume (VolumeClaim (Some v))))] [])"

definition volume_fields :: "SharedVolumeSpec \<Rightarrow> GlobalSettings \<Rightarrow> settings_action Html list" where
  "volume_fields v gs =
     [settings_input ''Volume Name'' [] (str_or (sv_name v) ''workspace'') []
        (\<lambda>w. EditVolume (VolumeName w)),
      settings_input ''Mount Path'' [] (str_or (sv_mountPath v) ''/workspace'') []
        (\<lambda>w. EditVolume (VolumeMountPath w)),
      node ''div''
        [labelled ''label'' ''Volume Type'',
         Elem ''select'' [] [Change (\<lambda>type. SgEdit (SelectVolumeType type))]
           [Elem ''option'' [Attr ''value'' ''emptyDir'', Flag ''selected'' (sv_emptyDir v \<noteq> None)] []
              [Text ''EmptyDir (temporary)''],
            Elem ''option''
              [Attr ''value'' ''pvc'', Flag ''selected'' (sv_persistentVolumeClaim v \<noteq> None)] []
              [Text ''PersistentVolumeClaim'']]]] @
     (case sv_persistentVolumeClaim v of
        None \<Rightarrow> []
      | Some claim \<Rightarrow>
          [node ''div''
             [labelled ''label'' ''PVC Name'',
              node ''div''
                [claim_control claim gs,
                 Elem ''button''
                   [Attr ''class'' (''icon-btn '' @ (if gs_loadingPVCs gs then ''loading'' else [])),
                    Attr ''title'' ''Refresh PVC list'', Attr ''aria-label'' ''Refresh PVC list'',
                    Flag ''disabled'' (gs_loadingPVCs gs)]
                   [Click SgRefresh] [node ''rh-icon'' []]]]])"

definition renderVolumeTab :: "GlobalSettings \<Rightarrow> settings_action Html list" where
  "renderVolumeTab gs =
     [section_info ''A shared volume is mounted to all steps, allowing them to share files.'',
      node ''div''
        [Elem ''input''
           [Attr ''type'' ''checkbox'', Flag ''checked'' (shared_volume_of gs \<noteq> None)]
           [Check (\<lambda>b. SgEdit (ToggleVolume b))] [],
         labelled ''label'' ''Enable shared volume'']] @
     (case shared_volume_of gs of None \<Rightarrow> [] | Some v \<Rightarrow> volume_fields v gs)"

definition renderEnvTab :: "GlobalSettings \<Rightarrow> settings_action Html list" where
  "renderEnvTab gs =
     [section_info ''Environment variables injected into all step containers.'',
      variable_list (\<lambda>i field v. SgEdit (EditVariable i field v)) (\<lambda>i. SgEdit (RemoveVariable i))
        (SgEdit AddVariable) (gs_getEnvVars gs)]"

definition gs_renderTabContent :: "GlobalSettings \<Rightarrow> settings_action Html list" where
  "gs_renderTabContent gs =
     (if gs_activeTab gs = 0 then renderGeneralTab gs
      else if gs_activeTab gs = 1 then renderPodTab gs
      else if gs_activeTab gs = 2 then renderVolumeTab gs
      else if gs_activeTab gs = 3 then renderEnvTab gs
      else [])"

definition settings_render :: "GlobalSettings \<Rightarrow> settings_action Html list" where
  "settings_render gs =
     (if gs_pipeline gs = None then [labelled ''p'' ''No pipeline'']
      else [node ''nav''
              [settings_tab (gs_activeTab gs) 0 ''General'',
               settings_tab (gs_activeTab gs) 1 ''Pod Template'',
               settings_tab (gs_activeTab gs) 2 ''Shared Volume'',
               settings_tab (gs_activeTab gs) 3 ''Environment''],
            Elem ''div'' [Attr ''role'' ''tabpanel''] [] (gs_renderTabContent gs)])"

subsection \<open>What an action does\<close>

definition settings_do ::
    "PVC list option fetch \<Rightarrow> string \<Rightarrow> settings_action \<Rightarrow> GlobalSettings \<Rightarrow> GlobalSettings" where
  "settings_do fetch base a gs =
     (case a of
        SgTab i \<Rightarrow> gs\<lparr>gs_activeTab := i\<rparr>
      | SgEdit e \<Rightarrow> settings_step gs e
      | SgRefresh \<Rightarrow> fetchPVCs fetch base (settings_namespace gs) gs)"

subsection \<open>The fields\<close>

text \<open>
  What a field shows after a text has been typed into it: the text, but for three fields that show
  a default in place of no text.
\<close>

fun settle_edit :: "settings_edit \<Rightarrow> string" where
  "settle_edit (EditNamespace v) = text_or v ''default''"
| "settle_edit (EditServiceAccount v) = v"
| "settle_edit (EditTemplate (TemplateImage v)) = v"
| "settle_edit (EditTemplate (TemplatePriorityClass v)) = v"
| "settle_edit (EditTemplate (TemplateScheduler v)) = v"
| "settle_edit (EditVolume (VolumeName v)) = text_or v ''workspace''"
| "settle_edit (EditVolume (VolumeMountPath v)) = text_or v ''/workspace''"
| "settle_edit (EditVolume (VolumeClaim (Some v))) = v"
| "settle_edit (EditVariable i field v) = v"
| "settle_edit _ = []"

primrec settings_settle :: "settings_action \<Rightarrow> string" where
  "settings_settle (SgTab i) = []"
| "settings_settle (SgEdit e) = settle_edit e"
| "settings_settle SgRefresh = []"

definition settings_fields :: "GlobalSettings \<Rightarrow> (string \<times> (string \<Rightarrow> settings_action)) list" where
  "settings_fields gs = form_fields (settings_render gs)"

lemma fields_settings_input [simp]:
  "fields_in (settings_input title hint shown placeholder edit) = [(shown, \<lambda>v. SgEdit (edit v))]"
  by (simp add: settings_input_def disabled_def)

lemma fields_section_info [simp]: "fields_in (section_info t) = []"
  by (simp add: section_info_def disabled_def)

lemma fields_claim_control:
  "fields_in (claim_control claim gs) =
     (if gs_loadingPVCs gs \<or> gs_availablePVCs gs \<noteq> [] then []
      else [(claim, \<lambda>v. SgEdit (EditVolume (VolumeClaim (Some v))))])"
  by (simp add: claim_control_def disabled_def form_fields_none claim_option_def)

lemma fields_volume:
  "form_fields (volume_fields v gs) =
     [(str_or (sv_name v) ''workspace'', \<lambda>w. SgEdit (EditVolume (VolumeName w))),
      (str_or (sv_mountPath v) ''/workspace'', \<lambda>w. SgEdit (EditVolume (VolumeMountPath w)))] @
     (case sv_persistentVolumeClaim v of
        None \<Rightarrow> []
      | Some claim \<Rightarrow>
          (if gs_loadingPVCs gs \<or> gs_availablePVCs gs \<noteq> [] then []
           else [(claim, \<lambda>w. SgEdit (EditVolume (VolumeClaim (Some w))))]))"
  by (simp add: volume_fields_def fields_claim_control disabled_def split: option.split)

lemma settings_fields_unfold:
  assumes "gs_pipeline gs = Some p"
  shows "settings_fields gs =
    (if gs_activeTab gs = 0 then
       [(settings_namespace gs, \<lambda>v. SgEdit (EditNamespace v)),
        (str_or (sp_serviceAccountName (pl_spec p)) [], \<lambda>v. SgEdit (EditServiceAccount v))]
     else if gs_activeTab gs = 1 then
       [(template_text pt_image gs, \<lambda>v. SgEdit (EditTemplate (TemplateImage v))),
        (template_text pt_priorityClassName gs, \<lambda>v. SgEdit (EditTemplate (TemplatePriorityClass v))),
        (template_text pt_schedulerName gs, \<lambda>v. SgEdit (EditTemplate (TemplateScheduler v)))]
     else if gs_activeTab gs = 2 then
       (case shared_volume_of gs of None \<Rightarrow> [] | Some v \<Rightarrow> form_fields (volume_fields v gs))
     else if gs_activeTab gs = 3 then
       variable_fields (\<lambda>i field v. SgEdit (EditVariable i field v)) (gs_getEnvVars gs)
     else [])"
  using assms
  by (simp add: settings_fields_def settings_render_def settings_tab_def gs_renderTabContent_def
      renderGeneralTab_def renderPodTab_def renderVolumeTab_def renderEnvTab_def disabled_def
      split: option.split)

lemma step_pipeline: "gs_pipeline gs = Some p \<Longrightarrow> \<exists>q. gs_pipeline (settings_step gs e) = Some q"
  using settings_step_frame [of gs e] by (cases "gs_pipeline (settings_step gs e)") auto

lemma step_rest [simp]:
  "gs_activeTab (settings_step gs e) = gs_activeTab gs"
  "gs_availablePVCs (settings_step gs e) = gs_availablePVCs gs"
  "gs_loadingPVCs (settings_step gs e) = gs_loadingPVCs gs"
  by (cases e; simp add: settings_ops)+

declare settings_step.simps [simp del]

lemma two_fields: "i < length [a, b] \<Longrightarrow> [a, b] ! i = x \<Longrightarrow> i = 0 \<and> x = a \<or> i = 1 \<and> x = b"
  by (auto simp: less_Suc_eq)

lemma three_fields:
  "i < length [a, b, c] \<Longrightarrow> [a, b, c] ! i = x \<Longrightarrow>
     i = 0 \<and> x = a \<or> i = 1 \<and> x = b \<or> i = 2 \<and> x = c"
  by (auto simp: less_Suc_eq numeral_2_eq_2)

lemma str_or_Nil [simp]: "str_or (or_undefined v) [] = v" "str_or (Some v) d = text_or v d"
  by (simp_all add: str_or_def or_undefined_def text_or_def)

lemma type_general:
  assumes "gs_pipeline gs = Some p" and "gs_activeTab gs = 0"
    and "i < length (settings_fields gs)" and "settings_fields gs ! i = (v, f)"
  shows "settings_fields (settings_do fetch base (f w) gs) = (settings_fields gs)[i := (settings_settle (f w), f)]"
proof -
  note fields = settings_fields_unfold [OF assms(1)]
  have now: "settings_fields gs = [(settings_namespace gs, \<lambda>v. SgEdit (EditNamespace v)),
      (str_or (sp_serviceAccountName (pl_spec p)) [], \<lambda>v. SgEdit (EditServiceAccount v))]"
    using assms(2) by (simp add: fields)
  have "i = 0 \<and> f = (\<lambda>v. SgEdit (EditNamespace v)) \<or> i = 1 \<and> f = (\<lambda>v. SgEdit (EditServiceAccount v))"
    using two_fields [OF assms(3) [unfolded now] assms(4) [unfolded now]] by blast
  then show ?thesis
  proof (elim disjE conjE)
    assume "i = 0" "f = (\<lambda>v. SgEdit (EditNamespace v))"
    moreover have "gs_pipeline (settings_step gs (EditNamespace w)) =
        Some (p\<lparr>pl_metadata := (pl_metadata p)\<lparr>om_namespace := Some w\<rparr>\<rparr>)"
      using assms(1) by (simp add: settings_ops settings_step.simps)
    ultimately show ?thesis
      using assms(1,2) by (simp add: settings_do_def settings_fields_unfold settings_namespace_def)
  next
    assume "i = 1" "f = (\<lambda>v. SgEdit (EditServiceAccount v))"
    moreover have "gs_pipeline (settings_step gs (EditServiceAccount w)) =
        Some (update_spec (\<lambda>sp. sp\<lparr>sp_serviceAccountName := or_undefined w\<rparr>) p)"
      using assms(1) by (simp add: settings_ops settings_step.simps)
    ultimately show ?thesis
      using assms(1,2)
      by (simp add: settings_do_def settings_fields_unfold settings_namespace_def update_spec_def)
  qed
qed

lemma template_texts:
  "gs_pipeline gs = Some p \<Longrightarrow> template_text f (settings_step gs (EditTemplate u)) =
     str_or (f (set_template u (case sp_podTemplate (pl_spec p) of None \<Rightarrow> no_podTemplate | Some t \<Rightarrow> t))) []"
  by (simp add: template_text_def pod_template_of_def settings_ops settings_step.simps)

lemma template_text_of:
  assumes "gs_pipeline gs = Some p" and "f no_podTemplate = None"
  shows "template_text f gs =
    str_or (f (case sp_podTemplate (pl_spec p) of None \<Rightarrow> no_podTemplate | Some t \<Rightarrow> t)) []"
  using assms by (simp add: template_text_def pod_template_of_def str_or_def split: option.split)

lemma type_template:
  assumes "gs_pipeline gs = Some p" and "gs_activeTab gs = 1"
    and "i < length (settings_fields gs)" and "settings_fields gs ! i = (v, f)"
  shows "settings_fields (settings_do fetch base (f w) gs) = (settings_fields gs)[i := (settings_settle (f w), f)]"
proof -
  note fields = settings_fields_unfold [OF assms(1)]
  define q where "q u = the (gs_pipeline (settings_step gs (EditTemplate u)))" for u
  have q: "gs_pipeline (settings_step gs (EditTemplate u)) = Some (q u)" for u
    using step_pipeline [OF assms(1), of "EditTemplate u"] by (auto simp: q_def)
  note new = settings_fields_unfold [OF q]
  have none: "pt_image no_podTemplate = None" "pt_priorityClassName no_podTemplate = None"
    "pt_schedulerName no_podTemplate = None"
    by (simp_all add: no_podTemplate_def)
  note texts = template_texts [OF assms(1)] template_text_of [OF assms(1)] none
  have now: "settings_fields gs =
      [(template_text pt_image gs, \<lambda>v. SgEdit (EditTemplate (TemplateImage v))),
       (template_text pt_priorityClassName gs, \<lambda>v. SgEdit (EditTemplate (TemplatePriorityClass v))),
       (template_text pt_schedulerName gs, \<lambda>v. SgEdit (EditTemplate (TemplateScheduler v)))]"
    using assms(2) by (simp add: fields)
  have "i = 0 \<and> f = (\<lambda>v. SgEdit (EditTemplate (TemplateImage v))) \<or>
      i = 1 \<and> f = (\<lambda>v. SgEdit (EditTemplate (TemplatePriorityClass v))) \<or>
      i = 2 \<and> f = (\<lambda>v. SgEdit (EditTemplate (TemplateScheduler v)))"
    using three_fields [OF assms(3) [unfolded now] assms(4) [unfolded now]] by blast
  then show ?thesis
    using assms(2) unfolding fields
    by (elim disjE conjE) (simp_all add: settings_do_def new texts)
qed

lemma volume_after:
  "gs_pipeline gs = Some p \<Longrightarrow> shared_volume_of (settings_step gs (EditVolume u)) =
     Some (set_volume u (case sp_sharedVolume (pl_spec p) of None \<Rightarrow> no_volume | Some v \<Rightarrow> v))"
  by (simp add: shared_volume_of_def settings_ops settings_step.simps)

lemma type_volume:
  assumes "gs_pipeline gs = Some p" and "gs_activeTab gs = 2"
    and "i < length (settings_fields gs)" and "settings_fields gs ! i = (v, f)"
  shows "settings_fields (settings_do fetch base (f w) gs) = (settings_fields gs)[i := (settings_settle (f w), f)]"
proof -
  note fields = settings_fields_unfold [OF assms(1)]
  define q where "q u = the (gs_pipeline (settings_step gs (EditVolume u)))" for u
  have q: "gs_pipeline (settings_step gs (EditVolume u)) = Some (q u)" for u
    using step_pipeline [OF assms(1), of "EditVolume u"] by (auto simp: q_def)
  note new = settings_fields_unfold [OF q]
  from assms(2,3) obtain vol where vol: "shared_volume_of gs = Some vol"
    unfolding fields by (auto split: option.splits)
  then have after: "shared_volume_of (settings_step gs (EditVolume u)) = Some (set_volume u vol)" for u
    using volume_after [OF assms(1)] assms(1) by (simp add: shared_volume_of_def)
  have now: "settings_fields gs = form_fields (volume_fields vol gs)"
    using assms(2) vol by (simp add: fields)
  have then_: "settings_fields (settings_step gs (EditVolume u)) =
      form_fields (volume_fields (set_volume u vol) (settings_step gs (EditVolume u)))" for u
    using assms(2) after by (simp add: new)
  have "i = 0 \<and> f = (\<lambda>w. SgEdit (EditVolume (VolumeName w))) \<or>
      i = 1 \<and> f = (\<lambda>w. SgEdit (EditVolume (VolumeMountPath w))) \<or>
      i = 2 \<and> f = (\<lambda>w. SgEdit (EditVolume (VolumeClaim (Some w)))) \<and>
        (\<exists>c. sv_persistentVolumeClaim vol = Some c) \<and> \<not> (gs_loadingPVCs gs \<or> gs_availablePVCs gs \<noteq> [])"
    using assms(3,4) unfolding now fields_volume
    by (auto simp: less_Suc_eq numeral_2_eq_2 split: option.splits if_splits)
  then show ?thesis
    unfolding now
    by (elim disjE conjE exE)
       (simp_all add: settings_do_def then_ fields_volume text_or_def split: option.split)
qed

lemma type_variable:
  assumes "gs_pipeline gs = Some p" and "gs_activeTab gs = 3"
    and "i < length (settings_fields gs)" and "settings_fields gs ! i = (v, f)"
  shows "settings_fields (settings_do fetch base (f w) gs) = (settings_fields gs)[i := (settings_settle (f w), f)]"
proof -
  let ?update = "\<lambda>i field v. SgEdit (EditVariable i field v)"
  have now: "settings_fields gs = variable_fields ?update (gs_getEnvVars gs)"
    using assms(2) by (simp add: settings_fields_unfold [OF assms(1)])
  from assms(3,4) obtain k field where k: "k < length (gs_getEnvVars gs)" "f = ?update k field"
    "variable_fields ?update (map_at k (set_env_field field w) (gs_getEnvVars gs)) =
       (variable_fields ?update (gs_getEnvVars gs))[i := (w, f)]"
    unfolding now by (rule variable_fields_update)
  have "gs_pipeline gs \<noteq> None" using assms(1) by simp
  then have "gs_getEnvVars (settings_step gs (EditVariable k field w)) =
      map_at k (set_env_field field w) (gs_getEnvVars gs)"
    by (simp add: gs_updateEnvVar_def template_env.get_put settings_step.simps)
  moreover obtain q where "gs_pipeline (settings_step gs (EditVariable k field w)) = Some q"
    using step_pipeline [OF assms(1)] by blast
  ultimately have "settings_fields (settings_step gs (EditVariable k field w)) =
      variable_fields ?update (map_at k (set_env_field field w) (gs_getEnvVars gs))"
    using assms(2) by (simp add: settings_fields_unfold)
  then show ?thesis unfolding now k(3) by (simp add: settings_do_def k(2))
qed

lemma settings_typing:
  assumes "gs_pipeline gs \<noteq> None" and "i < length (settings_fields gs)"
    and "settings_fields gs ! i = (v, f)"
  shows "settings_fields (settings_do fetch base (f w) gs) = (settings_fields gs)[i := (settings_settle (f w), f)]"
    and "gs_pipeline (settings_do fetch base (f w) gs) \<noteq> None"
proof -
  from assms(1) obtain p where p: "gs_pipeline gs = Some p" by blast
  from assms(2) consider "gs_activeTab gs = 0" | "gs_activeTab gs = 1" | "gs_activeTab gs = 2"
    | "gs_activeTab gs = 3"
    unfolding settings_fields_unfold [OF p] by (auto split: if_splits)
  then show "settings_fields (settings_do fetch base (f w) gs) =
      (settings_fields gs)[i := (settings_settle (f w), f)]"
    using type_general [OF p _ assms(2,3)] type_template [OF p _ assms(2,3)]
      type_volume [OF p _ assms(2,3)] type_variable [OF p _ assms(2,3)]
    by cases simp_all
  show "gs_pipeline (settings_do fetch base (f w) gs) \<noteq> None"
    using step_pipeline [OF p] p
    by (auto simp: settings_do_def fetchPVCs_def split: settings_action.split)
qed

interpretation settings_form: controlled_form settings_fields "settings_do fetch base"
  "\<lambda>gs. settings_settle" "\<lambda>gs. gs_pipeline gs \<noteq> None" for fetch base
  by unfold_locales (rule settings_typing, assumption+)+

declare settings_step.simps [simp]

text \<open>Typing a text into the field at a position of the tab that is open, when there is one.\<close>

definition settings_type ::
    "PVC list option fetch \<Rightarrow> string \<Rightarrow> nat \<times> string \<Rightarrow> GlobalSettings \<Rightarrow> GlobalSettings" where
  "settings_type fetch base = (\<lambda>(i, w) gs.
     if i < length (settings_fields gs) then settings_do fetch base (snd (settings_fields gs ! i) w) gs
     else gs)"

lemma settings_type_at: "settings_form.type_at fetch base = settings_type fetch base"
  by (simp add: settings_form.type_at_def settings_type_def fun_eq_iff)

lemma settle_field:
  assumes "gs_pipeline gs \<noteq> None" and "j < length (settings_fields gs)"
  shows "w \<noteq> [] \<Longrightarrow> settings_settle (snd (settings_fields gs ! j) w) = w"
proof -
  from assms(1) obtain p where p: "gs_pipeline gs = Some p" by blast
  have rows: "snd (variable_fields (\<lambda>i field v. SgEdit (EditVariable i field v)) vars ! j) \<in>
      {\<lambda>v. SgEdit (EditVariable i field v) | i field. True}"
    if "j < length (variable_fields (\<lambda>i field v. SgEdit (EditVariable i field v)) vars)" for vars
    using that by (auto simp: variable_fields_nth)
  show "settings_settle (snd (settings_fields gs ! j) w) = w" if "w \<noteq> []"
    using assms(2) that rows [of "gs_getEnvVars gs"]
    by (auto simp: settings_fields_unfold [OF p] fields_volume text_or_def less_Suc_eq nth_Cons'
        split: if_splits option.splits)
qed

text \<open>
  After any typing into the fields of an open tab of the settings every
  field shows the text typed into it last, whatever was typed into other fields before and after
  it, if there is any text; and no field appears or vanishes by typing.
\<close>

theorem settings_fields_keep_text:
  assumes "gs_pipeline gs \<noteq> None" and "j < length (settings_fields gs)"
    and "\<forall>e \<in> set after. fst e \<noteq> j" and "w \<noteq> []"
  shows "fst (settings_fields (fold (settings_type fetch base) (before @ (j, w) # after) gs) ! j) = w \<and>
    map snd (settings_fields (fold (settings_type fetch base) (before @ (j, w) # after) gs)) =
      map snd (settings_fields gs)"
proof -
  from settings_form.last_typed [OF assms(1-3), where fetch = fetch and base = base and es = before and w = w]
  have "settings_fields (fold (settings_type fetch base) (before @ (j, w) # after) gs) ! j =
      (settings_settle (snd (settings_fields gs ! j) w), snd (settings_fields gs ! j))"
    unfolding settings_type_at by blast
  moreover have "map snd (settings_fields (fold (settings_type fetch base) (before @ (j, w) # after) gs)) =
      map snd (settings_fields gs)"
    using settings_form.handlers_kept [OF assms(1)] unfolding settings_type_at .
  ultimately show ?thesis using settle_field [OF assms(1,2,4)] by simp
qed

theorem settings_fields_keep_text_witness:
  "fst (settings_fields (fold (settings_type (\<lambda>_. Inl OtherThrown) []) ([] @ (1, ''builder'') # [(0, ''ci'')])
     example_settings) ! 1) = ''builder''"
proof -
  have p: "gs_pipeline example_settings = Some example_pipeline" "gs_activeTab example_settings = 0"
    by (simp_all add: example_settings_def)
  then have "1 < length (settings_fields example_settings)" by (simp add: settings_fields_unfold)
  with p(1) show ?thesis
    using settings_fields_keep_text [of example_settings 1 "[(0, ''ci'')]" "''builder''"
        "\<lambda>_. Inl OtherThrown" "[]" "[]"] by simp
qed

text \<open>
  A name of the volume that is cleared: the field is given the default, and the pipeline no name.
\<close>

lemma cleared_volume_name:
  assumes "gs_pipeline gs = Some p" and "gs_activeTab gs = 2" and "shared_volume_of gs = Some v"
  shows "let gs' = settings_do fetch base (snd (settings_fields gs ! 0) []) gs
    in fst (settings_fields gs' ! 0) = ''workspace'' \<and>
       (\<exists>v'. shared_volume_of gs' = Some v' \<and> sv_name v' = Some [])"
proof -
  have field: "snd (settings_fields gs ! 0) = (\<lambda>w. SgEdit (EditVolume (VolumeName w)))"
    and len: "0 < length (settings_fields gs)"
    using assms(2,3) by (simp_all add: settings_fields_unfold [OF assms(1)] fields_volume)
  have "gs_pipeline gs \<noteq> None" using assms(1) by simp
  from settings_typing(1) [OF this len prod.collapse [symmetric], of fetch base "[]"]
  have "fst (settings_fields (settings_do fetch base (snd (settings_fields gs ! 0) []) gs) ! 0) = ''workspace''"
    using len by (simp add: field text_or_def)
  moreover have "shared_volume_of (settings_do fetch base (snd (settings_fields gs ! 0) []) gs) =
      Some (set_volume (VolumeName []) v)"
    using volume_after [OF assms(1), of "VolumeName []"] assms(1,3)
    by (simp add: field settings_do_def shared_volume_of_def)
  ultimately show ?thesis by (simp add: Let_def)
qed

end
