(* ===== verification/Step_Editor_View.thy ===== *)
theory Step_Editor_View
  imports Form_View
begin

section \<open>The view of the step editor (\<open>step-editor.ts\<close>, \<open>render\<close>)\<close>

text \<open>
  The template of the editor, the actions of its controls with the events they dispatch, and what
  using the editor can do to a step.  The owner of the editor merges every update into the step and
  hands the step back.
\<close>

subsection \<open>The template\<close>

datatype editor_action =
    SeName string
  | SeImage string
  | SeCommand string
  | SeArgs string
  | SeLanguage EditorLanguage
  | SeEnv nat env_field string
  | SeEnvRemove nat
  | SeEnvAdd
  | SeToggle string
  | SeCondition RunCondition
  | SeOperator RunOperator
  | SeAdvanced
  | SeBackoff string
  | SeDeadline string
  | SeAddSecret string
  | SeRemoveSecret string
  | SeFetchSecrets
  | SeDelete
  | SeClose

text \<open>The name of a language in the code, the detail of the event \<open>language-change\<close>.\<close>

primrec language_name :: "EditorLanguage \<Rightarrow> string" where
  "language_name EdBash = ''bash''"
| "language_name EdPython = ''python''"
| "language_name EdYaml = ''yaml''"
| "language_name EdJavascript = ''javascript''"
| "language_name EdText = ''text''"

definition name_field :: "StepEditor \<Rightarrow> PipelineStep \<Rightarrow> editor_action Html" where
  "name_field ed s =
     (let wrong = truthy (se_nameError ed)
      in node ''div''
        ([labelled ''label'' ''Step Name *'',
          Elem ''input''
            [Attr ''type'' ''text'', Attr ''class'' (if wrong then ''error'' else []),
             Prop ''value'' (ps_name s),
             Attr ''aria-describedby'' (if wrong then ''name-error'' else []),
             Attr ''aria-invalid'' (bool_str wrong)]
            [Input SeName] []] @
         (if wrong then [Elem ''div'' [Attr ''role'' ''alert''] [] [Text (the (se_nameError ed))]]
          else [])))"

definition editor_input ::
    "string \<Rightarrow> string \<Rightarrow> string \<Rightarrow> (string \<Rightarrow> editor_action) \<Rightarrow> editor_action Html" where
  "editor_input title shown placeholder act =
     node ''div''
       [labelled ''label'' title,
        Elem ''input''
          [Attr ''type'' ''text'', Prop ''value'' shown, Attr ''placeholder'' placeholder]
          [Input act] []]"

text \<open>
  The code editor is an element of its own: its event \<open>change\<close> carries the text, its event
  \<open>language-change\<close> the language that was picked, one of five.
\<close>

definition args_field :: "StepEditor \<Rightarrow> editor_action Html" where
  "args_field ed =
     (let script = isScriptMode ed
      in node ''div''
        [node ''label''
           [Text (if script then ''Script'' else ''Arguments''),
            labelled ''span'' (if script then ''(passed as single argument to -c)'' else ''(one per line)'')],
         Elem ''code-editor''
           [Prop ''value'' (shown_args ed), Prop ''language'' (language_name (se_editorLanguage ed)),
            Flag ''showLanguageSelector'' script, Prop ''minHeight'' ''200px'']
           (Input SeArgs #
            map (\<lambda>l. Event ''language-change'' (SeLanguage l))
              [EdBash, EdPython, EdYaml, EdJavascript, EdText]) []])"

definition runif_checkbox :: "PipelineStep \<Rightarrow> string \<Rightarrow> editor_action Html" where
  "runif_checkbox s stepName =
     node ''label''
       [Elem ''input''
          [Attr ''type'' ''checkbox'', Flag ''checked'' (stepName \<in> set (runif_steps s))]
          [Check (\<lambda>b. SeToggle stepName)] [],
        Text stepName]"

definition radio :: "string \<Rightarrow> string \<Rightarrow> bool \<Rightarrow> editor_action \<Rightarrow> string \<Rightarrow> editor_action Html" where
  "radio name val on act title =
     node ''label''
       [Elem ''input''
          [Attr ''type'' ''radio'', Attr ''name'' name, Attr ''value'' val, Flag ''checked'' on]
          [Check (\<lambda>b. act)] [],
        Text title]"

definition condition_of :: "PipelineStep \<Rightarrow> RunCondition option" where
  "condition_of s = (case ps_runIf s of None \<Rightarrow> None | Some r \<Rightarrow> ri_condition r)"

definition operator_of :: "PipelineStep \<Rightarrow> RunOperator option" where
  "operator_of s = (case ps_runIf s of None \<Rightarrow> None | Some r \<Rightarrow> ri_operator r)"

definition runif_radios :: "PipelineStep \<Rightarrow> editor_action Html list" where
  "runif_radios s =
     [node ''div'' [labelled ''label'' ''Condition:'',
        node ''div''
          [radio ''condition'' ''success'' (condition_of s \<noteq> Some OnFail) (SeCondition OnSuccess) ''On Success'',
           radio ''condition'' ''fail'' (condition_of s = Some OnFail) (SeCondition OnFail) ''On Failure'']],
      node ''div'' [labelled ''label'' ''Operator:'',
        node ''div''
          [radio ''operator'' ''and'' (operator_of s \<noteq> Some AnyOf) (SeOperator AllOf) ''ALL (AND)'',
           radio ''operator'' ''or'' (operator_of s = Some AnyOf) (SeOperator AnyOf) ''ANY (OR)'']]]"

definition runif_section :: "StepEditor \<Rightarrow> PipelineStep \<Rightarrow> editor_action Html list" where
  "runif_section ed s =
     (if otherSteps ed = [] then []
      else
        [node ''div''
           [node ''rh-icon'' [], labelled ''h4'' ''Conditional Execution'', labelled ''span'' ''(optional)''],
         node ''div''
           ([node ''div''
              [labelled ''label'' ''Run after these steps:'',
               node ''div'' (map (runif_checkbox s) (otherSteps ed))]] @
            (if runif_steps s = [] then [] else runif_radios s))])"

definition secret_option :: "SecretInfo \<Rightarrow> editor_action Html" where
  "secret_option si =
     Elem ''option'' [Attr ''value'' (si_name si)] []
       [Text (si_name si @ '' ('' @ nat_str (length (si_keys si)) @ '' keys)'')]"

definition secret_select :: "StepEditor \<Rightarrow> editor_action Html" where
  "secret_select ed =
     (if se_loadingSecrets ed
      then Elem ''select'' [Flag ''disabled'' True] [] [labelled ''option'' ''Loading secrets...'']
      else Elem ''select'' [] [Change SeAddSecret]
        (Elem ''option'' [Attr ''value'' []] [] [Text ''-- Select a secret to add --''] #
         map secret_option (selectable_secrets ed)))"

definition envfrom_item :: "string \<Rightarrow> editor_action Html" where
  "envfrom_item n =
     node ''div''
       [labelled ''rh-tag'' ''sec'', labelled ''span'' n,
        Elem ''button'' [Attr ''title'' ''Remove secret'', Attr ''aria-label'' (''Remove '' @ n)]
          [Click (SeRemoveSecret n)] [node ''rh-icon'' []]]"

definition mounted_secrets :: "StepEditor \<Rightarrow> string list" where
  "mounted_secrets ed = map the (filter (\<lambda>n. n \<noteq> None) (map secret_name_of (getEnvFrom ed)))"

definition shown_deadline :: "PipelineStep \<Rightarrow> string" where
  "shown_deadline s =
     (case js_activeDeadlineSeconds (ps_jobSpec s) of
        None \<Rightarrow> [] | Some n \<Rightarrow> if n = 0 then [] else int_str n)"

definition advanced_content :: "StepEditor \<Rightarrow> PipelineStep \<Rightarrow> editor_action Html" where
  "advanced_content ed s =
     node ''div''
       [node ''div'' [labelled ''label'' ''Backoff Limit'',
          Elem ''input'' [Attr ''type'' ''number'', Attr ''min'' ''0'',
            Prop ''value'' (shown_backoffLimit s)] [Input SeBackoff] []],
        node ''div'' [labelled ''label'' ''Active Deadline (seconds)'',
          Elem ''input'' [Attr ''type'' ''number'', Attr ''min'' ''0'',
            Prop ''value'' (shown_deadline s), Attr ''placeholder'' ''No limit''] [Input SeDeadline] []],
        node ''div''
          ([node ''label'' [Text ''Secret as Environment Variables'',
              labelled ''span'' ''(mount all keys from a secret)''],
            node ''div''
              [secret_select ed,
               Elem ''button''
                 [Attr ''class'' (''icon-btn '' @ (if se_loadingSecrets ed then ''loading'' else [])),
                  Attr ''title'' ''Refresh secrets list'', Attr ''aria-label'' ''Refresh secrets list'',
                  Flag ''disabled'' (se_loadingSecrets ed)]
                 [Click SeFetchSecrets] [node ''rh-icon'' []]]] @
           (if mounted_secrets ed = [] then []
            else [node ''div'' (map envfrom_item (mounted_secrets ed))]))]"

definition editor_form :: "StepEditor \<Rightarrow> PipelineStep \<Rightarrow> editor_action Html list" where
  "editor_form ed s =
     [name_field ed s,
      editor_input ''Container Image''
        (case getContainer ed of None \<Rightarrow> [] | Some c \<Rightarrow> str_or (ct_image c) [])
        ''e.g., registry.access.redhat.com/ubi9/ubi-minimal:latest'' SeImage,
      editor_input ''Command'' (shown_command ed) ''e.g., sh -c  or  python -c  or  kubectl'' SeCommand,
      args_field ed,
      node ''div'' [node ''rh-icon'' [], labelled ''h4'' ''Environment Variables''],
      variable_list SeEnv SeEnvRemove SeEnvAdd (getEnvVars ed)] @
     runif_section ed s @
     [node ''div''
        ([Elem ''button'' [Attr ''aria-expanded'' (bool_str (se_showAdvanced ed))] [Click SeAdvanced]
            [Elem ''span'' [Attr ''class'' (''chevron '' @ (if se_showAdvanced ed then ''open'' else []))] [] [],
             Text ''Advanced Settings'']] @
         (if se_showAdvanced ed then [advanced_content ed s] else [])),
      node ''div''
        [Elem ''rh-button'' [Attr ''variant'' ''danger''] [Click SeDelete]
           [node ''rh-icon'' [], Text ''Delete Step''],
         Elem ''rh-button'' [Attr ''variant'' ''secondary''] [Click SeClose]
           [node ''rh-icon'' [], Text ''Close'']]]"

definition editor_render :: "StepEditor \<Rightarrow> editor_action Html list" where
  "editor_render ed =
     (case se_step ed of
        None \<Rightarrow> [labelled ''p'' ''No step selected'']
      | Some s \<Rightarrow> editor_form ed s)"

subsection \<open>What an action does\<close>

datatype step_event = UpdateEvent StepUpdates | DeleteEvent | CloseEvent

definition sends :: "StepEditor \<Rightarrow> StepUpdates option \<Rightarrow> StepEditor \<times> step_event option" where
  "sends ed u = (ed, map_option UpdateEvent u)"

definition editor_do ::
    "Secret list option fetch \<Rightarrow> string \<Rightarrow> editor_action \<Rightarrow> StepEditor \<Rightarrow>
     StepEditor \<times> step_event option" where
  "editor_do fetch base a ed =
     (case a of
        SeName v \<Rightarrow> (let (ed', u) = updateName v ed in sends ed' u)
      | SeImage v \<Rightarrow> sends ed (updateImage v ed)
      | SeCommand v \<Rightarrow> sends ed (updateCommand v ed)
      | SeArgs v \<Rightarrow> sends ed (updateArgs v ed)
      | SeLanguage l \<Rightarrow> (handleEditorLanguageChange l ed, None)
      | SeEnv i field v \<Rightarrow> sends ed (updateEnvVar i field v ed)
      | SeEnvRemove i \<Rightarrow> sends ed (removeEnvVar i ed)
      | SeEnvAdd \<Rightarrow> sends ed (addEnvVar ed)
      | SeToggle n \<Rightarrow> sends ed (toggleRunIfStep n ed)
      | SeCondition c \<Rightarrow> sends ed (updateRunIf (SetCondition c) ed)
      | SeOperator op \<Rightarrow> sends ed (updateRunIf (SetOperator op) ed)
      | SeAdvanced \<Rightarrow> (toggleAdvanced ed, None)
      | SeBackoff v \<Rightarrow> sends ed (set_backoffLimit v ed)
      | SeDeadline v \<Rightarrow> sends ed (set_activeDeadline v ed)
      | SeAddSecret n \<Rightarrow> sends ed (addSecretEnvFrom n ed)
      | SeRemoveSecret n \<Rightarrow> sends ed (removeSecretEnvFrom n ed)
      | SeFetchSecrets \<Rightarrow> (fetchSecrets fetch base ed, None)
      | SeDelete \<Rightarrow> (ed, Some DeleteEvent)
      | SeClose \<Rightarrow> (ed, Some CloseEvent))"

text \<open>
  The owner merges an update into the step and hands the new step back, on which the editor chooses
  its language again.
\<close>

definition hand_back :: "step_event option \<Rightarrow> StepEditor \<Rightarrow> StepEditor" where
  "hand_back e ed =
     (case e of
        Some (UpdateEvent u) \<Rightarrow> step_changed (ed\<lparr>se_step := map_option (apply_updates u) (se_step ed)\<rparr>)
      | _ \<Rightarrow> ed)"

definition editor_use ::
    "Secret list option fetch \<Rightarrow> string \<Rightarrow> editor_action \<Rightarrow> StepEditor \<Rightarrow> StepEditor" where
  "editor_use fetch base a ed = (let (ed', e) = editor_do fetch base a ed in hand_back e ed')"

subsection \<open>What using the editor does to the dependencies of a step\<close>

lemma toggle_shown:
  assumes "SeToggle n \<in> view_acts (editor_form ed s)"
  shows "n \<in> set (otherSteps ed)"
proof -
  have other: "SeToggle n \<notin> set_Html (name_field ed s)" "SeToggle n \<notin> set_Html (args_field ed)"
    "SeToggle n \<notin> set_Html (editor_input title shown placeholder SeImage)"
    "SeToggle n \<notin> set_Html (editor_input title shown placeholder SeCommand)"
    "SeToggle n \<notin> set_Html (variable_list SeEnv SeEnvRemove SeEnvAdd vars)"
    "SeToggle n \<notin> set_Html (advanced_content ed s)" for title shown placeholder vars
    by (auto simp: name_field_def args_field_def editor_input_def variable_list_def variable_row_def
        advanced_content_def secret_select_def secret_option_def envfrom_item_def Let_def split: if_splits)
  have "SeToggle n \<in> view_acts (runif_section ed s) \<Longrightarrow> n \<in> set (otherSteps ed)"
    by (auto simp: runif_section_def runif_checkbox_def runif_radios_def radio_def split: if_splits)
  with assms other show ?thesis
    by (auto simp: editor_form_def split: if_splits)
qed

lemma runif_steps_updates:
  "runif_steps (apply_updates (no_updates\<lparr>su_runIf := Some r\<rparr>) s) = (case r of None \<Rightarrow> [] | Some x \<Rightarrow> ri_steps x)"
  by (simp add: runif_steps_def apply_updates_def no_updates_def)

lemma runif_sends:
  assumes "se_step ed = Some s"
  shows "runif_steps (edited (updateRunIf (SetCondition c) ed) s) = runif_steps s"
    "runif_steps (edited (updateRunIf (SetOperator op) ed) s) = runif_steps s"
    "runif_steps (edited (updateRunIf (SetSteps ss) ed) s) = ss"
  using assms
  by (simp_all add: updateRunIf_def runif_steps_updates)
     (simp_all add: runif_steps_def empty_runIf_def split: option.split)

lemma runif_toggle:
  assumes "se_step ed = Some s"
  shows "set (runif_steps (edited (toggleRunIfStep n ed) s)) =
      (if n \<in> set (runif_steps s) then set (runif_steps s) - {n} else insert n (set (runif_steps s)))"
proof -
  let ?new = "if n \<in> set (runif_steps s) then filter (\<lambda>x. x \<noteq> n) (runif_steps s) else runif_steps s @ [n]"
  have "runif_steps (edited (toggleRunIfStep n ed) s) = ?new"
    using assms by (simp add: toggleRunIfStep_def Let_def runif_steps_updates runif_sends(3) [OF assms])
  then show ?thesis by auto
qed

lemma sends_step:
  "se_step (hand_back (map_option UpdateEvent u) ed) = map_option (edited u) (se_step ed)"
  by (cases u; cases "se_step ed") (simp_all add: hand_back_def step_changed_def)

lemma hand_back_others [simp]:
  "hand_back None ed = ed" "hand_back (Some DeleteEvent) ed = ed" "hand_back (Some CloseEvent) ed = ed"
  by (simp_all add: hand_back_def)

lemma editor_use_step:
  "se_step (editor_use fetch base a ed) =
     (case a of
        SeName v \<Rightarrow> map_option (\<lambda>s. s\<lparr>ps_name := v\<rparr>) (se_step ed)
      | SeImage v \<Rightarrow> map_option (edited (updateImage v ed)) (se_step ed)
      | SeCommand v \<Rightarrow> map_option (edited (updateCommand v ed)) (se_step ed)
      | SeArgs v \<Rightarrow> map_option (edited (updateArgs v ed)) (se_step ed)
      | SeEnv i field v \<Rightarrow> map_option (edited (updateEnvVar i field v ed)) (se_step ed)
      | SeEnvRemove i \<Rightarrow> map_option (edited (removeEnvVar i ed)) (se_step ed)
      | SeEnvAdd \<Rightarrow> map_option (edited (addEnvVar ed)) (se_step ed)
      | SeToggle n \<Rightarrow> map_option (edited (toggleRunIfStep n ed)) (se_step ed)
      | SeCondition c \<Rightarrow> map_option (edited (updateRunIf (SetCondition c) ed)) (se_step ed)
      | SeOperator op \<Rightarrow> map_option (edited (updateRunIf (SetOperator op) ed)) (se_step ed)
      | SeBackoff v \<Rightarrow> map_option (edited (set_backoffLimit v ed)) (se_step ed)
      | SeDeadline v \<Rightarrow> map_option (edited (set_activeDeadline v ed)) (se_step ed)
      | SeAddSecret n \<Rightarrow> map_option (edited (addSecretEnvFrom n ed)) (se_step ed)
      | SeRemoveSecret n \<Rightarrow> map_option (edited (removeSecretEnvFrom n ed)) (se_step ed)
      | _ \<Rightarrow> se_step ed)"
proof (cases a)
  case (SeName v)
  have "edited (Some (no_updates\<lparr>su_name := Some v\<rparr>)) = (\<lambda>s. s\<lparr>ps_name := v\<rparr>)"
    by (auto simp: apply_updates_def no_updates_def)
  with SeName show ?thesis
    using sends_step [of "Some (no_updates\<lparr>su_name := Some v\<rparr>)"]
    by (simp add: editor_use_def editor_do_def sends_def updateName_def Let_def)
qed (simp_all add: editor_use_def editor_do_def sends_def sends_step Let_def
      handleEditorLanguageChange_def toggleAdvanced_def fetchSecrets_def split: sum.split)

lemma step_edits_runif:
  assumes "se_step ed = Some s"
  shows "runif_steps (edited (updateImage v ed) s) = runif_steps s"
    "runif_steps (edited (updateCommand v ed) s) = runif_steps s"
    "runif_steps (edited (updateArgs v ed) s) = runif_steps s"
    "runif_steps (edited (updateEnvVars vars ed) s) = runif_steps s"
    "runif_steps (edited (updateEnvFrom sources ed) s) = runif_steps s"
    "runif_steps (edited (set_backoffLimit v ed) s) = runif_steps s"
    "runif_steps (edited (set_activeDeadline v ed) s) = runif_steps s"
    "runif_steps (s\<lparr>ps_name := v\<rparr>) = runif_steps s"
  using assms
  by (simp_all add: runif_steps_def updateImage_def updateCommand_def updateArgs_def updateEnvVars_def
      updateEnvFrom_def apply_update_first set_backoffLimit_def set_activeDeadline_def)
     (simp_all add: apply_updates_def no_updates_def)

lemma other_actions_runif:
  assumes "se_step ed = Some s" and "se_step (editor_use fetch base a ed) = Some t"
    and "\<forall>n. a \<noteq> SeToggle n"
  shows "runif_steps t = runif_steps s"
  using assms
  by (cases a)
     (auto simp: editor_use_step step_edits_runif runif_sends(1,2) updateEnvVar_def removeEnvVar_def
        addEnvVar_def addSecretEnvFrom_def removeSecretEnvFrom_def)


text \<open>A step that waits for one that has been removed, and an editor that shows it.\<close>

definition waiting_step :: PipelineStep where
  "waiting_step = (createDefaultStep ''deploy'')\<lparr>ps_runIf := Some (empty_runIf\<lparr>ri_steps := [''gone'']\<rparr>)\<rparr>"

definition waiting_editor :: StepEditor where
  "waiting_editor = blank_editor\<lparr>se_step := Some waiting_step, se_allSteps := [''build'', ''deploy'']\<rparr>"


subsection \<open>The fields of the editor\<close>

definition editor_fields :: "StepEditor \<Rightarrow> (string \<times> (string \<Rightarrow> editor_action)) list" where
  "editor_fields ed = form_fields (editor_render ed)"

definition container_fields :: "Container \<Rightarrow> (string \<times> (string \<Rightarrow> editor_action)) list" where
  "container_fields c =
     [(str_or (ct_image c) [], SeImage), (js_join '' '' (list_or (ct_command c)), SeCommand),
      (js_join [newline] (list_or (ct_args c)), SeArgs)] @ variable_fields SeEnv (list_or (ct_env c))"

definition job_fields :: "StepEditor \<Rightarrow> PipelineStep \<Rightarrow> (string \<times> (string \<Rightarrow> editor_action)) list" where
  "job_fields ed s =
     (if se_showAdvanced ed then [(shown_backoffLimit s, SeBackoff), (shown_deadline s, SeDeadline)] else [])"

lemma fields_editor_input [simp]: "fields_in (editor_input title shown placeholder act) = [(shown, act)]"
  by (simp add: editor_input_def disabled_def)

lemma fields_runif_section: "form_fields (runif_section ed s) = []"
  by (simp add: runif_section_def form_fields_none runif_checkbox_def runif_radios_def radio_def disabled_def)

lemma fields_advanced:
  "fields_in (advanced_content ed s) = [(shown_backoffLimit s, SeBackoff), (shown_deadline s, SeDeadline)]"
  by (simp add: advanced_content_def secret_select_def secret_option_def envfrom_item_def
      form_fields_none disabled_def)

lemma editor_fields_unfold:
  assumes "se_step ed = Some s" and "step_containers s = c # cs"
  shows "editor_fields ed = (ps_name s, SeName) # container_fields c @ job_fields ed s"
proof -
  have c: "getContainer ed = Some c" using assms by (simp add: getContainer_def)
  show ?thesis
    using assms(1)
    by (simp add: editor_fields_def editor_render_def editor_form_def name_field_def args_field_def c
        container_fields_def job_fields_def fields_runif_section fields_advanced disabled_def
        shown_command_def shown_args_def command_of_def getEnvVars_def Let_def)
qed

text \<open>
  What a field shows after typing: the text itself in the fields for the name, the image and the
  variables; the command and the arguments as they are read; the numbers as numbers, where no number
  and 0 are the default.
\<close>

definition editor_settle :: "StepEditor \<Rightarrow> editor_action \<Rightarrow> string" where
  "editor_settle ed a =
     (case a of
        SeName v \<Rightarrow> v
      | SeImage v \<Rightarrow> v
      | SeCommand v \<Rightarrow> js_join '' '' (parse_command v)
      | SeArgs v \<Rightarrow> js_join [newline] (parse_args (isScriptMode ed) v)
      | SeEnv i field v \<Rightarrow> v
      | SeBackoff v \<Rightarrow> int_str (num_or (parseInt v) 6)
      | SeDeadline v \<Rightarrow> (case parseInt v of None \<Rightarrow> [] | Some n \<Rightarrow> if n = 0 then [] else int_str n)
      | _ \<Rightarrow> [])"

lemma after_update:
  assumes "se_step ed = Some s" and "step_containers s = c # cs"
    and "editor_do fetch base a ed = (ed, Some (UpdateEvent (update_first g s)))"
  shows "editor_fields (editor_use fetch base a ed) =
      (ps_name s, SeName) # container_fields (g c) @ job_fields ed s"
    "\<exists>t. se_step (editor_use fetch base a ed) = Some t \<and> step_containers t \<noteq> []"
proof -
  let ?t = "apply_updates (update_first g s) s" and ?ed = "editor_use fetch base a ed"
  have step: "se_step ?ed = Some ?t"
    using assms(1,3) by (simp add: editor_use_def hand_back_def step_changed_def)
  have first: "step_containers ?t = g c # cs" by (simp add: apply_update_first assms(2))
  have "shown_backoffLimit ?t = shown_backoffLimit s" "shown_deadline ?t = shown_deadline s"
    by (simp_all add: apply_updates_def update_first_def no_updates_def shown_backoffLimit_def
        shown_deadline_def with_containers_def)
  moreover have "se_showAdvanced ?ed = se_showAdvanced ed"
    using assms(1,3) by (simp add: editor_use_def hand_back_def step_changed_def)
  ultimately have "job_fields ?ed ?t = job_fields ed s" by (simp add: job_fields_def)
  with editor_fields_unfold [OF step first] show "editor_fields ?ed =
      (ps_name s, SeName) # container_fields (g c) @ job_fields ed s"
    by (simp add: apply_update_first)
  from step first show "\<exists>t. se_step ?ed = Some t \<and> step_containers t \<noteq> []" by simp
qed

lemma container_typing:
  assumes "se_step ed = Some s" and "step_containers s = c # cs"
    and "i < length (container_fields c)" and "container_fields c ! i = (v, f)"
  shows "\<exists>g. editor_do fetch base (f w) ed = (ed, Some (UpdateEvent (update_first g s))) \<and>
    container_fields (g c) = (container_fields c)[i := (editor_settle ed (f w), f)]"
proof -
  have c: "getContainer ed = Some c" using assms(1,2) by (simp add: getContainer_def)
  let ?vars = "variable_fields SeEnv (list_or (ct_env c))"
  consider "i = 0" | "i = 1" | "i = 2" | j where "i = j + 3" "j < length ?vars"
  proof -
    have "i = 0 \<or> i = 1 \<or> i = 2 \<or> (\<exists>j. i = j + 3)" by presburger
    with that assms(3) show ?thesis by (auto simp: container_fields_def)
  qed
  then show ?thesis
  proof cases
    case 1
    with assms(4) have "f = SeImage" by (simp add: container_fields_def)
    then show ?thesis
      using 1 assms(1)
      by (intro exI [of _ "\<lambda>c. c\<lparr>ct_image := Some w\<rparr>"])
         (simp add: container_fields_def editor_do_def sends_def updateImage_def editor_settle_def str_or_def)
  next
    case 2
    with assms(4) have "f = SeCommand" by (simp add: container_fields_def)
    then show ?thesis
      using 2 assms(1)
      by (intro exI [of _ "\<lambda>c. c\<lparr>ct_command := Some (parse_command w)\<rparr>"])
         (simp add: container_fields_def editor_do_def sends_def updateCommand_def editor_settle_def list_or_def)
  next
    case 3
    with assms(4) have "f = SeArgs" by (simp add: container_fields_def)
    then show ?thesis
      using 3 assms(1)
      by (intro exI [of _ "\<lambda>c. c\<lparr>ct_args := Some (parse_args (isScriptMode ed) w)\<rparr>"])
         (simp add: container_fields_def editor_do_def sends_def updateArgs_def editor_settle_def list_or_def)
  next
    case (4 j)
    have nth: "?vars ! j = (v, f)" using assms(4) 4(1) by (simp add: container_fields_def)
    from variable_fields_update [OF 4(2) nth, of w] obtain k field where
      f: "f = SeEnv k field" and
      vars: "variable_fields SeEnv (map_at k (set_env_field field w) (list_or (ct_env c))) =
        ?vars[j := (w, f)]" by blast
    have "getEnvVars ed = list_or (ct_env c)" by (simp add: getEnvVars_def c)
    then have "editor_do fetch base (f w) ed = (ed, Some (UpdateEvent (update_first
        (\<lambda>c. c\<lparr>ct_env := Some (map_at k (set_env_field field w) (getEnvVars ed))\<rparr>) s)))"
      using assms(1) by (simp add: f editor_do_def sends_def updateEnvVar_def updateEnvVars_def)
    moreover have "container_fields (c\<lparr>ct_env := Some (map_at k (set_env_field field w) (getEnvVars ed))\<rparr>) =
        (container_fields c)[i := (editor_settle ed (f w), f)]"
      using 4(1) by (simp add: container_fields_def getEnvVars_def c list_or_def f editor_settle_def
          vars [unfolded f list_or_def] numeral_3_eq_3)
    ultimately show ?thesis by blast
  qed
qed

definition has_container :: "StepEditor \<Rightarrow> bool" where
  "has_container ed = (case se_step ed of None \<Rightarrow> False | Some s \<Rightarrow> step_containers s \<noteq> [])"

lemma has_containerE:
  assumes "has_container ed"
  obtains s c cs where "se_step ed = Some s" "step_containers s = c # cs"
  using assms by (auto simp: has_container_def neq_Nil_conv split: option.splits)

lemma name_typing:
  assumes "se_step ed = Some s" and "step_containers s = c # cs"
  shows "editor_fields (editor_use fetch base (SeName w) ed) =
      (w, SeName) # container_fields c @ job_fields ed s"
    "has_container (editor_use fetch base (SeName w) ed)"
proof -
  let ?ed = "editor_use fetch base (SeName w) ed" and ?t = "s\<lparr>ps_name := w\<rparr>"
  have step: "se_step ?ed = Some ?t" using assms(1) by (simp add: editor_use_step)
  have first: "step_containers ?t = c # cs" using assms(2) by (simp add: step_containers_def)
  have "se_showAdvanced ?ed = se_showAdvanced ed"
    using assms(1) by (simp add: editor_use_def editor_do_def updateName_def sends_def hand_back_def
        step_changed_def Let_def)
  then have "job_fields ?ed ?t = job_fields ed s"
    by (simp add: job_fields_def shown_backoffLimit_def shown_deadline_def)
  with editor_fields_unfold [OF step first] show "editor_fields ?ed =
      (w, SeName) # container_fields c @ job_fields ed s"
    by simp
  from step first show "has_container ?ed" by (simp add: has_container_def)
qed

lemma job_typing:
  assumes "se_step ed = Some s" and "step_containers s = c # cs"
    and "i < length (job_fields ed s)" and "job_fields ed s ! i = (v, f)"
  shows "editor_fields (editor_use fetch base (f w) ed) =
      (ps_name s, SeName) # container_fields c @ (job_fields ed s)[i := (editor_settle ed (f w), f)]"
    "has_container (editor_use fetch base (f w) ed)"
proof -
  have adv: "se_showAdvanced ed" using assms(3) by (simp add: job_fields_def split: if_splits)
  have "i = 0 \<and> f = SeBackoff \<or> i = 1 \<and> f = SeDeadline"
    using assms(3,4) adv by (auto simp: job_fields_def less_Suc_eq)
  moreover have "editor_fields (editor_use fetch base (SeBackoff w) ed) = (ps_name s, SeName) #
      container_fields c @ (job_fields ed s)[0 := (editor_settle ed (SeBackoff w), SeBackoff)] \<and>
      has_container (editor_use fetch base (SeBackoff w) ed)"
  proof -
    let ?ed = "editor_use fetch base (SeBackoff w) ed"
    let ?t = "s\<lparr>ps_jobSpec := (ps_jobSpec s)\<lparr>js_backoffLimit := Some (num_or (parseInt w) 6)\<rparr>\<rparr>"
    have step: "se_step ?ed = Some ?t"
      using assms(1) by (simp add: editor_use_step set_backoffLimit_def apply_updates_def no_updates_def)
    have first: "step_containers ?t = c # cs" using assms(2) by (simp add: step_containers_def)
    have "se_showAdvanced ?ed = se_showAdvanced ed"
      using assms(1) by (simp add: editor_use_def editor_do_def set_backoffLimit_def sends_def
          hand_back_def step_changed_def Let_def)
    with editor_fields_unfold [OF step first] step first adv show ?thesis
      by (simp add: has_container_def job_fields_def shown_backoffLimit_def shown_deadline_def editor_settle_def)
  qed
  moreover have "editor_fields (editor_use fetch base (SeDeadline w) ed) = (ps_name s, SeName) #
      container_fields c @ (job_fields ed s)[1 := (editor_settle ed (SeDeadline w), SeDeadline)] \<and>
      has_container (editor_use fetch base (SeDeadline w) ed)"
  proof -
    let ?ed = "editor_use fetch base (SeDeadline w) ed"
    let ?t = "s\<lparr>ps_jobSpec := (ps_jobSpec s)\<lparr>js_activeDeadlineSeconds :=
      (case parseInt w of None \<Rightarrow> None | Some n \<Rightarrow> if n = 0 then None else Some n)\<rparr>\<rparr>"
    have step: "se_step ?ed = Some ?t"
      using assms(1) by (simp add: editor_use_step set_activeDeadline_def apply_updates_def no_updates_def)
    have first: "step_containers ?t = c # cs" using assms(2) by (simp add: step_containers_def)
    have "se_showAdvanced ?ed = se_showAdvanced ed"
      using assms(1) by (simp add: editor_use_def editor_do_def set_activeDeadline_def sends_def
          hand_back_def step_changed_def Let_def)
    with editor_fields_unfold [OF step first] step first adv show ?thesis
      by (simp add: has_container_def job_fields_def shown_backoffLimit_def shown_deadline_def
          editor_settle_def split: option.split)
  qed
  ultimately show "editor_fields (editor_use fetch base (f w) ed) =
      (ps_name s, SeName) # container_fields c @ (job_fields ed s)[i := (editor_settle ed (f w), f)]"
    "has_container (editor_use fetch base (f w) ed)"
    by auto
qed

lemma editor_typing:
  assumes "has_container ed" and "i < length (editor_fields ed)" and "editor_fields ed ! i = (v, f)"
  shows "editor_fields (editor_use fetch base (f w) ed) = (editor_fields ed)[i := (editor_settle ed (f w), f)]"
    and "has_container (editor_use fetch base (f w) ed)"
proof -
  from assms(1) obtain s c cs where s: "se_step ed = Some s" "step_containers s = c # cs"
    by (rule has_containerE)
  note now = editor_fields_unfold [OF s]
  let ?n = "length (container_fields c)"
  consider "i = 0" | j where "i = Suc j" "j < ?n"
    | j where "i = Suc (?n + j)" "j < length (job_fields ed s)"
  proof -
    from assms(2) have i: "i < Suc (?n + length (job_fields ed s))" by (simp add: now)
    show ?thesis
    proof (cases i)
      case 0
      then show ?thesis by (rule that(1))
    next
      case (Suc j)
      then show ?thesis using that(2) [of j] that(3) [of "j - ?n"] i by (cases "j < ?n") auto
    qed
  qed
  then have "editor_fields (editor_use fetch base (f w) ed) =
      (editor_fields ed)[i := (editor_settle ed (f w), f)] \<and> has_container (editor_use fetch base (f w) ed)"
  proof cases
    case 1
    with assms(3) have "f = SeName" by (simp add: now)
    with 1 show ?thesis using name_typing [OF s] by (simp add: now editor_settle_def)
  next
    case (2 j)
    with assms(3) have "container_fields c ! j = (v, f)" by (simp add: now nth_append)
    from container_typing [OF s 2(2) this] obtain g where
      g: "editor_do fetch base (f w) ed = (ed, Some (UpdateEvent (update_first g s)))"
        "container_fields (g c) = (container_fields c)[j := (editor_settle ed (f w), f)]" by blast
    from after_update [OF s g(1)] 2 g(2) show ?thesis
      by (auto simp: now has_container_def list_update_append)
  next
    case (3 j)
    with assms(3) have "job_fields ed s ! j = (v, f)" by (simp add: now nth_append)
    from job_typing [OF s 3(2) this] 3 show ?thesis by (simp add: now list_update_append)
  qed
  then show "editor_fields (editor_use fetch base (f w) ed) =
      (editor_fields ed)[i := (editor_settle ed (f w), f)]" "has_container (editor_use fetch base (f w) ed)"
    by simp_all
qed

interpretation editor_form: controlled_form editor_fields "editor_use fetch base" editor_settle has_container
  for fetch base
  by unfold_locales (rule editor_typing, assumption+)+

text \<open>Typing a text into the field at a position, when there is one.\<close>

definition editor_type ::
    "Secret list option fetch \<Rightarrow> string \<Rightarrow> nat \<times> string \<Rightarrow> StepEditor \<Rightarrow> StepEditor" where
  "editor_type fetch base = (\<lambda>(i, w) ed.
     if i < length (editor_fields ed) then editor_use fetch base (snd (editor_fields ed ! i) w) ed else ed)"

lemma editor_type_at: "editor_form.type_at fetch base = editor_type fetch base"
  by (simp add: editor_form.type_at_def editor_type_def fun_eq_iff)


definition build_editor :: StepEditor where
  "build_editor = blank_editor\<lparr>se_step := Some (createDefaultStep ''build'')\<rparr>"


text \<open>
  The language picked for the arguments is lost with the next letter that is typed, since the step
  handed back makes the editor choose by the command again.
\<close>

lemma picked_language_lost:
  assumes "se_step ed = Some s"
  shows "se_editorLanguage (editor_use fetch base (SeArgs v) (editor_use fetch base (SeLanguage l) ed)) =
    detectLanguageFromCommand (editor_use fetch base (SeArgs v) (editor_use fetch base (SeLanguage l) ed))"
  using assms
  by (simp add: editor_use_def editor_do_def handleEditorLanguageChange_def sends_def updateArgs_def
      hand_back_def step_changed_def detectLanguageFromCommand_def getContainer_def Let_def)

end
