(* ===== verification/Builder_View.thy ===== *)
theory Builder_View
  imports Pipeline_Canvas Settings_View Step_Editor_View
begin

section \<open>The page of the builder (\<open>pipeline-canvas.ts\<close>, \<open>render\<close>)\<close>

text \<open>
  The template of the builder with the two components it contains, the settings and the step
  editor, and the page they make up: the canvas hands the editor the selected step and the settings
  the pipeline, and merges what they send back.  The drawers are elements whose event \<open>close\<close> is
  used here; what is in a drawer that is not open is on the page, but moved out of sight.
\<close>

subsection \<open>The template\<close>

datatype builder_action =
    BdCanvas canvas_event
  | BdDragTemplate string
  | BdDrop
  | BdEditor editor_action
  | BdSettings settings_action

record BuilderPage =
  bp_canvas :: Canvas
  bp_editor :: "StepEditor option"
  bp_settings :: GlobalSettings
  bp_dragged :: "string option"

definition canvas_name_field :: "Canvas \<Rightarrow> builder_action Html" where
  "canvas_name_field c =
     (let wrong = truthy (cv_nameError c)
      in node ''div''
        ([node ''label'' [Text ''Pipeline Name'', labelled ''span'' ''*''],
          Elem ''input''
            [Attr ''type'' ''text'', Attr ''class'' (''pipeline-name-input '' @ (if wrong then ''error'' else [])),
             Prop ''value'' (om_name (pl_metadata (cv_pipeline c))), Attr ''placeholder'' ''my-pipeline'',
             Attr ''aria-invalid'' (bool_str wrong),
             Attr ''aria-describedby'' (if wrong then ''name-error'' else [])]
            [Input (\<lambda>v. BdCanvas (CanvasRename v))] []] @
         (if wrong then [Elem ''span'' [Attr ''role'' ''alert''] [] [Text (the (cv_nameError c))]] else [])))"

definition view_switch :: "Canvas \<Rightarrow> builder_action Html" where
  "view_switch c =
     node ''div''
       [Elem ''rh-switch''
          [Flag ''checked'' (cv_viewMode c = Yaml), Attr ''aria-label'' ''Toggle between Builder and YAML view'']
          [Check (\<lambda>b. BdCanvas (if b then CanvasToYaml else CanvasToBuilder))] [],
        labelled ''span'' ''YAML'']"

definition header_actions :: "Pipeline fetch \<Rightarrow> Canvas \<Rightarrow> builder_action Html" where
  "header_actions fetch c =
     node ''div''
       ((if cv_viewMode c = Builder
         then [Elem ''rh-button'' [Attr ''variant'' ''secondary''] [Click (BdCanvas CanvasOpenSettings)]
           [node ''rh-icon'' [], Text ''Settings'']]
         else []) @
        [Elem ''rh-button''
           [Flag ''disabled'' (cv_saving c \<or> (cv_viewMode c = Yaml \<and> truthy (cv_yamlError c)))]
           [Click (BdCanvas (CanvasSave fetch))]
           [node ''rh-icon'' [], Text (if cv_saving c then ''Saving...'' else ''Save Pipeline'')]])"

definition yaml_view :: "Canvas \<Rightarrow> builder_action Html" where
  "yaml_view c =
     node ''div''
       ((if truthy (cv_yamlError c)
         then [node ''div'' [node ''rh-icon'' [], labelled ''span'' (the (cv_yamlError c))]] else []) @
        [Elem ''code-editor''
           [Prop ''value'' (cv_yamlContent c), Attr ''language'' ''yaml'',
            Flag ''showLanguageSelector'' False, Attr ''minHeight'' ''600px'']
           [Input (\<lambda>v. BdCanvas (CanvasYamlChange v))] []])"

definition step_template :: "string \<Rightarrow> string \<Rightarrow> string \<Rightarrow> builder_action Html" where
  "step_template type title hint =
     Elem ''div'' [Attr ''draggable'' ''true'', Attr ''tabindex'' ''0'', Attr ''role'' ''button'']
       [Event ''dragstart'' (BdDragTemplate type), Click (BdCanvas (CanvasAddStep type)),
        KeyEnter (BdCanvas (CanvasAddStep type))]
       [node ''span'' [node ''rh-icon'' []],
        node ''div'' [labelled ''h4'' title, labelled ''p'' hint]]"

definition template_sidebar :: "builder_action Html" where
  "template_sidebar =
     node ''aside''
       [labelled ''h3'' ''Add Step'',
        node ''div''
          [step_template ''bash'' ''Bash Runner'' ''UBI Minimal'',
           step_template ''python'' ''Python Runner'' ''UBI Python 3.11'',
           step_template ''kubectl'' ''Kubectl Step'' ''Kubernetes CLI'',
           step_template ''custom'' ''Custom Step'' ''Set your own image'']]"

definition step_card :: "Canvas \<Rightarrow> nat \<times> CanvasStep \<Rightarrow> builder_action Html" where
  "step_card c = (\<lambda>(index, step).
     let name = ps_name step
     in Elem ''article''
       [Attr ''class'' (''step-card '' @ (if cv_selectedStep c = Some name then ''selected'' else [])),
        Attr ''role'' ''listitem'', Attr ''tabindex'' ''0'', Attr ''draggable'' ''true'']
       [Event ''dragstart'' (BdCanvas (CanvasDragStart index)), Event ''dragend'' (BdCanvas CanvasDragEnd),
        Event ''dragover'' (BdCanvas (CanvasDragOver index)), Click (BdCanvas (CanvasSelectStep name)),
        KeyEnter (BdCanvas (CanvasSelectStep name))]
       [node ''span'' [node ''rh-icon'' []],
        node ''div'' [labelled ''div'' name, labelled ''div'' (getStepImage (plain_step step))],
        node ''div''
          [Elem ''button'' [Attr ''title'' ''Edit step'', Attr ''aria-label'' (''Edit '' @ name)]
             [ClickStop (BdCanvas (CanvasSelectStep name))] [node ''rh-icon'' []],
           Elem ''button'' [Attr ''title'' ''Delete step'', Attr ''aria-label'' (''Delete '' @ name)]
             [ClickStop (BdCanvas (CanvasRemoveStep name))] [node ''rh-icon'' []]]])"

definition connected_card :: "Canvas \<Rightarrow> nat \<times> CanvasStep \<Rightarrow> builder_action Html list" where
  "connected_card c is =
     (if 0 < fst is then [node ''div'' [node ''div'' []]] else []) @ [step_card c is]"

definition canvas_area :: "Canvas \<Rightarrow> builder_action Html" where
  "canvas_area c =
     Elem ''div'' [] [Event ''drop'' BdDrop]
       [if cv_canvasSteps c = []
        then node ''div'' [node ''rh-icon'' [], labelled ''p'' ''Drag steps here or click to add'']
        else Elem ''div'' [Attr ''role'' ''list''] []
          (concat (map (connected_card c) (enumerate 0 (cv_canvasSteps c))))]"

definition settings_drawer :: "BuilderPage \<Rightarrow> builder_action Html" where
  "settings_drawer pg =
     Elem ''side-drawer''
       [Flag ''open'' (cv_showGlobalSettings (bp_canvas pg)), Attr ''heading'' ''Pipeline Settings'']
       [Event ''close'' (BdCanvas CanvasCloseDrawer)]
       [node ''global-settings'' (map (map_Html BdSettings) (settings_render (bp_settings pg)))]"

definition editor_drawer :: "BuilderPage \<Rightarrow> builder_action Html" where
  "editor_drawer pg =
     Elem ''side-drawer''
       [Flag ''open'' (cv_showStepEditor (bp_canvas pg) \<and> truthy (cv_selectedStep (bp_canvas pg))),
        Attr ''heading'' ''Edit Step'', Flag ''showWidthToggle'' True]
       [Event ''close'' (BdCanvas CanvasCloseDrawer)]
       (case bp_editor pg of
          None \<Rightarrow> []
        | Some ed \<Rightarrow> [node ''step-editor'' (map (map_Html BdEditor) (editor_render ed))])"

definition builder_render :: "Pipeline fetch \<Rightarrow> BuilderPage \<Rightarrow> builder_action Html list" where
  "builder_render fetch pg =
     (let c = bp_canvas pg
      in (if truthy (cv_error c)
          then [Elem ''div'' [Attr ''role'' ''alert''] [] [node ''rh-icon'' [], Text (the (cv_error c))]]
          else []) @
         [node ''header''
            [node ''div'' [canvas_name_field c, view_switch c], header_actions fetch c],
          if cv_viewMode c = Yaml then yaml_view c
          else node ''div'' [template_sidebar, canvas_area c],
          settings_drawer pg, editor_drawer pg])"

subsection \<open>The page at work\<close>

text \<open>
  Rendering hands the components their properties.  The editor is there as long as a step is
  selected: a new one fetches the secrets of the namespace; one that is there chooses its language
  again when it is given another step object.  \<open>fresh\<close> says that the steps of the canvas are new
  objects, even where they are equal to the old ones.  A property is set again only when the value
  bound to it differs from the one at the last rendering (\<open>before\<close>), so the namespace of the editor,
  which the editor also changes itself, follows the pipeline only when that changes.
\<close>

definition given_step :: "bool \<Rightarrow> PipelineStep option \<Rightarrow> StepEditor \<Rightarrow> StepEditor" where
  "given_step fresh s ed =
     (if se_step ed = s \<and> \<not> fresh then ed else step_changed (ed\<lparr>se_step := s\<rparr>))"

definition canvas_namespace :: "Canvas \<Rightarrow> string" where
  "canvas_namespace c = str_or (om_namespace (pl_metadata (cv_pipeline c))) ''default''"

definition render_editor ::
    "Secret list option fetch \<Rightarrow> string \<Rightarrow> bool \<Rightarrow> Canvas \<Rightarrow> Canvas \<Rightarrow> StepEditor option \<Rightarrow>
     StepEditor option" where
  "render_editor secrets base fresh before c old =
     (if truthy (cv_selectedStep c)
      then
        (let names = map ps_name (cv_canvasSteps c); shown = map_option plain_step (editor_shows c)
         in case old of
              Some ed \<Rightarrow> Some (given_step fresh shown
                (ed\<lparr>se_allSteps := names,
                    se_namespace := (if canvas_namespace c = canvas_namespace before then se_namespace ed
                      else canvas_namespace c)\<rparr>))
            | None \<Rightarrow> Some (fetchSecrets secrets base (given_step True shown
                (blank_editor\<lparr>se_allSteps := names, se_namespace := canvas_namespace c\<rparr>))))
      else None)"

definition render_settings ::
    "PVC list option fetch \<Rightarrow> string \<Rightarrow> Canvas \<Rightarrow> GlobalSettings \<Rightarrow> GlobalSettings" where
  "render_settings pvcs base c gs = settings_updated pvcs base (gs\<lparr>gs_pipeline := Some (cv_pipeline c)\<rparr>)"

definition render_parts ::
    "Secret list option fetch \<Rightarrow> PVC list option fetch \<Rightarrow> string \<Rightarrow> bool \<Rightarrow> Canvas \<Rightarrow> BuilderPage \<Rightarrow> BuilderPage" where
  "render_parts secrets pvcs base fresh before pg =
     pg\<lparr>bp_editor := render_editor secrets base fresh before (bp_canvas pg) (bp_editor pg),
        bp_settings := render_settings pvcs base (bp_canvas pg) (bp_settings pg)\<rparr>"

text \<open>What the canvas does with an event of the editor and with one of the settings.\<close>

definition on_step_event :: "step_event option \<Rightarrow> canvas_event list" where
  "on_step_event e =
     (case e of
        None \<Rightarrow> []
      | Some (UpdateEvent u) \<Rightarrow> [CanvasEditorUpdate u]
      | Some DeleteEvent \<Rightarrow> [CanvasEditorDelete]
      | Some CloseEvent \<Rightarrow> [CanvasCloseDrawer])"

text \<open>
  The events of the canvas an action comes to, the state it leaves the other components in, and
  whether the steps are new objects afterwards.
\<close>

definition canvas_events :: "Secret list option fetch \<Rightarrow> string \<Rightarrow> builder_action \<Rightarrow> BuilderPage \<Rightarrow> canvas_event list" where
  "canvas_events secrets base a pg =
     (case a of
        BdCanvas e \<Rightarrow> [e]
      | BdDragTemplate t \<Rightarrow> []
      | BdDrop \<Rightarrow> [CanvasDrop (bp_dragged pg)]
      | BdEditor x \<Rightarrow>
          (case bp_editor pg of
             None \<Rightarrow> []
           | Some ed \<Rightarrow> on_step_event (snd (editor_do secrets base x ed)))
      | BdSettings x \<Rightarrow> (case x of SgEdit e \<Rightarrow> [CanvasSettings e] | _ \<Rightarrow> []))"

definition parts_after ::
    "Secret list option fetch \<Rightarrow> PVC list option fetch \<Rightarrow> string \<Rightarrow> builder_action \<Rightarrow> BuilderPage \<Rightarrow> BuilderPage" where
  "parts_after secrets pvcs base a pg =
     (case a of
        BdCanvas (CanvasDragStart i) \<Rightarrow> pg\<lparr>bp_dragged := None\<rparr>
      | BdDragTemplate t \<Rightarrow> pg\<lparr>bp_dragged := Some t\<rparr>
      | BdEditor x \<Rightarrow> pg\<lparr>bp_editor := map_option (\<lambda>ed. fst (editor_do secrets base x ed)) (bp_editor pg)\<rparr>
      | BdSettings x \<Rightarrow> pg\<lparr>bp_settings := settings_do pvcs base x (bp_settings pg)\<rparr>
      | _ \<Rightarrow> pg)"

definition makes_fresh :: "canvas_event list \<Rightarrow> bool" where
  "makes_fresh es = list_ex (\<lambda>e. case e of CanvasEditorUpdate u \<Rightarrow> True | CanvasToBuilder \<Rightarrow> True | _ \<Rightarrow> False) es"

definition builder_do ::
    "(string \<Rightarrow> YamlValue outcome) \<Rightarrow> (Pipeline \<Rightarrow> string) \<Rightarrow> Secret list option fetch \<Rightarrow>
     PVC list option fetch \<Rightarrow> string \<Rightarrow> builder_action \<Rightarrow> BuilderPage \<Rightarrow> BuilderPage option" where
  "builder_do parse str secrets pvcs base a pg =
     (let es = canvas_events secrets base a pg
      in map_option
        (\<lambda>c. render_parts secrets pvcs base (makes_fresh es) (bp_canvas pg)
               ((parts_after secrets pvcs base a pg)\<lparr>bp_canvas := c\<rparr>))
        (canvas_run parse str base (bp_canvas pg) es))"

definition builder_open ::
    "Secret list option fetch \<Rightarrow> PVC list option fetch \<Rightarrow> string \<Rightarrow> Canvas \<Rightarrow> BuilderPage" where
  "builder_open secrets pvcs base c =
     render_parts secrets pvcs base True c
       \<lparr>bp_canvas = c, bp_editor = None,
        bp_settings = \<lparr>gs_pipeline = None, gs_activeTab = 0, gs_availablePVCs = [],
          gs_loadingPVCs = False, gs_lastFetchedNamespace = []\<rparr>,
        bp_dragged = None\<rparr>"

text \<open>The event \<open>namespace-change\<close> of the window, which the canvas and the editor listen to.\<close>

definition builder_namespace ::
    "(string \<Rightarrow> YamlValue outcome) \<Rightarrow> (Pipeline \<Rightarrow> string) \<Rightarrow> PipelineList fetch \<Rightarrow>
     Secret list option fetch \<Rightarrow> PVC list option fetch \<Rightarrow> string \<Rightarrow> string \<Rightarrow> BuilderPage \<Rightarrow> BuilderPage option" where
  "builder_namespace parse str fetch secrets pvcs base ns pg =
     map_option
       (\<lambda>c. render_parts secrets pvcs base False (bp_canvas pg)
          (pg\<lparr>bp_canvas := c,
              bp_editor := map_option (Step_Editor.handleNamespaceChange secrets base ns) (bp_editor pg)\<rparr>))
       (canvas_step parse str base (bp_canvas pg) (CanvasNamespace fetch ns))"

subsection \<open>Using the page is running the canvas\<close>

text \<open>
  The pages that can be reached: the builder opens, the user uses what is on the screen, any
  actions the rendered template offers, and the namespace of the shell changes.
\<close>

fun builder_acts ::
    "(string \<Rightarrow> YamlValue outcome) \<Rightarrow> (Pipeline \<Rightarrow> string) \<Rightarrow> Secret list option fetch \<Rightarrow>
     PVC list option fetch \<Rightarrow> string \<Rightarrow> builder_action list \<Rightarrow> BuilderPage \<Rightarrow> BuilderPage option" where
  "builder_acts parse str secrets pvcs base [] pg = Some pg"
| "builder_acts parse str secrets pvcs base (a # as) pg =
     (case builder_do parse str secrets pvcs base a pg of
        None \<Rightarrow> None
      | Some pg' \<Rightarrow> builder_acts parse str secrets pvcs base as pg')"

inductive builder_reach ::
    "(string \<Rightarrow> YamlValue outcome) \<Rightarrow> (Pipeline \<Rightarrow> string) \<Rightarrow> string \<Rightarrow> Canvas \<Rightarrow> BuilderPage \<Rightarrow> bool"
  for parse str base c0 where
  opened: "builder_reach parse str base c0 (builder_open secrets pvcs base c0)"
| used: "builder_reach parse str base c0 pg \<Longrightarrow> set as \<subseteq> view_acts (builder_render fetch pg) \<Longrightarrow>
    builder_acts parse str secrets pvcs base as pg = Some pg' \<Longrightarrow> builder_reach parse str base c0 pg'"
| namespace: "builder_reach parse str base c0 pg \<Longrightarrow>
    builder_namespace parse str fetch secrets pvcs base ns pg = Some pg' \<Longrightarrow>
    builder_reach parse str base c0 pg'"

lemma canvas_run_append:
  "canvas_run parse str base c (es @ es') =
     (case canvas_run parse str base c es of None \<Rightarrow> None | Some d \<Rightarrow> canvas_run parse str base d es')"
  by (induction es arbitrary: c) (simp_all split: option.split)

lemma canvas_run_returns: "\<exists>d. canvas_run parse str base c es = Some d"
proof (induction es arbitrary: c)
  case (Cons e es)
  obtain d where "canvas_step parse str base c e = Some d" using canvas_step_returns by blast
  with Cons show ?case by simp
qed simp

text \<open>What holds of a page that has been rendered.\<close>

definition page_synced :: "BuilderPage \<Rightarrow> bool" where
  "page_synced pg =
     ((case bp_editor pg of
         None \<Rightarrow> \<not> truthy (cv_selectedStep (bp_canvas pg))
       | Some ed \<Rightarrow> truthy (cv_selectedStep (bp_canvas pg)) \<and>
           se_step ed = map_option plain_step (editor_shows (bp_canvas pg)) \<and>
           se_allSteps ed = map ps_name (cv_canvasSteps (bp_canvas pg))) \<and>
      gs_pipeline (bp_settings pg) = Some (cv_pipeline (bp_canvas pg)))"

lemma given_step_facts [simp]:
  "se_step (given_step fresh s ed) = s" "se_allSteps (given_step fresh s ed) = se_allSteps ed"
  "se_namespace (given_step fresh s ed) = se_namespace ed"
  by (simp_all add: given_step_def step_changed_def)

lemma fetchSecrets_facts [simp]:
  "se_step (fetchSecrets secrets base ed) = se_step ed"
  "se_allSteps (fetchSecrets secrets base ed) = se_allSteps ed"
  "se_namespace (fetchSecrets secrets base ed) = se_namespace ed"
  by (simp_all add: fetchSecrets_def split: sum.split)

lemma render_parts_synced: "page_synced (render_parts secrets pvcs base fresh before pg)"
  by (auto simp: page_synced_def render_parts_def render_editor_def render_settings_def
      settings_updated_def fetchPVCs_def Let_def split: option.split)

lemma render_parts_canvas [simp]:
  "bp_canvas (render_parts secrets pvcs base fresh before pg) = bp_canvas pg"
  by (simp add: render_parts_def)

lemma builder_do_run:
  assumes "builder_do parse str secrets pvcs base a pg = Some pg'"
  shows "page_synced pg' \<and>
    canvas_run parse str base (bp_canvas pg) (canvas_events secrets base a pg) = Some (bp_canvas pg')"
  using assms render_parts_synced by (auto simp: builder_do_def Let_def)

lemma builder_do_returns: "\<exists>pg'. builder_do parse str secrets pvcs base a pg = Some pg'"
  using canvas_run_returns [of parse str base "bp_canvas pg"] by (simp add: builder_do_def Let_def)

lemma builder_acts_run:
  "builder_acts parse str secrets pvcs base as pg = Some pg' \<Longrightarrow> page_synced pg \<Longrightarrow>
     page_synced pg' \<and> (\<exists>es. canvas_run parse str base (bp_canvas pg) es = Some (bp_canvas pg'))"
proof (induction as arbitrary: pg)
  case Nil
  then show ?case by (auto intro: exI [of _ "[]"])
next
  case (Cons a as)
  then obtain d where d: "builder_do parse str secrets pvcs base a pg = Some d"
    "builder_acts parse str secrets pvcs base as d = Some pg'"
    by (auto split: option.splits)
  from builder_do_run [OF d(1)] Cons.IH [OF d(2)] obtain es where
    "page_synced pg'" "canvas_run parse str base (bp_canvas d) es = Some (bp_canvas pg')" by blast
  with builder_do_run [OF d(1)] show ?case
    by (auto simp: canvas_run_append intro!: exI [of _ "canvas_events secrets base a pg @ es"])
qed


lemma nat_str_one: "nat_str (Suc 0) = ''1''"
  by code_simp

definition opened_page :: BuilderPage where
  "opened_page = builder_open offline offline ''/k8s'' canvas_start"

definition page_with_step :: BuilderPage where
  "page_with_step = the (builder_acts (\<lambda>_. Inl OtherThrown) (\<lambda>p. om_name (pl_metadata p)) offline offline
     ''/k8s'' [BdCanvas (CanvasAddStep ''bash'')] opened_page)"

lemma page_with_step_reached:
  "builder_reach (\<lambda>_. Inl OtherThrown) (\<lambda>p. om_name (pl_metadata p)) ''/k8s'' canvas_start page_with_step"
    "bp_canvas page_with_step = addStep ''bash'' canvas_start"
proof -
  have acts: "builder_acts (\<lambda>_. Inl OtherThrown) (\<lambda>p. om_name (pl_metadata p)) offline offline ''/k8s''
      [BdCanvas (CanvasAddStep ''bash'')] opened_page = Some page_with_step"
    by (simp add: page_with_step_def builder_do_def canvas_events_def Let_def)
  then show "bp_canvas page_with_step = addStep ''bash'' canvas_start"
    by (auto dest!: arg_cong [of _ page_with_step bp_canvas] simp: builder_do_def canvas_events_def Let_def opened_page_def builder_open_def)
  have builder: "cv_viewMode (bp_canvas opened_page) = Builder"
    by (simp add: opened_page_def builder_open_def canvas_start_def)
  have "set [BdCanvas (CanvasAddStep ''bash'')] \<subseteq> view_acts (builder_render offline opened_page)"
    by (simp add: builder_render_def builder template_sidebar_def step_template_def Let_def)
  with acts show "builder_reach (\<lambda>_. Inl OtherThrown) (\<lambda>p. om_name (pl_metadata p)) ''/k8s'' canvas_start page_with_step"
    using builder_reach.opened builder_reach.used opened_page_def by metis
qed


subsection \<open>Saving from the page\<close>

lemma reach_steps_synced:
  assumes "builder_reach parse str base c0 pg" and "steps_synced c0"
  shows "steps_synced (bp_canvas pg) \<and> page_synced pg"
proof -
  have run: "canvas_run parse str base c es = Some d \<Longrightarrow> steps_synced c \<Longrightarrow> steps_synced d" for c d es
    by (induction es arbitrary: c) (auto split: option.splits dest: canvas_step_synced)
  show ?thesis
    using assms(1)
  proof (induction rule: builder_reach.induct)
    case (opened secrets pvcs)
    then show ?case using assms(2) render_parts_synced by (simp add: builder_open_def)
  next
    case (used pg as fetch secrets pvcs pg')
    then show ?case using builder_acts_run [OF used.hyps(3)] run by blast
  next
    case (namespace pg fetch secrets pvcs ns pg')
    then obtain d where "canvas_step parse str base (bp_canvas pg) (CanvasNamespace fetch ns) = Some d"
      "bp_canvas pg' = d" "page_synced pg'"
      using render_parts_synced by (auto simp: builder_namespace_def)
    with namespace.IH canvas_step_synced show ?case by blast
  qed
qed

lemma with_same_steps: "steps_synced c \<Longrightarrow> updatePipelineFromCanvas c = c"
  by (simp add: steps_synced_def updatePipelineFromCanvas_def with_steps_def)

lemma save_in_builder:
  assumes "steps_synced c" and "cv_viewMode c = Builder"
    and "cv_posted (savePipeline parse fetch base c) \<noteq> cv_posted c"
  shows "cv_posted (savePipeline parse fetch base c) =
    cv_posted c @ [(str_or (om_namespace (pl_metadata (cv_pipeline c))) ''default'', cv_pipeline c)]"
  using assms(2,3) with_same_steps [OF assms(1)]
  by (auto simp: savePipeline_def Let_def save_checked_def post_pipeline_def
      split: option.splits sum.splits if_splits)

lemma find_plain:
  "List.find (\<lambda>s. ps_name s = n) (map plain_step cs) = map_option plain_step (List.find (\<lambda>s. ps_name s = n) cs)"
  by (induction cs) (simp_all add: plain_step_def PipelineStep.defs)


lemma steps_synced_start: "steps_synced canvas_start"
  by (simp add: steps_synced_def canvas_start_def createEmptyPipeline_def no_spec_def)


subsection \<open>The cards and the keyboard\<close>

lemma card_keys:
  assumes "r \<in> set (keys [step_card c (i, s)])"
  shows "r = ([BdCanvas (CanvasSelectStep (ps_name s))], False)"
  using assms unfolding step_card_def Let_def case_prod_conv
  by (rule keys_captured) (simp_all add: list_all_iff)

subsection \<open>The secrets of another namespace\<close>

text \<open>
  When the namespace of the shell changes while there are steps, the pipeline keeps its own, but
  the editor offers the secrets of the other.
\<close>

lemma foreign_secrets:
  assumes "cv_canvasSteps (bp_canvas pg) \<noteq> []" and "bp_editor pg = Some ed"
    and "truthy (cv_selectedStep (bp_canvas pg))" and "listSecrets secrets base ns = Inr found"
    and "builder_namespace parse str fetch secrets pvcs base ns pg = Some pg'"
  shows "bp_canvas pg' = bp_canvas pg \<and> (\<exists>ed'. bp_editor pg' = Some ed' \<and> se_namespace ed' = ns \<and>
    map si_name (se_availableSecrets ed') = map sec_name (filter (\<lambda>s. sec_type s = ''Opaque'') found))"
proof -
  have canvas: "bp_canvas pg' = bp_canvas pg"
    using assms(1,5) by (auto simp: builder_namespace_def canvas_namespace_change_def)
  have "se_availableSecrets (given_step fresh s ed) = se_availableSecrets ed" for fresh s ed
    by (simp add: given_step_def step_changed_def)
  then show ?thesis
    using canvas assms
    by (auto simp: builder_namespace_def canvas_namespace_change_def render_parts_def render_editor_def
        Step_Editor.handleNamespaceChange_def fetchSecrets_def Let_def comp_def)
qed

end
