(* ===== verification/Canvas_Loading.thy ===== *)
theory Canvas_Loading
  imports Shell_View Builder_View
begin

section \<open>The builder while it loads (\<open>pipeline-canvas.ts\<close>)\<close>

text \<open>
  \<open>loadExistingPipelines\<close> waits for the list of the namespace the pipeline has when it starts, and
  puts that namespace into the pipeline when the list comes.  Here the waiting is explicit: a
  request is a key with the namespace it was made for, and its answer an event, so that requests may
  overlap and edits may come in between.
\<close>

subsection \<open>The namespace of the shell\<close>

text \<open>
  The builder reads the namespace off the select of the shell: its value is that of the last
  option rendered as selected, or of the first option if there is none.
\<close>

definition select_value :: "(string \<times> string \<times> bool) list \<Rightarrow> string" where
  "select_value options =
     (case filter (\<lambda>(v, t, b). b) options of
        [] \<Rightarrow> (case options of [] \<Rightarrow> [] | (v, t, b) # _ \<Rightarrow> v)
      | picked \<Rightarrow> fst (last picked))"

definition getCurrentNamespaceFromShell :: "AppShell option \<Rightarrow> string" where
  "getCurrentNamespaceFromShell shell =
     (case shell of
        None \<Rightarrow> ''default''
      | Some sh \<Rightarrow> select_value (map (\<lambda>ns. (ns, ns, ns = sh_namespace sh)) (sh_namespaces sh)))"

lemma shell_namespace_read:
  assumes "sh_namespace sh \<in> set (sh_namespaces sh)"
  shows "getCurrentNamespaceFromShell (Some sh) = sh_namespace sh"
proof -
  let ?chosen = "filter (\<lambda>(v, t, b). b) (map (\<lambda>ns. (ns, ns, ns = sh_namespace sh)) (sh_namespaces sh))"
  have all: "\<forall>x \<in> set ?chosen. fst x = sh_namespace sh" by auto
  have "(sh_namespace sh, sh_namespace sh, True) \<in> set ?chosen" using assms by force
  then obtain x xs where chosen: "?chosen = x # xs" by (cases ?chosen) auto
  then have "fst (last (x # xs)) = sh_namespace sh" using all last_in_set [of "x # xs"] by auto
  then show ?thesis by (simp add: getCurrentNamespaceFromShell_def select_value_def chosen)
qed

subsection \<open>Loading in two steps\<close>

definition names_requested :: "string \<Rightarrow> Canvas \<Rightarrow> string" where
  "names_requested shell c = str_or (om_namespace (pl_metadata (cv_pipeline c))) shell"

definition names_answer :: "string \<Rightarrow> Pipeline list outcome \<Rightarrow> Canvas \<Rightarrow> Canvas option" where
  "names_answer namespace r c =
     (case r of
        Inl _ \<Rightarrow> Some c
      | Inr pipelines \<Rightarrow>
          (let taken = map (\<lambda>p. om_name (pl_metadata p)) pipelines
           in case unique_name (numbered ''new-pipeline'') taken ''new-pipeline'' 1 of
                None \<Rightarrow> None
              | Some n \<Rightarrow> Some (c\<lparr>cv_existingPipelineNames := taken,
                  cv_pipeline := with_namespace namespace (with_name n (cv_pipeline c))\<rparr>)))"

text \<open>With an answer that comes at once the two steps are the operation of \<open>Pipeline_Canvas\<close>.\<close>

lemma load_is_answer:
  "loadExistingPipelines fetch base shell c =
     names_answer (names_requested shell c) (listPipelines fetch base (names_requested shell c)) c"
  by (simp add: loadExistingPipelines_def names_answer_def names_requested_def Let_def)

record LoadingCanvas =
  lc_canvas :: Canvas
  lc_shell :: string
  lc_pending :: "(nat \<times> string) list"
  lc_next :: nat

definition start_names :: "LoadingCanvas \<Rightarrow> LoadingCanvas" where
  "start_names lc =
     lc\<lparr>lc_pending := lc_pending lc @ [(lc_next lc, names_requested (lc_shell lc) (lc_canvas lc))],
        lc_next := Suc (lc_next lc)\<rparr>"

datatype lc_event =
    LcNamespace string
  | LcAnswer nat "Pipeline list outcome"
  | LcCanvas canvas_event

definition lc_namespace :: "string \<Rightarrow> LoadingCanvas \<Rightarrow> LoadingCanvas" where
  "lc_namespace ns lc =
     (let c = lc_canvas lc; lc' = lc\<lparr>lc_shell := ns\<rparr>
      in if cv_canvasSteps c = []
         then start_names (lc'\<lparr>lc_canvas := c\<lparr>cv_pipeline := with_namespace ns (cv_pipeline c)\<rparr>\<rparr>)
         else lc')"

definition lc_answer :: "nat \<Rightarrow> Pipeline list outcome \<Rightarrow> LoadingCanvas \<Rightarrow> LoadingCanvas option" where
  "lc_answer key r lc =
     (case map_of (lc_pending lc) key of
        None \<Rightarrow> Some lc
      | Some namespace \<Rightarrow>
          map_option
            (\<lambda>c. lc\<lparr>lc_pending := filter (\<lambda>x. fst x \<noteq> key) (lc_pending lc), lc_canvas := c\<rparr>)
            (names_answer namespace r (lc_canvas lc)))"

primrec lc_step ::
    "(string \<Rightarrow> YamlValue outcome) \<Rightarrow> (Pipeline \<Rightarrow> string) \<Rightarrow> string \<Rightarrow> LoadingCanvas \<Rightarrow> lc_event \<Rightarrow>
     LoadingCanvas option" where
  "lc_step parse str base lc (LcNamespace ns) = Some (lc_namespace ns lc)"
| "lc_step parse str base lc (LcAnswer key r) = lc_answer key r lc"
| "lc_step parse str base lc (LcCanvas e) =
     map_option (\<lambda>c. lc\<lparr>lc_canvas := c\<rparr>) (canvas_step parse str base (lc_canvas lc) e)"

fun lc_run ::
    "(string \<Rightarrow> YamlValue outcome) \<Rightarrow> (Pipeline \<Rightarrow> string) \<Rightarrow> string \<Rightarrow> LoadingCanvas \<Rightarrow> lc_event list \<Rightarrow>
     LoadingCanvas option" where
  "lc_run parse str base lc [] = Some lc"
| "lc_run parse str base lc (e # es) =
     (case lc_step parse str base lc e of
        None \<Rightarrow> None
      | Some lc' \<Rightarrow> lc_run parse str base lc' es)"

definition lc_open :: "string \<Rightarrow> LoadingCanvas" where
  "lc_open shell =
     start_names \<lparr>lc_canvas = (if shell \<noteq> [] \<and> shell \<noteq> ''default''
         then canvas_start\<lparr>cv_pipeline := createEmptyPipeline ''new-pipeline'' shell\<rparr> else canvas_start),
       lc_shell = shell, lc_pending = [], lc_next = 0\<rparr>"

subsection \<open>Answers in order\<close>

text \<open>
  A run in which only the namespace is changed and the name is typed, and the requests are
  answered in their order by a server with the pipelines \<open>held\<close> in each namespace.
\<close>

fun lc_ordered ::
    "(string \<Rightarrow> Pipeline list) \<Rightarrow> (string \<Rightarrow> YamlValue outcome) \<Rightarrow> (Pipeline \<Rightarrow> string) \<Rightarrow> string \<Rightarrow>
     LoadingCanvas \<Rightarrow> lc_event list \<Rightarrow> bool" where
  "lc_ordered held parse str base lc [] = True"
| "lc_ordered held parse str base lc (e # es) =
     ((case e of
         LcNamespace ns \<Rightarrow> ns \<noteq> []
       | LcAnswer key r \<Rightarrow>
           (case lc_pending lc of
              [] \<Rightarrow> False
            | (k, ns) # _ \<Rightarrow> key = k \<and> (case r of Inl _ \<Rightarrow> False | Inr ps \<Rightarrow> ps = held ns))
       | LcCanvas x \<Rightarrow> (case x of CanvasRename n \<Rightarrow> True | _ \<Rightarrow> False)) \<and>
      (case lc_step parse str base lc e of
         None \<Rightarrow> False
       | Some lc' \<Rightarrow> lc_ordered held parse str base lc' es))"

definition lc_ok :: "(string \<Rightarrow> Pipeline list) \<Rightarrow> LoadingCanvas \<Rightarrow> bool" where
  "lc_ok held lc =
     (cv_canvasSteps (lc_canvas lc) = [] \<and> distinct (map fst (lc_pending lc)) \<and>
      list_all (\<lambda>x. fst x < lc_next lc) (lc_pending lc) \<and>
      (if lc_pending lc = []
       then om_namespace (pl_metadata (cv_pipeline (lc_canvas lc))) = Some (lc_shell lc) \<and>
         cv_existingPipelineNames (lc_canvas lc) = map (\<lambda>p. om_name (pl_metadata p)) (held (lc_shell lc))
       else snd (last (lc_pending lc)) = lc_shell lc))"

lemma namespace_of_edits:
  "om_namespace (pl_metadata (with_namespace ns p)) = Some ns"
  "om_namespace (pl_metadata (with_name n p)) = om_namespace (pl_metadata p)"
  by (simp_all add: with_namespace_def with_name_def)

lemma names_answer_Inr:
  "\<exists>c'. names_answer ns (Inr ps) c = Some c' \<and>
     om_namespace (pl_metadata (cv_pipeline c')) = Some ns \<and> cv_canvasSteps c' = cv_canvasSteps c \<and>
     cv_existingPipelineNames c' = map (\<lambda>p. om_name (pl_metadata p)) ps \<and>
     om_name (pl_metadata (cv_pipeline c')) \<notin> set (cv_existingPipelineNames c')"
proof -
  obtain n where "unique_name (numbered ''new-pipeline'') (map (\<lambda>p. om_name (pl_metadata p)) ps) ''new-pipeline'' 1 = Some n"
    "n \<notin> set (map (\<lambda>p. om_name (pl_metadata p)) ps)"
    using unique_name_free [OF inj_numbered(1)] by blast
  then show ?thesis
    by (simp add: names_answer_def Let_def namespace_of_edits with_namespace_def with_name_def)
qed

lemma ordered_step_ok:
  assumes "lc_ok held lc" and "lc_ordered held parse str base lc (e # es)"
    and "lc_step parse str base lc e = Some lc'"
  shows "lc_ok held lc'"
proof (cases e)
  case (LcNamespace ns)
  with assms(2) have "ns \<noteq> []" by simp
  with assms(1,3) LcNamespace show ?thesis
    by (auto simp: lc_ok_def lc_namespace_def start_names_def names_requested_def namespace_of_edits Let_def
        list_all_iff str_or_def) force+
next
  case (LcAnswer key r)
  with assms(2) obtain ns rest ps where pending: "lc_pending lc = (key, ns) # rest" and r: "r = Inr ps" "ps = held ns"
    by (cases r) (auto split: list.splits)
  obtain c' where c': "names_answer ns (Inr ps) (lc_canvas lc) = Some c'"
    "om_namespace (pl_metadata (cv_pipeline c')) = Some ns" "cv_canvasSteps c' = cv_canvasSteps (lc_canvas lc)"
    "cv_existingPipelineNames c' = map (\<lambda>p. om_name (pl_metadata p)) ps"
    using names_answer_Inr by blast
  have rest: "filter (\<lambda>x. fst x \<noteq> key) rest = rest"
    using assms(1) pending by (intro filter_True) (auto simp: lc_ok_def rev_image_eqI)
  have "lc' = lc\<lparr>lc_pending := rest, lc_canvas := c'\<rparr>"
    using assms(3) LcAnswer pending r(1) c'(1) rest by (simp add: lc_answer_def)
  then show ?thesis
    using assms(1) pending c' r(2) by (auto simp: lc_ok_def)
next
  case (LcCanvas x)
  with assms(2) obtain n where "x = CanvasRename n" by (auto split: canvas_event.splits)
  with assms(1,3) LcCanvas show ?thesis
    by (auto simp: lc_ok_def updatePipelineName_def namespace_of_edits)
qed

lemma ordered_run_ok:
  "lc_ordered held parse str base lc es \<Longrightarrow> lc_ok held lc \<Longrightarrow>
     \<exists>lc'. lc_run parse str base lc es = Some lc' \<and> lc_ok held lc'"
proof (induction es arbitrary: lc)
  case (Cons e es)
  then obtain lc' where step: "lc_step parse str base lc e = Some lc'"
    by (auto simp only: lc_ordered.simps split: option.splits)
  then have "lc_ordered held parse str base lc' es" using Cons.prems(1) by (simp only: lc_ordered.simps option.case simp_thms)
  with Cons.IH ordered_step_ok [OF Cons.prems(2,1) step] step show ?case by simp
qed simp

lemma lc_open_ok: "shell \<noteq> [] \<Longrightarrow> lc_ok held (lc_open shell)"
  by (auto simp: lc_ok_def lc_open_def start_names_def names_requested_def canvas_start_def createEmptyPipeline_def
      str_or_def)



subsection \<open>Answers out of order and edits in between\<close>

text \<open>
  A list that comes late puts the namespace it was asked for back into the pipeline, which is then
  saved there, although the shell shows another; and a list that comes after a name has been
  typed replaces that name.
\<close>

lemma late_names_win:
  assumes "cv_canvasSteps (lc_canvas lc) = []" and "lc_pending lc = []" and "a \<noteq> []" and "b \<noteq> []"
    and "lc_run parse str base lc [LcNamespace a, LcNamespace b, LcAnswer (Suc (lc_next lc)) (Inr ps),
      LcAnswer (lc_next lc) (Inr qs)] = Some lc'"
  shows "lc_shell lc' = b \<and> om_namespace (pl_metadata (cv_pipeline (lc_canvas lc'))) = Some a \<and>
    lc_pending lc' = []"
proof -
  obtain c where c: "names_answer b (Inr ps) ((lc_canvas lc)\<lparr>cv_pipeline := with_namespace b
      (with_namespace a (cv_pipeline (lc_canvas lc)))\<rparr>) = Some c"
    using names_answer_Inr by blast
  obtain c' where c': "names_answer a (Inr qs) c = Some c'" "om_namespace (pl_metadata (cv_pipeline c')) = Some a"
    using names_answer_Inr by blast
  show ?thesis
    using assms c c'
    by (auto simp: lc_namespace_def start_names_def names_requested_def namespace_of_edits str_or_def
        lc_answer_def Let_def)
qed

lemma typed_name_lost:
  assumes "map_of (lc_pending lc) key = Some ns" and "n \<noteq> ''new-pipeline''"
    and "lc_run parse str base lc [LcCanvas (CanvasRename n), LcAnswer key (Inr [])] = Some lc'"
  shows "om_name (pl_metadata (cv_pipeline (lc_canvas lc'))) = ''new-pipeline''"
  using assms
  by (auto simp: lc_answer_def names_answer_def with_name_def with_namespace_def Let_def updatePipelineName_def
      unique_name.simps)

text \<open>
  The namespace typed into the settings is the one the pipeline is saved in, but names are still
  checked against the pipelines of the former.
\<close>

lemma settings_namespace_keeps_names:
  assumes "canvas_step parse str base c (CanvasSettings (EditNamespace v)) = Some c'"
  shows "cv_existingPipelineNames c' = cv_existingPipelineNames c \<and>
    om_namespace (pl_metadata (cv_pipeline c')) = Some v"
  using assms
  by (auto simp: on_settings_update_def settings_of_def updateNamespace_def split: option.splits)

end
