(* ===== verification/Choices_Loading.thy ===== *)
theory Choices_Loading
  imports Builder_View
begin

section \<open>Lists of choices while they load (\<open>global-settings.ts\<close>, \<open>step-editor.ts\<close>)\<close>

text \<open>
  The settings offer the volume claims of a namespace and the step editor its secrets.
  \<open>fetchPVCs\<close> and \<open>fetchSecrets\<close> wait for the list; here the waiting is explicit: a request is a key
  with the namespace it was made for, its answer an event.  \<open>ld_asked\<close> remembers the namespaces
  that were asked for, in order.
\<close>

subsection \<open>Requests and answers\<close>

record 's Loading =
  ld_state :: 's
  ld_pending :: "(nat \<times> string) list"
  ld_next :: nat
  ld_asked :: "string list"

definition ask :: "(string \<Rightarrow> 's \<Rightarrow> 's) \<Rightarrow> string \<Rightarrow> 's Loading \<Rightarrow> 's Loading" where
  "ask started ns l =
     \<lparr>ld_state = started ns (ld_state l), ld_pending = ld_pending l @ [(ld_next l, ns)],
      ld_next = Suc (ld_next l), ld_asked = ld_asked l @ [ns]\<rparr>"

definition answer :: "('r \<Rightarrow> 's \<Rightarrow> 's) \<Rightarrow> nat \<Rightarrow> 'r \<Rightarrow> 's Loading \<Rightarrow> 's Loading" where
  "answer arrived key r l =
     (case map_of (ld_pending l) key of
        None \<Rightarrow> l
      | Some ns \<Rightarrow> l\<lparr>ld_state := arrived r (ld_state l),
          ld_pending := filter (\<lambda>x. fst x \<noteq> key) (ld_pending l)\<rparr>)"

definition loading_start :: "'s \<Rightarrow> 's Loading" where
  "loading_start s = \<lparr>ld_state = s, ld_pending = [], ld_next = 0, ld_asked = []\<rparr>"

text \<open>
  The state between two events, as long as the answers come in order: while requests are
  outstanding the last of them is for the namespace asked for last, and otherwise the choices are
  those of that namespace and nothing is marked as loading.
\<close>

definition loaded :: "('s \<Rightarrow> 'c) \<Rightarrow> ('s \<Rightarrow> bool) \<Rightarrow> (string \<Rightarrow> 'c) \<Rightarrow> 's Loading \<Rightarrow> bool" where
  "loaded shown loading held l =
     (distinct (map fst (ld_pending l)) \<and> list_all (\<lambda>x. fst x < ld_next l) (ld_pending l) \<and>
      (if ld_pending l = []
       then \<not> loading (ld_state l) \<and> (ld_asked l \<noteq> [] \<longrightarrow> shown (ld_state l) = held (last (ld_asked l)))
       else ld_asked l \<noteq> [] \<and> snd (last (ld_pending l)) = last (ld_asked l)))"

locale loader =
  fixes started :: "string \<Rightarrow> 's \<Rightarrow> 's" and arrived :: "'r \<Rightarrow> 's \<Rightarrow> 's"
    and shown :: "'s \<Rightarrow> 'c" and loading :: "'s \<Rightarrow> bool" and choices :: "'r \<Rightarrow> 'c"
  assumes shown_arrived: "shown (arrived r s) = choices r"
    and loading_arrived: "\<not> loading (arrived r s)"
begin

lemma loaded_start: "\<not> loading s \<Longrightarrow> loaded shown loading held (loading_start s)"
  by (simp add: loaded_def loading_start_def)

lemma loaded_ask: "loaded shown loading held l \<Longrightarrow> loaded shown loading held (ask started ns l)"
  by (auto simp: loaded_def ask_def list_all_iff)

lemma answer_first:
  assumes "loaded shown loading held l" and "ld_pending l = (key, ns) # rest"
  shows "answer arrived key r l = l\<lparr>ld_state := arrived r (ld_state l), ld_pending := rest\<rparr>"
proof -
  have "filter (\<lambda>x. fst x \<noteq> key) rest = rest"
    using assms by (intro filter_True) (auto simp: loaded_def rev_image_eqI)
  then show ?thesis using assms(2) by (simp add: answer_def)
qed

lemma loaded_answer:
  assumes "loaded shown loading held l" and "ld_pending l = (key, ns) # rest" and "choices r = held ns"
  shows "loaded shown loading held (answer arrived key r l)"
  using assms unfolding answer_first [OF assms(1,2)]
  by (auto simp: loaded_def shown_arrived loading_arrived)

lemma loaded_change:
  assumes "loaded shown loading held l" and "shown s = shown (ld_state l)" and "loading s = loading (ld_state l)"
  shows "loaded shown loading held (l\<lparr>ld_state := s\<rparr>)"
  using assms by (simp add: loaded_def)

text \<open>An answer that comes late takes the place of the choices of the namespace asked for since.\<close>

lemma late_answer_stays:
  assumes "ld_pending l = []"
  shows "shown (ld_state (answer arrived (ld_next l) r (answer arrived (Suc (ld_next l)) r'
      (ask started b (ask started a l))))) = choices r \<and>
    \<not> loading (ld_state (answer arrived (Suc (ld_next l)) r' (ask started b (ask started a l))))"
  using assms by (simp add: answer_def ask_def shown_arrived loading_arrived)

end

subsection \<open>The claims in the settings\<close>

definition pvcs_asked :: "string \<Rightarrow> GlobalSettings \<Rightarrow> GlobalSettings" where
  "pvcs_asked ns gs = gs\<lparr>gs_loadingPVCs := True, gs_lastFetchedNamespace := ns\<rparr>"

definition pvc_choices :: "PVC list outcome \<Rightarrow> PVCInfo list" where
  "pvc_choices r =
     (case r of
        Inl _ \<Rightarrow> []
      | Inr pvcs \<Rightarrow> map (\<lambda>p. \<lparr>pvi_name = pvc_name p, pvi_storage = pvc_storage p, pvi_phase = pvc_phase p\<rparr>) pvcs)"

definition pvcs_arrived :: "PVC list outcome \<Rightarrow> GlobalSettings \<Rightarrow> GlobalSettings" where
  "pvcs_arrived r gs = gs\<lparr>gs_availablePVCs := pvc_choices r, gs_loadingPVCs := False\<rparr>"

lemma fetchPVCs_steps:
  "fetchPVCs fetch base ns gs = pvcs_arrived (listPVCs fetch base ns) (pvcs_asked ns gs)"
  by (simp add: fetchPVCs_def pvcs_arrived_def pvcs_asked_def pvc_choices_def split: sum.split)

datatype claims_event =
    ClTab nat
  | ClPipeline "Pipeline option"
  | ClRefresh
  | ClAnswer nat "PVC list outcome"

text \<open>The button is disabled while the list is marked as loading.\<close>

definition claims_updated :: "GlobalSettings Loading \<Rightarrow> GlobalSettings Loading" where
  "claims_updated l =
     (let gs = ld_state l; namespace = settings_namespace gs
      in if gs_activeTab gs = 2 \<and> namespace \<noteq> gs_lastFetchedNamespace gs
         then ask pvcs_asked namespace l else l)"

primrec claims_step :: "GlobalSettings Loading \<Rightarrow> claims_event \<Rightarrow> GlobalSettings Loading" where
  "claims_step l (ClTab i) = claims_updated (l\<lparr>ld_state := (ld_state l)\<lparr>gs_activeTab := i\<rparr>\<rparr>)"
| "claims_step l (ClPipeline p) = claims_updated (l\<lparr>ld_state := (ld_state l)\<lparr>gs_pipeline := p\<rparr>\<rparr>)"
| "claims_step l ClRefresh =
     claims_updated
       (if gs_loadingPVCs (ld_state l) then l else ask pvcs_asked (settings_namespace (ld_state l)) l)"
| "claims_step l (ClAnswer key r) = claims_updated (answer pvcs_arrived key r l)"

definition claims_run :: "GlobalSettings Loading \<Rightarrow> claims_event list \<Rightarrow> GlobalSettings Loading" where
  "claims_run l es = foldl claims_step l es"

interpretation claims: loader pvcs_asked pvcs_arrived gs_availablePVCs gs_loadingPVCs pvc_choices
  by unfold_locales (simp_all add: pvcs_arrived_def)

text \<open>Answers in order, from a server that answers for each namespace as \<open>held\<close> says.\<close>

fun claims_ordered ::
    "(string \<Rightarrow> PVC list outcome) \<Rightarrow> GlobalSettings Loading \<Rightarrow> claims_event list \<Rightarrow> bool" where
  "claims_ordered held l [] = True"
| "claims_ordered held l (e # es) =
     ((case e of
         ClAnswer key r \<Rightarrow>
           (case ld_pending l of [] \<Rightarrow> False | (k, ns) # _ \<Rightarrow> key = k \<and> r = held ns)
       | _ \<Rightarrow> True) \<and> claims_ordered held (claims_step l e) es)"

definition claims_ok :: "(string \<Rightarrow> PVC list outcome) \<Rightarrow> GlobalSettings Loading \<Rightarrow> bool" where
  "claims_ok held l =
     (loaded gs_availablePVCs gs_loadingPVCs (\<lambda>ns. pvc_choices (held ns)) l \<and>
      gs_lastFetchedNamespace (ld_state l) = (if ld_asked l = [] then [] else last (ld_asked l)))"

lemma settings_namespace_some: "settings_namespace gs \<noteq> []"
  by (simp add: settings_namespace_def str_or_def split: option.split)

lemma claims_ok_ask:
  assumes "claims_ok held l"
  shows "claims_ok held (ask pvcs_asked ns l)"
  using assms claims.loaded_ask [of "\<lambda>ns. pvc_choices (held ns)" l ns]
  by (simp add: claims_ok_def) (simp add: ask_def pvcs_asked_def)

lemma claims_ok_updated:
  assumes "claims_ok held l"
  shows "claims_ok held (claims_updated l)"
  using assms claims_ok_ask by (simp add: claims_updated_def Let_def)

text \<open>After every event the tab of the volume has asked for the namespace of the pipeline.\<close>

definition claims_synced :: "GlobalSettings Loading \<Rightarrow> bool" where
  "claims_synced l =
     (gs_activeTab (ld_state l) = 2 \<longrightarrow> gs_lastFetchedNamespace (ld_state l) = settings_namespace (ld_state l))"

lemma claims_synced_step: "claims_synced (claims_step l e)"
proof -
  have "claims_synced (claims_updated k)" for k
    by (simp add: claims_synced_def claims_updated_def Let_def ask_def pvcs_asked_def settings_namespace_def)
  then show ?thesis by (cases e) simp_all
qed

lemma claims_ok_step:
  assumes "claims_ok held l" and "claims_ordered held l (e # es)"
  shows "claims_ok held (claims_step l e)"
proof -
  have change: "claims_ok held (l\<lparr>ld_state := s\<rparr>)"
    if "gs_availablePVCs s = gs_availablePVCs (ld_state l)" "gs_loadingPVCs s = gs_loadingPVCs (ld_state l)"
      "gs_lastFetchedNamespace s = gs_lastFetchedNamespace (ld_state l)" for s
    using assms(1) that by (simp add: claims_ok_def claims.loaded_change)
  show ?thesis
  proof (cases e)
    case (ClAnswer key r)
    with assms(2) obtain ns rest where pending: "ld_pending l = (key, ns) # rest" "r = held ns"
      by (auto split: list.splits)
    have load: "loaded gs_availablePVCs gs_loadingPVCs (\<lambda>ns. pvc_choices (held ns)) l"
      using assms(1) by (simp add: claims_ok_def)
    have "claims_ok held (answer pvcs_arrived key r l)"
      using claims.loaded_answer [OF load pending(1)] pending(2) assms(1) claims.answer_first [OF load pending(1)]
      by (simp add: claims_ok_def) (simp add: pvcs_arrived_def)
    from claims_ok_updated [OF this] show ?thesis by (simp add: ClAnswer)
  qed (use claims_ok_updated change claims_ok_ask assms(1) in simp_all)
qed

lemma claims_ok_run:
  "claims_ok held l \<Longrightarrow> claims_synced l \<Longrightarrow> claims_ordered held l es \<Longrightarrow>
     claims_ok held (claims_run l es) \<and> claims_synced (claims_run l es)"
proof (induction es arbitrary: l)
  case (Cons e es)
  from claims_ok_step [OF Cons.prems(1,3)] Cons.IH [OF _ claims_synced_step [of l e]] Cons.prems(3)
  show ?case by (simp add: claims_run_def)
qed (simp add: claims_run_def)

text \<open>
  C40: whatever is typed, shown and refreshed, when the lists come in the order they were asked for: once
  none is outstanding, the tab of the volume offers the claims of the namespace the pipeline has.
\<close>

theorem claims_settle:
  assumes "claims_ordered held (loading_start gs) es" and "l = claims_run (loading_start gs) es"
    and "\<not> gs_loadingPVCs gs" and "gs_lastFetchedNamespace gs = []" and "gs_activeTab gs \<noteq> 2"
    and "ld_pending l = []" and "gs_activeTab (ld_state l) = 2"
  shows "gs_availablePVCs (ld_state l) = pvc_choices (held (settings_namespace (ld_state l))) \<and>
    \<not> gs_loadingPVCs (ld_state l)"
proof -
  have "claims_ok held (loading_start gs)"
    using assms(3,4) claims.loaded_start [of gs] by (simp add: claims_ok_def) (simp add: loading_start_def)
  moreover have "claims_synced (loading_start gs)"
    using assms(5) by (simp add: claims_synced_def loading_start_def)
  ultimately have ok: "claims_ok held l" "claims_synced l"
    using claims_ok_run [OF _ _ assms(1)] assms(2) by simp_all
  then have "gs_lastFetchedNamespace (ld_state l) = settings_namespace (ld_state l)"
    using assms(7) by (simp add: claims_synced_def)
  with ok(1) assms(6) settings_namespace_some [of "ld_state l"] show ?thesis
    by (auto simp: claims_ok_def loaded_def split: if_splits)
qed

definition settings_of_namespace :: "string \<Rightarrow> Pipeline option" where
  "settings_of_namespace ns = Some (createEmptyPipeline ''build'' ns)"

definition claims_held :: "string \<Rightarrow> PVC list outcome" where
  "claims_held ns =
     (if ns = ''prod''
      then Inr [\<lparr>pvc_name = ''data'', pvc_namespace = ''prod'', pvc_creationTimestamp = None,
        pvc_accessModes = Some [''ReadWriteOnce''], pvc_storageClassName = None, pvc_volumeMode = None,
        pvc_storage = Some ''1Gi'', pvc_phase = ''Bound''\<rparr>]
      else Inl OtherThrown)"

definition claims_events :: "claims_event list" where
  "claims_events =
     [ClPipeline (settings_of_namespace ''ci''), ClTab 2, ClPipeline (settings_of_namespace ''prod''),
      ClAnswer 0 (claims_held ''ci''), ClAnswer 1 (claims_held ''prod'')]"

definition claims_seen :: "GlobalSettings Loading" where
  "claims_seen = claims_run (loading_start (settings_of (createEmptyPipeline ''build'' ''ci''))) claims_events"

theorem claims_settle_witness:
  "map pvi_name (gs_availablePVCs (ld_state claims_seen)) = [''data'']"
proof -
  let ?gs = "settings_of (createEmptyPipeline ''build'' ''ci'')"
  have ordered: "claims_ordered claims_held (loading_start ?gs) claims_events" by code_simp
  have start: "\<not> gs_loadingPVCs ?gs" "gs_lastFetchedNamespace ?gs = []" "gs_activeTab ?gs \<noteq> 2"
    by (simp_all add: settings_of_def)
  have ended: "ld_pending claims_seen = []" "gs_activeTab (ld_state claims_seen) = 2"
    "settings_namespace (ld_state claims_seen) = ''prod''"
    by code_simp+
  from claims_settle [OF ordered claims_seen_def start ended(1,2)] ended(3)
  show ?thesis by (simp add: pvc_choices_def claims_held_def)
qed

text \<open>
  A list of claims that comes late stays: the tab offers the claims of a namespace the pipeline no
  longer has, and does not ask again.
\<close>

theorem late_claims_stay:
  assumes "om_namespace (pl_metadata p) = Some a" and "a \<noteq> []" and "b \<noteq> []" and "a \<noteq> b"
  shows "let l = claims_run (loading_start (settings_of p))
      [ClTab 2, ClPipeline (settings_of_namespace b), ClAnswer 1 (held b), ClAnswer 0 (held a)]
    in settings_namespace (ld_state l) = b \<and> ld_pending l = [] \<and>
      gs_availablePVCs (ld_state l) = pvc_choices (held a)"
  using assms
  by (simp add: claims_run_def claims_updated_def Let_def ask_def answer_def pvcs_asked_def pvcs_arrived_def
      settings_namespace_def str_or_def settings_of_def loading_start_def settings_of_namespace_def
      createEmptyPipeline_def no_meta_def)

subsection \<open>The secrets in the step editor\<close>

definition secrets_asked :: "string \<Rightarrow> StepEditor \<Rightarrow> StepEditor" where
  "secrets_asked ns ed = ed\<lparr>se_loadingSecrets := True\<rparr>"

definition secret_choices :: "Secret list outcome \<Rightarrow> SecretInfo list" where
  "secret_choices r =
     (case r of
        Inl _ \<Rightarrow> []
      | Inr secrets \<Rightarrow>
          map (\<lambda>s. \<lparr>si_name = sec_name s, si_keys = (case sec_data s of None \<Rightarrow> [] | Some d \<Rightarrow> obj_keys d)\<rparr>)
            (filter (\<lambda>s. sec_type s = ''Opaque'') secrets))"

definition secrets_arrived :: "Secret list outcome \<Rightarrow> StepEditor \<Rightarrow> StepEditor" where
  "secrets_arrived r ed = ed\<lparr>se_availableSecrets := secret_choices r, se_loadingSecrets := False\<rparr>"

lemma fetchSecrets_steps:
  "fetchSecrets fetch base ed =
     secrets_arrived (listSecrets fetch base (se_namespace ed)) (secrets_asked (se_namespace ed) ed)"
  by (simp add: fetchSecrets_def secrets_arrived_def secrets_asked_def secret_choices_def split: sum.split)

text \<open>
  The namespace of the editor changes with the event of the shell, which asks for the secrets, and
  with the property the builder hands down, which does not.
\<close>

datatype secrets_event =
    SvConnected
  | SvNamespace string
  | SvGiven string
  | SvRefresh
  | SvAnswer nat "Secret list outcome"

definition ask_secrets :: "StepEditor Loading \<Rightarrow> StepEditor Loading" where
  "ask_secrets l = ask secrets_asked (se_namespace (ld_state l)) l"

definition editor_in :: "string \<Rightarrow> StepEditor Loading \<Rightarrow> StepEditor Loading" where
  "editor_in ns l = l\<lparr>ld_state := (ld_state l)\<lparr>se_namespace := ns\<rparr>\<rparr>"

primrec secrets_step :: "StepEditor Loading \<Rightarrow> secrets_event \<Rightarrow> StepEditor Loading" where
  "secrets_step l SvConnected = ask_secrets l"
| "secrets_step l (SvNamespace ns) = ask_secrets (editor_in ns l)"
| "secrets_step l (SvGiven ns) = editor_in ns l"
| "secrets_step l SvRefresh = (if se_loadingSecrets (ld_state l) then l else ask_secrets l)"
| "secrets_step l (SvAnswer key r) = answer secrets_arrived key r l"

definition secrets_run :: "StepEditor Loading \<Rightarrow> secrets_event list \<Rightarrow> StepEditor Loading" where
  "secrets_run l es = foldl secrets_step l es"

interpretation secrets: loader secrets_asked secrets_arrived se_availableSecrets se_loadingSecrets secret_choices
  by unfold_locales (simp_all add: secrets_arrived_def)

fun secrets_ordered ::
    "(string \<Rightarrow> Secret list outcome) \<Rightarrow> StepEditor Loading \<Rightarrow> secrets_event list \<Rightarrow> bool" where
  "secrets_ordered held l [] = True"
| "secrets_ordered held l (e # es) =
     ((case e of
         SvAnswer key r \<Rightarrow> (case ld_pending l of [] \<Rightarrow> False | (k, ns) # _ \<Rightarrow> key = k \<and> r = held ns)
       | SvGiven ns \<Rightarrow> ns = se_namespace (ld_state l)
       | _ \<Rightarrow> True) \<and> secrets_ordered held (secrets_step l e) es)"

definition secrets_ok :: "(string \<Rightarrow> Secret list outcome) \<Rightarrow> StepEditor Loading \<Rightarrow> bool" where
  "secrets_ok held l =
     (loaded se_availableSecrets se_loadingSecrets (\<lambda>ns. secret_choices (held ns)) l \<and>
      (ld_asked l \<noteq> [] \<longrightarrow> last (ld_asked l) = se_namespace (ld_state l)))"

lemma secrets_ok_loaded:
  "secrets_ok held l \<Longrightarrow> loaded se_availableSecrets se_loadingSecrets (\<lambda>ns. secret_choices (held ns)) l"
  by (simp add: secrets_ok_def)

lemma secrets_ok_ask:
  assumes "loaded se_availableSecrets se_loadingSecrets (\<lambda>ns. secret_choices (held ns)) l"
  shows "secrets_ok held (ask_secrets l)"
  using secrets.loaded_ask [OF assms]
  by (simp add: secrets_ok_def ask_secrets_def) (simp add: ask_def secrets_asked_def)

lemma secrets_ok_step:
  assumes "secrets_ok held l" and "secrets_ordered held l (e # es)"
  shows "secrets_ok held (secrets_step l e)"
proof (cases e)
  case (SvAnswer key r)
  with assms(2) obtain ns rest where pending: "ld_pending l = (key, ns) # rest" "r = held ns"
    by (auto split: list.splits)
  have load: "loaded se_availableSecrets se_loadingSecrets (\<lambda>ns. secret_choices (held ns)) l"
    using assms(1) by (simp add: secrets_ok_def)
  show ?thesis
    using secrets.loaded_answer [OF load pending(1)] pending(2) assms(1) secrets.answer_first [OF load pending(1)]
    by (simp add: secrets_ok_def SvAnswer) (simp add: secrets_arrived_def)
next
  case (SvNamespace ns)
  from assms(1) have "loaded se_availableSecrets se_loadingSecrets (\<lambda>ns. secret_choices (held ns)) (editor_in ns l)"
    unfolding editor_in_def by (intro secrets.loaded_change) (simp_all add: secrets_ok_def)
  from secrets_ok_ask [OF this] show ?thesis by (simp add: SvNamespace)
next
  case (SvGiven ns)
  with assms(2) have "editor_in ns l = l" by (simp add: editor_in_def)
  with assms(1) show ?thesis by (simp add: SvGiven)
next
  case SvConnected
  from assms(1) secrets_ok_ask [of held l] show ?thesis by (simp add: SvConnected secrets_ok_loaded)
next
  case SvRefresh
  from assms(1) secrets_ok_ask [of held l] show ?thesis by (simp add: SvRefresh secrets_ok_loaded)
qed

text \<open>
  With answers in order, and as long as the builder hands down the namespace the shell has announced,
  the editor offers, once no list is outstanding, the Opaque secrets of its namespace.
\<close>

theorem secrets_settle:
  assumes "secrets_ordered held (loading_start ed) es" and "\<not> se_loadingSecrets ed"
    and "ld_pending (secrets_run (loading_start ed) es) = []" and "ld_asked (secrets_run (loading_start ed) es) \<noteq> []"
  shows "se_availableSecrets (ld_state (secrets_run (loading_start ed) es)) =
    secret_choices (held (se_namespace (ld_state (secrets_run (loading_start ed) es))))"
proof -
  have "secrets_ok held (secrets_run l es)" if "secrets_ok held l" "secrets_ordered held l es" for l
    using that
  proof (induction es arbitrary: l)
    case (Cons e es)
    from secrets_ok_step [OF Cons.prems] Cons.IH [of "secrets_step l e"] Cons.prems(2)
    show ?case by (simp add: secrets_run_def)
  qed (simp add: secrets_run_def)
  moreover have "secrets_ok held (loading_start ed)"
    using secrets.loaded_start [OF assms(2)] by (simp add: secrets_ok_def) (simp add: loading_start_def)
  ultimately have "secrets_ok held (secrets_run (loading_start ed) es)" using assms(1) by blast
  with assms(3,4) show ?thesis by (simp add: secrets_ok_def loaded_def)
qed

text \<open>
  Secrets that come late stay, and the first answer ends the mark of loading although another is
  outstanding.
\<close>

theorem late_secrets_stay:
  fixes held :: "string \<Rightarrow> Secret list outcome"
  shows "let l = secrets_run (loading_start ed) [SvNamespace a, SvNamespace b];
      l1 = secrets_step l (SvAnswer 1 (held b)); l2 = secrets_step l1 (SvAnswer 0 (held a))
    in ld_pending l1 \<noteq> [] \<and> \<not> se_loadingSecrets (ld_state l1) \<and> ld_pending l2 = [] \<and>
      se_namespace (ld_state l2) = b \<and> se_availableSecrets (ld_state l2) = secret_choices (held a)"
  by (simp add: Let_def secrets_run_def ask_secrets_def editor_in_def ask_def answer_def secrets_asked_def
      secrets_arrived_def loading_start_def)

end
