(* ===== verification/Widget_View.thy ===== *)
theory Widget_View
  imports Step_Editor_View List_Panel
begin

section \<open>The views of the drawer and of the code editor (\<open>ui/src/components/shared\<close>, \<open>render\<close>)\<close>

text \<open>
  The templates of the two shared elements that the pages put their own content into: the drawer
  shows it in its slot, the code editor in the view of CodeMirror, which takes the place of the
  empty element below.
\<close>

subsection \<open>The drawer\<close>

definition width_title :: "SideDrawer \<Rightarrow> string" where
  "width_title d = (if sd_wide d then ''Collapse drawer'' else ''Expand drawer'')"

definition width_button :: "SideDrawer \<Rightarrow> drawer_event Html" where
  "width_button d =
     Elem ''button''
       [Attr ''class'' (''width-toggle-btn '' @ (if sd_wide d then ''active'' else [])),
        Attr ''aria-label'' (width_title d), Attr ''title'' (width_title d)]
       [Click DrawerWidth]
       [Elem ''rh-icon'' [Attr ''icon'' (if sd_wide d then ''caret-right'' else ''caret-left'')] [] []]"

definition drawer_render :: "string \<Rightarrow> bool \<Rightarrow> SideDrawer \<Rightarrow> drawer_event Html list" where
  "drawer_render heading showWidthToggle d =
     [Elem ''div'' [Attr ''class'' ''overlay''] [ClickSelf (DrawerOverlay True)] [],
      Elem ''aside'' [Attr ''class'' ''drawer'', Attr ''role'' ''dialog'', Attr ''aria-modal'' ''true'', Attr ''aria-label'' heading] []
        [node ''header''
           ([Elem ''button'' [Attr ''aria-label'' ''Close drawer''] [Click DrawerCloseButton] [node ''rh-icon'' []],
             labelled ''h2'' heading] @
            (if showWidthToggle then [width_button d] else [])),
         node ''div'' [node ''slot'' []]]]"

lemma drawer_clicks:
  "set (clicks (drawer_render heading showWidthToggle d)) =
     {([], True), ([DrawerOverlay True], True), ([DrawerCloseButton], True)} \<union>
     (if showWidthToggle then {([DrawerWidth], True)} else {})"
  by (auto simp: drawer_render_def width_button_def clicks_Cons clicks_Elem clicks_node disabled_def run_through_def)

text \<open>A click in the drawer closes it with one event, or changes its width only, or nothing.\<close>

lemma drawer_click_effect:
  assumes "r \<in> set (clicks (drawer_render heading showWidthToggle d))"
  shows "let d' = foldl drawer_step d (fst r)
    in d' = d \<or> d' = toggleWidth d \<and> showWidthToggle \<or>
      \<not> sd_open d' \<and> sd_closes d' = Suc (sd_closes d) \<and> sd_wide d' = sd_wide d"
  using assms unfolding drawer_clicks
  by (auto simp: handleOverlayClick_def handleClose_def split: if_splits)

subsection \<open>The code editor\<close>

definition editor_languages :: "EditorLanguage list" where
  "editor_languages = [EdBash, EdPython, EdYaml, EdJavascript, EdText]"

text \<open>The value of an option is taken for a language as it is.\<close>

definition language_named :: "string \<Rightarrow> EditorLanguage" where
  "language_named v =
     (case List.find (\<lambda>l. language_name l = v) editor_languages of None \<Rightarrow> EdText | Some l \<Rightarrow> l)"

definition language_select :: "CodeEditor \<Rightarrow> editor_event Html" where
  "language_select ed =
     choice (language_name (ce_language ed)) (\<lambda>v. PickLanguage (language_named v))
       (map (\<lambda>l. (language_name l, languageLabels l, l = ce_language ed)) editor_languages)"

definition code_editor_render :: "bool \<Rightarrow> CodeEditor \<Rightarrow> editor_event Html list" where
  "code_editor_render showLanguageSelector ed =
     [node ''div''
        ((if showLanguageSelector then [node ''div'' [language_select ed]] else []) @ [node ''div'' []])]"

lemma named_language: "language_named (language_name l) = l"
  by (cases l) (simp_all add: language_named_def editor_languages_def language_name_def)

text \<open>
  Every language can be picked, where the menu is shown, and the one picked becomes that of the
  editor; the step editor listens to the event for each of them.
\<close>

lemma languages_picked:
  "set (chosen (code_editor_render True ed)) = PickLanguage ` set editor_languages"
  "chosen (code_editor_render False ed) = []"
  by (simp_all add: code_editor_render_def language_select_def chosen_Elem chosen_Cons chosen_choice image_image
      named_language disabled_def)

lemma language_event:
  "ce_language (editor_step nl ed (PickLanguage l)) = l \<and>
   last (ce_language_changes (editor_step nl ed (PickLanguage l))) = l"
  by (auto simp: handleLanguageChange_def set_language_def updated_def initEditor_def Let_def)

lemma languages_heard:
  "set (emitted [args_field ed]) = SeLanguage ` set editor_languages"
  by (simp add: emitted_def reachable_def args_field_def Let_def all_chains_def disabled_def editor_languages_def)

end
