(* ===== verification/Pipeline_List.thy ===== *)
theory Pipeline_List
  imports List_View App_Router Graph_Layout
begin

section \<open>The list of pipelines (\<open>ui/src/components/monitor/pipeline-list.ts\<close>)\<close>

text \<open>
  The list of pipelines is a list view with a column to sort by and a menu.  How names compare in
  the user's language (\<open>localeCompare\<close>) is the parameter \<open>lc\<close>; that it is a consistent comparator is
  the hypothesis of the sorting property.
\<close>

datatype SortColumn = ByName | ByStatus | ByCreated

record PipelineListView = "Pipeline ListView" +
  plv_sortColumn :: SortColumn
  plv_openMenuId :: "string option"

definition pipeline_list_start :: PipelineListView where
  "pipeline_list_start =
     \<lparr>ld_items = [], ld_loading = True, ld_error = None, ld_namespace = ''default'',
      ld_pending = [], ld_next = 0, ld_polling = False, ld_listeners = 0,
      lv_searchQuery = [], lv_sortDirection = Desc, lv_currentPage = 1, lv_pageSize = 10,
      plv_sortColumn = ByCreated, plv_openMenuId = None\<rparr>"

definition pl_closeMenu :: "PipelineListView \<Rightarrow> PipelineListView" where
  "pl_closeMenu s = s\<lparr>plv_openMenuId := None\<rparr>"

definition pl_handleDocumentClick :: "PipelineListView \<Rightarrow> PipelineListView" where
  "pl_handleDocumentClick s = pl_closeMenu s"

definition pl_toggleMenu :: "string \<Rightarrow> PipelineListView \<Rightarrow> PipelineListView" where
  "pl_toggleMenu pipelineId s =
     s\<lparr>plv_openMenuId := (if plv_openMenuId s = Some pipelineId then None else Some pipelineId)\<rparr>"

definition pl_connected :: "PipelineListView \<Rightarrow> PipelineListView" where
  "pl_connected s = list_connected s"

definition pl_disconnected :: "PipelineListView \<Rightarrow> PipelineListView" where
  "pl_disconnected s = list_disconnected s"

text \<open>A load whose answer comes before anything else happens.\<close>

definition loadPipelines :: "PipelineList fetch \<Rightarrow> string \<Rightarrow> PipelineListView \<Rightarrow> PipelineListView" where
  "loadPipelines fetch base s =
     load_end ''Failed to load pipelines'' (ld_next s)
       (listPipelines fetch base (ld_namespace s)) (load_start s)"

definition navigateToPipeline :: "Pipeline \<Rightarrow> string" where
  "navigateToPipeline p =
     detail_link (str_or (om_namespace (pl_metadata p)) ''default'') (om_name (pl_metadata p))"

definition getCompletedSteps :: "StepStatus list \<Rightarrow> nat" where
  "getCompletedSteps steps =
     length (filter (\<lambda>s. ss_phase s = StSucceeded \<or> ss_phase s = StFailed \<or> ss_phase s = StSkipped) steps)"

datatype StepState = StepInactive | StepActive | StepComplete | StepWarn | StepFail

definition getStepState :: "string \<Rightarrow> StepState" where
  "getStepState phase =
     (if phase = ''Succeeded'' then StepComplete
      else if phase = ''Running'' then StepActive
      else if phase = ''Failed'' then StepFail
      else if phase = ''Skipped'' then StepInactive
      else StepInactive)"

definition pl_formatTime :: "(int \<Rightarrow> string) \<Rightarrow> int \<Rightarrow> string \<Rightarrow> string" where
  "pl_formatTime localeDate now isoString = format_time localeDate now isoString"

subsection \<open>Filtering and sorting\<close>

definition created_ms :: "Pipeline \<Rightarrow> int option" where
  "created_ms p =
     (if truthy (om_creationTimestamp (pl_metadata p))
      then date_time (the (om_creationTimestamp (pl_metadata p))) else Some 0)"

definition created_cmp :: "Pipeline \<Rightarrow> Pipeline \<Rightarrow> int" where
  "created_cmp a b = (case (created_ms a, created_ms b) of (Some x, Some y) \<Rightarrow> x - y | _ \<Rightarrow> 0)"

definition phase_or_pending :: "Pipeline \<Rightarrow> string" where
  "phase_or_pending p =
     (case pl_status p of None \<Rightarrow> ''Pending'' | Some st \<Rightarrow> pipeline_phase_text (pls_phase st))"

definition pipeline_cmp ::
    "(string \<Rightarrow> string \<Rightarrow> int) \<Rightarrow> SortColumn \<Rightarrow> Pipeline \<Rightarrow> Pipeline \<Rightarrow> int" where
  "pipeline_cmp lc col a b =
     (case col of
        ByName \<Rightarrow> lc (om_name (pl_metadata a)) (om_name (pl_metadata b))
      | ByStatus \<Rightarrow> lc (phase_or_pending a) (phase_or_pending b)
      | ByCreated \<Rightarrow> created_cmp a b)"

definition filteredPipelines :: "(string \<Rightarrow> string \<Rightarrow> int) \<Rightarrow> PipelineListView \<Rightarrow> Pipeline list" where
  "filteredPipelines lc s =
     filtered (\<lambda>p. om_name (pl_metadata p)) (\<lambda>dir. directed dir (pipeline_cmp lc (plv_sortColumn s))) s"

definition pl_totalPages :: "(string \<Rightarrow> string \<Rightarrow> int) \<Rightarrow> PipelineListView \<Rightarrow> int" where
  "pl_totalPages lc s = total_pages (lv_pageSize s) (filteredPipelines lc s)"

definition paginatedPipelines :: "(string \<Rightarrow> string \<Rightarrow> int) \<Rightarrow> PipelineListView \<Rightarrow> Pipeline list" where
  "paginatedPipelines lc s = page_items (lv_pageSize s) (lv_currentPage s) (filteredPipelines lc s)"

definition pl_paginationRange :: "(string \<Rightarrow> string \<Rightarrow> int) \<Rightarrow> PipelineListView \<Rightarrow> page_item list" where
  "pl_paginationRange lc s = pagination_range (pl_totalPages lc s) (lv_currentPage s)"

definition pl_goToPage :: "(string \<Rightarrow> string \<Rightarrow> int) \<Rightarrow> int \<Rightarrow> PipelineListView \<Rightarrow> PipelineListView" where
  "pl_goToPage lc p s = go_to_page (filteredPipelines lc) lv_pageSize set_page p s"

definition pl_handleSearchInput :: "string \<Rightarrow> PipelineListView \<Rightarrow> PipelineListView" where
  "pl_handleSearchInput q s = set_query q s"

definition pl_toggleSort :: "SortColumn \<Rightarrow> PipelineListView \<Rightarrow> PipelineListView" where
  "pl_toggleSort column s =
     (if plv_sortColumn s = column
      then s\<lparr>lv_sortDirection := flip_direction (lv_sortDirection s)\<rparr>
      else s\<lparr>plv_sortColumn := column,
             lv_sortDirection := (if column = ByCreated then Desc else Asc)\<rparr>)"

definition getSortIcon :: "SortColumn \<Rightarrow> PipelineListView \<Rightarrow> string" where
  "getSortIcon column s =
     (if plv_sortColumn s \<noteq> column then ''arrow-up-down''
      else if lv_sortDirection s = Asc then ''arrow-up'' else ''arrow-down'')"

subsection \<open>Deleting and copying\<close>

text \<open>The result is the new state and the text of an alert, if one is shown.\<close>

definition deletePipeline ::
    "bool \<Rightarrow> 'a fetch \<Rightarrow> string \<Rightarrow> Pipeline \<Rightarrow> PipelineListView \<Rightarrow> PipelineListView \<times> string option" where
  "deletePipeline confirmed fetch base p s =
     (let s' = pl_closeMenu s
      in if \<not> confirmed then (s', None)
         else (case deletePipeline_request fetch base
                 (str_or (om_namespace (pl_metadata p)) ''default'') (om_name (pl_metadata p)) of
                 Inr _ \<Rightarrow> (load_start s', None)
               | Inl e \<Rightarrow> (s', Some (''Failed to delete pipeline: '' @ message_or e ''Unknown error''))))"

text \<open>The result is the new state and the pipeline put into the session storage.\<close>

definition copyPipeline :: "Pipeline \<Rightarrow> PipelineListView \<Rightarrow> PipelineListView \<times> Pipeline" where
  "copyPipeline p s =
     (pl_closeMenu s,
      \<lparr>pl_apiVersion = pl_apiVersion p, pl_kind = pl_kind p,
       pl_metadata = \<lparr>om_name = om_name (pl_metadata p) @ ''-copy'',
         om_namespace = om_namespace (pl_metadata p), om_uid = None, om_creationTimestamp = None,
         om_labels = om_labels (pl_metadata p), om_annotations = om_annotations (pl_metadata p),
         om_resourceVersion = None\<rparr>,
       pl_spec = pl_spec p, pl_status = None\<rparr>)"

subsection \<open>Rows\<close>

record RowStep =
  rs_name :: string
  rs_phase :: string

definition mergedSteps :: "Pipeline \<Rightarrow> RowStep list" where
  "mergedSteps p =
     map (\<lambda>s. \<lparr>rs_name = ps_name s,
           rs_phase = (case (case pl_status p of None \<Rightarrow> None
               | Some st \<Rightarrow> List.find (\<lambda>t. ss_name t = ps_name s) (pls_steps st)) of
             None \<Rightarrow> ''Pending'' | Some t \<Rightarrow> step_phase_text (ss_phase t))\<rparr>)
       (sp_steps (pl_spec p))"

definition stepColor :: "string \<Rightarrow> string" where
  "stepColor phase =
     (if phase = ''Succeeded'' then ''green'' else if phase = ''Running'' then ''cyan''
      else if phase = ''Failed'' then ''red'' else if phase = ''Skipped'' then ''gray'' else ''gray'')"

text \<open>The first and last number and the total in the line under the table.\<close>

definition pagination_info :: "(string \<Rightarrow> string \<Rightarrow> int) \<Rightarrow> PipelineListView \<Rightarrow> int \<times> int \<times> int" where
  "pagination_info lc s =
     (let n = int (length (filteredPipelines lc s))
      in ((lv_currentPage s - 1) * lv_pageSize s + 1, min (lv_currentPage s * lv_pageSize s) n, n))"

subsection \<open>Properties\<close>

lemma sortColumn_set_page [simp]: "plv_sortColumn (set_page p s) = plv_sortColumn s"
  by (simp add: set_page_def)

lemma filteredPipelines_set_page [simp]:
  "filteredPipelines lc (set_page p s) = filteredPipelines lc s"
  unfolding filteredPipelines_def sortColumn_set_page by (rule filtered_set_page)

interpretation pl: paged_list "filteredPipelines lc" lv_currentPage lv_pageSize set_page
    "\<lambda>s. 0 < lv_pageSize s" for lc
  by unfold_locales (simp_all only: filteredPipelines_set_page set_page_simps)

lemma sgn_opposite_diff: "sgn (y - x) = - sgn (x - (y :: int))"
  by (cases x y rule: linorder_cases) simp_all

interpretation created: comparator created_cmp "{p. created_ms p \<noteq> None}"
proof
  fix a b :: Pipeline
  assume "a \<in> {p. created_ms p \<noteq> None}" "b \<in> {p. created_ms p \<noteq> None}"
  then obtain x y where "created_ms a = Some x" "created_ms b = Some y" by blast
  then show "sgn (created_cmp b a) = - sgn (created_cmp a b)"
    by (simp only: created_cmp_def prod.case option.case) (rule sgn_opposite_diff)
next
  fix a b c :: Pipeline
  assume some: "a \<in> {p. created_ms p \<noteq> None}" "b \<in> {p. created_ms p \<noteq> None}"
    "c \<in> {p. created_ms p \<noteq> None}" and le: "created_cmp a b \<le> 0" "created_cmp b c \<le> 0"
  obtain x where x: "created_ms a = Some x" using some(1) by auto
  obtain y where y: "created_ms b = Some y" using some(2) by auto
  obtain z where z: "created_ms c = Some z" using some(3) by auto
  from le show "created_cmp a c \<le> 0" by (simp add: created_cmp_def x y z)
qed

lemma comparator_by_name:
  assumes "comparator lc UNIV"
  shows "comparator (\<lambda>a b. lc (f a) (f b)) carrier"
proof
  fix a b c
  show "sgn (lc (f b) (f a)) = - sgn (lc (f a) (f b))"
    by (rule comparator.cmp_swap [OF assms]) simp_all
  show "lc (f a) (f b) \<le> 0 \<Longrightarrow> lc (f b) (f c) \<le> 0 \<Longrightarrow> lc (f a) (f c) \<le> 0"
    by (rule comparator.cmp_trans [OF assms, of "f a" "f b" "f c"]) simp_all
qed

lemma pipeline_cmp_comparator:
  assumes "comparator lc UNIV"
  shows "comparator (pipeline_cmp lc col) {p. created_ms p \<noteq> None}"
proof (cases col)
  case ByCreated
  then show ?thesis
    using created.comparator_axioms by (simp add: pipeline_cmp_def [abs_def])
qed (simp_all add: pipeline_cmp_def [abs_def] comparator_by_name [OF assms])

text \<open>
  C25: the list shows exactly the loaded pipelines whose name contains
  the search text without regard to case, each as often as it was loaded, ordered by the chosen
  column in the chosen direction; pipelines that compare equal keep their order.
\<close>

theorem pipelines_filtered_sorted:
  assumes "comparator lc UNIV" and "\<forall>p \<in> set (ld_items s). created_ms p \<noteq> None"
  shows "mset (filteredPipelines lc s) = mset (filter
      (\<lambda>p. lv_searchQuery s = [] \<or>
        str_includes (toLowerCase (om_name (pl_metadata p))) (toLowerCase (lv_searchQuery s)))
      (ld_items s)) \<and>
    sorted_wrt (\<lambda>a b. if lv_sortDirection s = Asc then pipeline_cmp lc (plv_sortColumn s) a b \<le> 0
      else pipeline_cmp lc (plv_sortColumn s) a b \<ge> 0) (filteredPipelines lc s) \<and>
    (\<forall>p. created_ms p \<noteq> None \<longrightarrow>
      filter (\<lambda>q. pipeline_cmp lc (plv_sortColumn s) q p = 0) (filteredPipelines lc s) =
      filter (\<lambda>q. pipeline_cmp lc (plv_sortColumn s) q p = 0) (filter
        (\<lambda>p. matches_query (lv_searchQuery s) (om_name (pl_metadata p))) (ld_items s)))"
proof -
  let ?cmp = "\<lambda>dir. directed dir (pipeline_cmp lc (plv_sortColumn s))"
  have comp: "comparator (?cmp (lv_sortDirection s)) {p. created_ms p \<noteq> None}"
    by (rule directed_comparator [OF pipeline_cmp_comparator [OF assms(1)]])
  have sub: "set (ld_items s) \<subseteq> {p. created_ms p \<noteq> None}" using assms(2) by auto
  have zero: "(directed dir (pipeline_cmp lc c) q p = 0) = (pipeline_cmp lc c q p = 0)" for dir c q p
    by (simp add: directed_def)
  have le: "(directed dir (pipeline_cmp lc c) a b \<le> 0) =
      (if dir = Asc then pipeline_cmp lc c a b \<le> 0 else pipeline_cmp lc c a b \<ge> 0)" for dir c a b
    by (simp add: directed_def)
  have "mset (filteredPipelines lc s) = mset (filter
      (\<lambda>p. matches_query (lv_searchQuery s) (om_name (pl_metadata p))) (ld_items s))"
    by (simp add: filteredPipelines_def mset_filtered)
  moreover have "sorted_wrt (\<lambda>a b. ?cmp (lv_sortDirection s) a b \<le> 0) (filteredPipelines lc s)"
    unfolding filteredPipelines_def
    by (rule filtered_sorted(1) [where cmp = ?cmp, OF comp sub])
  moreover have "filter (\<lambda>q. ?cmp (lv_sortDirection s) q p = 0) (filteredPipelines lc s) =
      filter (\<lambda>q. ?cmp (lv_sortDirection s) q p = 0) (filter
        (\<lambda>p. matches_query (lv_searchQuery s) (om_name (pl_metadata p))) (ld_items s))"
    if "created_ms p \<noteq> None" for p
    unfolding filteredPipelines_def
    by (rule filtered_sorted(2) [where cmp = ?cmp, OF comp sub]) (use that in simp)
  ultimately show ?thesis by (simp only: zero le matches_query_def) blast
qed

definition compare_length :: "string \<Rightarrow> string \<Rightarrow> int" where
  "compare_length a b = int (length a) - int (length b)"

lemma compare_length_comparator: "comparator compare_length UNIV"
proof
  fix a b c :: string
  show "sgn (compare_length b a) = - sgn (compare_length a b)"
    unfolding compare_length_def by (rule sgn_opposite_diff)
  show "compare_length a b \<le> 0 \<Longrightarrow> compare_length b c \<le> 0 \<Longrightarrow> compare_length a c \<le> 0"
    by (simp add: compare_length_def)
qed

definition named_pipeline :: "string \<Rightarrow> Pipeline" where
  "named_pipeline n = createEmptyPipeline n ''default''"

theorem pipelines_filtered_sorted_witness:
  "mset (filteredPipelines compare_length (pipeline_list_start
     \<lparr>ld_items := [named_pipeline ''build'', named_pipeline ''test''], lv_searchQuery := ''T''\<rparr>)) =
   {#named_pipeline ''test''#}"
proof -
  have inc: "str_includes (toLowerCase ''test'') (toLowerCase ''T'')"
    "\<not> str_includes (toLowerCase ''build'') (toLowerCase ''T'')"
    by code_simp+
  have ts: "\<forall>p \<in> set [named_pipeline ''build'', named_pipeline ''test'']. created_ms p \<noteq> None"
    by (simp add: named_pipeline_def createEmptyPipeline_def no_meta_def created_ms_def)
  show ?thesis
    using pipelines_filtered_sorted [OF compare_length_comparator, of "pipeline_list_start
        \<lparr>ld_items := [named_pipeline ''build'', named_pipeline ''test''], lv_searchQuery := ''T''\<rparr>"]
      ts inc
    by (simp add: named_pipeline_def createEmptyPipeline_def no_meta_def)
qed

text \<open>
  The pages of the list, put together, are the filtered list: every pipeline
  is on exactly one page.  A valid page is never empty and has at most the page size of rows,
  \<open>goToPage\<close> goes to every valid page and to no other, and a page beyond the last is empty.
\<close>

theorem pipelines_pages:
  assumes "0 < lv_pageSize s" and "1 \<le> lv_currentPage s"
  shows "concat (map (\<lambda>p. paginatedPipelines lc (set_page p s)) [1..pl_totalPages lc s]) =
      filteredPipelines lc s \<and>
    (paginatedPipelines lc s \<noteq> []) = (lv_currentPage s \<le> pl_totalPages lc s) \<and>
    int (length (paginatedPipelines lc s)) \<le> lv_pageSize s \<and>
    lv_currentPage (pl_goToPage lc p s) =
      (if 1 \<le> p \<and> p \<le> pl_totalPages lc s then p else lv_currentPage s)"
  using pl.pages_cover [OF assms(1), of lc] pl.shown_nonempty_iff [OF assms, of lc]
    pl.shown_at_most [OF assms, of lc] pl.go_valid [of p lc s] pl.go_invalid [of p lc s]
  by (simp add: paginatedPipelines_def pl_totalPages_def pl_goToPage_def pl.pages_def
      pl.current_page_def)

definition eleven :: PipelineListView where
  "eleven = pipeline_list_start\<lparr>ld_items := map (\<lambda>n. named_pipeline (nat_str n)) [0..<11]\<rparr>"

theorem pipelines_pages_witness:
  "lv_currentPage (pl_goToPage compare_length 2 eleven) = 2"
proof -
  have len: "length (filteredPipelines compare_length eleven) = 11"
    by (simp add: filteredPipelines_def filtered_def matches_query_def eleven_def pipeline_list_start_def)
  have "pl_totalPages compare_length eleven = 2"
    unfolding pl_totalPages_def total_pages_def len by (simp add: eleven_def pipeline_list_start_def)
  moreover have "0 < lv_pageSize eleven" "1 \<le> lv_currentPage eleven"
    by (simp_all add: eleven_def pipeline_list_start_def)
  ultimately show ?thesis
    using pipelines_pages [of eleven compare_length 2] by simp
qed

text \<open>
  A load does not touch the current page: when the second page loses its
  last pipeline, the list shows an empty table although there are pipelines, and with a single
  page left the controls that would lead back are not shown.
\<close>

theorem page_left_behind:
  assumes "lv_currentPage s = 2" and "lv_pageSize s = 10" and "lv_searchQuery s = []"
    and "key \<in> fst ` set (ld_pending s)" and "0 < length ps" and "length ps \<le> 10"
  shows "let s' = load_end ''Failed to load pipelines'' key (Inr ps) s
    in paginatedPipelines lc s' = [] \<and> length (filteredPipelines lc s') = length ps \<and>
       pl_totalPages lc s' = 1"
proof -
  let ?s = "load_end ''Failed to load pipelines'' key (Inr ps) s"
  have s': "ld_items ?s = ps" "lv_currentPage ?s = 2" "lv_pageSize ?s = 10" "lv_searchQuery ?s = []"
    using assms by (simp_all add: load_end_def)
  have len: "length (filteredPipelines lc ?s) = length ps"
    by (simp add: filteredPipelines_def filtered_def matches_query_def s')
  have "- int (length ps) div 10 = -1" using assms(5,6) by presburger
  then have "pl_totalPages lc ?s = 1"
    by (simp add: pl_totalPages_def total_pages_def s' len)
  then show ?thesis
    using page_beyond_empty [of 10 "filteredPipelines lc ?s" 2] len
    by (simp add: Let_def paginatedPipelines_def s' pl_totalPages_def)
qed

theorem page_left_behind_witness:
  "paginatedPipelines compare_length (load_end ''Failed to load pipelines'' 0
     (Inr [named_pipeline ''build'']) (load_start (eleven\<lparr>lv_currentPage := 2\<rparr>))) = []"
  using page_left_behind [where s = "load_start (eleven\<lparr>lv_currentPage := 2\<rparr>)" and key = 0
      and ps = "[named_pipeline ''build'']" and lc = compare_length]
  by (simp add: Let_def load_start_def eleven_def pipeline_list_start_def)

text \<open>
  A row shows every step of the pipeline once, in order, with the phase its status
  gives, and \<open>Pending\<close> for a step without a status.
\<close>

theorem row_steps:
  "map rs_name (mergedSteps p) = map ps_name (sp_steps (pl_spec p)) \<and>
   map rs_phase (mergedSteps p) =
     map (\<lambda>n. case nd_status n of None \<Rightarrow> ''Pending'' | Some t \<Rightarrow> step_phase_text (ss_phase t))
       (gr_nodes (pipelineToGraph p))"
proof
  show "map rs_name (mergedSteps p) = map ps_name (sp_steps (pl_spec p))"
    by (simp add: mergedSteps_def)
  show "map rs_phase (mergedSteps p) =
     map (\<lambda>n. case nd_status n of None \<Rightarrow> ''Pending'' | Some t \<Rightarrow> step_phase_text (ss_phase t))
       (gr_nodes (pipelineToGraph p))"
    by (rule nth_equalityI)
       (simp_all add: mergedSteps_def pipelineToGraph_def Let_def graph_node_def nth_enumerate_eq
          find_status_def split: option.split)
qed

end
