(* ===== verification/Pipeline_List_View.thy ===== *)
theory Pipeline_List_View
  imports Pipeline_List List_Panel
begin

section \<open>The view of the list of pipelines (\<open>pipeline-list.ts\<close>, \<open>render\<close>)\<close>

text \<open>
  The template of the list as a tree, and what using it does: a click, a key, a typed text each
  run actions, and what is left of the event then reaches the listener of the document, which
  closes the menu.  The clock, the locale and \<open>localeCompare\<close> are the parameters of the list.
\<close>

subsection \<open>The template\<close>

datatype pl_action =
    PlSearch string
  | PlNew
  | PlSort SortColumn
  | PlPage int
  | PlOpen Pipeline
  | PlMenu string
  | PlCopy Pipeline
  | PlDelete Pipeline
  | PlRetry

definition pl_renderPagination ::
    "(string \<Rightarrow> string \<Rightarrow> int) \<Rightarrow> PipelineListView \<Rightarrow> pl_action Html" where
  "pl_renderPagination lc s =
     render_pagination ''pipelines'' PlPage (lv_currentPage s) (lv_pageSize s)
       (int (length (filteredPipelines lc s))) (pl_totalPages lc s) (pl_paginationRange lc s)"

definition step_tag :: "RowStep \<Rightarrow> pl_action Html" where
  "step_tag st =
     Elem ''rh-tag''
       [Attr ''color'' (stepColor (rs_phase st)),
        Attr ''class'' (if rs_phase st = ''Running'' then ''step-running'' else []),
        Attr ''title'' (rs_name st @ '': '' @ rs_phase st)] [] [Text (rs_name st)]"

definition kebab_menu :: "Pipeline \<Rightarrow> pl_action Html" where
  "kebab_menu p =
     node ''div''
       [Elem ''button'' [] [ClickStop (PlCopy p)] [node ''rh-icon'' [], Text ''Copy''],
        Elem ''button'' [] [ClickStop (PlDelete p)] [node ''rh-icon'' [], Text ''Delete'']]"

definition menu_button :: "PipelineListView \<Rightarrow> Pipeline \<Rightarrow> pl_action Html" where
  "menu_button s p =
     (let name = om_name (pl_metadata p)
      in Elem ''button''
        [Attr ''aria-label'' (''Actions for '' @ name),
         Attr ''aria-expanded'' (bool_str (plv_openMenuId s = Some name))]
        [ClickStop (PlMenu name)] [node ''rh-icon'' []])"

definition renderPipelineRow :: "(string \<Rightarrow> string) \<Rightarrow> PipelineListView \<Rightarrow> Pipeline \<Rightarrow> pl_action Html" where
  "renderPipelineRow format s p =
     (let name = om_name (pl_metadata p); menu_open = (plv_openMenuId s = Some name)
      in Elem ''tr'' [Attr ''tabindex'' ''0''] [Click (PlOpen p), KeyEnter (PlOpen p)]
        [node ''td'' [node ''div'' [labelled ''rh-tag'' ''pl'', labelled ''span'' name]],
         node ''td'' [Elem ''status-badge''
           [Attr ''status'' (phase_or_pending p), Attr ''size'' ''sm''] [] []],
         node ''td'' [node ''div'' (map step_tag (mergedSteps p))],
         node ''td'' [labelled ''span'' (created_text format (om_creationTimestamp (pl_metadata p)))],
         node ''td''
           ([menu_button s p] @ (if menu_open then [kebab_menu p] else []))])"

definition sort_heading :: "string \<Rightarrow> SortColumn \<Rightarrow> PipelineListView \<Rightarrow> pl_action Html" where
  "sort_heading title col s =
     Elem ''th'' [Attr ''class'' (''sortable '' @ (if plv_sortColumn s = col then ''active'' else []))]
       [Click (PlSort col)]
       [node ''span'' [Text title, Elem ''rh-icon'' [Attr ''icon'' (getSortIcon col s)] [] []]]"

definition pl_empty :: "pl_action Html" where
  "pl_empty =
     node ''div''
       [node ''rh-icon'' [], labelled ''h3'' ''No pipelines found'',
        labelled ''p'' ''Create your first pipeline to get started.'',
        node ''rh-cta'' [Elem ''a'' [Attr ''href'' ''/builder''] [] [Text ''Create Pipeline'']]]"

definition pl_header :: "PipelineListView \<Rightarrow> pl_action Html" where
  "pl_header s =
     node ''div''
       [labelled ''h1'' ''Pipelines'',
        node ''div''
          [Elem ''input''
             [Attr ''type'' ''search'', Attr ''placeholder'' ''Search pipelines...'',
              Prop ''value'' (lv_searchQuery s), Attr ''aria-label'' ''Search pipelines'']
             [Input PlSearch] [],
           Elem ''rh-button'' [] [Click PlNew] [node ''rh-icon'' [], Text ''New Pipeline'']]]"

definition pl_table ::
    "(string \<Rightarrow> string \<Rightarrow> int) \<Rightarrow> (string \<Rightarrow> string) \<Rightarrow> PipelineListView \<Rightarrow> pl_action Html" where
  "pl_table lc format s =
     node ''div''
       ([node ''table''
          [node ''thead'' [node ''tr''
             [sort_heading ''Name'' ByName s, sort_heading ''Status'' ByStatus s,
              labelled ''th'' ''Steps'', sort_heading ''Created'' ByCreated s,
              labelled ''th'' ''Actions'']],
           node ''tbody'' (map (renderPipelineRow format s) (paginatedPipelines lc s))]] @
        (if pl_totalPages lc s > 1 then [pl_renderPagination lc s] else []))"

definition pl_render ::
    "(string \<Rightarrow> string \<Rightarrow> int) \<Rightarrow> (string \<Rightarrow> string) \<Rightarrow> PipelineListView \<Rightarrow> pl_action Html list" where
  "pl_render lc format s =
     (if ld_loading s then loading_panel ''Loading pipelines...''
      else if truthy (ld_error s) then error_panel ''Error loading pipelines'' (the (ld_error s)) PlRetry
      else [pl_header s,
            if filteredPipelines lc s = [] then pl_empty else pl_table lc format s])"

subsection \<open>What an action does\<close>

definition pl_do ::
    "bool \<Rightarrow> 'a fetch \<Rightarrow> string \<Rightarrow> (string \<Rightarrow> string \<Rightarrow> int) \<Rightarrow> pl_action \<Rightarrow> PipelineListView \<Rightarrow>
     PipelineListView" where
  "pl_do confirmed fetch base lc a s =
     (case a of
        PlSearch q \<Rightarrow> pl_handleSearchInput q s
      | PlNew \<Rightarrow> s
      | PlSort c \<Rightarrow> pl_toggleSort c s
      | PlPage i \<Rightarrow> pl_goToPage lc i s
      | PlOpen p \<Rightarrow> s
      | PlMenu n \<Rightarrow> pl_toggleMenu n s
      | PlCopy p \<Rightarrow> fst (copyPipeline p s)
      | PlDelete p \<Rightarrow> fst (deletePipeline confirmed fetch base p s)
      | PlRetry \<Rightarrow> load_start s)"

text \<open>The path an action navigates to.\<close>

primrec pl_target :: "pl_action \<Rightarrow> string option" where
  "pl_target (PlSearch q) = None"
| "pl_target PlNew = Some ''/builder''"
| "pl_target (PlSort c) = None"
| "pl_target (PlPage i) = None"
| "pl_target (PlOpen p) = Some (navigateToPipeline p)"
| "pl_target (PlMenu n) = None"
| "pl_target (PlCopy p) = Some ''/builder''"
| "pl_target (PlDelete p) = None"
| "pl_target PlRetry = None"

text \<open>A run of listeners, and the listener of the document if the event gets there.\<close>

definition pl_run ::
    "bool \<Rightarrow> 'a fetch \<Rightarrow> string \<Rightarrow> (string \<Rightarrow> string \<Rightarrow> int) \<Rightarrow> pl_action list \<times> bool \<Rightarrow>
     PipelineListView \<Rightarrow> PipelineListView" where
  "pl_run confirmed fetch base lc r s =
     (let s' = fold (pl_do confirmed fetch base lc) (fst r) s
      in if snd r then pl_handleDocumentClick s' else s')"

subsection \<open>Clicks in a row\<close>

lemma clicks_step_tag: "clicks [step_tag st] = [([], True)]"
  by (simp add: step_tag_def clicks_compute)

lemma clicks_kebab_menu:
  "clicks [kebab_menu p] =
     [([], True), ([PlCopy p], False), ([PlCopy p], False), ([PlDelete p], False), ([PlDelete p], False)]"
  by (simp add: kebab_menu_def clicks_compute)

lemma set_clicks_row:
  "set (clicks [renderPipelineRow format s p]) =
     {([PlOpen p], True), ([PlMenu (om_name (pl_metadata p))], False)} \<union>
     (if plv_openMenuId s = Some (om_name (pl_metadata p))
      then {([PlCopy p], False), ([PlDelete p], False)} else {})"
proof -
  have tags: "clicks (map step_tag sts) = replicate (length sts) ([], True)" for sts
    by (simp only: clicks_map clicks_step_tag) (induction sts, simp_all)
  show ?thesis
    unfolding renderPipelineRow_def Let_def
    by (cases "plv_openMenuId s = Some (om_name (pl_metadata p))")
       (auto simp add: menu_button_def Let_def clicks_Elem clicks_Cons clicks_node tags clicks_kebab_menu disabled_def
          run_through_def)
qed

lemma clicks_heading:
  "clicks [sort_heading title col s] = [([PlSort col], True), ([PlSort col], True), ([PlSort col], True)]"
  by (simp add: sort_heading_def clicks_compute)

definition quiet_runs :: "pl_action list set" where
  "quiet_runs = {[], [PlNew], [PlRetry]} \<union> {[PlSort c] | c. True} \<union> {[PlPage i] | i. True}"

lemma clicks_pl_pagination:
  "r \<in> set (clicks [pl_renderPagination lc s]) \<Longrightarrow> snd r \<and> fst r \<in> quiet_runs"
  unfolding pl_renderPagination_def by (drule clicks_pagination) (auto simp: quiet_runs_def)

lemma clicks_pl_frame:
  "r \<in> set (clicks [pl_header s, pl_empty]) \<Longrightarrow> snd r \<and> fst r \<in> quiet_runs"
  "r \<in> set (clicks (loading_panel m)) \<Longrightarrow> snd r \<and> fst r \<in> quiet_runs"
  "r \<in> set (clicks (error_panel t m PlRetry)) \<Longrightarrow> snd r \<and> fst r \<in> quiet_runs"
  by (auto simp: pl_header_def pl_empty_def loading_panel_def error_panel_def quiet_runs_def
      clicks_node clicks_Cons clicks_Elem disabled_def run_through_def)

lemma clicks_pl_table:
  assumes "r \<in> set (clicks [pl_table lc format s])"
  shows "(snd r \<and> fst r \<in> quiet_runs) \<or>
    (\<exists>p \<in> set (paginatedPipelines lc s). r \<in> set (clicks [renderPipelineRow format s p]))"
proof -
  have "set (clicks [pl_table lc format s]) \<subseteq>
      {([], True)} \<union> {([PlSort c], True) | c. True} \<union>
      set (clicks (map (renderPipelineRow format s) (paginatedPipelines lc s))) \<union>
      set (clicks [pl_renderPagination lc s])"
    by (auto simp: pl_table_def clicks_node clicks_Cons clicks_heading)
  with assms show ?thesis
    using clicks_pl_pagination [of r lc s] by (auto simp: set_clicks_map quiet_runs_def)
qed

lemma clicks_pl_render:
  assumes "r \<in> set (clicks (pl_render lc format s))"
  shows "(snd r \<and> fst r \<in> quiet_runs) \<or>
    (\<exists>p \<in> set (paginatedPipelines lc s). r \<in> set (clicks [renderPipelineRow format s p]))"
proof -
  from assms consider "r \<in> set (clicks (loading_panel ''Loading pipelines...''))"
    | "r \<in> set (clicks (error_panel ''Error loading pipelines'' (the (ld_error s)) PlRetry))"
    | "r \<in> set (clicks [pl_header s, pl_empty])"
    | "r \<in> set (clicks [pl_table lc format s])"
    by (auto simp: pl_render_def clicks_Cons split: if_splits)
  then show ?thesis
    using clicks_pl_frame clicks_pl_table by cases blast+
qed

text \<open>
  C36: a click in the list runs one action at most.  Only the menu that is open in
  the row of a pipeline copies or deletes it, and such a click does nothing else: it does not also
  open the page of the pipeline, although the menu lies within the row, which does that.
\<close>

theorem menu_clicks:
  assumes "r \<in> set (clicks (pl_render lc format s))"
  shows "length (fst r) \<le> 1 \<and>
    (PlCopy p \<in> set (fst r) \<or> PlDelete p \<in> set (fst r) \<longrightarrow>
      p \<in> set (paginatedPipelines lc s) \<and> plv_openMenuId s = Some (om_name (pl_metadata p)) \<and>
      \<not> snd r)"
  using clicks_pl_render [OF assms]
  by (auto simp: quiet_runs_def set_clicks_row split: if_splits)

text \<open>A list of one pipeline whose menu is open.\<close>

definition one_pipeline :: PipelineListView where
  "one_pipeline = pipeline_list_start\<lparr>ld_loading := False,
     ld_items := [createEmptyPipeline ''build'' ''ci''], plv_openMenuId := Some ''build''\<rparr>"

lemma one_pipeline_rows:
  "filteredPipelines lc one_pipeline = [createEmptyPipeline ''build'' ''ci'']"
  "paginatedPipelines lc one_pipeline = [createEmptyPipeline ''build'' ''ci'']"
  by (simp_all add: paginatedPipelines_def filteredPipelines_def filtered_def one_pipeline_def
      pipeline_list_start_def matches_query_def sort_by_def page_items_def js_slice_def Let_def)

lemma one_pipeline_facts:
  "\<not> ld_loading one_pipeline" "\<not> truthy (ld_error one_pipeline)"
  "plv_openMenuId one_pipeline = Some ''build''"
  "om_name (pl_metadata (createEmptyPipeline ''build'' ''ci'')) = ''build''"
  by (simp_all add: one_pipeline_def pipeline_list_start_def createEmptyPipeline_def no_meta_def)

lemma one_pipeline_copy:
  "([PlCopy (createEmptyPipeline ''build'' ''ci'')], False) \<in> set (clicks (pl_render lc format one_pipeline))"
proof -
  have "([PlCopy (createEmptyPipeline ''build'' ''ci'')], False) \<in>
      set (clicks (map (renderPipelineRow format one_pipeline) [createEmptyPipeline ''build'' ''ci'']))"
    unfolding set_clicks_map by (simp add: set_clicks_row one_pipeline_facts del: set_map)
  then show ?thesis
    by (auto simp: pl_render_def one_pipeline_facts one_pipeline_rows pl_table_def clicks_Cons
        clicks_node run_through_def)
qed

theorem menu_clicks_witness:
  "plv_openMenuId one_pipeline = Some ''build'' \<and>
   length (fst ([PlCopy (createEmptyPipeline ''build'' ''ci'')], False)) \<le> 1"
  using menu_clicks [OF one_pipeline_copy [of "\<lambda>a b. 0" "\<lambda>t. t"], of "createEmptyPipeline ''build'' ''ci''"]
  by (simp add: one_pipeline_facts)

subsection \<open>The keyboard\<close>

lemma keys_row:
  "r \<in> set (keys [renderPipelineRow format s p]) \<Longrightarrow> r = ([PlOpen p], False)"
  unfolding renderPipelineRow_def Let_def
  by (erule keys_captured) (simp_all add: list_all_iff step_tag_def kebab_menu_def menu_button_def Let_def)

primrec row_action :: "pl_action \<Rightarrow> bool" where
  "row_action (PlSearch q) = False"
| "row_action PlNew = False"
| "row_action (PlSort c) = False"
| "row_action (PlPage i) = False"
| "row_action (PlOpen p) = False"
| "row_action (PlMenu n) = True"
| "row_action (PlCopy p) = True"
| "row_action (PlDelete p) = True"
| "row_action PlRetry = False"

lemma view_acts_pl_frame:
  "a \<in> view_acts (loading_panel m) \<Longrightarrow> \<not> row_action a"
  "a \<in> view_acts (error_panel t m PlRetry) \<Longrightarrow> \<not> row_action a"
  "a \<in> view_acts [pl_header s] \<Longrightarrow> \<not> row_action a"
  "a \<in> view_acts [pl_empty] \<Longrightarrow> \<not> row_action a"
  "a \<in> view_acts [sort_heading t col s] \<Longrightarrow> \<not> row_action a"
  "a \<in> view_acts [pl_renderPagination lc s] \<Longrightarrow> \<not> row_action a"
proof -
  show "a \<in> view_acts [pl_renderPagination lc s] \<Longrightarrow> \<not> row_action a"
    unfolding pl_renderPagination_def using set_pagination [where goto = PlPage] by fastforce
qed (auto simp: loading_panel_def error_panel_def pl_header_def pl_empty_def sort_heading_def)

lemma keys_without_row_actions:
  assumes "\<forall>a \<in> view_acts hs. \<not> row_action a" and "r \<in> set (keys hs)" and "a \<in> set (fst r)"
  shows "\<not> row_action a"
  using runs_within_view(2) [OF assms(2)] assms(1,3) by blast

lemma keys_pl_table:
  assumes "r \<in> set (keys [pl_table lc format s])" and "a \<in> set (fst r)"
  shows "\<not> row_action a"
proof -
  let ?heads = "[sort_heading ''Name'' ByName s, sort_heading ''Status'' ByStatus s,
      labelled ''th'' ''Steps'', sort_heading ''Created'' ByCreated s, labelled ''th'' ''Actions'']"
  let ?rows = "map (renderPipelineRow format s) (paginatedPipelines lc s)"
  let ?table = "[node ''thead'' [node ''tr'' ?heads], node ''tbody'' ?rows]"
  let ?pages = "if pl_totalPages lc s > 1 then [pl_renderPagination lc s] else []"
  have nonempty: "fst r \<noteq> []" using assms(2) by auto
  have "r \<in> set (keys ([node ''table'' ?table] @ ?pages))"
    using assms(1) keys_plain nonempty unfolding pl_table_def by blast
  then consider "r \<in> set (keys [node ''table'' ?table])" | "r \<in> set (keys [pl_renderPagination lc s])"
    by (auto simp: keys_Cons split: if_splits)
  then show ?thesis
  proof cases
    case 1
    then have "r \<in> set (keys ?table)" using keys_plain nonempty by blast
    then consider "r \<in> set (keys [node ''thead'' [node ''tr'' ?heads]])"
      | "r \<in> set (keys [node ''tbody'' ?rows])"
      by (auto simp: keys_Cons)
    then show ?thesis
    proof cases
      case 1
      have "\<forall>a \<in> view_acts [node ''thead'' [node ''tr'' ?heads]]. \<not> row_action a"
        using view_acts_pl_frame(5) by (simp add: set_Html_Elem ball_Un)
      from keys_without_row_actions [OF this 1 assms(2)] show ?thesis .
    next
      case 2
      then have "r \<in> set (keys ?rows)" using keys_plain nonempty by blast
      then obtain p where "r \<in> set (keys [renderPipelineRow format s p])"
        by (auto simp: set_keys_map)
      then have "r = ([PlOpen p], False)" by (rule keys_row)
      with assms(2) show ?thesis by simp
    qed
  next
    case 2
    have "\<forall>a \<in> view_acts [pl_renderPagination lc s]. \<not> row_action a"
      using view_acts_pl_frame(6) by blast
    from keys_without_row_actions [OF this 2 assms(2)] show ?thesis .
  qed
qed

lemma keys_pl_render:
  assumes "r \<in> set (keys (pl_render lc format s))" and "a \<in> set (fst r)"
  shows "\<not> row_action a"
proof -
  from assms(1) consider "r \<in> set (keys (loading_panel ''Loading pipelines...''))"
    | "r \<in> set (keys (error_panel ''Error loading pipelines'' (the (ld_error s)) PlRetry))"
    | "r \<in> set (keys [pl_header s])" | "r \<in> set (keys [pl_empty])"
    | "r \<in> set (keys [pl_table lc format s])"
    by (auto simp: pl_render_def keys_Cons split: if_splits)
  then show ?thesis
  proof cases
    case 5
    then show ?thesis using keys_pl_table assms(2) by blast
  qed (use keys_without_row_actions [OF _ _ assms(2)] view_acts_pl_frame in blast)+
qed

lemma chain_menu_button:
  assumes "\<not> ld_loading s" and "\<not> truthy (ld_error s)" and "p \<in> set (paginatedPipelines lc s)"
  shows "(menu_button s p,
      [[ClickStop (PlMenu (om_name (pl_metadata p)))], [], [Click (PlOpen p), KeyEnter (PlOpen p)], [], [], []])
    \<in> set (all_chains (pl_render lc format s))"
proof -
  let ?own = "[ClickStop (PlMenu (om_name (pl_metadata p)))]"
  let ?row = "[Click (PlOpen p), KeyEnter (PlOpen p)]"
  have "(menu_button s p, [?own]) \<in> set (chains (menu_button s p))"
    by (simp add: menu_button_def Let_def disabled_def)
  then have "(menu_button s p, [?own] @ [[]]) \<in> set (chains (node ''td''
      ([menu_button s p] @ (if plv_openMenuId s = Some (om_name (pl_metadata p)) then [kebab_menu p] else []))))"
    by (intro chain_within) (simp_all del: chains.simps)
  then have "(menu_button s p, [?own, []]) \<in> set (chains (node ''td''
      ([menu_button s p] @ (if plv_openMenuId s = Some (om_name (pl_metadata p)) then [kebab_menu p] else []))))"
    by (simp only: append_Cons append_Nil)
  then have "(menu_button s p, [?own, []] @ [?row]) \<in> set (chains (renderPipelineRow format s p))"
    unfolding renderPipelineRow_def Let_def
    by (intro chain_within) (simp_all add: disabled_def del: chains.simps)
  then have "(menu_button s p, [?own, [], ?row]) \<in>
      set (all_chains (map (renderPipelineRow format s) (paginatedPipelines lc s)))"
    using assms(3) by (auto simp: in_all_chains)
  then have "(menu_button s p, [?own, [], ?row] @ [[]]) \<in> set (chains (node ''tbody''
      (map (renderPipelineRow format s) (paginatedPipelines lc s))))"
    by (rule chain_within) simp
  then have "(menu_button s p, ([?own, [], ?row] @ [[]]) @ [[]]) \<in> set (chains (node ''table''
      [node ''thead'' [node ''tr''
         [sort_heading ''Name'' ByName s, sort_heading ''Status'' ByStatus s,
          labelled ''th'' ''Steps'', sort_heading ''Created'' ByCreated s, labelled ''th'' ''Actions'']],
       node ''tbody'' (map (renderPipelineRow format s) (paginatedPipelines lc s))]))"
    by (intro chain_within) (simp_all del: chains.simps)
  then have "(menu_button s p, (([?own, [], ?row] @ [[]]) @ [[]]) @ [[]]) \<in> set (chains (pl_table lc format s))"
    unfolding pl_table_def by (intro chain_within) (simp_all del: chains.simps)
  moreover have "filteredPipelines lc s \<noteq> []"
    using assms(3) by (auto simp: paginatedPipelines_def page_items_def js_slice_def Let_def)
  ultimately show ?thesis using assms(1,2) by (simp add: pl_render_def del: chains.simps)
qed

text \<open>
  With the keyboard alone no menu can be opened and no pipeline copied
  or deleted, in no state of the list.  The button of the menu, which a click makes open the menu,
  opens the page of the pipeline when it is used with Enter or Space: the key reaches the listener
  of the row, which prevents the click of the button.
\<close>

theorem keyboard_opens_only:
  "(\<forall>r \<in> set (keys (pl_render lc format s)). \<forall>n p.
      PlMenu n \<notin> set (fst r) \<and> PlCopy p \<notin> set (fst r) \<and> PlDelete p \<notin> set (fst r)) \<and>
   (\<not> ld_loading s \<and> \<not> truthy (ld_error s) \<longrightarrow>
     (\<forall>p \<in> set (paginatedPipelines lc s). \<exists>c.
        (menu_button s p, c) \<in> set (all_chains (pl_render lc format s)) \<and> focusable (menu_button s p) \<and>
        click_run c = ([PlMenu (om_name (pl_metadata p))], False) \<and>
        key_run (menu_button s p) c = ([PlOpen p], False)))"
proof (intro conjI ballI allI impI)
  fix r n p
  assume "r \<in> set (keys (pl_render lc format s))"
  from keys_pl_render [OF this] show "PlMenu n \<notin> set (fst r)" "PlCopy p \<notin> set (fst r)"
    "PlDelete p \<notin> set (fst r)" by force+
next
  fix p
  assume "\<not> ld_loading s \<and> \<not> truthy (ld_error s)" "p \<in> set (paginatedPipelines lc s)"
  with chain_menu_button [of s p lc format] show "\<exists>c.
        (menu_button s p, c) \<in> set (all_chains (pl_render lc format s)) \<and> focusable (menu_button s p) \<and>
        click_run c = ([PlMenu (om_name (pl_metadata p))], False) \<and>
        key_run (menu_button s p) c = ([PlOpen p], False)"
    by (intro exI conjI) (assumption | simp add: menu_button_def Let_def focusable_def key_run_def)+
qed

theorem keyboard_opens_only_witness:
  "\<exists>c. (menu_button one_pipeline (createEmptyPipeline ''build'' ''ci''), c) \<in>
       set (all_chains (pl_render (\<lambda>a b. 0) (\<lambda>t. t) one_pipeline)) \<and>
     click_run c = ([PlMenu ''build''], False) \<and>
     key_run (menu_button one_pipeline (createEmptyPipeline ''build'' ''ci'')) c =
       ([PlOpen (createEmptyPipeline ''build'' ''ci'')], False)"
  using keyboard_opens_only [THEN conjunct2, THEN mp, of one_pipeline "\<lambda>a b. 0" "\<lambda>t. t"]
  by (auto simp: one_pipeline_facts one_pipeline_rows)

end
