(* ===== verification/Step_Detail.thy ===== *)
theory Step_Detail
  imports List_View K8s_Client Graph_Layout
begin

section \<open>The details of a step (\<open>ui/src/components/monitor/step-detail.ts\<close>)\<close>

text \<open>
  The panel with the logs, the specification and the events of one step.  Its loads are
  asynchronous: \<open>loadLogs\<close> waits for the pods of the job and then for the logs of the first pod,
  \<open>loadEvents\<close> waits for the events.  A request is a key in a list of outstanding requests, and an
  answer is an event of its own, so that loads may overlap in any order.  The job a request was
  made for is kept with its key; the code forgets it.
\<close>

definition LOG_TAIL_LINES :: int where
  "LOG_TAIL_LINES = 50"

record StepDetail =
  sd_step :: "PipelineStep option"
  sd_status :: "StepStatus option"
  sd_namespace :: string
  sd_logs :: string
  sd_logsLoading :: bool
  sd_logsError :: "string option"
  sd_activeTab :: nat
  sd_events :: "KubeEvent list"
  sd_initialLogsLoad :: bool
  sd_currentJobName :: "string option"
  sd_polling :: bool
  sd_next :: nat
  sd_podsPending :: "(nat \<times> string) list"
  sd_logsPending :: "(nat \<times> string) list"
  sd_eventsPending :: "(nat \<times> string) list"

definition step_detail_start :: StepDetail where
  "step_detail_start =
     \<lparr>sd_step = None, sd_status = None, sd_namespace = ''default'', sd_logs = [],
      sd_logsLoading = False, sd_logsError = None, sd_activeTab = 0, sd_events = [],
      sd_initialLogsLoad = True, sd_currentJobName = None, sd_polling = False, sd_next = 0,
      sd_podsPending = [], sd_logsPending = [], sd_eventsPending = []\<rparr>"

text \<open>\<open>this.status?.jobName || null\<close>: no status, no job name and an empty one are the same.\<close>

definition job_of :: "StepDetail \<Rightarrow> string option" where
  "job_of s =
     (case sd_status s of
        None \<Rightarrow> None
      | Some st \<Rightarrow> (if truthy (ss_jobName st) then ss_jobName st else None))"

subsection \<open>Logs\<close>

definition tail_options :: LogOptions where
  "tail_options = no_log_options\<lparr>lo_tailLines := Some LOG_TAIL_LINES\<rparr>"

definition loadLogs :: "StepDetail \<Rightarrow> StepDetail" where
  "loadLogs s =
     (case job_of s of
        None \<Rightarrow> s
      | Some job \<Rightarrow>
          (if sd_initialLogsLoad s then s\<lparr>sd_logsLoading := True, sd_logsError := None\<rparr> else s)
            \<lparr>sd_podsPending := sd_podsPending s @ [(sd_next s, job)], sd_next := sd_next s + 1\<rparr>)"

definition logs_finally :: "StepDetail \<Rightarrow> StepDetail" where
  "logs_finally s = s\<lparr>sd_logsLoading := False, sd_initialLogsLoad := False\<rparr>"

definition logs_failed :: "thrown \<Rightarrow> StepDetail \<Rightarrow> StepDetail" where
  "logs_failed e s = logs_finally (s\<lparr>sd_logsError := Some (message_or e ''Failed to load logs'')\<rparr>)"

definition drop_key :: "nat \<Rightarrow> (nat \<times> string) list \<Rightarrow> (nat \<times> string) list" where
  "drop_key key pending = filter (\<lambda>x. fst x \<noteq> key) pending"

text \<open>The answer to \<open>listPods\<close>: the request for the logs of the first pod follows, if there is one.\<close>

definition pods_answer :: "nat \<Rightarrow> PodInfo list outcome \<Rightarrow> StepDetail \<Rightarrow> StepDetail" where
  "pods_answer key r s =
     (case map_of (sd_podsPending s) key of
        None \<Rightarrow> s
      | Some job \<Rightarrow>
          (let s' = s\<lparr>sd_podsPending := drop_key key (sd_podsPending s)\<rparr>
           in case r of
                Inl e \<Rightarrow> logs_failed e s'
              | Inr [] \<Rightarrow> logs_finally (s'\<lparr>sd_logs := []\<rparr>)
              | Inr (pod # _) \<Rightarrow> s'\<lparr>sd_logsPending := sd_logsPending s' @ [(key, job)]\<rparr>))"

definition take_logs :: "string \<Rightarrow> StepDetail \<Rightarrow> StepDetail" where
  "take_logs newLogs s =
     (if newLogs \<noteq> sd_logs s then s\<lparr>sd_logs := newLogs, sd_logsError := None\<rparr> else s)"

definition logs_answer :: "nat \<Rightarrow> string outcome \<Rightarrow> StepDetail \<Rightarrow> StepDetail" where
  "logs_answer key r s =
     (case map_of (sd_logsPending s) key of
        None \<Rightarrow> s
      | Some _ \<Rightarrow>
          (let s' = s\<lparr>sd_logsPending := drop_key key (sd_logsPending s)\<rparr>
           in case r of
                Inl e \<Rightarrow> logs_failed e s'
              | Inr newLogs \<Rightarrow> logs_finally (take_logs newLogs s')))"

text \<open>The load when every answer comes before anything else happens.\<close>

definition loadLogs_now ::
    "PodInfo list option fetch \<Rightarrow> unit fetch \<Rightarrow> string \<Rightarrow> StepDetail \<Rightarrow> StepDetail" where
  "loadLogs_now podFetch logFetch base s =
     (case job_of s of
        None \<Rightarrow> s
      | Some job \<Rightarrow>
          (let pods = listPods podFetch base (sd_namespace s) (''job-name='' @ job);
               s' = pods_answer (sd_next s) pods (loadLogs s)
           in case pods of
                Inr (pod # _) \<Rightarrow>
                  logs_answer (sd_next s)
                    (getPodLogs logFetch base (sd_namespace s) (pi_name pod) tail_options) s'
              | _ \<Rightarrow> s'))"

subsection \<open>Events\<close>

definition loadEvents :: "StepDetail \<Rightarrow> StepDetail" where
  "loadEvents s =
     (case job_of s of
        None \<Rightarrow> s
      | Some job \<Rightarrow>
          s\<lparr>sd_eventsPending := sd_eventsPending s @ [(sd_next s, job)], sd_next := sd_next s + 1\<rparr>)"

definition events_answer :: "nat \<Rightarrow> KubeEvent list outcome \<Rightarrow> StepDetail \<Rightarrow> StepDetail" where
  "events_answer key r s =
     (case map_of (sd_eventsPending s) key of
        None \<Rightarrow> s
      | Some _ \<Rightarrow>
          (let s' = s\<lparr>sd_eventsPending := drop_key key (sd_eventsPending s)\<rparr>
           in case r of Inl _ \<Rightarrow> s' | Inr events \<Rightarrow> s'\<lparr>sd_events := events\<rparr>))"

subsection \<open>Life cycle\<close>

definition sd_connected :: "StepDetail \<Rightarrow> StepDetail" where
  "sd_connected s = s\<lparr>sd_polling := True\<rparr>"

definition sd_disconnected :: "StepDetail \<Rightarrow> StepDetail" where
  "sd_disconnected s = s\<lparr>sd_polling := False\<rparr>"

definition poll_logs :: "StepDetail \<Rightarrow> StepDetail" where
  "poll_logs s = (if sd_polling s \<and> job_of s \<noteq> None \<and> sd_activeTab s = 0 then loadLogs s else s)"

definition sd_updated :: "StepDetail \<Rightarrow> StepDetail" where
  "sd_updated s =
     (let newJobName = job_of s
      in if newJobName \<noteq> sd_currentJobName s
         then (let s' = s\<lparr>sd_currentJobName := newJobName, sd_initialLogsLoad := True\<rparr>
               in if newJobName \<noteq> None then loadEvents (loadLogs s') else s')
         else s)"

text \<open>The properties are set from outside, and the update that follows calls \<open>updated\<close>.\<close>

definition set_props ::
    "PipelineStep option \<Rightarrow> StepStatus option \<Rightarrow> string \<Rightarrow> StepDetail \<Rightarrow> StepDetail" where
  "set_props step status namespace s =
     sd_updated (s\<lparr>sd_step := step, sd_status := status, sd_namespace := namespace\<rparr>)"

datatype detail_event =
    Props "PipelineStep option" "StepStatus option" string
  | Connected
  | Disconnected
  | Tick
  | Refresh
  | ShowTab nat
  | PodsAnswer nat "PodInfo list outcome"
  | LogsAnswer nat "string outcome"
  | EventsAnswer nat "KubeEvent list outcome"

fun detail_step :: "StepDetail \<Rightarrow> detail_event \<Rightarrow> StepDetail" where
  "detail_step s (Props step status namespace) = set_props step status namespace s"
| "detail_step s Connected = sd_connected s"
| "detail_step s Disconnected = sd_disconnected s"
| "detail_step s Tick = poll_logs s"
| "detail_step s Refresh = loadLogs s"
| "detail_step s (ShowTab i) = s\<lparr>sd_activeTab := i\<rparr>"
| "detail_step s (PodsAnswer key r) = pods_answer key r s"
| "detail_step s (LogsAnswer key r) = logs_answer key r s"
| "detail_step s (EventsAnswer key r) = events_answer key r s"

definition detail_run :: "StepDetail \<Rightarrow> detail_event list \<Rightarrow> StepDetail" where
  "detail_run s es = foldl detail_step s es"

subsection \<open>What is shown\<close>

text \<open>The remainder of JavaScript takes the sign of the dividend.\<close>

definition js_rem :: "int \<Rightarrow> int \<Rightarrow> int" where
  "js_rem a b = (if 0 \<le> a then a mod b else - ((- a) mod b))"

definition duration_text :: "int option \<Rightarrow> int option \<Rightarrow> string" where
  "duration_text start end_time =
     (case (start, end_time) of
        (Some t0, Some t1) \<Rightarrow>
          (let diffSecs = (t1 - t0) div 1000; mins = diffSecs div 60; secs = js_rem diffSecs 60
           in if mins > 0 then int_str mins @ ''m '' @ int_str secs @ ''s'' else int_str secs @ ''s'')
      | _ \<Rightarrow> ''NaNs'')"

definition duration_between :: "int \<Rightarrow> string option \<Rightarrow> string option \<Rightarrow> string" where
  "duration_between now start end_time =
     (if \<not> truthy start then ''-''
      else duration_text (date_time (the start))
             (if truthy end_time then date_time (the end_time) else Some now))"

definition status_start :: "StepStatus option \<Rightarrow> string option" where
  "status_start st = Option.bind st (\<lambda>x. Option.bind (ss_jobStatus x) jst_startTime)"

definition status_completion :: "StepStatus option \<Rightarrow> string option" where
  "status_completion st = Option.bind st (\<lambda>x. Option.bind (ss_jobStatus x) jst_completionTime)"

definition step_formatDuration :: "int \<Rightarrow> StepDetail \<Rightarrow> string" where
  "step_formatDuration now s =
     duration_between now (status_start (sd_status s)) (status_completion (sd_status s))"

definition first_container :: "PipelineStep \<Rightarrow> Container option" where
  "first_container step =
     (case pod_containers (pts_spec (js_template (ps_jobSpec step))) of [] \<Rightarrow> None | c # _ \<Rightarrow> Some c)"

definition getImage :: "StepDetail \<Rightarrow> string" where
  "getImage s = str_or (Option.bind (sd_step s) (\<lambda>st. Option.bind (first_container st) ct_image)) ''-''"

definition image_base :: "StepDetail \<Rightarrow> string" where
  "image_base s = last (split_on (CHR ''/'') (getImage s))"

datatype LogView = LogsLoading | LogsFailed string | NoLogs | LogLines nat string

definition renderLogs :: "StepDetail \<Rightarrow> LogView" where
  "renderLogs s =
     (if sd_logsLoading s then LogsLoading
      else if truthy (sd_logsError s) then LogsFailed (the (sd_logsError s))
      else if sd_logs s = [] then NoLogs
      else LogLines (length (filter (\<lambda>l. l \<noteq> []) (split_on newline (sd_logs s)))) (sd_logs s))"

definition condition_text :: "RunCondition option \<Rightarrow> string" where
  "condition_text c = (case c of Some OnFail \<Rightarrow> ''fail'' | _ \<Rightarrow> ''success'')"

definition restart_text :: "RestartPolicy \<Rightarrow> string" where
  "restart_text r = (case r of Never \<Rightarrow> ''Never'' | OnFailure \<Rightarrow> ''OnFailure'' | Always \<Rightarrow> ''Always'')"

text \<open>The rows of the tab \<open>Spec\<close>, for the step that is selected.\<close>

definition renderSpec :: "PipelineStep \<Rightarrow> (string \<times> string) list" where
  "renderSpec step =
     (let container = first_container step; job = ps_jobSpec step
      in [(''Image'', str_or (Option.bind container ct_image) ''-''),
          (''Command'', str_or (map_option (js_join '' '') (Option.bind container ct_command)) ''-''),
          (''Restart Policy'', restart_text (pod_restartPolicy (pts_spec (js_template job)))),
          (''Backoff Limit'', int_str (case js_backoffLimit job of None \<Rightarrow> 6 | Some n \<Rightarrow> n))] @
         (case ps_runIf step of
            None \<Rightarrow> []
          | Some ri \<Rightarrow> [(''Run If'', condition_text (ri_condition ri) @ '' of '' @ js_join '', '' (ri_steps ri))]))"

text \<open>The rows of the tab \<open>Debug\<close>: class, reason and message.\<close>

definition renderDebug :: "StepDetail \<Rightarrow> (string \<times> string \<times> string) list" where
  "renderDebug s = map (\<lambda>e. (toLowerCase (ke_type e), ke_reason e, ke_message e)) (sd_events s)"

datatype TabView = NoStep | LogsTab LogView | SpecTab "(string \<times> string) list"
  | DebugTab "(string \<times> string \<times> string) list" | NothingTab

definition renderTabContent :: "StepDetail \<Rightarrow> TabView" where
  "renderTabContent s =
     (case sd_step s of
        None \<Rightarrow> NoStep
      | Some step \<Rightarrow>
          if sd_activeTab s = 0 then LogsTab (renderLogs s)
          else if sd_activeTab s = 1 then SpecTab (renderSpec step)
          else if sd_activeTab s = 2 then DebugTab (renderDebug s) else NothingTab)"

subsection \<open>Properties\<close>

definition fresh_keys :: "StepDetail \<Rightarrow> bool" where
  "fresh_keys s =
     list_all (\<lambda>x. fst x < sd_next s) (sd_podsPending s @ sd_logsPending s @ sd_eventsPending s)"

lemma drop_fresh: "list_all (\<lambda>x. fst x < k) pending \<Longrightarrow> drop_key k pending = pending"
  by (induction pending) (auto simp: drop_key_def)

lemma drop_key_append [simp]: "drop_key k (xs @ ys) = drop_key k xs @ drop_key k ys"
  by (simp add: drop_key_def)

lemma drop_key_same [simp]: "drop_key k [(k, job)] = []"
  by (simp add: drop_key_def)

lemma lookup_fresh: "list_all (\<lambda>x. fst x < (k :: nat)) pending \<Longrightarrow> map_of pending k = None"
  by (induction pending) auto

lemma list_all_drop_key: "list_all P pending \<Longrightarrow> list_all P (drop_key k pending)"
  by (simp add: drop_key_def list_all_iff)

lemma fresh_keys_pods: "fresh_keys s \<Longrightarrow> list_all (\<lambda>x. fst x < sd_next s) (sd_podsPending s)"
  and fresh_keys_logs: "fresh_keys s \<Longrightarrow> list_all (\<lambda>x. fst x < sd_next s) (sd_logsPending s)"
  by (simp_all add: fresh_keys_def)

lemmas load_defs = loadLogs_def logs_failed_def logs_finally_def pods_answer_def logs_answer_def
  take_logs_def

definition error_at_start :: "StepDetail \<Rightarrow> string option" where
  "error_at_start s = (if sd_initialLogsLoad s then None else sd_logsError s)"

lemma loadLogs_now_failed:
  assumes "job_of s = Some job" and "fresh_keys s"
    and "listPods podFetch base (sd_namespace s) (''job-name='' @ job) = Inl e"
  shows "loadLogs_now podFetch logFetch base s =
    s\<lparr>sd_logsError := Some (message_or e ''Failed to load logs''), sd_logsLoading := False,
      sd_initialLogsLoad := False, sd_next := sd_next s + 1\<rparr>"
  using assms fresh_keys_pods [OF assms(2)]
  by (simp add: loadLogs_now_def load_defs drop_fresh lookup_fresh map_add_def)

lemma loadLogs_now_no_pod:
  assumes "job_of s = Some job" and "fresh_keys s"
    and "listPods podFetch base (sd_namespace s) (''job-name='' @ job) = Inr []"
  shows "loadLogs_now podFetch logFetch base s =
    s\<lparr>sd_logs := [], sd_logsError := error_at_start s, sd_logsLoading := False,
      sd_initialLogsLoad := False, sd_next := sd_next s + 1\<rparr>"
  using assms fresh_keys_pods [OF assms(2)]
  by (simp add: loadLogs_now_def load_defs drop_fresh lookup_fresh map_add_def error_at_start_def)

lemma loadLogs_now_pod:
  assumes "job_of s = Some job" and "fresh_keys s"
    and "listPods podFetch base (sd_namespace s) (''job-name='' @ job) = Inr (pod # pods)"
  shows "loadLogs_now podFetch logFetch base s =
    (case getPodLogs logFetch base (sd_namespace s) (pi_name pod) tail_options of
       Inl e \<Rightarrow> s\<lparr>sd_logsError := Some (message_or e ''Failed to load logs''), sd_logsLoading := False,
                sd_initialLogsLoad := False, sd_next := sd_next s + 1\<rparr>
     | Inr t \<Rightarrow> s\<lparr>sd_logs := t,
                sd_logsError := (if t \<noteq> sd_logs s then None else error_at_start s),
                sd_logsLoading := False, sd_initialLogsLoad := False, sd_next := sd_next s + 1\<rparr>)"
  using assms fresh_keys_pods [OF assms(2)] fresh_keys_logs [OF assms(2)]
  by (simp add: loadLogs_now_def load_defs drop_fresh lookup_fresh map_add_def error_at_start_def
      split: sum.splits)


text \<open>
  A load of the logs of a job ends in exactly one of four ways: the pods or
  the logs cannot be fetched, and the message is shown with the old logs kept; the job has no pod,
  and there are no logs; or the logs of its first pod are shown.  In each of them the spinner is
  gone.  The error of an earlier load goes away only when the new logs differ from the old ones.
\<close>

theorem loadLogs_outcome:
  assumes "job_of s = Some job" and "fresh_keys s"
  shows "let s' = loadLogs_now podFetch logFetch base s
    in \<not> sd_logsLoading s' \<and>
       (case listPods podFetch base (sd_namespace s) (''job-name='' @ job) of
          Inl e \<Rightarrow> sd_logs s' = sd_logs s \<and>
            sd_logsError s' = Some (message_or e ''Failed to load logs'')
        | Inr [] \<Rightarrow> sd_logs s' = [] \<and> sd_logsError s' = error_at_start s
        | Inr (pod # _) \<Rightarrow>
            (case getPodLogs logFetch base (sd_namespace s) (pi_name pod) tail_options of
               Inl e \<Rightarrow> sd_logs s' = sd_logs s \<and>
                 sd_logsError s' = Some (message_or e ''Failed to load logs'')
             | Inr t \<Rightarrow> sd_logs s' = t \<and>
                 sd_logsError s' = (if t \<noteq> sd_logs s then None else error_at_start s)))"
proof (cases "listPods podFetch base (sd_namespace s) (''job-name='' @ job)")
  case (Inl e)
  then show ?thesis by (simp add: loadLogs_now_failed [OF assms Inl])
next
  case (Inr pods)
  show ?thesis
  proof (cases pods)
    case Nil
    then show ?thesis using Inr by (simp add: loadLogs_now_no_pod [OF assms])
  next
    case (Cons pod rest)
    then show ?thesis using Inr by (simp add: loadLogs_now_pod [OF assms] split: sum.splits)
  qed
qed

definition running :: "string \<Rightarrow> string \<Rightarrow> StepStatus" where
  "running name job =
     \<lparr>ss_name = name, ss_phase = StRunning, ss_jobName = Some job, ss_jobStatus = None\<rparr>"

definition answering :: "string \<Rightarrow> 'a \<Rightarrow> 'a fetch" where
  "answering t x = (\<lambda>_. Inr \<lparr>rs_status = 200, rs_text = t, rs_parsed = Inr JNull, rs_typed = x\<rparr>)"

definition watching :: "string \<Rightarrow> StepDetail" where
  "watching logs =
     step_detail_start\<lparr>sd_status := Some (running ''build'' ''ci-build''), sd_logs := logs,
       sd_initialLogsLoad := False, sd_currentJobName := Some ''ci-build''\<rparr>"

definition one_pod :: PodInfo where
  "one_pod = \<lparr>pi_name = ''ci-build-x'', pi_namespace = ''default'', pi_phase = ''Running''\<rparr>"

lemma watching_ready: "job_of (watching logs) = Some ''ci-build''" "fresh_keys (watching logs)"
  by (simp_all add: watching_def job_of_def running_def truthy_def fresh_keys_def step_detail_start_def)

lemma listPods_answering:
  "listPods (answering t (Some pods)) base namespace sel = Inr pods"
  by (simp add: listPods_def list_items_def request_def answering_def rs_ok_def list_or_def read_json_def)

lemma getPodLogs_answering: "getPodLogs (answering t x) base namespace pod tail_options = Inr t"
  by (simp add: getPodLogs_def answering_def rs_ok_def read_text_def Let_def)

theorem loadLogs_outcome_witness:
  "sd_logs (loadLogs_now (answering [] (Some [one_pod])) (answering ''ok'' ()) [] (watching ''old'')) = ''ok''"
  using loadLogs_outcome [OF watching_ready, of "answering [] (Some [one_pod])" "answering ''ok'' ()" "[]" "''old''"]
  by (simp add: Let_def listPods_answering getPodLogs_answering)


lemma load_same_logs:
  assumes "job_of s = Some job" and "fresh_keys s" and "\<not> sd_initialLogsLoad s" and "\<not> sd_logsLoading s"
    and "listPods podFetch base (sd_namespace s) (''job-name='' @ job) = Inr (pod # pods)"
    and "getPodLogs logFetch base (sd_namespace s) (pi_name pod) tail_options = Inr (sd_logs s)"
  shows "loadLogs_now podFetch logFetch base s = s\<lparr>sd_next := sd_next s + 1\<rparr>"
  using assms(3,4,6) by (simp add: loadLogs_now_pod [OF assms(1,2,5)] error_at_start_def)

lemma fresh_more: "fresh_keys s \<Longrightarrow> fresh_keys (s\<lparr>sd_next := sd_next s + n\<rparr>)"
  by (auto simp: fresh_keys_def elim!: list.pred_mono_strong)

lemma reloads_same_logs:
  assumes "job_of s = Some job" and "fresh_keys s" and "\<not> sd_initialLogsLoad s" and "\<not> sd_logsLoading s"
    and "listPods podFetch base (sd_namespace s) (''job-name='' @ job) = Inr (pod # pods)"
    and "getPodLogs logFetch base (sd_namespace s) (pi_name pod) tail_options = Inr (sd_logs s)"
  shows "(loadLogs_now podFetch logFetch base ^^ n) s = s\<lparr>sd_next := sd_next s + n\<rparr>"
proof (induction n)
  case (Suc n)
  let ?s = "s\<lparr>sd_next := sd_next s + n\<rparr>"
  have "job_of ?s = job_of s" by (simp add: job_of_def)
  moreover have "fresh_keys ?s" by (rule fresh_more [OF assms(2)])
  ultimately have "loadLogs_now podFetch logFetch base ?s = ?s\<lparr>sd_next := sd_next ?s + 1\<rparr>"
    by (intro load_same_logs [where job = job and pod = pod and pods = pods])
       (use assms in simp_all)
  with Suc.IH show ?case by simp
qed simp

text \<open>
  When a load has failed and the loads after it succeed with the logs
  that were there before the failure, the error stays on the screen, however many of them succeed.
\<close>

theorem recovered_error_stays:
  assumes "job_of s = Some job" and "fresh_keys s" and "\<not> sd_initialLogsLoad s" and "\<not> sd_logsLoading s"
    and "renderLogs s = LogsFailed e"
    and "listPods podFetch base (sd_namespace s) (''job-name='' @ job) = Inr (pod # pods)"
    and "getPodLogs logFetch base (sd_namespace s) (pi_name pod) tail_options = Inr (sd_logs s)"
  shows "renderLogs ((loadLogs_now podFetch logFetch base ^^ n) s) = LogsFailed e"
proof -
  have "renderLogs (s\<lparr>sd_next := k\<rparr>) = renderLogs s" for k by (simp add: renderLogs_def)
  with assms(5) show ?thesis
    by (simp only: reloads_same_logs [OF assms(1-4,6,7)])
qed

definition disturbed :: StepDetail where
  "disturbed = loadLogs_now (refusing (Some [])) (answering ''ok'' ()) [] (watching ''ok'')"

lemma listPods_refusing: "listPods (refusing x) base namespace sel = Inl (ErrorObj ''Error'' ''forbidden'')"
  by (simp add: listPods_def list_items_def request_def refusing_def rs_ok_def read_json_def
      error_message_def error_property_def text_or_def)

lemma disturbed_eq:
  "disturbed = (watching ''ok'')\<lparr>sd_logsError := Some ''forbidden'', sd_logsLoading := False,
     sd_initialLogsLoad := False, sd_next := 1\<rparr>"
  unfolding disturbed_def
  by (subst loadLogs_now_failed [OF watching_ready listPods_refusing])
     (simp add: message_or_def watching_def step_detail_start_def text_or_def)

theorem recovered_error_stays_witness:
  "renderLogs ((loadLogs_now (answering [] (Some [one_pod])) (answering ''ok'' ()) [] ^^ 100) disturbed) =
     LogsFailed ''forbidden''"
proof (rule recovered_error_stays)
  show "job_of disturbed = Some ''ci-build''"
    using watching_ready(1) [of "''ok''"] by (simp add: disturbed_eq job_of_def)
  show "fresh_keys disturbed"
    by (simp add: disturbed_eq fresh_keys_def watching_def step_detail_start_def)
  show "renderLogs disturbed = LogsFailed ''forbidden''"
    by (simp add: disturbed_eq renderLogs_def truthy_def)
  show "getPodLogs (answering ''ok'' ()) [] (sd_namespace disturbed) (pi_name one_pod) tail_options =
      Inr (sd_logs disturbed)"
    by (simp add: getPodLogs_answering disturbed_eq watching_def)
qed (simp_all add: disturbed_eq listPods_answering)

text \<open>
  When another step is selected that has no job yet, nothing is loaded
  and nothing is cleared: the panel shows the logs and the events of the step selected before.
\<close>

theorem logs_of_previous_step:
  assumes "sd_activeTab s = 0" and "\<not> sd_logsLoading s" and "sd_logsError s = None"
    and "sd_logs s \<noteq> []" and "\<not> truthy (ss_jobName st)"
  shows "let s' = set_props (Some step) (Some st) namespace s
    in (\<exists>n. renderTabContent s' = LogsTab (LogLines n (sd_logs s))) \<and>
       renderDebug s' = renderDebug s \<and> sd_next s' = sd_next s"
  using assms
  by (simp add: set_props_def sd_updated_def job_of_def Let_def renderTabContent_def renderLogs_def
      truthy_def renderDebug_def)

theorem logs_of_previous_step_witness:
  "let s' = set_props (Some (createDefaultStep ''deploy''))
       (Some \<lparr>ss_name = ''deploy'', ss_phase = StPending, ss_jobName = None, ss_jobStatus = None\<rparr>)
       ''default'' (watching ''compiled'')
   in \<exists>n. renderTabContent s' = LogsTab (LogLines n ''compiled'')"
  using logs_of_previous_step [of "watching ''compiled''"
      "\<lparr>ss_name = ''deploy'', ss_phase = StPending, ss_jobName = None, ss_jobStatus = None\<rparr>"
      "createDefaultStep ''deploy''" "''default''"]
  by (simp add: Let_def watching_def step_detail_start_def truthy_def)


subsubsection \<open>Runs\<close>

definition detail_ok :: "StepDetail \<Rightarrow> bool" where
  "detail_ok s =
     (sd_currentJobName s = job_of s \<and>
      (sd_logsLoading s \<longrightarrow> sd_podsPending s \<noteq> [] \<or> sd_logsPending s \<noteq> []))"

lemma loadLogs_ok: "detail_ok s \<Longrightarrow> detail_ok (loadLogs s)"
  by (auto simp: detail_ok_def loadLogs_def job_of_def split: option.splits)

lemma sd_updated_ok:
  assumes "sd_logsLoading s \<longrightarrow> sd_podsPending s \<noteq> [] \<or> sd_logsPending s \<noteq> []"
  shows "detail_ok (sd_updated s)"
  using assms
  by (auto simp: detail_ok_def sd_updated_def Let_def loadLogs_def loadEvents_def job_of_def
      split: option.splits)

lemma pods_answer_ok: "detail_ok s \<Longrightarrow> detail_ok (pods_answer key r s)"
  by (auto simp: detail_ok_def pods_answer_def logs_failed_def logs_finally_def Let_def job_of_def
      split: option.splits sum.splits list.splits)

lemma logs_answer_ok: "detail_ok s \<Longrightarrow> detail_ok (logs_answer key r s)"
  by (auto simp: detail_ok_def logs_answer_def logs_failed_def logs_finally_def take_logs_def Let_def
      job_of_def split: option.splits sum.splits)

lemma detail_step_ok: "detail_ok s \<Longrightarrow> detail_ok (detail_step s e)"
proof (cases e)
  case (Props step status namespace)
  assume "detail_ok s"
  then show ?thesis
    unfolding Props detail_step.simps set_props_def
    by (intro sd_updated_ok) (simp add: detail_ok_def)
next
  case (EventsAnswer key r)
  assume "detail_ok s"
  then show ?thesis
    by (auto simp: EventsAnswer detail_ok_def events_answer_def Let_def job_of_def
        split: option.splits sum.splits)
next
  case (ShowTab i)
  then show "detail_ok s \<Longrightarrow> ?thesis" by (simp add: detail_ok_def job_of_def)
next
  case Connected
  then show "detail_ok s \<Longrightarrow> ?thesis" by (simp add: detail_ok_def job_of_def sd_connected_def)
next
  case Disconnected
  then show "detail_ok s \<Longrightarrow> ?thesis" by (simp add: detail_ok_def job_of_def sd_disconnected_def)
qed (simp_all add: loadLogs_ok pods_answer_ok logs_answer_ok poll_logs_def)

lemma detail_run_ok: "detail_ok s \<Longrightarrow> detail_ok (detail_run s es)"
  by (induction es arbitrary: s) (auto simp: detail_run_def detail_step_ok)

text \<open>
  C23: in every run, with answers in any order and any number of overlapping loads,
  the panel follows the job of the step it shows, and once every request for pods and logs has
  been answered the spinner is gone.
\<close>

theorem spinner_ends:
  assumes "sd_podsPending (detail_run step_detail_start es) = []"
    and "sd_logsPending (detail_run step_detail_start es) = []"
  shows "renderLogs (detail_run step_detail_start es) \<noteq> LogsLoading \<and>
    sd_currentJobName (detail_run step_detail_start es) = job_of (detail_run step_detail_start es)"
proof -
  have "detail_ok step_detail_start" by (simp add: detail_ok_def step_detail_start_def job_of_def)
  from detail_run_ok [OF this, of es] show ?thesis
    using assms by (simp add: detail_ok_def renderLogs_def)
qed

lemmas detail_run_defs = detail_run_def set_props_def sd_updated_def loadLogs_def loadEvents_def
  pods_answer_def logs_answer_def logs_finally_def take_logs_def job_of_def running_def truthy_def
  step_detail_start_def drop_key_def sd_connected_def poll_logs_def

theorem spinner_ends_witness:
  "renderLogs (detail_run step_detail_start
     [Connected, Props (Some (createDefaultStep ''build'')) (Some (running ''build'' ''ci-build'')) ''default'',
      Tick, PodsAnswer 2 (Inr []), PodsAnswer 0 (Inr [one_pod]), LogsAnswer 0 (Inr ''ok'')]) \<noteq> LogsLoading"
  using spinner_ends [of "[Connected,
      Props (Some (createDefaultStep ''build'')) (Some (running ''build'' ''ci-build'')) ''default'',
      Tick, PodsAnswer 2 (Inr []), PodsAnswer 0 (Inr [one_pod]), LogsAnswer 0 (Inr ''ok'')]"]
  by (simp add: detail_run_defs Let_def)

text \<open>
  The answer of a load belongs to the job it was asked for, and nothing
  checks that it is still the one shown: when the logs of the former step arrive last, they are
  shown under the step selected since.
\<close>

theorem late_logs_shown:
  "let s = detail_run step_detail_start
       [Props (Some a) (Some (running ''build'' ''ci-build'')) ns, PodsAnswer 0 (Inr [one_pod]),
        Props (Some b) (Some (running ''test'' ''ci-test'')) ns, PodsAnswer 2 (Inr [one_pod]),
        LogsAnswer 2 (Inr logs_b), LogsAnswer 0 (Inr logs_a)]
   in sd_step s = Some b \<and> job_of s = Some ''ci-test'' \<and> sd_logs s = logs_a"
  by (simp add: detail_run_defs Let_def)

subsubsection \<open>Durations\<close>

text \<open>
  Between two readable times the duration is shown in minutes and seconds,
  rounded down to the second, with fewer than 60 seconds and without the minutes when there are
  none; a step that has not started shows a dash.
\<close>

theorem duration_shown:
  assumes "date_time a = Some t0" and "date_time b = Some t1" and "t0 \<le> t1" and "a \<noteq> []" and "b \<noteq> []"
  shows "\<exists>m s. duration_between now (Some a) (Some b) =
      (if m > 0 then int_str m @ ''m '' @ int_str s @ ''s'' else int_str s @ ''s'') \<and>
    60 * m + s = (t1 - t0) div 1000 \<and> 0 \<le> m \<and> 0 \<le> s \<and> s < 60 \<and>
    duration_between now None (Some b) = ''-''"
proof (intro exI conjI)
  let ?d = "(t1 - t0) div 1000"
  have d: "0 \<le> ?d" using assms(3) by (simp add: div_int_pos_iff)
  then have rem: "js_rem ?d 60 = ?d mod 60" by (simp add: js_rem_def)
  show "duration_between now (Some a) (Some b) =
      (if ?d div 60 > 0 then int_str (?d div 60) @ ''m '' @ int_str (?d mod 60) @ ''s''
       else int_str (?d mod 60) @ ''s'')"
    using assms by (simp add: duration_between_def duration_text_def truthy_def Let_def rem)
  show "60 * (?d div 60) + ?d mod 60 = ?d" by simp
  show "0 \<le> ?d div 60" using d by (simp add: div_int_pos_iff)
qed (simp_all add: duration_between_def truthy_def)

theorem duration_shown_witness:
  "duration_between 0 (Some ''2024-01-31T10:00:00Z'') (Some ''2024-01-31T11:01:05Z'') = ''61m 5s''"
proof -
  have "date_time ''2024-01-31T10:00:00Z'' = Some 1706695200000" by code_simp
  moreover have "date_time ''2024-01-31T11:01:05Z'' = Some 1706698865000" by code_simp
  ultimately obtain m s where dur: "duration_between 0 (Some ''2024-01-31T10:00:00Z'')
      (Some ''2024-01-31T11:01:05Z'') =
      (if m > 0 then int_str m @ ''m '' @ int_str s @ ''s'' else int_str s @ ''s'')"
    and ms: "60 * m + s = 3665" "0 \<le> s" "s < 60"
    using duration_shown [of "''2024-01-31T10:00:00Z''" 1706695200000 "''2024-01-31T11:01:05Z''" 1706698865000 0]
    by auto
  from ms have m: "m = 61" by presburger
  with ms(1) have s: "s = 5" by simp
  show ?thesis unfolding dur m s by code_simp
qed

end
