(* ===== verification/Pipeline_Detail.thy ===== *)
theory Pipeline_Detail
  imports Step_Detail App_Router
begin

section \<open>The page of a pipeline (\<open>ui/src/components/monitor/pipeline-detail.ts\<close>)\<close>

text \<open>
  The page loads the pipeline named in the address every three seconds, lays its graph out, and
  shows the graph, the time line and the details of a selected step.  \<open>loadPipeline\<close> waits twice,
  for the pipeline and for the layout; as in \<open>Step_Detail\<close> a request is a key and an answer is an
  event.  The layout engine is a parameter.  What is computed while the page is
  built is here: the size of the canvas, the ends of the edges, the rows of the time line, and the
  cached step given to the panel; the template is in \<open>Detail_View\<close>.
\<close>

record PipelineDetail =
  pd_location :: "string obj"
  pd_pipeline :: "Pipeline option"
  pd_loading :: bool
  pd_error :: "string option"
  pd_selectedStep :: "string option"
  pd_activeTab :: nat
  pd_graph :: "PipelineGraph option"
  pd_openMenuId :: "string option"
  pd_cachedStep :: "PipelineStep option"
  pd_cachedStatus :: "StepStatus option"
  pd_cachedStepName :: "string option"
  pd_polling :: bool
  pd_listening :: bool
  pd_next :: nat
  pd_fetching :: "nat list"
  pd_layouting :: "(nat \<times> PipelineGraph) list"

definition pipeline_detail_start :: "string obj \<Rightarrow> PipelineDetail" where
  "pipeline_detail_start params =
     \<lparr>pd_location = params, pd_pipeline = None, pd_loading = True, pd_error = None,
      pd_selectedStep = None, pd_activeTab = 0, pd_graph = None, pd_openMenuId = None,
      pd_cachedStep = None, pd_cachedStatus = None, pd_cachedStepName = None,
      pd_polling = False, pd_listening = False, pd_next = 0, pd_fetching = [], pd_layouting = []\<rparr>"

definition pd_params :: "PipelineDetail \<Rightarrow> string \<times> string" where
  "pd_params s =
     (str_or (map_of (pd_location s) ''namespace'') ''default'',
      str_or (map_of (pd_location s) ''name'') [])"

subsection \<open>Loading\<close>

definition loadPipeline :: "PipelineDetail \<Rightarrow> PipelineDetail" where
  "loadPipeline s =
     (if snd (pd_params s) = [] then s
      else s\<lparr>pd_fetching := pd_fetching s @ [pd_next s], pd_next := pd_next s + 1\<rparr>)"

definition load_failed :: "thrown \<Rightarrow> PipelineDetail \<Rightarrow> PipelineDetail" where
  "load_failed e s =
     s\<lparr>pd_error := Some (message_or e ''Failed to load pipeline''), pd_loading := False\<rparr>"

definition pipeline_answer :: "nat \<Rightarrow> Pipeline outcome \<Rightarrow> PipelineDetail \<Rightarrow> PipelineDetail" where
  "pipeline_answer key r s =
     (if key \<notin> set (pd_fetching s) then s
      else (let s' = s\<lparr>pd_fetching := filter (\<lambda>k. k \<noteq> key) (pd_fetching s)\<rparr>
            in case r of
                 Inl e \<Rightarrow> load_failed e s'
               | Inr p \<Rightarrow> s'\<lparr>pd_pipeline := Some p, pd_error := None,
                   pd_layouting := pd_layouting s' @ [(key, pipelineToGraph p)]\<rparr>))"

definition layout_answer ::
    "(ElkNode \<Rightarrow> ElkPlaced list option outcome) \<Rightarrow> nat \<Rightarrow> PipelineDetail \<Rightarrow> PipelineDetail" where
  "layout_answer elk key s =
     (case map_of (pd_layouting s) key of
        None \<Rightarrow> s
      | Some rawGraph \<Rightarrow>
          (let s' = s\<lparr>pd_layouting := filter (\<lambda>x. fst x \<noteq> key) (pd_layouting s)\<rparr>
           in case layoutGraph elk rawGraph of
                Inl e \<Rightarrow> load_failed e s'
              | Inr g \<Rightarrow> s'\<lparr>pd_graph := Some g, pd_loading := False\<rparr>))"

text \<open>The load when every answer comes before anything else happens.\<close>

definition loadPipeline_now ::
    "Pipeline fetch \<Rightarrow> string \<Rightarrow> (ElkNode \<Rightarrow> ElkPlaced list option outcome) \<Rightarrow>
     PipelineDetail \<Rightarrow> PipelineDetail" where
  "loadPipeline_now fetch base elk s =
     (if snd (pd_params s) = [] then s
      else layout_answer elk (pd_next s)
        (pipeline_answer (pd_next s)
          (getPipeline fetch base (fst (pd_params s)) (snd (pd_params s))) (loadPipeline s)))"

subsection \<open>Menus, selection and life cycle\<close>

definition pd_closeMenu :: "PipelineDetail \<Rightarrow> PipelineDetail" where
  "pd_closeMenu s = s\<lparr>pd_openMenuId := None\<rparr>"

definition pd_toggleMenu :: "string \<Rightarrow> PipelineDetail \<Rightarrow> PipelineDetail" where
  "pd_toggleMenu stepName s =
     s\<lparr>pd_openMenuId := (if pd_openMenuId s = Some stepName then None else Some stepName)\<rparr>"

definition pd_handleDocumentClick :: "PipelineDetail \<Rightarrow> PipelineDetail" where
  "pd_handleDocumentClick s = (if pd_listening s then pd_closeMenu s else s)"

definition pd_connected :: "PipelineDetail \<Rightarrow> PipelineDetail" where
  "pd_connected s = (loadPipeline s)\<lparr>pd_polling := True, pd_listening := True\<rparr>"

definition pd_disconnected :: "PipelineDetail \<Rightarrow> PipelineDetail" where
  "pd_disconnected s = s\<lparr>pd_polling := False, pd_listening := False\<rparr>"

definition pd_selectStep :: "string \<Rightarrow> PipelineDetail \<Rightarrow> PipelineDetail" where
  "pd_selectStep stepName s = s\<lparr>pd_selectedStep := Some stepName\<rparr>"

definition pd_closeDrawer :: "PipelineDetail \<Rightarrow> PipelineDetail" where
  "pd_closeDrawer s = s\<lparr>pd_selectedStep := None\<rparr>"

definition node_keydown :: "string \<Rightarrow> string \<Rightarrow> PipelineDetail \<Rightarrow> PipelineDetail" where
  "node_keydown key nodeId s = (if key = ''Enter'' \<or> key = '' '' then pd_selectStep nodeId s else s)"

definition menu_view_details :: "string \<Rightarrow> PipelineDetail \<Rightarrow> PipelineDetail" where
  "menu_view_details stepName s = pd_selectStep stepName (pd_closeMenu s)"

text \<open>The effects of a deletion: a navigation to the list, an alert, or nothing.\<close>

datatype delete_effect = NoEffect | NavigateTo string | Alert string

definition pd_deletePipeline :: "bool \<Rightarrow> 'a fetch \<Rightarrow> string \<Rightarrow> PipelineDetail \<Rightarrow> delete_effect" where
  "pd_deletePipeline confirmed fetch base s =
     (case pd_pipeline s of
        None \<Rightarrow> NoEffect
      | Some p \<Rightarrow>
          if \<not> confirmed then NoEffect
          else (case deletePipeline_request fetch base
                  (str_or (om_namespace (pl_metadata p)) ''default'') (om_name (pl_metadata p)) of
                  Inr _ \<Rightarrow> NavigateTo ''/pipelines''
                | Inl e \<Rightarrow> Alert (''Failed to delete pipeline: '' @ message_or e ''Unknown error'')))"

definition pd_formatDuration :: "int \<Rightarrow> string option \<Rightarrow> string option \<Rightarrow> string" where
  "pd_formatDuration now startTime endTime = duration_between now startTime endTime"

definition pd_getStepImage :: "PipelineStep \<Rightarrow> string" where
  "pd_getStepImage step = str_or (Option.bind (first_container step) ct_image) ''default''"

subsection \<open>The header\<close>

datatype PageView = PageLoading | PageError string | PageShown Pipeline

definition page_view :: "PipelineDetail \<Rightarrow> PageView" where
  "page_view s =
     (if pd_loading s then PageLoading
      else (case pd_pipeline s of
              None \<Rightarrow> PageError (str_or (pd_error s) ''Pipeline not found'')
            | Some p \<Rightarrow> if truthy (pd_error s) then PageError (the (pd_error s)) else PageShown p))"

definition steps_done :: "Pipeline \<Rightarrow> nat \<times> nat" where
  "steps_done p =
     ((case pl_status p of None \<Rightarrow> 0
       | Some st \<Rightarrow> length (filter (\<lambda>t. ss_phase t = StSucceeded) (pls_steps st))),
      length (sp_steps (pl_spec p)))"

subsection \<open>The details of the selected step\<close>

definition job_field :: "(JobStatus \<Rightarrow> 'a option) \<Rightarrow> StepStatus \<Rightarrow> 'a option" where
  "job_field f st = Option.bind (ss_jobStatus st) f"

definition hasStatusChanged :: "StepStatus option \<Rightarrow> StepStatus option \<Rightarrow> bool" where
  "hasStatusChanged oldStatus newStatus =
     (case (oldStatus, newStatus) of
        (None, None) \<Rightarrow> False
      | (Some a, Some b) \<Rightarrow>
          ss_phase a \<noteq> ss_phase b \<or> ss_jobName a \<noteq> ss_jobName b \<or>
          job_field jst_succeeded a \<noteq> job_field jst_succeeded b \<or>
          job_field jst_failed a \<noteq> job_field jst_failed b \<or>
          job_field jst_completionTime a \<noteq> job_field jst_completionTime b
      | _ \<Rightarrow> True)"

definition selected_spec :: "PipelineDetail \<Rightarrow> PipelineStep option" where
  "selected_spec s =
     Option.bind (pd_pipeline s) (\<lambda>p.
       List.find (\<lambda>t. Some (ps_name t) = pd_selectedStep s) (sp_steps (pl_spec p)))"

definition selected_status :: "PipelineDetail \<Rightarrow> StepStatus option" where
  "selected_status s =
     Option.bind (pd_pipeline s) (\<lambda>p. Option.bind (pl_status p) (\<lambda>st.
       List.find (\<lambda>t. Some (ss_name t) = pd_selectedStep s) (pls_steps st)))"

text \<open>The new cache, and the step, status and namespace given to the panel, if it is shown.\<close>

definition renderStepDetails ::
    "PipelineDetail \<Rightarrow> PipelineDetail \<times> (PipelineStep option \<times> StepStatus option \<times> string) option" where
  "renderStepDetails s =
     (case selected_spec s of
        None \<Rightarrow> (s, None)
      | Some step \<Rightarrow>
          (let stepChanged = pd_cachedStepName s \<noteq> pd_selectedStep s;
               statusChanged = hasStatusChanged (pd_cachedStatus s) (selected_status s);
               s' = (if stepChanged \<or> statusChanged \<or> pd_cachedStep s = None
                     then s\<lparr>pd_cachedStep := Some step, pd_cachedStatus := selected_status s,
                            pd_cachedStepName := pd_selectedStep s\<rparr>
                     else s);
               namespace = (case pd_pipeline s of None \<Rightarrow> ''default''
                            | Some p \<Rightarrow> str_or (om_namespace (pl_metadata p)) ''default'')
           in (s', Some (pd_cachedStep s', pd_cachedStatus s', namespace))))"

text \<open>One rendering of the page: the details are rendered when the page is shown and a step is selected.\<close>

definition render_page :: "PipelineDetail \<Rightarrow> PipelineDetail" where
  "render_page s =
     (case page_view s of
        PageShown _ \<Rightarrow> if truthy (pd_selectedStep s) then fst (renderStepDetails s) else s
      | _ \<Rightarrow> s)"

datatype page_event =
    PageConnected
  | PageDisconnected
  | PollTimer
  | RefreshClick
  | PipelineAnswer nat "Pipeline outcome"
  | LayoutAnswer nat
  | SelectStep string
  | CloseDrawer
  | NodeKey string string
  | ToggleMenu string
  | MenuDetails string
  | DocumentClick
  | PageTab nat

fun page_step ::
    "(ElkNode \<Rightarrow> ElkPlaced list option outcome) \<Rightarrow> PipelineDetail \<Rightarrow> page_event \<Rightarrow> PipelineDetail" where
  "page_step elk s PageConnected = render_page (pd_connected s)"
| "page_step elk s PageDisconnected = pd_disconnected s"
| "page_step elk s PollTimer = (if pd_polling s then render_page (loadPipeline s) else s)"
| "page_step elk s RefreshClick = render_page (loadPipeline s)"
| "page_step elk s (PipelineAnswer key r) = render_page (pipeline_answer key r s)"
| "page_step elk s (LayoutAnswer key) = render_page (layout_answer elk key s)"
| "page_step elk s (SelectStep n) = render_page (pd_selectStep n s)"
| "page_step elk s CloseDrawer = render_page (pd_closeDrawer s)"
| "page_step elk s (NodeKey key n) = render_page (node_keydown key n s)"
| "page_step elk s (ToggleMenu n) = render_page (pd_toggleMenu n s)"
| "page_step elk s (MenuDetails n) = render_page (menu_view_details n s)"
| "page_step elk s DocumentClick = render_page (pd_handleDocumentClick s)"
| "page_step elk s (PageTab i) = render_page (s\<lparr>pd_activeTab := i\<rparr>)"

definition page_run ::
    "(ElkNode \<Rightarrow> ElkPlaced list option outcome) \<Rightarrow> PipelineDetail \<Rightarrow> page_event list \<Rightarrow> PipelineDetail" where
  "page_run elk s es = foldl (page_step elk) s es"

subsection \<open>The graph\<close>

definition nodeWidth :: rat where
  "nodeWidth = 240"

definition nodeHeight :: rat where
  "nodeHeight = 100"

definition canvas_size :: "PipelineGraph \<Rightarrow> rat \<times> rat" where
  "canvas_size g =
     (foldl (\<lambda>m n. max m (nd_x n + nodeWidth)) 0 (gr_nodes g) + 20,
      foldl (\<lambda>m n. max m (nd_y n + nodeHeight)) 0 (gr_nodes g) + 20)"

text \<open>A \<open>Map\<close> filled in the order of the nodes: the last node of an id stays.\<close>

definition nodePositions :: "PipelineGraph \<Rightarrow> string \<Rightarrow> (rat \<times> rat) option" where
  "nodePositions g = map_of (rev (map (\<lambda>n. (nd_id n, (nd_x n, nd_y n))) (gr_nodes g)))"

text \<open>
  The edges of the array are distinct objects, so that \<open>indexOf\<close> among the edges with the same end
  is the number of such edges before this one.
\<close>

definition edge_index :: "(PipelineEdge \<Rightarrow> string) \<Rightarrow> PipelineEdge list \<Rightarrow> nat \<Rightarrow> nat" where
  "edge_index f es i = length (filter (\<lambda>e. f e = f (es ! i)) (take i es))"

definition edge_count :: "(PipelineEdge \<Rightarrow> string) \<Rightarrow> PipelineEdge list \<Rightarrow> nat \<Rightarrow> nat" where
  "edge_count f es i = length (filter (\<lambda>e. f e = f (es ! i)) es)"

definition spread_offset :: "nat \<Rightarrow> nat \<Rightarrow> rat" where
  "spread_offset n index =
     (let centerX = nodeWidth / 2;
          spread = min 120 ((of_nat n - 1) * 25);
          startX = centerX - spread / 2;
          spacing = (if n > 1 then spread / (of_nat n - 1) else 0)
      in if n > 1 then startX + of_nat index * spacing else centerX)"

record EdgeLine =
  ln_x1 :: rat
  ln_y1 :: rat
  ln_x2 :: rat
  ln_y2 :: rat
  ln_control :: rat
  ln_class :: string
  ln_marker :: string

definition edge_class :: "EdgeType \<Rightarrow> string" where
  "edge_class t =
     (case t of FailureEdge \<Rightarrow> ''failure'' | SuccessEdge \<Rightarrow> ''success'' | Sequential \<Rightarrow> [])"

definition edge_marker :: "EdgeType \<Rightarrow> string" where
  "edge_marker t =
     (case t of FailureEdge \<Rightarrow> ''arrow-failure'' | SuccessEdge \<Rightarrow> ''arrow-success'' | Sequential \<Rightarrow> ''arrow'')"

definition edge_line :: "PipelineGraph \<Rightarrow> nat \<Rightarrow> EdgeLine option" where
  "edge_line g i =
     (let es = gr_edges g; edge = es ! i
      in case (nodePositions g (eg_source edge), nodePositions g (eg_target edge)) of
           (Some (sx, sy), Some (tx, ty)) \<Rightarrow>
             (let x1 = sx + spread_offset (edge_count eg_source es i) (edge_index eg_source es i);
                  y1 = sy + nodeHeight;
                  x2 = tx + spread_offset (edge_count eg_target es i) (edge_index eg_target es i);
                  y2 = ty - 2
              in Some \<lparr>ln_x1 = x1, ln_y1 = y1, ln_x2 = x2, ln_y2 = y2,
                   ln_control = max (\<bar>y2 - y1\<bar> * (2 / 5)) 20,
                   ln_class = edge_class (eg_type edge), ln_marker = edge_marker (eg_type edge)\<rparr>)
         | _ \<Rightarrow> None)"

definition graph_lines :: "PipelineGraph \<Rightarrow> EdgeLine list" where
  "graph_lines g = List.map_filter (edge_line g) [0..<length (gr_edges g)]"

text \<open>Class, position, status, name and image of a node, and whether it is selected.\<close>

record NodeBox =
  bx_phase :: string
  bx_left :: rat
  bx_top :: rat
  bx_badge :: string
  bx_name :: string
  bx_image :: string
  bx_selected :: bool

definition node_box :: "PipelineDetail \<Rightarrow> PipelineNode \<Rightarrow> NodeBox" where
  "node_box s n =
     \<lparr>bx_phase = (case nd_status n of None \<Rightarrow> ''pending''
                  | Some st \<Rightarrow> toLowerCase (step_phase_text (ss_phase st))),
      bx_left = nd_x n, bx_top = nd_y n,
      bx_badge = (case nd_status n of None \<Rightarrow> ''Pending'' | Some st \<Rightarrow> step_phase_text (ss_phase st)),
      bx_name = ps_name (nd_step n), bx_image = pd_getStepImage (nd_step n),
      bx_selected = (pd_selectedStep s = Some (nd_id n))\<rparr>"

subsection \<open>The time line\<close>

text \<open>A row for every step of the specification; how a time of day is written is a parameter.\<close>

definition timeline_status :: "Pipeline \<Rightarrow> PipelineStep \<Rightarrow> StepStatus option" where
  "timeline_status p step =
     Option.bind (pl_status p) (\<lambda>st. List.find (\<lambda>t. ss_name t = ps_name step) (pls_steps st))"

record TimelineRow =
  tl_name :: string
  tl_badge :: string
  tl_started :: string
  tl_duration :: string
  tl_menuOpen :: bool

definition timeline_row ::
    "(string \<Rightarrow> string) \<Rightarrow> int \<Rightarrow> PipelineDetail \<Rightarrow> Pipeline \<Rightarrow> PipelineStep \<Rightarrow> TimelineRow" where
  "timeline_row localeTime now s p step =
     (let status = timeline_status p step
      in \<lparr>tl_name = ps_name step,
          tl_badge = (case status of None \<Rightarrow> ''Pending'' | Some st \<Rightarrow> step_phase_text (ss_phase st)),
          tl_started = (if truthy (status_start status) then localeTime (the (status_start status)) else ''-''),
          tl_duration = pd_formatDuration now (status_start status) (status_completion status),
          tl_menuOpen = (pd_openMenuId s = Some (ps_name step))\<rparr>)"

definition renderTimeline ::
    "(string \<Rightarrow> string) \<Rightarrow> int \<Rightarrow> PipelineDetail \<Rightarrow> TimelineRow list" where
  "renderTimeline localeTime now s =
     (case pd_pipeline s of
        None \<Rightarrow> []
      | Some p \<Rightarrow> map (timeline_row localeTime now s p) (sp_steps (pl_spec p)))"

definition renderYaml :: "(Pipeline \<Rightarrow> string) \<Rightarrow> PipelineDetail \<Rightarrow> string option" where
  "renderYaml yamlStringify s = map_option yamlStringify (pd_pipeline s)"

subsection \<open>Properties of loading\<close>

definition pd_fresh :: "PipelineDetail \<Rightarrow> bool" where
  "pd_fresh s =
     (list_all (\<lambda>k. k < pd_next s) (pd_fetching s) \<and>
      list_all (\<lambda>x. fst x < pd_next s) (pd_layouting s))"

lemma filter_fresh: "list_all (\<lambda>k. k < (n :: nat)) ks \<Longrightarrow> filter (\<lambda>k. k \<noteq> n) ks = ks"
  by (induction ks) auto

lemma filter_fresh_fst:
  "list_all (\<lambda>x. fst x < (n :: nat)) xs \<Longrightarrow> filter (\<lambda>x. fst x \<noteq> n) xs = xs"
  by (induction xs) auto

lemmas page_load_defs = loadPipeline_now_def loadPipeline_def pipeline_answer_def layout_answer_def
  load_failed_def

definition load_message :: "thrown \<Rightarrow> string" where
  "load_message e = message_or e ''Failed to load pipeline''"

lemma loadPipeline_now_eq:
  assumes "snd (pd_params s) \<noteq> []" and "pd_fresh s"
  shows "loadPipeline_now fetch base elk s =
    (case getPipeline fetch base (fst (pd_params s)) (snd (pd_params s)) of
       Inl e \<Rightarrow> s\<lparr>pd_error := Some (load_message e), pd_loading := False, pd_next := pd_next s + 1\<rparr>
     | Inr p \<Rightarrow>
         (case layoutGraph elk (pipelineToGraph p) of
            Inl e \<Rightarrow> s\<lparr>pd_pipeline := Some p, pd_error := Some (load_message e), pd_loading := False,
                      pd_next := pd_next s + 1\<rparr>
          | Inr g \<Rightarrow> s\<lparr>pd_pipeline := Some p, pd_graph := Some g, pd_error := None,
                      pd_loading := False, pd_next := pd_next s + 1\<rparr>))"
  using assms lookup_fresh [of "pd_next s" "pd_layouting s"]
  by (simp add: page_load_defs load_message_def Let_def pd_fresh_def filter_fresh filter_fresh_fst
      map_add_def split: sum.splits)

text \<open>
  A load asks for the pipeline of the address and ends in one of three
  ways: the pipeline cannot be fetched, and the message is kept with the pipeline and the graph of
  the last load; the layout fails, and its message is kept with the new pipeline and the old graph;
  or the page shows the pipeline, with the graph laid out for it.
\<close>

theorem loadPipeline_outcome:
  assumes "snd (pd_params s) \<noteq> []" and "pd_fresh s"
  shows "let s' = loadPipeline_now fetch base elk s
    in case getPipeline fetch base (fst (pd_params s)) (snd (pd_params s)) of
         Inl e \<Rightarrow> pd_error s' = Some (load_message e) \<and> pd_pipeline s' = pd_pipeline s \<and>
           pd_graph s' = pd_graph s
       | Inr p \<Rightarrow>
           (case layoutGraph elk (pipelineToGraph p) of
              Inl e \<Rightarrow> pd_error s' = Some (load_message e) \<and> pd_pipeline s' = Some p \<and>
                pd_graph s' = pd_graph s
            | Inr g \<Rightarrow> page_view s' = PageShown p \<and> pd_graph s' = Some g)"
  unfolding loadPipeline_now_eq [OF assms]
  by (simp add: Let_def page_view_def split: sum.split)

definition elk_nothing :: "ElkNode \<Rightarrow> ElkPlaced list option outcome" where
  "elk_nothing g = Inr (Some [])"

theorem loadPipeline_outcome_witness:
  "let p = createEmptyPipeline ''ci'' ''dev'';
       s = pipeline_detail_start [(''namespace'', ''dev''), (''name'', ''ci'')]
   in page_view (loadPipeline_now (answering [] p) [] elk_nothing s) = PageShown p"
  using loadPipeline_outcome [of "pipeline_detail_start [(''namespace'', ''dev''), (''name'', ''ci'')]"
      "answering [] (createEmptyPipeline ''ci'' ''dev'')" "[]" elk_nothing]
  by (simp add: Let_def pd_params_def pipeline_detail_start_def pd_fresh_def getPipeline_def request_def
      answering_def rs_ok_def read_json_def layoutGraph_def elk_nothing_def)

subsection \<open>Properties of the graph\<close>

lemma spread_offset_many:
  assumes "1 < n"
  shows "spread_offset n i =
    120 - min 120 ((of_nat n - 1) * 25) / 2 +
    of_nat i * (min 120 ((of_nat n - 1) * 25) / (of_nat n - 1))"
  using assms by (simp add: spread_offset_def Let_def nodeWidth_def)

lemma spread_positive: "1 < n \<Longrightarrow> (0 :: rat) < min 120 ((of_nat n - 1) * 25)"
  by simp

lemma spread_offset_less:
  assumes "1 < n" and "i < j"
  shows "spread_offset n i < spread_offset n j"
proof -
  have "0 < min 120 ((of_nat n - 1) * 25) / (of_nat n - 1 :: rat)"
    using spread_positive [OF assms(1)] assms(1) by (intro divide_pos_pos) simp_all
  then show ?thesis
    unfolding spread_offset_many [OF assms(1)]
    by (intro add_strict_left_mono mult_strict_right_mono) (simp_all only: of_nat_less_iff assms(2))
qed

lemma spread_offset_bounds:
  assumes "i < n"
  shows "60 \<le> spread_offset n i" and "spread_offset n i \<le> 180"
proof -
  have "60 \<le> spread_offset n i \<and> spread_offset n i \<le> 180"
  proof (cases "1 < n")
    case False
    then show ?thesis by (simp add: spread_offset_def Let_def nodeWidth_def)
  next
    case True
    let ?s = "min 120 ((of_nat n - 1) * 25) :: rat"
    have pos: "0 < (of_nat n - 1 :: rat)" using True by simp
    have "of_nat i \<le> (of_nat n - 1 :: rat)" using assms of_nat_le_iff [of "i + 1" n, where ?'a = rat] by simp
    then have "of_nat i * (?s / (of_nat n - 1)) \<le> (of_nat n - 1) * (?s / (of_nat n - 1))"
      using spread_positive [OF True] pos by (intro mult_right_mono) simp_all
    then have up: "of_nat i * (?s / (of_nat n - 1)) \<le> ?s" using pos by simp
    have low: "0 \<le> of_nat i * (?s / (of_nat n - 1))"
      using spread_positive [OF True] pos by simp
    have "?s \<le> 120" by simp
    with up low show ?thesis unfolding spread_offset_many [OF True] by linarith
  qed
  then show "60 \<le> spread_offset n i" and "spread_offset n i \<le> 180" by simp_all
qed

lemma edge_index_less_count:
  assumes "i < length es"
  shows "edge_index f es i < edge_count f es i"
proof -
  have "filter (\<lambda>e. f e = f (es ! i)) es = filter (\<lambda>e. f e = f (es ! i)) (take i es) @
      filter (\<lambda>e. f e = f (es ! i)) (drop i es)"
    by (simp flip: filter_append)
  moreover have "drop i es = es ! i # drop (Suc i) es" using assms by (simp add: Cons_nth_drop_Suc)
  ultimately show ?thesis by (simp add: edge_index_def edge_count_def)
qed

lemma edge_index_mono:
  assumes "i < j" and "j < length es" and "f (es ! i) = f (es ! j)"
  shows "edge_index f es i < edge_index f es j"
proof -
  have "drop i (take j es) = es ! i # drop (Suc i) (take j es)"
    using assms(1,2) Cons_nth_drop_Suc [of i "take j es"] by simp
  then have "take j es = take i es @ es ! i # drop (Suc i) (take j es)"
    using append_take_drop_id [of i "take j es"] assms(1) by (simp add: min_def)
  then have "length (filter (\<lambda>e. f e = f (es ! j)) (take j es)) =
      length (filter (\<lambda>e. f e = f (es ! j)) (take i es @ es ! i # drop (Suc i) (take j es)))"
    by simp
  then show ?thesis using assms(3) by (simp add: edge_index_def)
qed

lemma edge_count_same: "f (es ! i) = f (es ! j) \<Longrightarrow> edge_count f es i = edge_count f es j"
  by (simp add: edge_count_def)

lemma edge_spread:
  assumes "i < j" and "j < length es" and "f (es ! i) = f (es ! j)"
  shows "spread_offset (edge_count f es i) (edge_index f es i) <
    spread_offset (edge_count f es j) (edge_index f es j)"
proof -
  have less: "edge_index f es i < edge_index f es j" by (rule edge_index_mono [OF assms])
  moreover have "edge_index f es j < edge_count f es j" by (rule edge_index_less_count [OF assms(2)])
  ultimately have "1 < edge_count f es j" by linarith
  from spread_offset_less [OF this less] show ?thesis
    by (simp add: edge_count_same [of f es i j, OF assms(3)])
qed

lemma edge_line_Some:
  assumes "edge_line g i = Some l"
  obtains sx sy tx ty where
    "nodePositions g (eg_source (gr_edges g ! i)) = Some (sx, sy)"
    "nodePositions g (eg_target (gr_edges g ! i)) = Some (tx, ty)"
    "ln_x1 l = sx + spread_offset (edge_count eg_source (gr_edges g) i) (edge_index eg_source (gr_edges g) i)"
    "ln_x2 l = tx + spread_offset (edge_count eg_target (gr_edges g) i) (edge_index eg_target (gr_edges g) i)"
    "ln_y1 l = sy + nodeHeight" "ln_y2 l = ty - 2"
  using assms by (auto simp: edge_line_def Let_def split: option.splits)


definition fan_pipeline :: Pipeline where
  "fan_pipeline = \<lparr>pl_apiVersion = [], pl_kind = [], pl_metadata = no_meta ''p'',
     pl_spec = no_spec [createDefaultStep ''a'',
       (createDefaultStep ''b'')\<lparr>ps_runIf := Some \<lparr>ri_condition = None, ri_operator = None, ri_steps = [''a'']\<rparr>\<rparr>,
       (createDefaultStep ''c'')\<lparr>ps_runIf := Some \<lparr>ri_condition = None, ri_operator = None, ri_steps = [''a'']\<rparr>\<rparr>],
     pl_status = None\<rparr>"

definition fan_out :: PipelineGraph where
  "fan_out = pipelineToGraph fan_pipeline"


lemma nodePositions_None: "nodePositions g n = None \<longleftrightarrow> n \<notin> set (map nd_id (gr_nodes g))"
  by (force simp: nodePositions_def map_of_eq_None_iff)

lemma foldl_max_ge:
  fixes f :: "'a \<Rightarrow> 'b::linorder"
  shows "m \<le> foldl (\<lambda>m x. max m (f x)) m xs" "x \<in> set xs \<Longrightarrow> f x \<le> foldl (\<lambda>m x. max m (f x)) m xs"
proof (induction xs arbitrary: m)
  case (Cons y ys)
  { case 1 then show ?case using Cons.IH(1) [of "max m (f y)"] by simp }
  { case 2 then show ?case using Cons.IH(1) [of "max m (f y)"] Cons.IH(2) [of "max m (f y)"] by auto }
qed simp_all



subsection \<open>Properties of the selected step\<close>

definition cache_ok :: "PipelineDetail \<Rightarrow> bool" where
  "cache_ok s =
     (case pd_cachedStep s of None \<Rightarrow> True | Some st \<Rightarrow> pd_cachedStepName s = Some (ps_name st))"

lemma selected_spec_name: "selected_spec s = Some st \<Longrightarrow> pd_selectedStep s = Some (ps_name st)"
  by (auto simp: selected_spec_def find_Some_iff split: Option.bind_splits)

lemma renderStepDetails_ok: "cache_ok s \<Longrightarrow> cache_ok (fst (renderStepDetails s))"
  by (auto simp: renderStepDetails_def cache_ok_def Let_def dest: selected_spec_name split: option.splits)

lemma render_page_ok: "cache_ok s \<Longrightarrow> cache_ok (render_page s)"
  by (auto simp: render_page_def renderStepDetails_ok split: PageView.splits)

lemma page_ops_cache:
  "cache_ok (pd_connected s) = cache_ok s" "cache_ok (pd_disconnected s) = cache_ok s"
  "cache_ok (loadPipeline s) = cache_ok s" "cache_ok (pd_selectStep n s) = cache_ok s"
  "cache_ok (pd_closeDrawer s) = cache_ok s" "cache_ok (pd_closeMenu s) = cache_ok s"
  "cache_ok (pd_toggleMenu n s) = cache_ok s" "cache_ok (s\<lparr>pd_activeTab := i\<rparr>) = cache_ok s"
  "cache_ok (pipeline_answer key r s) = cache_ok s" "cache_ok (layout_answer elk key s) = cache_ok s"
  by (simp_all add: cache_ok_def pd_connected_def pd_disconnected_def loadPipeline_def pd_selectStep_def
      pd_closeDrawer_def pd_closeMenu_def pd_toggleMenu_def pipeline_answer_def layout_answer_def
      load_failed_def Let_def split: option.split sum.split)

lemma page_step_cache: "cache_ok s \<Longrightarrow> cache_ok (page_step elk s e)"
  by (cases e) (auto intro!: render_page_ok simp: page_ops_cache node_keydown_def menu_view_details_def
      pd_handleDocumentClick_def)

lemma page_run_cache: "cache_ok s \<Longrightarrow> cache_ok (page_run elk s es)"
  by (induction es arbitrary: s) (auto simp: page_run_def page_step_cache)

lemma hasStatusChanged_refl: "\<not> hasStatusChanged st st"
  by (simp add: hasStatusChanged_def split: option.split)

lemma renderStepDetails_shows:
  assumes "cache_ok s" and "renderStepDetails s = (s', Some (c, st, ns))"
  shows "\<exists>step. c = Some step \<and> pd_selectedStep s = Some (ps_name step) \<and>
    \<not> hasStatusChanged st (selected_status s)"
proof (cases "selected_spec s")
  case None
  with assms(2) show ?thesis by (simp add: renderStepDetails_def)
next
  case (Some step)
  from selected_spec_name [OF Some] assms show ?thesis
    by (cases "pd_cachedStep s")
       (auto simp: renderStepDetails_def Some cache_ok_def Let_def hasStatusChanged_refl
          split: if_splits)
qed

text \<open>
  Whatever has happened on the page before, the panel is given a
  step of the selected name, never a remembered one of another name, and a status that agrees
  with the latest one in phase, job, counts of succeeded and failed pods and time of completion.
\<close>

theorem details_follow_selection:
  assumes "renderStepDetails (page_run elk (pipeline_detail_start params) es) = (s', Some (c, st, ns))"
  shows "let s = page_run elk (pipeline_detail_start params) es; now = selected_status s
    in map_option ps_name c = pd_selectedStep s \<and> c \<noteq> None \<and>
       map_option ss_phase st = map_option ss_phase now \<and>
       map_option ss_jobName st = map_option ss_jobName now \<and>
       map_option (job_field jst_succeeded) st = map_option (job_field jst_succeeded) now \<and>
       map_option (job_field jst_failed) st = map_option (job_field jst_failed) now \<and>
       map_option (job_field jst_completionTime) st = map_option (job_field jst_completionTime) now"
proof -
  have "cache_ok (pipeline_detail_start params)" by (simp add: cache_ok_def pipeline_detail_start_def)
  from renderStepDetails_shows [OF page_run_cache [OF this] assms] show ?thesis
    by (auto simp: Let_def hasStatusChanged_def split: option.splits)
qed

definition ci_status :: "JobStatus option \<Rightarrow> StepStatus" where
  "ci_status j = \<lparr>ss_name = ''build'', ss_phase = StRunning, ss_jobName = Some ''ci-build'', ss_jobStatus = j\<rparr>"

definition ci_pipeline :: "JobStatus option \<Rightarrow> Pipeline" where
  "ci_pipeline j =
     (createEmptyPipeline ''ci'' ''dev'')\<lparr>pl_spec := no_spec [createDefaultStep ''build''],
       pl_status := Some \<lparr>pls_phase = PlRunning, pls_startTime = None, pls_completionTime = None,
         pls_steps = [ci_status j], pls_conditions = None\<rparr>\<rparr>"

definition no_job_status :: JobStatus where
  "no_job_status = \<lparr>jst_active = None, jst_succeeded = None, jst_failed = None,
     jst_startTime = None, jst_completionTime = None, jst_conditions = None\<rparr>"

definition ci_route :: "string obj" where
  "ci_route = [(''namespace'', ''dev''), (''name'', ''ci'')]"

definition ci_events :: "page_event list" where
  "ci_events = [PageConnected, PipelineAnswer 0 (Inr (ci_pipeline (Some no_job_status))), LayoutAnswer 0,
     SelectStep ''build'']"

lemma ci_details:
  "snd (renderStepDetails (page_run elk_nothing (pipeline_detail_start ci_route) ci_events)) =
     Some (Some (createDefaultStep ''build''), Some (ci_status (Some no_job_status)), ''dev'')"
  by code_simp

theorem details_follow_selection_witness:
  "pd_selectedStep (page_run elk_nothing (pipeline_detail_start ci_route) ci_events) = Some ''build''"
proof -
  let ?s = "page_run elk_nothing (pipeline_detail_start ci_route) ci_events"
  have "renderStepDetails ?s = (fst (renderStepDetails ?s),
      Some (Some (createDefaultStep ''build''), Some (ci_status (Some no_job_status)), ''dev''))"
    using ci_details by (metis prod.collapse)
  from details_follow_selection [OF this] show ?thesis
    by (simp add: Let_def createDefaultStep_def)
qed

text \<open>
  The comparison ignores the time a job started: when it arrives later
  than the name of the job, the panel keeps the status without it and shows a dash for the
  duration, while the time line shows the duration.
\<close>

theorem start_time_missed:
  assumes "pd_cachedStep s = Some step" and "pd_cachedStepName s = pd_selectedStep s"
    and "selected_spec s = Some step'" and "pd_cachedStatus s = Some old"
    and "ss_jobStatus old = Some j" and "jst_startTime j = None"
    and "selected_status s = Some (old\<lparr>ss_jobStatus := Some (j\<lparr>jst_active := n, jst_startTime := Some t\<rparr>)\<rparr>)"
    and "t \<noteq> []"
  shows "fst (renderStepDetails s) = s \<and>
    (\<exists>ns. snd (renderStepDetails s) = Some (Some step, Some old, ns)) \<and>
    duration_between now (status_start (Some old)) (status_completion (Some old)) = ''-'' \<and>
    truthy (status_start (selected_status s))"
  using assms
  by (simp add: renderStepDetails_def Let_def hasStatusChanged_def job_field_def duration_between_def
      status_start_def)

definition started :: JobStatus where
  "started = no_job_status\<lparr>jst_active := Some 1, jst_startTime := Some ''2024-01-31T10:00:00Z''\<rparr>"

definition ci_polled :: PipelineDetail where
  "ci_polled =
     (page_run elk_nothing (pipeline_detail_start ci_route) ci_events)
       \<lparr>pd_pipeline := Some (ci_pipeline (Some started))\<rparr>"

theorem start_time_missed_witness:
  "\<exists>ns. snd (renderStepDetails ci_polled) =
     Some (Some (createDefaultStep ''build''), Some (ci_status (Some no_job_status)), ns)"
proof -
  have 1: "pd_cachedStep ci_polled = Some (createDefaultStep ''build'')" by code_simp
  have 2: "pd_cachedStepName ci_polled = pd_selectedStep ci_polled" by code_simp
  have 3: "selected_spec ci_polled = Some (createDefaultStep ''build'')" by code_simp
  have 4: "pd_cachedStatus ci_polled = Some (ci_status (Some no_job_status))" by code_simp
  have 5: "ss_jobStatus (ci_status (Some no_job_status)) = Some no_job_status" "jst_startTime no_job_status = None"
    by (simp_all add: ci_status_def no_job_status_def)
  have 6: "selected_status ci_polled = Some ((ci_status (Some no_job_status))\<lparr>ss_jobStatus :=
      Some (no_job_status\<lparr>jst_active := Some 1, jst_startTime := Some ''2024-01-31T10:00:00Z''\<rparr>)\<rparr>)"
    by code_simp
  from start_time_missed [OF 1 2 3 4 5 6] show ?thesis by simp
qed

end
