(* ===== verification/Step_Detail_View.thy ===== *)
theory Step_Detail_View
  imports Step_Detail List_Panel
begin

section \<open>The view of the step panel (\<open>step-detail.ts\<close>, \<open>render\<close>)\<close>

text \<open>
  The template of the panel: the summary of the step, its three tabs and the two buttons below.
  How a time of day is written is a parameter.  \<open>guard\<close> renders the logs again only when they, their
  error or the spinner change; since nothing else goes into them, it changes nothing that is seen.
\<close>

datatype panel_action = PnTab nat | PnRefresh | PnCopy

definition badge :: "string \<Rightarrow> bool \<Rightarrow> 'a Html" where
  "badge status small =
     Elem ''status-badge'' (Attr ''status'' status # (if small then [Attr ''size'' ''sm''] else [])) [] []"

definition status_text :: "StepStatus option \<Rightarrow> string" where
  "status_text st = (case st of None \<Rightarrow> ''Pending'' | Some t \<Rightarrow> step_phase_text (ss_phase t))"

definition summary_item :: "string \<Rightarrow> 'a Html \<Rightarrow> 'a Html" where
  "summary_item label shown = node ''div'' [labelled ''span'' label, shown]"

definition panel_summary :: "int \<Rightarrow> StepDetail \<Rightarrow> panel_action Html" where
  "panel_summary now d =
     node ''div''
       [summary_item ''Status'' (node ''span'' [badge (status_text (sd_status d)) True]),
        summary_item ''Duration'' (labelled ''span'' (step_formatDuration now d)),
        summary_item ''Job'' (labelled ''span'' (str_or (Option.bind (sd_status d) ss_jobName) ''-'')),
        summary_item ''Image''
          (Elem ''span'' [Attr ''title'' (getImage d)] [] [Text (image_base d)])]"

definition panel_tab :: "StepDetail \<Rightarrow> nat \<Rightarrow> string \<Rightarrow> panel_action Html" where
  "panel_tab d i title =
     Elem ''button''
       [Attr ''class'' (''tab '' @ (if sd_activeTab d = i then ''active'' else [])), Attr ''role'' ''tab'',
        Attr ''aria-selected'' (bool_str (sd_activeTab d = i))]
       [Click (PnTab i)] [node ''rh-icon'' [], Text title]"

definition logs_view :: "StepDetail \<Rightarrow> panel_action Html" where
  "logs_view d =
     (case renderLogs d of
        LogsLoading \<Rightarrow> node ''div'' [node ''rh-spinner'' [], labelled ''span'' ''Loading logs...'']
      | LogsFailed e \<Rightarrow> node ''div'' [node ''rh-icon'' [], Text (''Error: '' @ e)]
      | NoLogs \<Rightarrow> node ''div'' [node ''rh-icon'' [], Text ''No logs available yet'']
      | LogLines n logs \<Rightarrow>
          node ''div''
            [node ''div'' [labelled ''span'' (''Showing last '' @ nat_str n @ '' line'' @
               (if n \<noteq> 1 then ''s'' else []) @ '' (tail '' @ int_str LOG_TAIL_LINES @ '')'')],
             labelled ''div'' logs])"

definition spec_view :: "PipelineStep \<Rightarrow> panel_action Html" where
  "spec_view step =
     node ''ul''
       (map (\<lambda>(key, value). node ''li'' [labelled ''span'' key, labelled ''span'' value]) (renderSpec step))"

definition event_view :: "(string \<Rightarrow> string) \<Rightarrow> KubeEvent \<Rightarrow> panel_action Html" where
  "event_view localeTime e =
     node ''article''
       [node ''header''
          [Elem ''span'' [Attr ''class'' (''event-type '' @ toLowerCase (ke_type e))] [] [Text (ke_reason e)],
           labelled ''time'' (localeTime (ke_lastTimestamp e))],
        labelled ''p'' (ke_message e)]"

definition debug_view :: "(string \<Rightarrow> string) \<Rightarrow> StepDetail \<Rightarrow> panel_action Html" where
  "debug_view localeTime d =
     node ''div''
       (if sd_events d = []
        then [node ''div'' [node ''rh-icon'' [], Text ''No events available'']]
        else map (event_view localeTime) (sd_events d))"

definition panel_content :: "(string \<Rightarrow> string) \<Rightarrow> StepDetail \<Rightarrow> PipelineStep \<Rightarrow> panel_action Html list" where
  "panel_content localeTime d step =
     (if sd_activeTab d = 0 then [logs_view d]
      else if sd_activeTab d = 1 then [spec_view step]
      else if sd_activeTab d = 2 then [debug_view localeTime d] else [])"

definition panel_render ::
    "(string \<Rightarrow> string) \<Rightarrow> int \<Rightarrow> StepDetail \<Rightarrow> panel_action Html list" where
  "panel_render localeTime now d =
     (case sd_step d of
        None \<Rightarrow> [labelled ''div'' ''No step selected'']
      | Some step \<Rightarrow>
          [panel_summary now d,
           Elem ''nav'' [Attr ''role'' ''tablist''] []
             [panel_tab d 0 ''Logs'', panel_tab d 1 ''Spec'', panel_tab d 2 ''Debug''],
           Elem ''div'' [Attr ''role'' ''tabpanel''] [] (panel_content localeTime d step),
           node ''footer''
             [Elem ''rh-button'' [Attr ''variant'' ''secondary''] [Click PnRefresh]
                [node ''rh-icon'' [], Text ''Refresh''],
              Elem ''rh-button'' [Attr ''variant'' ''secondary''] [Click PnCopy]
                [node ''rh-icon'' [], Text ''Copy Logs'']]])"

text \<open>What an action does, and the text it puts on the clipboard.\<close>

definition panel_do :: "panel_action \<Rightarrow> StepDetail \<Rightarrow> StepDetail \<times> string option" where
  "panel_do a d =
     (case a of
        PnTab i \<Rightarrow> (d\<lparr>sd_activeTab := i\<rparr>, None)
      | PnRefresh \<Rightarrow> (loadLogs d, None)
      | PnCopy \<Rightarrow> (d, Some (sd_logs d)))"

subsection \<open>The tabs\<close>

text \<open>The view agrees with what \<open>renderTabContent\<close> says of the tab that is shown.\<close>

definition tab_texts :: "(string \<Rightarrow> string) \<Rightarrow> StepDetail \<Rightarrow> string list" where
  "tab_texts localeTime d =
     (case renderTabContent d of
        LogsTab (LogLines n logs) \<Rightarrow> [''Showing last '' @ nat_str n @ '' line'' @
          (if n \<noteq> 1 then ''s'' else []) @ '' (tail 50)'', logs]
      | LogsTab (LogsFailed e) \<Rightarrow> [''Error: '' @ e]
      | LogsTab NoLogs \<Rightarrow> [''No logs available yet'']
      | LogsTab LogsLoading \<Rightarrow> [''Loading logs...'']
      | SpecTab rows \<Rightarrow> concat (map (\<lambda>(k, v). [k, v]) rows)
      | DebugTab [] \<Rightarrow> [''No events available'']
      | DebugTab rows \<Rightarrow> concat (map (\<lambda>e. [ke_reason e, localeTime (ke_lastTimestamp e), ke_message e]) (sd_events d))
      | _ \<Rightarrow> [])"

lemma texts_content:
  assumes "sd_step d = Some step"
  shows "concat (map texts (panel_content localeTime d step)) = tab_texts localeTime d"
proof -
  have spec: "concat (map (texts \<circ> (\<lambda>(k, v). node ''li'' [labelled ''span'' k, labelled ''span'' v])) rows) =
      concat (map (\<lambda>(k, v). [k, v]) rows)" for rows :: "(string \<times> string) list"
    by (induction rows) auto
  have events: "concat (map (texts \<circ> event_view localeTime) es) =
      concat (map (\<lambda>e. [ke_reason e, localeTime (ke_lastTimestamp e), ke_message e]) es)" for es
    by (induction es) (auto simp: event_view_def)
  have tail: "int_str LOG_TAIL_LINES = ''50''" by code_simp
  show ?thesis
    using assms
    by (auto simp: panel_content_def tab_texts_def renderTabContent_def logs_view_def spec_view_def
        debug_view_def renderDebug_def spec events tail split: LogView.split list.split)
qed

text \<open>Every tab and every button can be reached with a click and with a key.\<close>

lemma panel_clicks:
  assumes "sd_step d = Some step"
  shows "set (clicks (panel_render localeTime now d)) =
    {([], True), ([PnRefresh], True), ([PnCopy], True), ([PnTab 0], True), ([PnTab 1], True), ([PnTab 2], True)}"
proof -
  have quiet: "set (clicks [panel_summary now d]) \<subseteq> {([], True)}"
    by (rule clicks_still) (simp add: panel_summary_def summary_item_def badge_def)
  have "list_all still [event_view localeTime e]" for e by (simp add: event_view_def)
  then have content: "set (clicks (panel_content localeTime d step)) \<subseteq> {([], True)}"
    by (intro clicks_still) (auto simp: panel_content_def logs_view_def spec_view_def debug_view_def
        list_all_iff split: LogView.split)
  show ?thesis
    using quiet content assms
    by (auto simp: panel_render_def panel_tab_def clicks_Cons clicks_Elem disabled_def run_through_def
        clicks_node)
qed

end
