(* ===== verification/Detail_View.thy ===== *)
theory Detail_View
  imports Pipeline_Detail Step_Detail_View
begin

section \<open>The view of the page of a pipeline (\<open>pipeline-detail.ts\<close>, \<open>render\<close>)\<close>

text \<open>
  The template of the page with the panel in its drawer, and the two put together: what the page
  hands to the panel each time it is rendered, and when the panel comes and goes.  How numbers and
  times of day are written are parameters.  The listener of the tabs looks in which tab a click is;
  here every tab has it.  The template holds the contents of all three tabs; which one is shown is
  up to the third-party element \<open>rh-tabs\<close>.
\<close>

subsection \<open>The template\<close>

datatype detail_action =
    PdPage page_event
  | PdDelete
  | PdGo string
  | PdPanel panel_action

record DetailPage =
  dp_page :: PipelineDetail
  dp_panel :: "StepDetail option"

definition detail_loading :: "detail_action Html list" where
  "detail_loading = [node ''div'' [node ''rh-spinner'' [], labelled ''span'' ''Loading pipeline...'']]"

definition detail_error :: "string \<Rightarrow> detail_action Html list" where
  "detail_error message =
     [node ''div'' [node ''rh-icon'' [], labelled ''span'' message,
        Elem ''rh-button'' [] [Click (PdGo ''/pipelines'')] [node ''rh-icon'' [], Text ''Back to Pipelines'']]]"

definition breadcrumb :: "Pipeline \<Rightarrow> detail_action Html" where
  "breadcrumb p =
     node ''rh-breadcrumb''
       [node ''ol''
          [node ''li'' [Elem ''a'' [Attr ''href'' ''/pipelines''] [Click (PdGo ''/pipelines'')] [Text ''Pipelines'']],
           node ''li'' [Elem ''a'' [Attr ''href'' [], Attr ''aria-current'' ''page''] []
             [Text (om_name (pl_metadata p))]]]]"

definition phase_text :: "Pipeline \<Rightarrow> string" where
  "phase_text p = (case pl_status p of None \<Rightarrow> ''Pending'' | Some st \<Rightarrow> pipeline_phase_text (pls_phase st))"

definition meta_item :: "string \<Rightarrow> string \<Rightarrow> detail_action Html" where
  "meta_item label shown = node ''div'' [labelled ''span'' label, labelled ''span'' shown]"

definition detail_header :: "int \<Rightarrow> Pipeline \<Rightarrow> detail_action Html" where
  "detail_header now p =
     node ''header''
       [node ''div''
          [node ''h1'' [Text (om_name (pl_metadata p)), badge (phase_text p) False],
           node ''div''
             [meta_item ''Namespace'' (str_or (om_namespace (pl_metadata p)) ''default''),
              meta_item ''Duration'' (pd_formatDuration now (Option.bind (pl_status p) pls_startTime)
                (Option.bind (pl_status p) pls_completionTime)),
              meta_item ''Steps'' (nat_str (fst (steps_done p)) @ ''/'' @ nat_str (snd (steps_done p)))]],
        node ''div''
          [Elem ''rh-button'' [Attr ''variant'' ''secondary''] [Click (PdPage RefreshClick)]
             [node ''rh-icon'' [], Text ''Refresh''],
           Elem ''rh-button'' [Attr ''variant'' ''danger''] [Click PdDelete]
             [node ''rh-icon'' [], Text ''Delete'']]]"

definition page_tab :: "nat \<Rightarrow> string \<Rightarrow> detail_action Html" where
  "page_tab i title =
     Elem ''rh-tab'' [Attr ''slot'' ''tab''] [Click (PdPage (PageTab i))] [node ''rh-icon'' [], Text title]"

definition path_point :: "(rat \<Rightarrow> string) \<Rightarrow> rat \<Rightarrow> rat \<Rightarrow> string" where
  "path_point num x y = num x @ '' '' @ num y"

definition edge_path :: "(rat \<Rightarrow> string) \<Rightarrow> EdgeLine \<Rightarrow> detail_action Html" where
  "edge_path num l =
     Elem ''path''
       [Attr ''class'' (''graph-edge '' @ ln_class l),
        Attr ''d'' (''M '' @ path_point num (ln_x1 l) (ln_y1 l) @
          '' C '' @ path_point num (ln_x1 l) (ln_y1 l + ln_control l) @
          '', '' @ path_point num (ln_x2 l) (ln_y2 l - ln_control l) @
          '', '' @ path_point num (ln_x2 l) (ln_y2 l)),
        Attr ''marker-end'' (''url(#'' @ ln_marker l @ '')'')] [] []"

definition graph_marker :: "string \<Rightarrow> string \<Rightarrow> detail_action Html" where
  "graph_marker i c =
     Elem ''marker'' [Attr ''id'' i] []
       [Elem ''path'' [Attr ''d'' ''M0,0 L6,3 L0,6 z'', Attr ''class'' c] [] []]"

definition graph_box :: "(rat \<Rightarrow> string) \<Rightarrow> PipelineDetail \<Rightarrow> PipelineNode \<Rightarrow> detail_action Html" where
  "graph_box num s n =
     (let b = node_box s n
      in Elem ''div''
        [Attr ''class'' (''graph-node '' @ bx_phase b @ '' '' @ (if bx_selected b then ''selected'' else [])),
         Attr ''style'' (''left: '' @ num (bx_left b) @ ''px; top: '' @ num (bx_top b) @ ''px''),
         Attr ''tabindex'' ''0'', Attr ''role'' ''button'', Attr ''aria-pressed'' (bool_str (bx_selected b))]
        [Click (PdPage (SelectStep (nd_id n))), KeyEnter (PdPage (SelectStep (nd_id n)))]
        [node ''div'' [badge (bx_badge b) True, labelled ''span'' (bx_name b)],
         labelled ''div'' (bx_image b)])"

definition graph_view :: "(rat \<Rightarrow> string) \<Rightarrow> PipelineDetail \<Rightarrow> detail_action Html" where
  "graph_view num s =
     (case pd_graph s of
        None \<Rightarrow> Elem ''div'' [Attr ''class'' ''graph-container''] [] [Text ''Loading graph...'']
      | Some g \<Rightarrow>
          (let width = num (fst (canvas_size g)); height = num (snd (canvas_size g))
           in Elem ''div'' [Attr ''class'' ''graph-container''] []
             [Elem ''div''
                [Attr ''class'' ''graph-canvas'',
                 Attr ''style'' (''width: '' @ width @ ''px; height: '' @ height @ ''px;'')] []
                (Elem ''svg'' [Attr ''class'' ''graph-edges'', Attr ''width'' width, Attr ''height'' height] []
                   (node ''defs''
                      [graph_marker ''arrow'' ''graph-arrow'',
                       graph_marker ''arrow-success'' ''graph-arrow success'',
                       graph_marker ''arrow-failure'' ''graph-arrow failure''] #
                    map (edge_path num) (graph_lines g)) #
                 map (graph_box num s) (gr_nodes g))]))"

definition details_menu :: "string \<Rightarrow> detail_action Html" where
  "details_menu name =
     Elem ''div'' [Attr ''role'' ''menu''] []
       [Elem ''button'' [Attr ''role'' ''menuitem''] [ClickStop (PdPage (MenuDetails name))]
          [node ''rh-icon'' [], Text ''View Details'']]"

definition timeline_line :: "TimelineRow \<Rightarrow> detail_action Html" where
  "timeline_line r =
     Elem ''tr'' [] [Click (PdPage (SelectStep (tl_name r)))]
       [node ''td'' [labelled ''strong'' (tl_name r)], node ''td'' [badge (tl_badge r) True],
        labelled ''td'' (tl_started r), labelled ''td'' (tl_duration r),
        node ''td''
          (Elem ''button''
             [Attr ''aria-label'' (''Actions for '' @ tl_name r), Attr ''aria-haspopup'' ''true'',
              Attr ''aria-expanded'' (bool_str (tl_menuOpen r))]
             [ClickStop (PdPage (ToggleMenu (tl_name r)))] [node ''rh-icon'' []] #
           (if tl_menuOpen r then [details_menu (tl_name r)] else []))]"

definition timeline_view :: "(string \<Rightarrow> string) \<Rightarrow> int \<Rightarrow> PipelineDetail \<Rightarrow> detail_action Html" where
  "timeline_view localeTime now s =
     node ''rh-table''
       [node ''table''
          [node ''thead''
             [node ''tr'' (map (labelled ''th'')
                [''Step'', ''Status'', ''Started'', ''Duration'', ''Actions''])],
           node ''tbody'' (map timeline_line (renderTimeline localeTime now s))]]"

definition document_view :: "(Pipeline \<Rightarrow> string) \<Rightarrow> PipelineDetail \<Rightarrow> detail_action Html list" where
  "document_view yamlStringify s =
     (case renderYaml yamlStringify s of
        None \<Rightarrow> []
      | Some yaml \<Rightarrow>
          [node ''div''
             [Elem ''code-editor''
                [Prop ''value'' yaml, Attr ''language'' ''yaml'', Flag ''readonly'' True,
                 Flag ''showLanguageSelector'' False, Attr ''minHeight'' ''400px''] [] []]])"

definition details_drawer :: "(string \<Rightarrow> string) \<Rightarrow> int \<Rightarrow> DetailPage \<Rightarrow> detail_action Html" where
  "details_drawer localeTime now dp =
     (let selected = pd_selectedStep (dp_page dp)
      in Elem ''side-drawer''
        [Flag ''open'' (truthy selected),
         Attr ''heading'' (if truthy selected then ''Step: '' @ the selected else ''Step Details''),
         Flag ''showWidthToggle'' True]
        [Event ''close'' (PdPage CloseDrawer)]
        (case dp_panel dp of
           None \<Rightarrow> []
         | Some d \<Rightarrow> [node ''step-detail'' (map (map_Html PdPanel) (panel_render localeTime now d))]))"

definition detail_render ::
    "(rat \<Rightarrow> string) \<Rightarrow> (string \<Rightarrow> string) \<Rightarrow> int \<Rightarrow> (Pipeline \<Rightarrow> string) \<Rightarrow> DetailPage \<Rightarrow>
     detail_action Html list" where
  "detail_render num localeTime now yamlStringify dp =
     (let s = dp_page dp
      in case page_view s of
           PageLoading \<Rightarrow> detail_loading
         | PageError message \<Rightarrow> detail_error message
         | PageShown p \<Rightarrow>
             [breadcrumb p, detail_header now p,
              node ''rh-tabs''
                [page_tab 0 ''Graph'', node ''rh-tab-panel'' [graph_view num s],
                 page_tab 1 ''Timeline'', node ''rh-tab-panel'' [timeline_view localeTime now s],
                 page_tab 2 ''YAML'', node ''rh-tab-panel'' (document_view yamlStringify s)],
              node ''div'' [node ''div'' []],
              details_drawer localeTime now dp])"

subsection \<open>The page and its panel\<close>

text \<open>
  What a rendered page gives to the panel: the page is rendered with the cache that its last
  rendering left, which gives the same again.  The panel is there as long as it is given something;
  one that comes anew is connected and asks for the logs of its job.
\<close>

definition panel_given ::
    "PipelineDetail \<Rightarrow> (PipelineStep option \<times> StepStatus option \<times> string) option" where
  "panel_given s =
     (case page_view s of
        PageShown _ \<Rightarrow> if truthy (pd_selectedStep s) then snd (renderStepDetails s) else None
      | _ \<Rightarrow> None)"

definition render_panel :: "PipelineDetail \<Rightarrow> StepDetail option \<Rightarrow> StepDetail option" where
  "render_panel s old =
     (case panel_given s of
        None \<Rightarrow> None
      | Some (step, status, namespace) \<Rightarrow>
          Some (set_props step status namespace
            (case old of Some d \<Rightarrow> d | None \<Rightarrow> sd_connected step_detail_start)))"

datatype dp_event =
    DpPage page_event
  | DpPanel panel_action
  | DpTick
  | DpPods nat "PodInfo list outcome"
  | DpLogs nat "string outcome"
  | DpEvents nat "KubeEvent list outcome"

definition panel_step :: "(StepDetail \<Rightarrow> StepDetail) \<Rightarrow> DetailPage \<Rightarrow> DetailPage" where
  "panel_step f dp = dp\<lparr>dp_panel := map_option f (dp_panel dp)\<rparr>"

fun dp_step ::
    "(ElkNode \<Rightarrow> ElkPlaced list option outcome) \<Rightarrow> DetailPage \<Rightarrow> dp_event \<Rightarrow> DetailPage" where
  "dp_step elk dp (DpPage PageDisconnected) =
     \<lparr>dp_page = pd_disconnected (dp_page dp), dp_panel = map_option sd_disconnected (dp_panel dp)\<rparr>"
| "dp_step elk dp (DpPage e) =
     (let s = page_step elk (dp_page dp) e in \<lparr>dp_page = s, dp_panel = render_panel s (dp_panel dp)\<rparr>)"
| "dp_step elk dp (DpPanel a) = panel_step (\<lambda>d. fst (panel_do a d)) dp"
| "dp_step elk dp DpTick = panel_step poll_logs dp"
| "dp_step elk dp (DpPods key r) = panel_step (pods_answer key r) dp"
| "dp_step elk dp (DpLogs key r) = panel_step (logs_answer key r) dp"
| "dp_step elk dp (DpEvents key r) = panel_step (events_answer key r) dp"

definition dp_start :: "string obj \<Rightarrow> DetailPage" where
  "dp_start params = \<lparr>dp_page = pipeline_detail_start params, dp_panel = None\<rparr>"

definition dp_run ::
    "(ElkNode \<Rightarrow> ElkPlaced list option outcome) \<Rightarrow> DetailPage \<Rightarrow> dp_event list \<Rightarrow> DetailPage" where
  "dp_run elk dp es = foldl (dp_step elk) dp es"

definition detail_do ::
    "bool \<Rightarrow> 'a fetch \<Rightarrow> string \<Rightarrow> (ElkNode \<Rightarrow> ElkPlaced list option outcome) \<Rightarrow> detail_action \<Rightarrow>
     DetailPage \<Rightarrow> DetailPage \<times> delete_effect" where
  "detail_do confirmed fetch base elk a dp =
     (case a of
        PdPage e \<Rightarrow> (dp_step elk dp (DpPage e), NoEffect)
      | PdDelete \<Rightarrow> (dp, pd_deletePipeline confirmed fetch base (dp_page dp))
      | PdGo path \<Rightarrow> (dp, NavigateTo path)
      | PdPanel x \<Rightarrow> (dp_step elk dp (DpPanel x), NoEffect))"

lemma renderStepDetails_again:
  "renderStepDetails s = (s', given) \<Longrightarrow> renderStepDetails s' = (s', given)"
  by (auto simp: renderStepDetails_def selected_spec_def selected_status_def Let_def hasStatusChanged_refl
      split: option.splits if_splits)

subsection \<open>The panel follows the page\<close>

definition panel_synced :: "DetailPage \<Rightarrow> bool" where
  "panel_synced dp =
     (cache_ok (dp_page dp) \<and>
      (case dp_panel dp of
         None \<Rightarrow> panel_given (dp_page dp) = None
       | Some d \<Rightarrow> panel_given (dp_page dp) = Some (sd_step d, sd_status d, sd_namespace d) \<and>
           sd_currentJobName d = job_of d))"

lemma set_props_facts:
  "sd_step (set_props step st ns d) = step" "sd_status (set_props step st ns d) = st"
  "sd_namespace (set_props step st ns d) = ns"
  "sd_currentJobName (set_props step st ns d) = job_of (set_props step st ns d)"
  by (auto simp: set_props_def sd_updated_def loadLogs_def loadEvents_def job_of_def Let_def
      split: option.splits)

lemma render_panel_synced:
  "cache_ok s \<Longrightarrow> panel_synced \<lparr>dp_page = s, dp_panel = render_panel s old\<rparr>"
  by (auto simp: panel_synced_def render_panel_def set_props_facts split: option.split)

definition props_kept :: "(StepDetail \<Rightarrow> StepDetail) \<Rightarrow> bool" where
  "props_kept f = (\<forall>d. sd_step (f d) = sd_step d \<and> sd_status (f d) = sd_status d \<and>
     sd_namespace (f d) = sd_namespace d \<and> sd_currentJobName (f d) = sd_currentJobName d)"

lemma panel_step_synced: "props_kept f \<Longrightarrow> panel_synced dp \<Longrightarrow> panel_synced (panel_step f dp)"
  by (auto simp: panel_synced_def panel_step_def props_kept_def job_of_def split: option.splits)

lemma panel_ops_kept:
  "props_kept (\<lambda>d. fst (panel_do a d))" "props_kept poll_logs" "props_kept (pods_answer key p)"
  "props_kept (logs_answer key l)" "props_kept (events_answer key e)"
  by (auto simp: props_kept_def panel_do_def poll_logs_def load_defs events_answer_def Let_def
      split: panel_action.split option.split sum.split list.split)

lemma page_shown_synced:
  assumes "panel_synced dp"
  shows "panel_synced \<lparr>dp_page = page_step elk (dp_page dp) e,
    dp_panel = render_panel (page_step elk (dp_page dp) e) old\<rparr>"
  using assms by (intro render_panel_synced page_step_cache) (simp add: panel_synced_def)

lemma dp_step_synced: "panel_synced dp \<Longrightarrow> panel_synced (dp_step elk dp e)"
proof (induction elk dp e rule: dp_step.induct)
  case (1 elk dp)
  have "panel_given (pd_disconnected (dp_page dp)) = panel_given (dp_page dp)"
    by (auto simp: panel_given_def page_view_def pd_disconnected_def renderStepDetails_def selected_spec_def
        selected_status_def Let_def split: option.split PageView.split)
  with 1 show ?case
    by (auto simp: panel_synced_def page_ops_cache sd_disconnected_def job_of_def split: option.splits)
qed (simp_all add: Let_def page_shown_synced panel_step_synced panel_ops_kept del: page_step.simps)

lemma dp_run_synced: "panel_synced dp \<Longrightarrow> panel_synced (dp_run elk dp es)"
  by (induction es arbitrary: dp) (simp_all add: dp_run_def dp_step_synced)

lemma dp_start_synced: "panel_synced (dp_start params)"
  by (simp add: panel_synced_def dp_start_def cache_ok_def panel_given_def page_view_def
      pipeline_detail_start_def)

lemma panel_given_shown:
  assumes "cache_ok s" and "panel_given s = Some (c, st, ns)"
  shows "\<exists>p step. page_view s = PageShown p \<and> c = Some step \<and> pd_selectedStep s = Some (ps_name step) \<and>
    \<not> hasStatusChanged st (selected_status s) \<and>
    ns = str_or (om_namespace (pl_metadata p)) ''default''"
proof -
  from assms(2) obtain p where p: "page_view s = PageShown p" "snd (renderStepDetails s) = Some (c, st, ns)"
    by (auto simp: panel_given_def split: PageView.splits if_splits)
  then have r: "renderStepDetails s = (fst (renderStepDetails s), Some (c, st, ns))"
    by (metis prod.collapse)
  have "pd_pipeline s = Some p"
    using p(1) by (auto simp: page_view_def split: if_splits option.splits)
  then have "ns = str_or (om_namespace (pl_metadata p)) ''default''"
    using p(2) by (auto simp: renderStepDetails_def Let_def split: option.splits)
  with renderStepDetails_shows [OF assms(1) r] p(1) show ?thesis by blast
qed

lemma panel_given_none:
  assumes "panel_given s = None" and "page_view s = PageShown p" and "pd_selectedStep s = Some n" and "n \<noteq> []"
  shows "n \<notin> ps_name ` set (sp_steps (pl_spec p))"
proof -
  have p: "pd_pipeline s = Some p"
    using assms(2) by (auto simp: page_view_def split: if_splits option.splits)
  from assms have "snd (renderStepDetails s) = None" by (simp add: panel_given_def truthy_def)
  then have "selected_spec s = None" by (auto simp: renderStepDetails_def Let_def split: option.splits)
  then show ?thesis
    by (auto simp: selected_spec_def p assms(3) find_None_iff)
qed

text \<open>
  C17: whatever happens on the page and in its panel, in whatever order the
  answers come: the panel is there only while the page shows a pipeline with a selected step, and
  then shows a step of that name, in the namespace of the pipeline, with a status whose phase and
  job are the latest, and that job is the one whose logs it reads.  While there is no panel,
  no step of the pipeline that is shown is selected.
\<close>

theorem panel_follows_page:
  "let dp = dp_run elk (dp_start params) es; s = dp_page dp
   in case dp_panel dp of
        None \<Rightarrow> \<forall>p n. page_view s = PageShown p \<and> pd_selectedStep s = Some n \<and> n \<noteq> [] \<longrightarrow>
          n \<notin> ps_name ` set (sp_steps (pl_spec p))
      | Some d \<Rightarrow> \<exists>p step. page_view s = PageShown p \<and> sd_step d = Some step \<and>
          pd_selectedStep s = Some (ps_name step) \<and>
          sd_namespace d = str_or (om_namespace (pl_metadata p)) ''default'' \<and>
          map_option ss_phase (sd_status d) = map_option ss_phase (selected_status s) \<and>
          map_option ss_jobName (sd_status d) = map_option ss_jobName (selected_status s) \<and>
          sd_currentJobName d = job_of d"
proof -
  let ?dp = "dp_run elk (dp_start params) es"
  have sync: "panel_synced ?dp" by (rule dp_run_synced [OF dp_start_synced])
  then have cache: "cache_ok (dp_page ?dp)" by (simp add: panel_synced_def)
  show ?thesis
  proof (cases "dp_panel ?dp")
    case None
    with sync have "panel_given (dp_page ?dp) = None" by (simp add: panel_synced_def)
    with None panel_given_none show ?thesis by (auto simp: Let_def)
  next
    case (Some d)
    with sync have given: "panel_given (dp_page ?dp) = Some (sd_step d, sd_status d, sd_namespace d)"
      and job: "sd_currentJobName d = job_of d" by (simp_all add: panel_synced_def)
    from panel_given_shown [OF cache given] obtain p step where
      "page_view (dp_page ?dp) = PageShown p" "sd_step d = Some step"
      "pd_selectedStep (dp_page ?dp) = Some (ps_name step)"
      "\<not> hasStatusChanged (sd_status d) (selected_status (dp_page ?dp))"
      "sd_namespace d = str_or (om_namespace (pl_metadata p)) ''default''" by blast
    with Some job show ?thesis
      by (auto simp: Let_def hasStatusChanged_def split: option.splits)
  qed
qed

theorem panel_follows_page_witness:
  "\<exists>d. dp_panel (dp_run elk_nothing (dp_start ci_route) (map DpPage ci_events)) = Some d \<and>
     map_option ps_name (sd_step d) = Some ''build''"
proof -
  let ?dp = "dp_run elk_nothing (dp_start ci_route) (map DpPage ci_events)"
  have page: "page_view (dp_page ?dp) = PageShown (ci_pipeline (Some no_job_status))"
    "pd_selectedStep (dp_page ?dp) = Some ''build''"
    "''build'' \<in> ps_name ` set (sp_steps (pl_spec (ci_pipeline (Some no_job_status))))"
    by code_simp+
  show ?thesis
    using panel_follows_page [of elk_nothing ci_route "map DpPage ci_events"] page
    by (auto simp: Let_def split: option.splits)
qed

subsection \<open>Every step can be opened\<close>


lemma graph_box_press:
  "([PdPage (SelectStep (nd_id n))], True) \<in> set (clicks [graph_box num s n])"
  "([PdPage (SelectStep (nd_id n))], False) \<in> set (keys [graph_box num s n])"
proof -
  show "([PdPage (SelectStep (nd_id n))], True) \<in> set (clicks [graph_box num s n])"
    by (simp add: graph_box_def Let_def clicks_Elem disabled_def)
  show "([PdPage (SelectStep (nd_id n))], False) \<in> set (keys [graph_box num s n])"
    by (simp add: graph_box_def Let_def keys_def all_chains_def disabled_def focusable_def key_run_def)
qed

lemma graph_view_press:
  assumes "pd_graph s = Some g" and "n \<in> set (gr_nodes g)"
  shows "([PdPage (SelectStep (nd_id n))], True) \<in> set (clicks [graph_view num s])"
    and "([PdPage (SelectStep (nd_id n))], False) \<in> set (keys [graph_view num s])"
proof -
  let ?boxes = "map (graph_box num s) (gr_nodes g)"
  have "([PdPage (SelectStep (nd_id n))], True) \<in> set (clicks ?boxes)"
    "([PdPage (SelectStep (nd_id n))], False) \<in> set (keys ?boxes)"
    unfolding set_clicks_map set_keys_map using assms(2) graph_box_press [of n num s] by blast+
  then have "([PdPage (SelectStep (nd_id n))], True) \<in> set (clicks [Elem ''div'' qs [] [Elem ''div'' ps [] (svg # ?boxes)]])"
    "([PdPage (SelectStep (nd_id n))], False) \<in> set (keys [Elem ''div'' qs [] [Elem ''div'' ps [] (svg # ?boxes)]])"
    if "\<not> disabled ps" and "\<not> disabled qs" for ps qs svg
    using that by (intro clicks_within clicks_later keys_within keys_later; simp)+
  then show "([PdPage (SelectStep (nd_id n))], True) \<in> set (clicks [graph_view num s])"
    "([PdPage (SelectStep (nd_id n))], False) \<in> set (keys [graph_view num s])"
    unfolding graph_view_def assms(1) option.case Let_def by (simp_all add: disabled_def)
qed

lemma detail_render_press:
  assumes "page_view (dp_page dp) = PageShown p"
  shows "r \<in> set (clicks [graph_view num (dp_page dp)]) \<Longrightarrow>
      r \<in> set (clicks (detail_render num localeTime now yaml dp))"
    and "r \<in> set (keys [graph_view num (dp_page dp)]) \<Longrightarrow>
      r \<in> set (keys (detail_render num localeTime now yaml dp))"
  unfolding detail_render_def assms Let_def PageView.case
  by (rule clicks_later, rule clicks_later, rule clicks_first, rule clicks_within, rule clicks_later,
      rule clicks_first, erule clicks_within, simp_all)
     (rule keys_later, rule keys_later, rule keys_first, rule keys_within, rule keys_later,
      rule keys_first, erule keys_within, simp_all)

lemma selects_only_steps:
  assumes "page_view (dp_page dp) = PageShown p" and "pd_graph (dp_page dp) = Some g"
    and "map nd_id (gr_nodes g) = map ps_name (sp_steps (pl_spec p))"
    and "PdPage (SelectStep n) \<in> view_acts (detail_render num localeTime now yaml dp)"
  shows "n \<in> ps_name ` set (sp_steps (pl_spec p))"
proof -
  have nodes: "nd_id ` set (gr_nodes g) = ps_name ` set (sp_steps (pl_spec p))"
    using assms(3) by (metis set_map)
  have p: "pd_pipeline (dp_page dp) = Some p"
    using assms(1) by (auto simp: page_view_def split: if_splits option.splits)
  show ?thesis
    using assms(4) nodes
    unfolding detail_render_def assms(1) Let_def PageView.case
    by (auto simp: breadcrumb_def detail_header_def badge_def meta_item_def page_tab_def graph_view_def assms(2)
        Let_def graph_marker_def edge_path_def graph_box_def timeline_view_def timeline_line_def
        renderTimeline_def p timeline_row_def details_menu_def document_view_def details_drawer_def
        view_acts_map set_Html_Elem Html.set_map split: option.splits if_splits)
qed

lemma select_page:
  assumes "page_view s = PageShown p"
  shows "page_view (page_step elk s (SelectStep n)) = PageShown p"
    and "pd_selectedStep (page_step elk s (SelectStep n)) = Some n"
    and "selected_status (page_step elk s (SelectStep n)) =
      Option.bind (pl_status p) (\<lambda>st. List.find (\<lambda>t. ss_name t = n) (pls_steps st))"
proof -
  have frame: "pd_selectedStep (fst (renderStepDetails t)) = pd_selectedStep t"
    "page_view (fst (renderStepDetails t)) = page_view t" "pd_pipeline (fst (renderStepDetails t)) = pd_pipeline t" for t
    by (auto simp: renderStepDetails_def page_view_def Let_def split: option.split)
  have select: "pd_selectedStep (pd_selectStep n s) = Some n" "page_view (pd_selectStep n s) = PageShown p"
    "pd_pipeline (pd_selectStep n s) = pd_pipeline s"
    using assms by (auto simp: pd_selectStep_def page_view_def split: if_splits option.splits)
  show shown: "page_view (page_step elk s (SelectStep n)) = PageShown p"
    "pd_selectedStep (page_step elk s (SelectStep n)) = Some n"
    using select by (auto simp: render_page_def frame)
  have "pd_pipeline (page_step elk s (SelectStep n)) = Some p"
    using shown(1) by (auto simp: page_view_def split: if_splits option.splits)
  then show "selected_status (page_step elk s (SelectStep n)) =
      Option.bind (pl_status p) (\<lambda>st. List.find (\<lambda>t. ss_name t = n) (pls_steps st))"
    by (simp only: selected_status_def shown(2) option.inject Option.bind.simps)
qed

lemma set_props_requests:
  "job_of (set_props step st ns d) = Some job \<Longrightarrow>
     sd_currentJobName d = Some job \<or> (\<exists>k. (k, job) \<in> set (sd_podsPending (set_props step st ns d)))"
  by (auto simp: set_props_def sd_updated_def loadLogs_def loadEvents_def job_of_def Let_def
      split: option.splits if_splits)

lemma select_opens:
  assumes "panel_synced dp" and "page_view (dp_page dp) = PageShown p"
    and "n \<in> ps_name ` set (sp_steps (pl_spec p))" and "n \<noteq> []"
  shows "\<exists>d. dp_panel (dp_step elk dp (DpPage (SelectStep n))) = Some d \<and>
    map_option ps_name (sd_step d) = Some n \<and>
    map_option ss_jobName (sd_status d) =
      map_option ss_jobName (Option.bind (pl_status p) (\<lambda>st. List.find (\<lambda>t. ss_name t = n) (pls_steps st))) \<and>
    (\<forall>job. job_of d = Some job \<longrightarrow> (\<exists>k. (k, job) \<in> set (sd_podsPending d)) \<or>
      (\<exists>d0. dp_panel dp = Some d0 \<and> job_of d0 = Some job))"
proof -
  let ?dp = "dp_step elk dp (DpPage (SelectStep n))"
  let ?s = "page_step elk (dp_page dp) (SelectStep n)"
  note shown = select_page [OF assms(2), of elk n]
  have sync: "panel_synced ?dp" by (rule dp_step_synced [OF assms(1)])
  have page: "dp_page ?dp = ?s" and panel: "dp_panel ?dp = render_panel ?s (dp_panel dp)"
    by (simp_all add: Let_def del: page_step.simps)
  have "panel_given ?s \<noteq> None" using panel_given_none [OF _ shown(1,2) assms(4)] assms(3) by blast
  then obtain step st ns where given: "panel_given ?s = Some (step, st, ns)" by auto
  define old where "old = (case dp_panel dp of Some d \<Rightarrow> d | None \<Rightarrow> sd_connected step_detail_start)"
  define d where "d = set_props step st ns old"
  have d: "dp_panel ?dp = Some d" by (simp add: panel render_panel_def given d_def old_def del: page_step.simps)
  have cache: "cache_ok ?s" using sync page by (simp add: panel_synced_def del: page_step.simps dp_step.simps)
  from panel_given_shown [OF cache given] shown(2) obtain t where
    step: "step = Some t" "ps_name t = n" "\<not> hasStatusChanged st (selected_status ?s)"
    by (auto simp del: page_step.simps)
  have "job_of d = Some job \<longrightarrow> (\<exists>k. (k, job) \<in> set (sd_podsPending d)) \<or>
      (\<exists>d0. dp_panel dp = Some d0 \<and> job_of d0 = Some job)" for job
  proof -
    have "\<exists>d0. dp_panel dp = Some d0 \<and> job_of d0 = Some job" if "sd_currentJobName old = Some job"
      using that assms(1)
      by (auto simp: old_def panel_synced_def sd_connected_def step_detail_start_def split: option.splits)
    then show ?thesis using set_props_requests [of step st ns old job] by (auto simp: d_def)
  qed
  moreover have "map_option ss_jobName st = map_option ss_jobName (selected_status ?s)"
    using step(3) by (auto simp: hasStatusChanged_def split: option.splits)
  ultimately show ?thesis
    using d step(1,2) unfolding shown(3) by (auto simp: d_def set_props_facts)
qed

text \<open>
  C18: on a page whose graph is that of the pipeline it shows, every step of
  the pipeline can be opened with a click and with a key, and no other name can be: the panel then shows the step with the job
  of its line in the table, and it asks for the logs of that job, unless it already showed that job.
\<close>

theorem every_step_opens:
  assumes "dp = dp_run elk (dp_start params) es" and "page_view (dp_page dp) = PageShown p"
    and "pd_graph (dp_page dp) = Some g" and "layoutGraph elk (pipelineToGraph p) = Inr g"
    and "step \<in> set (sp_steps (pl_spec p))" and "ps_name step \<noteq> []"
  shows "let view = detail_render num localeTime now yaml dp; act = PdPage (SelectStep (ps_name step))
    in ([act], True) \<in> set (clicks view) \<and> ([act], False) \<in> set (keys view) \<and>
      (\<exists>d. dp_panel (fst (detail_do confirmed fetch base elk act dp)) = Some d \<and>
        map_option ps_name (sd_step d) = Some (ps_name step) \<and>
        map_option ss_jobName (sd_status d) = map_option ss_jobName (timeline_status p step) \<and>
        (\<forall>job. job_of d = Some job \<longrightarrow> (\<exists>k. (k, job) \<in> set (sd_podsPending d)) \<or>
          (\<exists>d0. dp_panel dp = Some d0 \<and> job_of d0 = Some job))) \<and>
      (\<forall>n. PdPage (SelectStep n) \<in> view_acts view \<longrightarrow> n \<in> ps_name ` set (sp_steps (pl_spec p)))"
proof -
  have sync: "panel_synced dp" using assms(1) dp_run_synced [OF dp_start_synced] by simp
  have "nd_id (place_node children n) = nd_id n" for children n
    by (simp add: place_node_def split: option.split)
  then have ids: "map nd_id (gr_nodes g) = map ps_name (sp_steps (pl_spec p))"
    using assms(4) graph_node_ids [of p] by (auto simp: layoutGraph_def comp_def split: sum.splits)
  then have "ps_name step \<in> nd_id ` set (gr_nodes g)" using assms(5) by (metis image_eqI set_map)
  then obtain node where node: "node \<in> set (gr_nodes g)" "nd_id node = ps_name step" by auto
  note press = detail_render_press [OF assms(2)] graph_view_press [OF assms(3) node(1), unfolded node(2)]
  have name: "ps_name step \<in> ps_name ` set (sp_steps (pl_spec p))" using assms(5) by blast
  show ?thesis
    unfolding Let_def detail_do_def detail_action.case fst_conv timeline_status_def
    using press select_opens [OF sync assms(2) name assms(6), of elk]
      selects_only_steps [OF assms(2,3) ids]
    by (intro conjI) blast+
qed

theorem every_step_opens_witness:
  "\<exists>d. dp_panel (dp_step elk_nothing (dp_run elk_nothing (dp_start ci_route)
      [DpPage PageConnected, DpPage (PipelineAnswer 0 (Inr (ci_pipeline None))), DpPage (LayoutAnswer 0)])
      (DpPage (SelectStep ''build''))) = Some d \<and>
    (\<exists>k. (k, ''ci-build'') \<in> set (sd_podsPending d))"
proof -
  let ?es = "[DpPage PageConnected, DpPage (PipelineAnswer 0 (Inr (ci_pipeline None))), DpPage (LayoutAnswer 0)]"
  let ?dp = "dp_run elk_nothing (dp_start ci_route) ?es"
  have "case layoutGraph elk_nothing (pipelineToGraph (ci_pipeline None)) of
      Inl e \<Rightarrow> False | Inr g \<Rightarrow> pd_graph (dp_page ?dp) = Some g"
    by code_simp
  then obtain g where g: "pd_graph (dp_page ?dp) = Some g"
    "layoutGraph elk_nothing (pipelineToGraph (ci_pipeline None)) = Inr g"
    by (auto split: sum.splits)
  have page: "page_view (dp_page ?dp) = PageShown (ci_pipeline None)"
    "createDefaultStep ''build'' \<in> set (sp_steps (pl_spec (ci_pipeline None)))"
    "map_option ss_jobName (timeline_status (ci_pipeline None) (createDefaultStep ''build'')) = Some (Some ''ci-build'')"
    "dp_panel ?dp = None" "ps_name (createDefaultStep ''build'') = ''build''"
    by code_simp+
  from every_step_opens [OF refl page(1) g page(2), where confirmed = True and base = "[]"
      and num = "\<lambda>x. []" and localeTime = "\<lambda>t. t" and now = 0 and yaml = "\<lambda>p. []"
      and fetch = "\<lambda>_. Inl OtherThrown :: unit Response outcome"]
  obtain d where d: "dp_panel (fst (detail_do True (\<lambda>_. Inl OtherThrown :: unit Response outcome) [] elk_nothing
      (PdPage (SelectStep ''build'')) ?dp)) = Some d"
    "map_option ss_jobName (sd_status d) = Some (Some ''ci-build'')"
    "\<forall>job. job_of d = Some job \<longrightarrow> (\<exists>k. (k, job) \<in> set (sd_podsPending d))"
    unfolding Let_def page(3,4,5) by auto
  from d(2) have "job_of d = Some ''ci-build''" by (auto simp: job_of_def truthy_def)
  with d show ?thesis by (auto simp: detail_do_def)
qed

end
