(* ===== verification/Pvc_List.thy ===== *)
theory Pvc_List
  imports List_View Js_Regex
begin

section \<open>The list of volume claims (\<open>ui/src/components/storage/pvc-list.ts\<close>)\<close>

text \<open>
  A list view with a form that creates claims.  The form's state is a record of its own inside
  the view.  \<open>lc\<close> is \<open>localeCompare\<close>, as for the list of pipelines.
\<close>

subsection \<open>State\<close>

record PvcListView = "PVC ListView" +
  pv_storageClasses :: "StorageClass list"
  pv_showCreateModal :: bool
  pv_creating :: bool
  pv_createError :: "string option"
  pv_newPvcName :: string
  pv_newPvcSize :: string
  pv_newPvcSizeUnit :: string
  pv_newPvcVolumeMode :: string
  pv_newPvcStorageClass :: string
  pv_newPvcAccessMode :: string

definition pvc_list_start :: PvcListView where
  "pvc_list_start =
     \<lparr>ld_items = [], ld_loading = True, ld_error = None, ld_namespace = ''default'',
      ld_pending = [], ld_next = 0, ld_polling = False, ld_listeners = 0,
      lv_searchQuery = [], lv_sortDirection = Asc, lv_currentPage = 1, lv_pageSize = 10,
      pv_storageClasses = [], pv_showCreateModal = False, pv_creating = False,
      pv_createError = None, pv_newPvcName = [], pv_newPvcSize = ''1'', pv_newPvcSizeUnit = ''Gi'',
      pv_newPvcVolumeMode = ''Filesystem'', pv_newPvcStorageClass = [],
      pv_newPvcAccessMode = ''ReadWriteOnce''\<rparr>"

subsection \<open>Loading\<close>

definition pvc_connected :: "PvcListView \<Rightarrow> PvcListView" where
  "pvc_connected s = list_connected s"

definition pvc_disconnected :: "PvcListView \<Rightarrow> PvcListView" where
  "pvc_disconnected s = list_disconnected s"

definition loadPVCs :: "PVC list option fetch \<Rightarrow> string \<Rightarrow> PvcListView \<Rightarrow> PvcListView" where
  "loadPVCs fetch base s =
     load_end ''Failed to load PVCs'' (ld_next s)
       (listPVCs fetch base (ld_namespace s)) (load_start s)"

definition loadStorageClasses ::
    "StorageClass list option fetch \<Rightarrow> string \<Rightarrow> PvcListView \<Rightarrow> PvcListView" where
  "loadStorageClasses fetch base s =
     (case listStorageClasses fetch base of
        Inr classes \<Rightarrow> s\<lparr>pv_storageClasses := classes\<rparr>
      | Inl _ \<Rightarrow> s)"

definition pvc_loadData ::
    "PVC list option fetch \<Rightarrow> StorageClass list option fetch \<Rightarrow> string \<Rightarrow> PvcListView \<Rightarrow> PvcListView" where
  "pvc_loadData fetch fetch_classes base s = loadStorageClasses fetch_classes base (loadPVCs fetch base s)"

definition pvc_formatTime :: "(int \<Rightarrow> string) \<Rightarrow> int \<Rightarrow> string \<Rightarrow> string" where
  "pvc_formatTime localeDate now isoString = format_time localeDate now isoString"

definition getPhaseColor :: "string \<Rightarrow> string" where
  "getPhaseColor phase =
     (if phase = ''Bound'' then ''green'' else if phase = ''Pending'' then ''orange''
      else if phase = ''Lost'' then ''red'' else ''gray'')"

subsection \<open>Filtering, sorting and paging\<close>

definition filteredPVCs :: "(string \<Rightarrow> string \<Rightarrow> int) \<Rightarrow> PvcListView \<Rightarrow> PVC list" where
  "filteredPVCs lc s = filtered pvc_name (\<lambda>dir. directed dir (\<lambda>a b. lc (pvc_name a) (pvc_name b))) s"

definition pvc_totalPages :: "(string \<Rightarrow> string \<Rightarrow> int) \<Rightarrow> PvcListView \<Rightarrow> int" where
  "pvc_totalPages lc s = total_pages (lv_pageSize s) (filteredPVCs lc s)"

definition paginatedPVCs :: "(string \<Rightarrow> string \<Rightarrow> int) \<Rightarrow> PvcListView \<Rightarrow> PVC list" where
  "paginatedPVCs lc s = page_items (lv_pageSize s) (lv_currentPage s) (filteredPVCs lc s)"

definition pvc_paginationRange :: "(string \<Rightarrow> string \<Rightarrow> int) \<Rightarrow> PvcListView \<Rightarrow> page_item list" where
  "pvc_paginationRange lc s = pagination_range (pvc_totalPages lc s) (lv_currentPage s)"

definition pvc_goToPage :: "(string \<Rightarrow> string \<Rightarrow> int) \<Rightarrow> int \<Rightarrow> PvcListView \<Rightarrow> PvcListView" where
  "pvc_goToPage lc p s = go_to_page (filteredPVCs lc) lv_pageSize set_page p s"

definition pvc_handleSearchInput :: "string \<Rightarrow> PvcListView \<Rightarrow> PvcListView" where
  "pvc_handleSearchInput q s = set_query q s"

definition pvc_toggleSort :: "PvcListView \<Rightarrow> PvcListView" where
  "pvc_toggleSort s = s\<lparr>lv_sortDirection := flip_direction (lv_sortDirection s)\<rparr>"

subsection \<open>Creating and deleting\<close>

definition pvc_openCreateModal :: "PvcListView \<Rightarrow> PvcListView" where
  "pvc_openCreateModal s =
     s\<lparr>pv_showCreateModal := True, pv_createError := None, pv_newPvcName := [],
       pv_newPvcSize := ''1'', pv_newPvcSizeUnit := ''Gi'', pv_newPvcVolumeMode := ''Filesystem'',
       pv_newPvcStorageClass := [], pv_newPvcAccessMode := ''ReadWriteOnce''\<rparr>"

definition pvc_closeCreateModal :: "PvcListView \<Rightarrow> PvcListView" where
  "pvc_closeCreateModal s = s\<lparr>pv_showCreateModal := False, pv_createError := None\<rparr>"

definition resource_name_error :: string where
  "resource_name_error = ''Name must consist of lowercase alphanumeric characters or \"-\", and must start and end with an alphanumeric character''"

definition pvc_request :: "PvcListView \<Rightarrow> NewPVC" where
  "pvc_request s =
     \<lparr>np_name = js_trim (pv_newPvcName s),
      np_storageClassName = or_undefined (pv_newPvcStorageClass s),
      np_accessModes = [pv_newPvcAccessMode s], np_volumeMode = pv_newPvcVolumeMode s,
      np_storage = pv_newPvcSize s @ pv_newPvcSizeUnit s\<rparr>"

text \<open>
  The result is the new state and the claim sent to the API, if one was sent.  After a success the
  modal is closed and a load is started.
\<close>

definition submitPVC :: "'a fetch \<Rightarrow> string \<Rightarrow> PvcListView \<Rightarrow> PvcListView \<times> NewPVC option" where
  "submitPVC fetch base s =
     (if js_trim (pv_newPvcName s) = []
      then (s\<lparr>pv_createError := Some ''PVC name is required''\<rparr>, None)
      else if \<not> re_match name_regex (pv_newPvcName s)
      then (s\<lparr>pv_createError := Some resource_name_error\<rparr>, None)
      else
        (let s1 = s\<lparr>pv_creating := False, pv_createError := None\<rparr>
         in case createPVC fetch base (ld_namespace s) (pvc_request s) of
              Inr _ \<Rightarrow> (load_start (pvc_closeCreateModal s1), Some (pvc_request s))
            | Inl e \<Rightarrow>
                (s1\<lparr>pv_createError := Some (message_or e ''Failed to create PVC'')\<rparr>,
                 Some (pvc_request s))))"

definition deletePVC ::
    "bool \<Rightarrow> 'a fetch \<Rightarrow> string \<Rightarrow> PVC \<Rightarrow> PvcListView \<Rightarrow> PvcListView \<times> string option" where
  "deletePVC confirmed fetch base p s =
     (if \<not> confirmed then (s, None)
      else (case deletePVC_request fetch base (text_or (pvc_namespace p) (ld_namespace s)) (pvc_name p) of
              Inr _ \<Rightarrow> (load_start s, None)
            | Inl e \<Rightarrow> (s, Some (''Failed to delete PVC: '' @ message_or e ''Unknown error''))))"

subsection \<open>Properties\<close>

lemma filteredPVCs_set_page [simp]: "filteredPVCs lc (set_page p s) = filteredPVCs lc s"
  unfolding filteredPVCs_def by (rule filtered_set_page)

interpretation pv: paged_list "filteredPVCs lc" lv_currentPage lv_pageSize set_page
    "\<lambda>s. 0 < lv_pageSize s" for lc
  by unfold_locales (simp_all only: filteredPVCs_set_page set_page_simps)

lemma pvcs_pages:
  assumes "0 < lv_pageSize s"
  shows "concat (map (\<lambda>p. paginatedPVCs lc (set_page p s)) [1..pvc_totalPages lc s]) = filteredPVCs lc s"
  using pv.pages_cover [OF assms, of lc]
  by (simp add: paginatedPVCs_def pvc_totalPages_def pv.pages_def)

lemma dns_label_trim: "dns_label n \<Longrightarrow> js_trim n = n"
proof -
  have alnum: "\<not> is_space c" if "lower_alnum c" for c
    using that by (auto simp: lower_alnum_def is_lower_def is_digit_def is_space_def)
  assume "dns_label n"
  then have n: "n \<noteq> []" "lower_alnum (hd n)" "lower_alnum (last n)" by (simp_all add: dns_label_def)
  have "dropWhile is_space n = n" using n alnum by (cases n) auto
  moreover have "dropWhile is_space (rev n) = rev n"
    using n(1,3) alnum by (cases n rule: rev_cases) auto
  ultimately show ?thesis by (simp add: js_trim_def)
qed

text \<open>
  Submitting the form sends a claim exactly when its name is lowercase letters,
  digits and inner hyphens, and then one with that very name, in the current namespace; otherwise
  nothing is sent, the form stays as it is and says why.
\<close>

theorem pvc_form:
  "case submitPVC fetch base s of (s', sent) \<Rightarrow>
     if dns_label (pv_newPvcName s)
     then sent = Some \<lparr>np_name = pv_newPvcName s,
            np_storageClassName = or_undefined (pv_newPvcStorageClass s),
            np_accessModes = [pv_newPvcAccessMode s], np_volumeMode = pv_newPvcVolumeMode s,
            np_storage = pv_newPvcSize s @ pv_newPvcSizeUnit s\<rparr> \<and>
          (case createPVC fetch base (ld_namespace s) (the sent) of
             Inr _ \<Rightarrow> \<not> pv_showCreateModal s' \<and> pv_createError s' = None \<and>
               ld_pending s' = ld_pending s @ [(ld_next s, ld_namespace s)]
           | Inl e \<Rightarrow> pv_showCreateModal s' = pv_showCreateModal s \<and> pv_createError s' \<noteq> None \<and>
               ld_pending s' = ld_pending s)
     else sent = None \<and> pv_createError s' \<noteq> None \<and> pv_newPvcName s' = pv_newPvcName s \<and>
          ld_pending s' = ld_pending s"
proof (cases "dns_label (pv_newPvcName s)")
  case True
  then have "js_trim (pv_newPvcName s) = pv_newPvcName s" "pv_newPvcName s \<noteq> []"
    using dns_label_trim by (simp_all add: dns_label_def)
  with True show ?thesis
    by (auto simp: submitPVC_def name_regex_dns_label Let_def pvc_request_def load_start_def
        pvc_closeCreateModal_def split: sum.split)
next
  case False
  then show ?thesis by (simp add: submitPVC_def name_regex_dns_label)
qed

text \<open>
  The error panel of the list is never shown: \<open>listPVCs\<close> turns every failure into an empty list,
  so a load always ends without an error.
\<close>

lemma loadPVCs_no_error: "ld_error (loadPVCs fetch base s) = None"
  by (simp add: loadPVCs_def load_end_def load_start_def listPVCs_def or_empty_def split: sum.split)

end
