(* ===== verification/Pvc_List_View.thy ===== *)
theory Pvc_List_View
  imports Pvc_List List_Panel
begin

section \<open>The view of the list of claims (\<open>pvc-list.ts\<close>, \<open>render\<close>)\<close>

text \<open>
  The template of the list and of the dialog that creates a claim, the actions of its controls,
  and the states the list can get into.
\<close>

subsection \<open>The template\<close>

datatype pvc_action =
    PvSearch string
  | PvSort
  | PvPage int
  | PvOpenCreate
  | PvCloseCreate
  | PvDelete PVC
  | PvRetry
  | PvName string
  | PvSize string
  | PvUnit string
  | PvVolumeMode string
  | PvAccessMode string
  | PvStorageClass string
  | PvSubmit

definition pvc_renderPagination ::
    "(string \<Rightarrow> string \<Rightarrow> int) \<Rightarrow> PvcListView \<Rightarrow> pvc_action Html" where
  "pvc_renderPagination lc s =
     render_pagination ''PVCs'' PvPage (lv_currentPage s) (lv_pageSize s)
       (int (length (filteredPVCs lc s))) (pvc_totalPages lc s) (pvc_paginationRange lc s)"

definition renderPVCRow :: "(string \<Rightarrow> string) \<Rightarrow> PVC \<Rightarrow> pvc_action Html" where
  "renderPVCRow format p =
     node ''tr''
       [node ''td'' [node ''div'' [labelled ''rh-tag'' ''pvc'', labelled ''span'' (pvc_name p)]],
        node ''td'' [Elem ''rh-tag'' [Attr ''color'' (getPhaseColor (pvc_phase p))] [] [Text (pvc_phase p)]],
        labelled ''td'' (str_or (pvc_storage p) ''-''),
        labelled ''td'' (str_or (map_option (js_join '', '') (pvc_accessModes p)) ''-''),
        labelled ''td'' (str_or (pvc_volumeMode p) ''Filesystem''),
        labelled ''td'' (str_or (pvc_storageClassName p) ''(default)''),
        node ''td'' [labelled ''span'' (created_text format (pvc_creationTimestamp p))],
        node ''td''
          [Elem ''button'' [Attr ''title'' ''Delete PVC'', Attr ''aria-label'' (''Delete '' @ pvc_name p)]
             [Click (PvDelete p)] [node ''rh-icon'' []]]]"

definition pvc_header :: "PvcListView \<Rightarrow> pvc_action Html" where
  "pvc_header s =
     node ''div''
       [labelled ''h1'' ''Persistent Volume Claims'',
        node ''div''
          [Elem ''input''
             [Attr ''type'' ''search'', Attr ''placeholder'' ''Search PVCs...'',
              Prop ''value'' (lv_searchQuery s), Attr ''aria-label'' ''Search PVCs'']
             [Input PvSearch] [],
           Elem ''rh-button'' [] [Click PvOpenCreate] [node ''rh-icon'' [], Text ''Create PVC'']]]"

definition pvc_empty :: "PvcListView \<Rightarrow> pvc_action Html" where
  "pvc_empty s =
     (let searching = (lv_searchQuery s \<noteq> [])
      in node ''div''
        ([node ''rh-icon'' [],
          labelled ''h3'' (if searching then ''No matching PVCs'' else ''No PVCs found''),
          labelled ''p'' (if searching then ''Try adjusting your search query.''
            else ''Create a persistent volume claim to store data.'')] @
         (if searching then []
          else [node ''rh-cta''
            [Elem ''a'' [Attr ''href'' ''#''] [Click PvOpenCreate] [Text ''Create PVC'']]])))"

definition pvc_table ::
    "(string \<Rightarrow> string \<Rightarrow> int) \<Rightarrow> (string \<Rightarrow> string) \<Rightarrow> PvcListView \<Rightarrow> pvc_action Html" where
  "pvc_table lc format s =
     node ''div''
       ([node ''table''
          [node ''thead'' [node ''tr''
             ([Elem ''th'' [] [Click PvSort] [node ''span'' [Text ''Name'',
                 Elem ''rh-icon'' [Attr ''icon'' (direction_icon (lv_sortDirection s))] [] []]]] @
              map (labelled ''th'') [''Status'', ''Size'', ''Access Mode'', ''Volume Mode'',
                ''Storage Class'', ''Created'', ''Actions''])],
           node ''tbody'' (map (renderPVCRow format) (paginatedPVCs lc s))]] @
        (if pvc_totalPages lc s > 1 then [pvc_renderPagination lc s] else []))"

definition pvc_form_fields :: "PvcListView \<Rightarrow> pvc_action Html list" where
  "pvc_form_fields s =
     [node ''div'' [labelled ''label'' ''Name *'',
        Elem ''input'' [Attr ''type'' ''text'', Prop ''value'' (pv_newPvcName s),
          Attr ''placeholder'' ''my-pvc''] [Input PvName] []],
      node ''div'' [labelled ''label'' ''Size *'',
        node ''div''
          [Elem ''input'' [Attr ''type'' ''number'', Attr ''min'' ''1'',
             Prop ''value'' (pv_newPvcSize s)] [Input PvSize] [],
           choice (pv_newPvcSizeUnit s) PvUnit
             [(''Mi'', ''Mi'', False), (''Gi'', ''Gi'', True), (''Ti'', ''Ti'', False)]]],
      node ''div'' [labelled ''label'' ''Volume Mode'',
        choice (pv_newPvcVolumeMode s) PvVolumeMode
          [(''Filesystem'', ''Filesystem'', True), (''Block'', ''Block'', False)]],
      node ''div'' [labelled ''label'' ''Access Mode'',
        choice (pv_newPvcAccessMode s) PvAccessMode
          [(''ReadWriteOnce'', ''ReadWriteOnce (RWO)'', True),
           (''ReadOnlyMany'', ''ReadOnlyMany (ROX)'', False),
           (''ReadWriteMany'', ''ReadWriteMany (RWX)'', False),
           (''ReadWriteOncePod'', ''ReadWriteOncePod (RWOP)'', False)]],
      node ''div''
        ([node ''label'' [Text ''Storage Class'', labelled ''span'' ''(optional)''],
          choice (pv_newPvcStorageClass s) PvStorageClass
            ([([], ''(cluster default)'', False)] @
             map (\<lambda>sc. (stc_name sc, stc_name sc, False)) (pv_storageClasses s))] @
         (if pv_storageClasses s = [] then [labelled ''div'' ''No storage classes found in cluster'']
          else []))]"

definition pvc_renderCreateModal :: "PvcListView \<Rightarrow> pvc_action Html" where
  "pvc_renderCreateModal s =
     dialog PvCloseCreate ''Create Persistent Volume Claim''
       (form_error (pv_createError s) @ pvc_form_fields s)
       [Elem ''rh-button'' [Attr ''variant'' ''secondary'', Flag ''disabled'' (pv_creating s)]
          [Click PvCloseCreate] [Text ''Cancel''],
        Elem ''rh-button'' [Flag ''disabled'' (pv_creating s)] [Click PvSubmit]
          [Text (if pv_creating s then ''Creating...'' else ''Create PVC'')]]"

definition pvc_render ::
    "(string \<Rightarrow> string \<Rightarrow> int) \<Rightarrow> (string \<Rightarrow> string) \<Rightarrow> PvcListView \<Rightarrow> pvc_action Html list" where
  "pvc_render lc format s =
     (if ld_loading s then loading_panel ''Loading PVCs...''
      else if truthy (ld_error s) then error_panel ''Error loading PVCs'' (the (ld_error s)) PvRetry
      else [pvc_header s,
            if filteredPVCs lc s = [] then pvc_empty s else pvc_table lc format s] @
           (if pv_showCreateModal s then [pvc_renderCreateModal s] else []))"

subsection \<open>What an action does\<close>

definition pvc_do ::
    "bool \<Rightarrow> 'a fetch \<Rightarrow> 'b fetch \<Rightarrow> string \<Rightarrow> (string \<Rightarrow> string \<Rightarrow> int) \<Rightarrow> pvc_action \<Rightarrow>
     PvcListView \<Rightarrow> PvcListView" where
  "pvc_do confirmed create_fetch delete_fetch base lc a s =
     (case a of
        PvSearch q \<Rightarrow> pvc_handleSearchInput q s
      | PvSort \<Rightarrow> pvc_toggleSort s
      | PvPage i \<Rightarrow> pvc_goToPage lc i s
      | PvOpenCreate \<Rightarrow> pvc_openCreateModal s
      | PvCloseCreate \<Rightarrow> pvc_closeCreateModal s
      | PvDelete p \<Rightarrow> fst (deletePVC confirmed delete_fetch base p s)
      | PvRetry \<Rightarrow> load_start s
      | PvName v \<Rightarrow> s\<lparr>pv_newPvcName := v\<rparr>
      | PvSize v \<Rightarrow> s\<lparr>pv_newPvcSize := v\<rparr>
      | PvUnit v \<Rightarrow> s\<lparr>pv_newPvcSizeUnit := v\<rparr>
      | PvVolumeMode v \<Rightarrow> s\<lparr>pv_newPvcVolumeMode := v\<rparr>
      | PvAccessMode v \<Rightarrow> s\<lparr>pv_newPvcAccessMode := v\<rparr>
      | PvStorageClass v \<Rightarrow> s\<lparr>pv_newPvcStorageClass := v\<rparr>
      | PvSubmit \<Rightarrow> fst (submitPVC create_fetch base s))"

subsection \<open>The states of the list\<close>

text \<open>
  The list starts, loads (every answer is one the client gives), and is used: the user clicks, uses
  a key or types into what is on the screen.
\<close>

inductive pvc_reach ::
    "(string \<Rightarrow> string \<Rightarrow> int) \<Rightarrow> (string \<Rightarrow> string) \<Rightarrow> PvcListView \<Rightarrow> bool"
  for lc format where
  start: "pvc_reach lc format pvc_list_start"
| load: "pvc_reach lc format s \<Longrightarrow> \<forall>k r. e = Answer k r \<longrightarrow> (\<exists>fetch base ns. r = listPVCs (fetch :: PVC list option fetch) base ns) \<Longrightarrow>
    pvc_reach lc format (loader_step ''Failed to load PVCs'' s e)"
| classes: "pvc_reach lc format s \<Longrightarrow> pvc_reach lc format (loadStorageClasses (fetch :: StorageClass list option fetch) base s)"
| click: "pvc_reach lc format s \<Longrightarrow> r \<in> set (clicks (pvc_render lc format s)) \<Longrightarrow>
    pvc_reach lc format (fold (pvc_do confirmed (create_fetch :: unit fetch) (delete_fetch :: unit fetch) base lc) (fst r) s)"
| key: "pvc_reach lc format s \<Longrightarrow> r \<in> set (keys (pvc_render lc format s)) \<Longrightarrow>
    pvc_reach lc format (fold (pvc_do confirmed (create_fetch :: unit fetch) (delete_fetch :: unit fetch) base lc) (fst r) s)"
| type: "pvc_reach lc format s \<Longrightarrow> a \<in> set (typed (pvc_render lc format s) v) \<Longrightarrow>
    pvc_reach lc format (pvc_do confirmed (create_fetch :: unit fetch) (delete_fetch :: unit fetch) base lc a s)"
| choice: "pvc_reach lc format s \<Longrightarrow> a \<in> set (chosen (pvc_render lc format s)) \<Longrightarrow>
    pvc_reach lc format (pvc_do confirmed (create_fetch :: unit fetch) (delete_fetch :: unit fetch) base lc a s)"

lemma load_start_fields:
  "ld_error (load_start l) = ld_error l" "ld_items (load_start l) = ld_items l"
  by (simp_all add: load_start_def)

subsection \<open>What holds in all of them\<close>

definition pvc_ok :: "PvcListView \<Rightarrow> bool" where
  "pvc_ok s =
     (ld_error s = None \<and> lv_pageSize s = 10 \<and> 1 \<le> lv_currentPage s \<and>
      pv_newPvcSizeUnit s \<in> {''Mi'', ''Gi'', ''Ti''} \<and>
      pv_newPvcVolumeMode s \<in> {''Filesystem'', ''Block''} \<and>
      pv_newPvcAccessMode s \<in>
        {''ReadWriteOnce'', ''ReadOnlyMany'', ''ReadWriteMany'', ''ReadWriteOncePod''})"

text \<open>The actions that keep it: a choice must be one of the options.\<close>

definition pvc_fine :: "pvc_action \<Rightarrow> bool" where
  "pvc_fine a =
     (case a of
        PvUnit v \<Rightarrow> v \<in> {''Mi'', ''Gi'', ''Ti''}
      | PvVolumeMode v \<Rightarrow> v \<in> {''Filesystem'', ''Block''}
      | PvAccessMode v \<Rightarrow>
          v \<in> {''ReadWriteOnce'', ''ReadOnlyMany'', ''ReadWriteMany'', ''ReadWriteOncePod''}
      | _ \<Rightarrow> True)"

lemma pvc_ok_load_start: "pvc_ok (load_start s) = pvc_ok s"
  by (simp add: pvc_ok_def load_start_def)

lemma pvc_ok_namespaces: "pvc_ok s \<Longrightarrow> pvc_ok ((namespace_changed ns ^^ n) s)"
  by (induction n) (simp_all add: namespace_changed_def pvc_ok_load_start, simp add: pvc_ok_def)

lemma pvc_ok_loader:
  assumes "pvc_ok s"
    and "\<forall>k r. e = Answer k r \<longrightarrow>
      (\<exists>fetch base ns. r = listPVCs (fetch :: PVC list option fetch) base ns)"
  shows "pvc_ok (loader_step fallback s e)"
proof (cases e)
  case (Answer k r)
  with assms(2) obtain fetch :: "PVC list option fetch" and base ns where "r = listPVCs fetch base ns" by blast
  then have "\<exists>items. r = Inr items" by (auto simp: listPVCs_def or_empty_def split: sum.splits)
  then obtain items where "r = Inr items" by blast
  with Answer assms(1) show ?thesis by (simp add: load_end_def pvc_ok_def)
qed (use assms(1) pvc_ok_namespaces [OF assms(1)] in
    \<open>simp_all add: list_connected_def list_disconnected_def poll_tick_def window_namespace_def
       pvc_ok_load_start, simp_all add: pvc_ok_def\<close>)

lemma pvc_ok_do:
  assumes "pvc_ok s" and "pvc_fine a"
  shows "pvc_ok (pvc_do confirmed create_fetch delete_fetch base lc a s)"
  using assms
  by (cases a)
     (auto simp: pvc_do_def pvc_fine_def pvc_handleSearchInput_def set_query_def pvc_toggleSort_def
        pvc_goToPage_def go_to_page_def set_page_def pvc_openCreateModal_def pvc_closeCreateModal_def
        deletePVC_def submitPVC_def Let_def load_start_def pvc_ok_def split: sum.splits)

lemma pvc_ok_fold:
  "pvc_ok s \<Longrightarrow> \<forall>a \<in> set as. pvc_fine a \<Longrightarrow>
     pvc_ok (fold (pvc_do confirmed create_fetch delete_fetch base lc) as s)"
  by (induction as arbitrary: s) (simp_all add: pvc_ok_do)

text \<open>Only the dialog has choices, and only the panel of the error the action \<open>PvRetry\<close>.\<close>

lemma view_acts_pvc_list:
  "view_acts [pvc_header s, pvc_empty s, pvc_table lc format s] \<subseteq>
     {PvSort, PvOpenCreate} \<union> range PvSearch \<union> range PvPage \<union> range PvDelete"
proof -
  have pages: "set_Html (pvc_renderPagination lc s) \<subseteq> range PvPage"
    unfolding pvc_renderPagination_def by (rule set_pagination)
  have row: "set_Html (renderPVCRow format p) = {PvDelete p}" for p
    by (simp add: renderPVCRow_def)
  have "set_Html (pvc_table lc format s) \<subseteq>
      {PvSort} \<union> (\<Union>p. set_Html (renderPVCRow format p)) \<union> set_Html (pvc_renderPagination lc s)"
    by (auto simp: pvc_table_def)
  with pages row have "set_Html (pvc_table lc format s) \<subseteq> {PvSort} \<union> range PvPage \<union> range PvDelete"
    by blast
  moreover have "set_Html (pvc_header s) \<subseteq> insert PvOpenCreate (range PvSearch)"
    "set_Html (pvc_empty s) \<subseteq> {PvOpenCreate}"
    by (auto simp: pvc_header_def pvc_empty_def Let_def)
  ultimately show ?thesis unfolding view_acts_simps by blast
qed

lemma view_acts_pvc_modal:
  "set_Html (pvc_renderCreateModal s) =
     {PvCloseCreate, PvSubmit} \<union> range PvName \<union> range PvSize \<union> range PvUnit \<union> range PvVolumeMode \<union>
     range PvAccessMode \<union> range PvStorageClass"
  by (auto simp: pvc_renderCreateModal_def dialog_def pvc_form_fields_def set_Html_choice form_error_def)

lemma press_acts_pvc_modal: "press_set (pvc_renderCreateModal s) = {PvCloseCreate, PvSubmit}"
  by (auto simp: pvc_renderCreateModal_def dialog_def pvc_form_fields_def form_error_def choice_def)

lemma chosen_fields:
  "set (chosen (pvc_form_fields s)) =
     PvUnit ` {''Mi'', ''Gi'', ''Ti''} \<union> PvVolumeMode ` {''Filesystem'', ''Block''} \<union>
     PvAccessMode ` {''ReadWriteOnce'', ''ReadOnlyMany'', ''ReadWriteMany'', ''ReadWriteOncePod''} \<union>
     PvStorageClass ` ({[]} \<union> stc_name ` set (pv_storageClasses s))"
  by (simp add: pvc_form_fields_def chosen_Elem chosen_Cons chosen_choice disabled_def image_image)
     (blast | auto)+

lemma chosen_pvc_modal:
  "set (chosen [pvc_renderCreateModal s]) = set (chosen (pvc_form_fields s))"
  by (simp add: pvc_renderCreateModal_def dialog_def chosen_Elem chosen_Cons disabled_def)

lemma reachable_pvc_modal:
  "set (reachable [pvc_renderCreateModal s]) \<subseteq>
     {ClickSelf PvCloseCreate, Click PvCloseCreate, Click PvSubmit, Input PvName, Input PvSize,
      Change PvUnit, Change PvVolumeMode, Change PvAccessMode, Change PvStorageClass}"
  by (cases "pv_storageClasses s = []"; cases "pv_creating s")
     (simp_all add: pvc_renderCreateModal_def dialog_def pvc_form_fields_def reachable_Elem reachable_Cons
        disabled_def)

lemma typed_pvc_modal: "a \<in> set (typed [pvc_renderCreateModal s] v) \<Longrightarrow> pvc_fine a"
  using reachable_pvc_modal [of s] by (fastforce simp: typed_def pvc_fine_def)

lemma pvc_fine_list:
  "a \<in> view_acts [pvc_header s, pvc_empty s, pvc_table lc format s] \<Longrightarrow> pvc_fine a"
  using view_acts_pvc_list [of s lc format] by (fastforce simp: pvc_fine_def)

text \<open>What is on the screen when there is no error.\<close>

lemma pvc_render_parts:
  assumes "ld_error s = None"
  shows "\<exists>hs. view_acts hs \<subseteq> view_acts [pvc_header s, pvc_empty s, pvc_table lc format s] \<and>
    pvc_render lc format s =
      hs @ (if \<not> ld_loading s \<and> pv_showCreateModal s then [pvc_renderCreateModal s] else [])"
  using assms by (auto simp: pvc_render_def loading_panel_def intro!: exI)

lemma pvc_press_fine:
  assumes "pvc_ok s" and "a \<in> press_acts (pvc_render lc format s)"
  shows "pvc_fine a"
proof -
  from assms(1) have "ld_error s = None" by (simp add: pvc_ok_def)
  from pvc_render_parts [OF this, of lc format] obtain hs where
    hs: "view_acts hs \<subseteq> view_acts [pvc_header s, pvc_empty s, pvc_table lc format s]" and
    view: "pvc_render lc format s =
      hs @ (if \<not> ld_loading s \<and> pv_showCreateModal s then [pvc_renderCreateModal s] else [])"
    by blast
  from assms(2) view consider "a \<in> press_acts hs" | "a \<in> press_set (pvc_renderCreateModal s)"
    by (auto split: if_splits)
  then show ?thesis
  proof cases
    case 1
    then show ?thesis using press_acts_subset [of hs] hs pvc_fine_list by blast
  next
    case 2
    then show ?thesis by (auto simp: press_acts_pvc_modal pvc_fine_def)
  qed
qed

lemma pvc_entry_fine:
  assumes "pvc_ok s"
    and "a \<in> set (typed (pvc_render lc format s) v) \<or> a \<in> set (chosen (pvc_render lc format s))"
  shows "pvc_fine a"
proof -
  from assms(1) have "ld_error s = None" by (simp add: pvc_ok_def)
  from pvc_render_parts [OF this, of lc format] obtain hs where
    hs: "view_acts hs \<subseteq> view_acts [pvc_header s, pvc_empty s, pvc_table lc format s]" and
    view: "pvc_render lc format s =
      hs @ (if \<not> ld_loading s \<and> pv_showCreateModal s then [pvc_renderCreateModal s] else [])"
    by blast
  from assms(2) view consider "a \<in> set (typed hs v)" | "a \<in> set (chosen hs)"
    | "a \<in> set (typed [pvc_renderCreateModal s] v)" | "a \<in> set (chosen [pvc_renderCreateModal s])"
    by (auto simp: typed_def split: if_splits)
  then show ?thesis
  proof cases
    case 1
    then have "a \<in> view_acts hs" by (rule typed_within_view(1))
    then show ?thesis using hs by (intro pvc_fine_list) (rule subsetD)
  next
    case 2
    then have "a \<in> view_acts hs" by (rule chosen_within_view)
    then show ?thesis using hs by (intro pvc_fine_list) (rule subsetD)
  next
    case 3
    then show ?thesis by (rule typed_pvc_modal)
  next
    case 4
    then show ?thesis unfolding chosen_pvc_modal chosen_fields by (auto simp: pvc_fine_def)
  qed
qed

lemma pvc_reach_ok: "pvc_reach lc format s \<Longrightarrow> pvc_ok s"
proof (induction rule: pvc_reach.induct)
  case start
  then show ?case by (simp add: pvc_ok_def pvc_list_start_def)
next
  case (load s e)
  then show ?case by (intro pvc_ok_loader)
next
  case (classes s fetch base)
  then show ?case by (simp add: loadStorageClasses_def pvc_ok_def split: sum.split)
next
  case (click s r confirmed create_fetch delete_fetch base)
  then show ?case
    using runs_pressed(1) [OF click.hyps(2)] pvc_press_fine by (intro pvc_ok_fold) blast+
next
  case (key s r confirmed create_fetch delete_fetch base)
  then show ?case
    using runs_pressed(2) [OF key.hyps(2)] pvc_press_fine by (intro pvc_ok_fold) blast+
next
  case (type s a v confirmed create_fetch delete_fetch base)
  then show ?case by (intro pvc_ok_do pvc_entry_fine) auto
next
  case (choice s a confirmed create_fetch delete_fetch base)
  then show ?case by (intro pvc_ok_do pvc_entry_fine) auto
qed

text \<open>
  C35: however the list is used and whatever the API answers, it never shows its
  error with the button \<open>Retry\<close>: the client turns a failure into an empty list.  The page number
  stays positive, and a claim that the form sends has one of the four access modes, one of the two
  volume modes, and a size in one of the three units.
\<close>

theorem pvc_states:
  assumes "pvc_reach lc format s"
  shows "PvRetry \<notin> view_acts (pvc_render lc format s) \<and> 1 \<le> lv_currentPage s \<and>
    (\<forall>q. snd (submitPVC fetch base s) = Some q \<longrightarrow>
      (\<exists>m u v. np_accessModes q = [m] \<and> np_volumeMode q = v \<and> np_storage q = pv_newPvcSize s @ u \<and>
        m \<in> {''ReadWriteOnce'', ''ReadOnlyMany'', ''ReadWriteMany'', ''ReadWriteOncePod''} \<and>
        v \<in> {''Filesystem'', ''Block''} \<and> u \<in> {''Mi'', ''Gi'', ''Ti''}))"
proof -
  from pvc_reach_ok [OF assms] have ok: "pvc_ok s" .
  then have "ld_error s = None" by (simp add: pvc_ok_def)
  from pvc_render_parts [OF this, of lc format] obtain hs where
    hs: "view_acts hs \<subseteq> view_acts [pvc_header s, pvc_empty s, pvc_table lc format s]" and
    view: "pvc_render lc format s =
      hs @ (if \<not> ld_loading s \<and> pv_showCreateModal s then [pvc_renderCreateModal s] else [])"
    by blast
  have "PvRetry \<notin> view_acts hs"
    using hs view_acts_pvc_list [of s lc format] by blast
  moreover have "PvRetry \<notin> set_Html (pvc_renderCreateModal s)"
    unfolding view_acts_pvc_modal by blast
  ultimately have "PvRetry \<notin> view_acts (pvc_render lc format s)"
    unfolding view by simp
  moreover have "\<exists>m u v. np_accessModes q = [m] \<and> np_volumeMode q = v \<and> np_storage q = pv_newPvcSize s @ u \<and>
        m \<in> {''ReadWriteOnce'', ''ReadOnlyMany'', ''ReadWriteMany'', ''ReadWriteOncePod''} \<and>
        v \<in> {''Filesystem'', ''Block''} \<and> u \<in> {''Mi'', ''Gi'', ''Ti''}"
    if "snd (submitPVC fetch base s) = Some q" for q
  proof -
    from that have "q = pvc_request s"
      by (auto simp: submitPVC_def Let_def split: if_splits sum.splits)
    with ok show ?thesis by (simp add: pvc_request_def pvc_ok_def)
  qed
  ultimately show ?thesis using ok by (simp add: pvc_ok_def)
qed

text \<open>An empty namespace whose list has been loaded, and the form with a name typed in.\<close>

definition no_claims :: PvcListView where
  "no_claims = loader_step ''Failed to load PVCs''
     (loader_step ''Failed to load PVCs'' pvc_list_start ListConnected) (Answer 0 (Inr []))"

definition claim_form :: PvcListView where
  "claim_form = (pvc_openCreateModal no_claims)\<lparr>pv_newPvcName := ''data''\<rparr>"

lemma no_claims_eq:
  "no_claims = pvc_list_start\<lparr>ld_loading := False, ld_next := 1, ld_polling := True, ld_listeners := 1\<rparr>"
  by (simp add: no_claims_def pvc_list_start_def list_connected_def load_start_def load_end_def)

lemma claim_form_reached: "pvc_reach lc format claim_form"
proof -
  let ?run = "pvc_do False (\<lambda>_. Inl OtherThrown :: unit Response outcome)
    (\<lambda>_. Inl OtherThrown :: unit Response outcome) [] lc"
  have "Inr [] = listPVCs (\<lambda>_. Inl OtherThrown :: PVC list option Response outcome) [] []"
    by (simp add: listings_never_fail [THEN conjunct1] request_def)
  then have "pvc_reach lc format no_claims"
    unfolding no_claims_def by (intro pvc_reach.intros) auto
  moreover have "([PvOpenCreate], True) \<in> set (clicks (pvc_render lc format no_claims))"
    by (simp add: pvc_render_def no_claims_eq pvc_list_start_def filteredPVCs_def filtered_def
        pvc_header_def clicks_compute)
  ultimately have "pvc_reach lc format (fold ?run (fst ([PvOpenCreate], True)) no_claims)"
    by (rule pvc_reach.click)
  then have opened: "pvc_reach lc format (pvc_openCreateModal no_claims)"
    by (simp add: pvc_do_def)
  moreover have "PvName ''data'' \<in> set (typed (pvc_render lc format (pvc_openCreateModal no_claims)) ''data'')"
    by (simp add: typed_def pvc_render_def pvc_openCreateModal_def no_claims_eq pvc_list_start_def
        pvc_renderCreateModal_def dialog_def pvc_form_fields_def reachable_Cons reachable_Elem disabled_def)
  ultimately have "pvc_reach lc format (?run (PvName ''data'') (pvc_openCreateModal no_claims))"
    by (rule pvc_reach.type)
  then show ?thesis by (simp add: claim_form_def pvc_do_def)
qed

theorem pvc_states_witness:
  "PvRetry \<notin> view_acts (pvc_render (\<lambda>a b. 0) (\<lambda>t. t) claim_form) \<and>
   (\<exists>q. snd (submitPVC (\<lambda>_. Inl OtherThrown :: unit Response outcome) [] claim_form) = Some q \<and>
     (\<exists>u. np_storage q = ''1'' @ u \<and> u \<in> {''Mi'', ''Gi'', ''Ti''}))"
proof -
  have name: "pv_newPvcName claim_form = ''data''" by (simp add: claim_form_def)
  have "re_match name_regex (pv_newPvcName claim_form)"
    unfolding name name_regex_dns_label
    by (simp add: dns_label_def lower_alnum_def is_lower_def is_digit_def name_char_def char_code_def)
  moreover have "js_trim (pv_newPvcName claim_form) \<noteq> []"
    unfolding name by (simp add: js_trim_def is_space_def char_code_def)
  ultimately have "snd (submitPVC (\<lambda>_. Inl OtherThrown :: unit Response outcome) [] claim_form) =
      Some (pvc_request claim_form)"
    by (simp add: submitPVC_def Let_def split: sum.split)
  moreover have "pv_newPvcSize claim_form = ''1''" by (simp add: claim_form_def pvc_openCreateModal_def)
  ultimately show ?thesis
    using pvc_states [OF claim_form_reached, of "\<lambda>a b. 0" "\<lambda>t. t"
        "\<lambda>_. Inl OtherThrown :: unit Response outcome" "[]"] by metis
qed

end
