(* ===== verification/Secret_List.thy ===== *)
theory Secret_List
  imports List_View Js_Regex Row_Editor
begin

section \<open>The list of secrets (\<open>ui/src/components/storage/secret-list.ts\<close>)\<close>

text \<open>
  A list view with three modal dialogs: one creates a secret, one shows a secret with its values
  hidden until revealed, one edits the entries of a secret.  The values are texts of 16-bit code
  units, as the user may type any character.
\<close>

subsection \<open>State\<close>

record KeyValuePair =
  kv_key :: string
  kv_value :: jstring
  kv_revealed :: bool

definition blank_pair :: KeyValuePair where
  "blank_pair = \<lparr>kv_key = [], kv_value = [], kv_revealed = False\<rparr>"

record SecretListView = "Secret ListView" +
  sl_showCreateModal :: bool
  sl_creating :: bool
  sl_createError :: "string option"
  sl_newSecretName :: string
  sl_newSecretPairs :: "KeyValuePair list"
  sl_showViewModal :: bool
  sl_viewingSecret :: "Secret option"
  sl_revealedKeys :: "string list"
  sl_showEditModal :: bool
  sl_editingSecret :: "Secret option"
  sl_editSecretPairs :: "KeyValuePair list"
  sl_editing :: bool
  sl_editError :: "string option"

definition secret_list_start :: SecretListView where
  "secret_list_start =
     \<lparr>ld_items = [], ld_loading = True, ld_error = None, ld_namespace = ''default'',
      ld_pending = [], ld_next = 0, ld_polling = False, ld_listeners = 0,
      lv_searchQuery = [], lv_sortDirection = Asc, lv_currentPage = 1, lv_pageSize = 10,
      sl_showCreateModal = False, sl_creating = False, sl_createError = None,
      sl_newSecretName = [], sl_newSecretPairs = [blank_pair], sl_showViewModal = False,
      sl_viewingSecret = None, sl_revealedKeys = [], sl_showEditModal = False,
      sl_editingSecret = None, sl_editSecretPairs = [], sl_editing = False, sl_editError = None\<rparr>"

subsection \<open>The list\<close>

definition secret_connected :: "SecretListView \<Rightarrow> SecretListView" where
  "secret_connected s = list_connected s"

definition secret_disconnected :: "SecretListView \<Rightarrow> SecretListView" where
  "secret_disconnected s = list_disconnected s"

definition loadSecrets :: "Secret list option fetch \<Rightarrow> string \<Rightarrow> SecretListView \<Rightarrow> SecretListView" where
  "loadSecrets fetch base s =
     load_end ''Failed to load secrets'' (ld_next s)
       (listSecrets fetch base (ld_namespace s)) (load_start s)"

definition secret_formatTime :: "(int \<Rightarrow> string) \<Rightarrow> int \<Rightarrow> string \<Rightarrow> string" where
  "secret_formatTime localeDate now isoString = format_time localeDate now isoString"

definition getTypeColor :: "string \<Rightarrow> string" where
  "getTypeColor type =
     (if type = ''Opaque'' then ''purple''
      else if type = ''kubernetes.io/service-account-token'' then ''blue''
      else if type = ''kubernetes.io/dockerconfigjson'' then ''teal''
      else if type = ''kubernetes.io/tls'' then ''green'' else ''gray'')"

definition getTypeLabel :: "string \<Rightarrow> string" where
  "getTypeLabel type =
     (if type = ''Opaque'' then ''Opaque''
      else if type = ''kubernetes.io/service-account-token'' then ''SA Token''
      else if type = ''kubernetes.io/dockerconfigjson'' then ''Docker''
      else if type = ''kubernetes.io/tls'' then ''TLS''
      else text_or (last (split_on (CHR ''/'') type)) type)"

definition decodeBase64 :: "string \<Rightarrow> jstring" where
  "decodeBase64 encoded = (case atob encoded of Inl _ \<Rightarrow> units ''[decode error]'' | Inr v \<Rightarrow> v)"

definition filteredSecrets :: "(string \<Rightarrow> string \<Rightarrow> int) \<Rightarrow> SecretListView \<Rightarrow> Secret list" where
  "filteredSecrets lc s = filtered sec_name (\<lambda>dir. directed dir (\<lambda>a b. lc (sec_name a) (sec_name b))) s"

definition secret_totalPages :: "(string \<Rightarrow> string \<Rightarrow> int) \<Rightarrow> SecretListView \<Rightarrow> int" where
  "secret_totalPages lc s = total_pages (lv_pageSize s) (filteredSecrets lc s)"

definition paginatedSecrets :: "(string \<Rightarrow> string \<Rightarrow> int) \<Rightarrow> SecretListView \<Rightarrow> Secret list" where
  "paginatedSecrets lc s = page_items (lv_pageSize s) (lv_currentPage s) (filteredSecrets lc s)"

definition secret_paginationRange :: "(string \<Rightarrow> string \<Rightarrow> int) \<Rightarrow> SecretListView \<Rightarrow> page_item list" where
  "secret_paginationRange lc s = pagination_range (secret_totalPages lc s) (lv_currentPage s)"

definition secret_goToPage :: "(string \<Rightarrow> string \<Rightarrow> int) \<Rightarrow> int \<Rightarrow> SecretListView \<Rightarrow> SecretListView" where
  "secret_goToPage lc p s = go_to_page (filteredSecrets lc) lv_pageSize set_page p s"

definition secret_handleSearchInput :: "string \<Rightarrow> SecretListView \<Rightarrow> SecretListView" where
  "secret_handleSearchInput q s = set_query q s"

definition secret_toggleSort :: "SecretListView \<Rightarrow> SecretListView" where
  "secret_toggleSort s = s\<lparr>lv_sortDirection := flip_direction (lv_sortDirection s)\<rparr>"

subsection \<open>Rows of entries\<close>

datatype pair_field = PairKey string | PairValue jstring

primrec set_pair :: "pair_field \<Rightarrow> KeyValuePair \<Rightarrow> KeyValuePair" where
  "set_pair (PairKey k) p = p\<lparr>kv_key := k\<rparr>"
| "set_pair (PairValue v) p = p\<lparr>kv_value := v\<rparr>"

definition flip_revealed :: "KeyValuePair \<Rightarrow> KeyValuePair" where
  "flip_revealed p = p\<lparr>kv_revealed := \<not> kv_revealed p\<rparr>"

text \<open>The entries with a key that is not blank, and whether two of these keys agree.\<close>

definition validPairs :: "KeyValuePair list \<Rightarrow> KeyValuePair list" where
  "validPairs ps = filter (\<lambda>p. js_trim (kv_key p) \<noteq> []) ps"

definition duplicate_keys :: "KeyValuePair list \<Rightarrow> bool" where
  "duplicate_keys ps = (\<not> distinct (map (\<lambda>p. js_trim (kv_key p)) ps))"

definition pairs_data :: "KeyValuePair list \<Rightarrow> jstring obj" where
  "pairs_data ps = foldl (\<lambda>ob p. obj_set ob (js_trim (kv_key p)) (kv_value p)) [] ps"

subsection \<open>Creating a secret\<close>

definition secret_openCreateModal :: "SecretListView \<Rightarrow> SecretListView" where
  "secret_openCreateModal s =
     s\<lparr>sl_showCreateModal := True, sl_createError := None, sl_newSecretName := [],
       sl_newSecretPairs := [blank_pair]\<rparr>"

definition secret_closeCreateModal :: "SecretListView \<Rightarrow> SecretListView" where
  "secret_closeCreateModal s = s\<lparr>sl_showCreateModal := False, sl_createError := None\<rparr>"

definition addCreateKeyValuePair :: "SecretListView \<Rightarrow> SecretListView" where
  "addCreateKeyValuePair s = s\<lparr>sl_newSecretPairs := sl_newSecretPairs s @ [blank_pair]\<rparr>"

definition removeCreateKeyValuePair :: "nat \<Rightarrow> SecretListView \<Rightarrow> SecretListView" where
  "removeCreateKeyValuePair index s =
     (let s' = s\<lparr>sl_newSecretPairs := remove_at index (sl_newSecretPairs s)\<rparr>
      in if sl_newSecretPairs s' = [] then s'\<lparr>sl_newSecretPairs := [blank_pair]\<rparr> else s')"

definition updateCreateKeyValuePair :: "nat \<Rightarrow> pair_field \<Rightarrow> SecretListView \<Rightarrow> SecretListView" where
  "updateCreateKeyValuePair index f s =
     s\<lparr>sl_newSecretPairs := map_at index (set_pair f) (sl_newSecretPairs s)\<rparr>"

definition toggleCreateReveal :: "nat \<Rightarrow> SecretListView \<Rightarrow> SecretListView" where
  "toggleCreateReveal index s =
     s\<lparr>sl_newSecretPairs := map_at index flip_revealed (sl_newSecretPairs s)\<rparr>"

definition secret_name_error :: string where
  "secret_name_error = ''Name must consist of lowercase alphanumeric characters or \"-\", and must start and end with an alphanumeric character''"

text \<open>The check of the entries, shared by both dialogs.\<close>

definition pairs_error :: "KeyValuePair list \<Rightarrow> string option" where
  "pairs_error ps =
     (if validPairs ps = [] then Some ''At least one key-value pair is required''
      else if duplicate_keys (validPairs ps) then Some ''Duplicate keys are not allowed''
      else None)"

text \<open>
  The result is the new state and, when the API was asked to create a secret, its name and data.
\<close>

definition submitSecret ::
    "'a fetch \<Rightarrow> string \<Rightarrow> SecretListView \<Rightarrow> SecretListView \<times> (string \<times> jstring obj) option" where
  "submitSecret fetch base s =
     (if js_trim (sl_newSecretName s) = []
      then (s\<lparr>sl_createError := Some ''Secret name is required''\<rparr>, None)
      else if \<not> re_match name_regex (sl_newSecretName s)
      then (s\<lparr>sl_createError := Some secret_name_error\<rparr>, None)
      else case pairs_error (sl_newSecretPairs s) of
        Some e \<Rightarrow> (s\<lparr>sl_createError := Some e\<rparr>, None)
      | None \<Rightarrow>
          (let s1 = s\<lparr>sl_creating := False, sl_createError := None\<rparr>;
               data = pairs_data (validPairs (sl_newSecretPairs s));
               name = js_trim (sl_newSecretName s)
           in case createSecret fetch base (ld_namespace s) name data of
                Inr _ \<Rightarrow> (load_start (secret_closeCreateModal s1), Some (name, data))
              | Inl e \<Rightarrow>
                  (s1\<lparr>sl_createError := Some (message_or e ''Failed to create secret'')\<rparr>,
                   Some (name, data))))"

subsection \<open>Viewing a secret\<close>

definition openViewModal :: "Secret \<Rightarrow> SecretListView \<Rightarrow> SecretListView" where
  "openViewModal sec s =
     s\<lparr>sl_viewingSecret := Some sec, sl_showViewModal := True, sl_revealedKeys := []\<rparr>"

definition closeViewModal :: "SecretListView \<Rightarrow> SecretListView" where
  "closeViewModal s = s\<lparr>sl_showViewModal := False, sl_viewingSecret := None, sl_revealedKeys := []\<rparr>"

definition toggleReveal :: "string \<Rightarrow> SecretListView \<Rightarrow> SecretListView" where
  "toggleReveal key s =
     s\<lparr>sl_revealedKeys :=
         (if key \<in> set (sl_revealedKeys s) then filter (\<lambda>k. k \<noteq> key) (sl_revealedKeys s)
          else sl_revealedKeys s @ [key])\<rparr>"

subsection \<open>Editing a secret\<close>

definition secret_pairs :: "Secret \<Rightarrow> KeyValuePair list" where
  "secret_pairs sec =
     (let data = list_or (sec_data sec)
      in map (\<lambda>key. \<lparr>kv_key = key, kv_value = decodeBase64 (the (map_of data key)),
           kv_revealed = False\<rparr>) (obj_keys data))"

definition openEditModal :: "Secret \<Rightarrow> SecretListView \<Rightarrow> SecretListView" where
  "openEditModal sec s =
     (let ps = secret_pairs sec
      in (closeViewModal s)
           \<lparr>sl_editingSecret := Some sec, sl_editError := None,
            sl_editSecretPairs := (if ps = [] then [blank_pair] else ps), sl_showEditModal := True\<rparr>)"

definition closeEditModal :: "SecretListView \<Rightarrow> SecretListView" where
  "closeEditModal s =
     s\<lparr>sl_showEditModal := False, sl_editingSecret := None, sl_editSecretPairs := [],
       sl_editError := None\<rparr>"

definition addEditKeyValuePair :: "SecretListView \<Rightarrow> SecretListView" where
  "addEditKeyValuePair s = s\<lparr>sl_editSecretPairs := sl_editSecretPairs s @ [blank_pair]\<rparr>"

definition removeEditKeyValuePair :: "nat \<Rightarrow> SecretListView \<Rightarrow> SecretListView" where
  "removeEditKeyValuePair index s =
     (let s' = s\<lparr>sl_editSecretPairs := remove_at index (sl_editSecretPairs s)\<rparr>
      in if sl_editSecretPairs s' = [] then s'\<lparr>sl_editSecretPairs := [blank_pair]\<rparr> else s')"

definition updateEditKeyValuePair :: "nat \<Rightarrow> pair_field \<Rightarrow> SecretListView \<Rightarrow> SecretListView" where
  "updateEditKeyValuePair index f s =
     s\<lparr>sl_editSecretPairs := map_at index (set_pair f) (sl_editSecretPairs s)\<rparr>"

definition toggleEditReveal :: "nat \<Rightarrow> SecretListView \<Rightarrow> SecretListView" where
  "toggleEditReveal index s =
     s\<lparr>sl_editSecretPairs := map_at index flip_revealed (sl_editSecretPairs s)\<rparr>"

text \<open>The result is the new state and the secret and data of the request, if one was made.\<close>

definition saveEditSecret ::
    "'a fetch \<Rightarrow> string \<Rightarrow> SecretListView \<Rightarrow> SecretListView \<times> (string \<times> string \<times> jstring obj) option" where
  "saveEditSecret fetch base s =
     (case sl_editingSecret s of
        None \<Rightarrow> (s, None)
      | Some sec \<Rightarrow>
          (case pairs_error (sl_editSecretPairs s) of
             Some e \<Rightarrow> (s\<lparr>sl_editError := Some e\<rparr>, None)
           | None \<Rightarrow>
               (let s1 = s\<lparr>sl_editing := False, sl_editError := None\<rparr>;
                    data = pairs_data (validPairs (sl_editSecretPairs s));
                    ns = text_or (sec_namespace sec) (ld_namespace s)
                in case updateSecret fetch base ns (sec_name sec) data of
                     Inr _ \<Rightarrow> (load_start (closeEditModal s1), Some (ns, sec_name sec, data))
                   | Inl e \<Rightarrow>
                       (s1\<lparr>sl_editError := Some (message_or e ''Failed to update secret'')\<rparr>,
                        Some (ns, sec_name sec, data)))))"

definition deleteSecret ::
    "bool \<Rightarrow> 'a fetch \<Rightarrow> string \<Rightarrow> Secret \<Rightarrow> SecretListView \<Rightarrow> SecretListView \<times> string option" where
  "deleteSecret confirmed fetch base sec s =
     (if \<not> confirmed then (s, None)
      else (case deleteSecret_request fetch base (text_or (sec_namespace sec) (ld_namespace s)) (sec_name sec) of
              Inr _ \<Rightarrow> (load_start s, None)
            | Inl e \<Rightarrow> (s, Some (''Failed to delete secret: '' @ message_or e ''Unknown error''))))"

subsection \<open>Pages and rows\<close>

lemma filteredSecrets_set_page [simp]: "filteredSecrets lc (set_page p s) = filteredSecrets lc s"
  unfolding filteredSecrets_def by (rule filtered_set_page)

interpretation sl: paged_list "filteredSecrets lc" lv_currentPage lv_pageSize set_page
    "\<lambda>s. 0 < lv_pageSize s" for lc
  by unfold_locales (simp_all only: filteredSecrets_set_page set_page_simps)

definition put_new :: "KeyValuePair list \<Rightarrow> SecretListView \<Rightarrow> SecretListView" where
  "put_new ps s = s\<lparr>sl_newSecretPairs := ps\<rparr>"

definition put_edit :: "KeyValuePair list \<Rightarrow> SecretListView \<Rightarrow> SecretListView" where
  "put_edit ps s = s\<lparr>sl_editSecretPairs := ps\<rparr>"

interpretation new_rows: row_editor sl_newSecretPairs put_new "\<lambda>s. True"
  by unfold_locales (simp_all add: put_new_def)

interpretation edit_rows: row_editor sl_editSecretPairs put_edit "\<lambda>s. True"
  by unfold_locales (simp_all add: put_edit_def)

lemma edit_row_ops:
  "addEditKeyValuePair s = row_edit sl_editSecretPairs put_edit (AddRow blank_pair) s"
  "updateEditKeyValuePair i f s = row_edit sl_editSecretPairs put_edit (EditRow i (set_pair f)) s"
  "toggleEditReveal i s = row_edit sl_editSecretPairs put_edit (EditRow i flip_revealed) s"
  "removeEditKeyValuePair i s =
     (let s' = row_edit sl_editSecretPairs put_edit (DropRow i) s
      in if sl_editSecretPairs s' = [] then put_edit [blank_pair] s' else s')"
  by (simp_all add: row_edit_def put_edit_def addEditKeyValuePair_def updateEditKeyValuePair_def
      toggleEditReveal_def removeEditKeyValuePair_def Let_def)

lemma new_row_ops:
  "addCreateKeyValuePair s = row_edit sl_newSecretPairs put_new (AddRow blank_pair) s"
  "updateCreateKeyValuePair i f s = row_edit sl_newSecretPairs put_new (EditRow i (set_pair f)) s"
  "toggleCreateReveal i s = row_edit sl_newSecretPairs put_new (EditRow i flip_revealed) s"
  "removeCreateKeyValuePair i s =
     (let s' = row_edit sl_newSecretPairs put_new (DropRow i) s
      in if sl_newSecretPairs s' = [] then put_new [blank_pair] s' else s')"
  by (simp_all add: row_edit_def put_new_def addCreateKeyValuePair_def updateCreateKeyValuePair_def
      toggleCreateReveal_def removeCreateKeyValuePair_def Let_def)

text \<open>
  In both dialogs the rows behave as a list that is never empty: adding appends
  a blank hidden row, removing takes out exactly the row at the index and leaves a blank row in
  place of the last one, and typing or revealing changes the row at the index only.
\<close>

theorem secret_rows:
  "let rows = sl_editSecretPairs s; new = sl_newSecretPairs s;
       drop_row = (\<lambda>xs. let ys = take i xs @ drop (Suc i) xs in if ys = [] then [blank_pair] else ys);
       change = (\<lambda>g xs. if i < length xs then xs[i := g (xs ! i)] else xs)
   in sl_editSecretPairs (addEditKeyValuePair s) = rows @ [blank_pair] \<and>
      sl_editSecretPairs (removeEditKeyValuePair i s) = drop_row rows \<and>
      sl_editSecretPairs (updateEditKeyValuePair i f s) = change (set_pair f) rows \<and>
      sl_editSecretPairs (toggleEditReveal i s) = change flip_revealed rows \<and>
      sl_newSecretPairs (addCreateKeyValuePair s) = new @ [blank_pair] \<and>
      sl_newSecretPairs (removeCreateKeyValuePair i s) = drop_row new \<and>
      sl_newSecretPairs (updateCreateKeyValuePair i f s) = change (set_pair f) new \<and>
      sl_newSecretPairs (toggleCreateReveal i s) = change flip_revealed new"
  unfolding edit_row_ops new_row_ops Let_def
  by (simp add: edit_rows.get_edit new_rows.get_edit edit_rows.get_put new_rows.get_put)

subsection \<open>What the dialogs send\<close>

lemma pairs_data_lookup:
  "map_of (foldl (\<lambda>ob p. obj_set ob (js_trim (kv_key p)) (kv_value p)) acc ps) k =
     (if k = ''__proto__'' then map_of acc k
      else case map_of (rev (map (\<lambda>p. (js_trim (kv_key p), kv_value p)) ps)) k of
             Some v \<Rightarrow> Some v | None \<Rightarrow> map_of acc k)"
  by (induction ps arbitrary: acc)
     (auto simp: map_of_obj_set map_add_def split: option.splits)

lemma pairs_data_distinct: "distinct (map fst (pairs_data ps))"
proof -
  have "distinct (map fst (foldl (\<lambda>ob p. obj_set ob (js_trim (kv_key p)) (kv_value p)) acc ps))"
    if "distinct (map fst acc)" for acc
    using that by (induction ps arbitrary: acc) (simp_all add: distinct_obj_set)
  from this [of "[]"] show ?thesis by (simp add: pairs_data_def)
qed

lemma map_of_rev_distinct: "distinct (map fst xs) \<Longrightarrow> map_of (rev xs) = map_of xs"
  by (metis distinct_map map_of_inject_set set_rev distinct_rev rev_map map_of_eqI)

lemma pairs_data_map:
  assumes "\<not> duplicate_keys ps"
  shows "map_of (pairs_data ps) = (map_of (map (\<lambda>p. (js_trim (kv_key p), kv_value p)) ps))
    (''__proto__'' := None)"
proof
  fix k
  have "distinct (map fst (map (\<lambda>p. (js_trim (kv_key p), kv_value p)) ps))"
    using assms by (simp add: duplicate_keys_def comp_def)
  then have "map_of (rev (map (\<lambda>p. (js_trim (kv_key p), kv_value p)) ps)) =
      map_of (map (\<lambda>p. (js_trim (kv_key p), kv_value p)) ps)"
    by (rule map_of_rev_distinct)
  then show "map_of (pairs_data ps) k = ((map_of (map (\<lambda>p. (js_trim (kv_key p), kv_value p)) ps))
    (''__proto__'' := None)) k"
    by (auto simp: pairs_data_def pairs_data_lookup split: option.split)
qed

text \<open>
  Submitting the form asks for a secret exactly when its name is lowercase
  letters, digits and inner hyphens, some key is not blank and no two trimmed keys agree; the data
  sent maps each trimmed key that is not blank to its value (and has no key \<open>__proto__\<close>).
\<close>

theorem secret_form:
  "case submitSecret fetch base s of (s', sent) \<Rightarrow>
     let keyed = map (\<lambda>p. (js_trim (kv_key p), kv_value p)) (validPairs (sl_newSecretPairs s))
     in if dns_label (sl_newSecretName s) \<and> keyed \<noteq> [] \<and> distinct (map fst keyed)
        then (case sent of
                None \<Rightarrow> False
              | Some (name, data) \<Rightarrow> name = js_trim (sl_newSecretName s) \<and>
                  map_of data = (map_of keyed)(''__proto__'' := None))
        else sent = None \<and> sl_createError s' \<noteq> None \<and> ld_pending s' = ld_pending s \<and>
          sl_newSecretPairs s' = sl_newSecretPairs s"
proof -
  have trim: "dns_label n \<Longrightarrow> js_trim n \<noteq> []" for n
  proof -
    assume "dns_label n"
    then have n: "n \<noteq> []" "lower_alnum (hd n)" by (simp_all add: dns_label_def)
    then have "\<not> is_space (hd n)"
      by (auto simp: lower_alnum_def is_lower_def is_digit_def is_space_def)
    with n(1) show ?thesis by (cases n) (auto simp: js_trim_def dropWhile_eq_Nil_conv)
  qed
  let ?ps = "validPairs (sl_newSecretPairs s)"
  have dup: "duplicate_keys ?ps = (\<not> distinct (map fst (map (\<lambda>p. (js_trim (kv_key p), kv_value p)) ?ps)))"
    by (simp add: duplicate_keys_def comp_def)
  show ?thesis
  proof (cases "dns_label (sl_newSecretName s) \<and> ?ps \<noteq> [] \<and> \<not> duplicate_keys ?ps")
    case True
    then have "pairs_error (sl_newSecretPairs s) = None" by (simp add: pairs_error_def)
    with True have sent: "snd (submitSecret fetch base s) =
        Some (js_trim (sl_newSecretName s), pairs_data ?ps)"
      using trim by (simp add: submitSecret_def name_regex_dns_label Let_def split: sum.split)
    show ?thesis
      using True pairs_data_map [of ?ps] dup sent
      by (cases "submitSecret fetch base s") (simp add: Let_def)
  next
    case False
    then have "dns_label (sl_newSecretName s) \<Longrightarrow> \<exists>e. pairs_error (sl_newSecretPairs s) = Some e"
      by (auto simp: pairs_error_def)
    then have "snd (submitSecret fetch base s) = None \<and>
        sl_createError (fst (submitSecret fetch base s)) \<noteq> None \<and>
        ld_pending (fst (submitSecret fetch base s)) = ld_pending s \<and>
        sl_newSecretPairs (fst (submitSecret fetch base s)) = sl_newSecretPairs s"
      by (auto simp: submitSecret_def name_regex_dns_label)
    with False show ?thesis
      using dup by (cases "submitSecret fetch base s") (auto simp: Let_def)
  qed
qed

lemma decode_canonical: "btoa us = Inr v \<Longrightarrow> decodeBase64 v = us"
  using atob_btoa [of us v] by (simp add: decodeBase64_def)

definition plain_secret :: "Secret \<Rightarrow> bool" where
  "plain_secret sec =
     (list_or (sec_data sec) \<noteq> [] \<and> distinct (map fst (list_or (sec_data sec))) \<and>
      (\<forall>kv \<in> set (list_or (sec_data sec)).
         fst kv \<noteq> [] \<and> js_trim (fst kv) = fst kv \<and> fst kv \<noteq> ''__proto__'' \<and>
         (\<exists>us. btoa us = Inr (snd kv))))"

lemma secret_pairs_keys:
  "map (\<lambda>p. (kv_key p, kv_value p)) (secret_pairs sec) =
     map (\<lambda>k. (k, decodeBase64 (the (map_of (list_or (sec_data sec)) k))))
       (obj_keys (list_or (sec_data sec)))"
  by (simp add: secret_pairs_def Let_def)

lemma plain_secret_pairs:
  assumes "plain_secret sec"
  shows "validPairs (secret_pairs sec) = secret_pairs sec" "\<not> duplicate_keys (secret_pairs sec)"
    "secret_pairs sec \<noteq> []"
    "map (\<lambda>p. (js_trim (kv_key p), kv_value p)) (secret_pairs sec) =
       map (\<lambda>p. (kv_key p, kv_value p)) (secret_pairs sec)"
proof -
  let ?d = "list_or (sec_data sec)"
  have keys: "map kv_key (secret_pairs sec) = obj_keys ?d"
    by (simp add: secret_pairs_def Let_def comp_def)
  have trim: "js_trim (kv_key p) = kv_key p \<and> kv_key p \<noteq> []" if "p \<in> set (secret_pairs sec)" for p
  proof -
    have "kv_key p \<in> set (obj_keys ?d)" using that keys by (metis image_eqI image_set)
    then show ?thesis using assms by (auto simp: plain_secret_def)
  qed
  then show "validPairs (secret_pairs sec) = secret_pairs sec"
    by (simp add: validPairs_def filter_id_conv)
  show eq: "map (\<lambda>p. (js_trim (kv_key p), kv_value p)) (secret_pairs sec) =
       map (\<lambda>p. (kv_key p, kv_value p)) (secret_pairs sec)"
    using trim by simp
  have "map (\<lambda>p. js_trim (kv_key p)) (secret_pairs sec) = obj_keys ?d"
    using trim keys [symmetric] by simp
  then show "\<not> duplicate_keys (secret_pairs sec)"
    using assms distinct_obj_keys [of ?d] unfolding duplicate_keys_def plain_secret_def by simp
  have "set (obj_keys ?d) \<noteq> {}" using assms by (simp add: plain_secret_def)
  then have "obj_keys ?d \<noteq> []" by (simp only: set_empty not_False_eq_True)
  then show "secret_pairs sec \<noteq> []" using keys by fastforce
qed

lemma plain_secret_lookup:
  assumes "plain_secret sec"
  shows "map_of (pairs_data (secret_pairs sec)) =
    (\<lambda>k. map_option decodeBase64 (map_of (list_or (sec_data sec)) k))"
proof
  fix k
  let ?d = "list_or (sec_data sec)"
  have none: "map_of ?d ''__proto__'' = None"
    using assms by (auto simp: plain_secret_def map_of_eq_None_iff)
  have dom: "(k \<in> fst ` set ?d) = (map_of ?d k \<noteq> None)"
    by (simp add: map_of_eq_None_iff)
  have "map_of (pairs_data (secret_pairs sec)) k =
      ((\<lambda>k. if k \<in> fst ` set ?d then Some (decodeBase64 (the (map_of ?d k))) else None)
        (''__proto__'' := None)) k"
    unfolding pairs_data_map [OF plain_secret_pairs(2) [OF assms]] plain_secret_pairs(4) [OF assms]
      secret_pairs_keys
    by (simp add: map_of_map_keys)
  then show "map_of (pairs_data (secret_pairs sec)) k = map_option decodeBase64 (map_of ?d k)"
    using none dom by (cases "map_of ?d k") (auto split: if_splits)
qed

text \<open>
  C16: opening a secret for editing and saving it without a change sends
  exactly the data the secret has: every key, with the same base64 text --- also for binary
  values, and provided no key is \<open>__proto__\<close> and the texts are base64 as the API server writes it.
\<close>

theorem edit_keeps_secret:
  assumes "plain_secret sec"
  shows "case snd (saveEditSecret fetch base (openEditModal sec s)) of
      None \<Rightarrow> False
    | Some (ns, name, data) \<Rightarrow> name = sec_name sec \<and>
        ns = text_or (sec_namespace sec) (ld_namespace s) \<and>
        (case encode_data data of
           Inl e \<Rightarrow> False
         | Inr enc \<Rightarrow> map_of enc = map_of (list_or (sec_data sec)))"
proof -
  let ?d = "list_or (sec_data sec)" and ?ps = "secret_pairs sec"
  note pairs = plain_secret_pairs [OF assms]
  let ?data = "pairs_data ?ps"
  have sent: "snd (saveEditSecret fetch base (openEditModal sec s)) =
      Some (text_or (sec_namespace sec) (ld_namespace s), sec_name sec, ?data)"
    using pairs by (simp add: saveEditSecret_def openEditModal_def closeViewModal_def Let_def
        pairs_error_def split: sum.split)
  have dist: "distinct (map fst ?data)" by (rule pairs_data_distinct)
  have canon: "\<exists>us. btoa us = Inr v \<and> decodeBase64 v = us" if "map_of ?d k = Some v" for k v
    using assms map_of_SomeD [OF that] decode_canonical by (fastforce simp: plain_secret_def)
  have val: "\<not> 255 < unat u" if "(k, w) \<in> set ?data" "u \<in> set w" for k w u
  proof -
    have "map_of ?data k = Some w" using that(1) dist by simp
    then obtain v where "map_of ?d k = Some v" "w = decodeBase64 v"
      unfolding plain_secret_lookup [OF assms] by auto
    with canon obtain b where "btoa w = Inr b" by blast
    then show ?thesis using btoa_fails_iff [of w] that(2) by auto
  qed
  note entries = obj_entries_facts [OF dist]
  have "\<forall>kv \<in> set (obj_entries ?data). \<forall>u \<in> set (snd kv). \<not> 255 < unat u"
    unfolding entries(2) using val by auto
  from encode_entries_succeeds [OF this] obtain enc
    where enc: "encode_entries [] (obj_entries ?data) = Inr enc" by blast
  have "map_of enc = map_of ?d"
  proof
    fix k
    have "map_of ?d ''__proto__'' = None"
      using assms by (auto simp: plain_secret_def map_of_eq_None_iff)
    then show "map_of enc k = map_of ?d k"
      using canon [of k] unfolding encode_entries_lookup [OF enc entries(1)] map_of_obj_entries
        plain_secret_lookup [OF assms]
      by (cases "map_of ?d k") auto
  qed
  with enc sent show ?thesis by (simp add: encode_data_def)
qed

definition tls_secret :: Secret where
  "tls_secret = \<lparr>sec_name = ''certs'', sec_namespace = ''prod'', sec_creationTimestamp = None,
     sec_type = ''Opaque'', sec_data = Some [(''ca.crt'', ''QUJD''), (''key'', ''/w=='')]\<rparr>"

theorem edit_keeps_secret_witness:
  "case snd (saveEditSecret (refusing ()) ''/k8s'' (openEditModal tls_secret secret_list_start)) of
      None \<Rightarrow> False
    | Some (ns, name, data) \<Rightarrow> ns = ''prod'' \<and> name = ''certs''"
proof -
  have "btoa [0x41, 0x42, 0x43] = Inr ''QUJD''" "btoa [0xFF] = Inr ''/w==''"
    "js_trim ''ca.crt'' = ''ca.crt''" "js_trim ''key'' = ''key''"
    by code_simp+
  then have "plain_secret tls_secret" by (auto simp: plain_secret_def tls_secret_def)
  from edit_keeps_secret [OF this, where fetch = "refusing ()" and base = "''/k8s''"
      and s = secret_list_start] show ?thesis
    by (auto simp: tls_secret_def text_or_def split: option.splits)
qed

end
