(* ===== verification/Secret_List_View.thy ===== *)
theory Secret_List_View
  imports Secret_List List_Panel
begin

section \<open>The view of the list of secrets (\<open>secret-list.ts\<close>, \<open>render\<close>)\<close>

text \<open>
  The template of the list with its three dialogs, the actions of its controls, the states the
  list can get into, and what of the values of secrets is on the screen.
\<close>

subsection \<open>The template\<close>

datatype secret_action =
    ScSearch string
  | ScSort
  | ScPage int
  | ScRetry
  | ScOpenCreate
  | ScCloseCreate
  | ScName string
  | ScNewPair nat pair_field
  | ScNewReveal nat
  | ScNewRemove nat
  | ScNewAdd
  | ScCreate
  | ScView Secret
  | ScCloseView
  | ScReveal string
  | ScEdit Secret
  | ScCloseEdit
  | ScEditPair nat pair_field
  | ScEditReveal nat
  | ScEditRemove nat
  | ScEditAdd
  | ScSave
  | ScDelete Secret

definition secret_renderPagination ::
    "(string \<Rightarrow> string \<Rightarrow> int) \<Rightarrow> SecretListView \<Rightarrow> secret_action Html" where
  "secret_renderPagination lc s =
     render_pagination ''secrets'' ScPage (lv_currentPage s) (lv_pageSize s)
       (int (length (filteredSecrets lc s))) (secret_totalPages lc s) (secret_paginationRange lc s)"

definition secret_keys :: "Secret \<Rightarrow> string list" where
  "secret_keys sec = (case sec_data sec of None \<Rightarrow> [] | Some d \<Rightarrow> obj_keys d)"

definition gray_tag :: "string \<Rightarrow> 'a Html" where
  "gray_tag t = Elem ''rh-tag'' [Attr ''color'' ''gray''] [] [Text t]"

definition keys_list :: "string list \<Rightarrow> 'a Html" where
  "keys_list ks =
     node ''div''
       ((if ks \<noteq> [] then map gray_tag (take 5 ks) else [labelled ''span'' ''No data'']) @
        (if 5 < length ks then [gray_tag (''+'' @ nat_str (length ks - 5) @ '' more'')] else []))"

definition renderSecretRow :: "(string \<Rightarrow> string) \<Rightarrow> Secret \<Rightarrow> secret_action Html" where
  "renderSecretRow format sec =
     Elem ''tr'' [] [Click (ScView sec)]
       [node ''td'' [node ''div'' [labelled ''rh-tag'' ''sec'', labelled ''span'' (sec_name sec)]],
        node ''td'' [Elem ''rh-tag'' [Attr ''color'' (getTypeColor (sec_type sec))] []
          [Text (getTypeLabel (sec_type sec))]],
        node ''td'' [keys_list (secret_keys sec)],
        node ''td'' [labelled ''span'' (created_text format (sec_creationTimestamp sec))],
        node ''td''
          [Elem ''button'' [Attr ''title'' ''Delete secret'', Attr ''aria-label'' (''Delete '' @ sec_name sec)]
             [ClickStop (ScDelete sec)] [node ''rh-icon'' []]]]"

definition secret_header :: "SecretListView \<Rightarrow> secret_action Html" where
  "secret_header s =
     node ''div''
       [labelled ''h1'' ''Secrets'',
        node ''div''
          [Elem ''input''
             [Attr ''type'' ''search'', Attr ''placeholder'' ''Search secrets...'',
              Prop ''value'' (lv_searchQuery s), Attr ''aria-label'' ''Search secrets'']
             [Input ScSearch] [],
           Elem ''rh-button'' [] [Click ScOpenCreate] [node ''rh-icon'' [], Text ''Create Secret'']]]"

definition secret_empty :: "SecretListView \<Rightarrow> secret_action Html" where
  "secret_empty s =
     (let searching = (lv_searchQuery s \<noteq> [])
      in node ''div''
        ([node ''rh-icon'' [],
          labelled ''h3'' (if searching then ''No matching secrets'' else ''No secrets found''),
          labelled ''p'' (if searching then ''Try adjusting your search query.''
            else ''Create a secret to store sensitive data.'')] @
         (if searching then []
          else [node ''rh-cta''
            [Elem ''a'' [Attr ''href'' ''#''] [Click ScOpenCreate] [Text ''Create Secret'']]])))"

definition secret_table ::
    "(string \<Rightarrow> string \<Rightarrow> int) \<Rightarrow> (string \<Rightarrow> string) \<Rightarrow> SecretListView \<Rightarrow> secret_action Html" where
  "secret_table lc format s =
     node ''div''
       ([node ''table''
          [node ''thead'' [node ''tr''
             ([Elem ''th'' [] [Click ScSort] [node ''span'' [Text ''Name'',
                 Elem ''rh-icon'' [Attr ''icon'' (direction_icon (lv_sortDirection s))] [] []]]] @
              map (labelled ''th'') [''Type'', ''Keys'', ''Created'', ''Actions''])],
           node ''tbody'' (map (renderSecretRow format) (paginatedSecrets lc s))]] @
        (if secret_totalPages lc s > 1 then [secret_renderPagination lc s] else []))"

text \<open>
  The row of an entry in the dialogs that create and edit a secret: the value is in a password
  field until it is revealed.
\<close>

definition reveal_text :: "bool \<Rightarrow> string" where
  "reveal_text revealed = (if revealed then ''Hide value'' else ''Show value'')"

definition reveal_button :: "bool \<Rightarrow> 'a \<Rightarrow> 'a Html" where
  "reveal_button revealed act =
     Elem ''button''
       [Attr ''class'' (if revealed then ''revealed'' else []), Attr ''title'' (reveal_text revealed),
        Attr ''aria-label'' (reveal_text revealed)]
       [Click act]
       [Elem ''rh-icon'' [Attr ''icon'' (if revealed then ''view-off'' else ''view'')] [] []]"

definition value_input :: "KeyValuePair \<Rightarrow> (jstring \<Rightarrow> 'a) \<Rightarrow> 'a Html" where
  "value_input pair act =
     Elem ''input''
       [Attr ''type'' (if kv_revealed pair then ''text'' else ''password''),
        Attr ''placeholder'' ''Value'', PropUnits ''value'' (kv_value pair),
        Attr ''aria-label'' ''Value'']
       [InputUnits act] []"

definition kv_row ::
    "(nat \<Rightarrow> pair_field \<Rightarrow> 'a) \<Rightarrow> (nat \<Rightarrow> 'a) \<Rightarrow> (nat \<Rightarrow> 'a) \<Rightarrow> property list \<Rightarrow> nat \<times> KeyValuePair \<Rightarrow> 'a Html" where
  "kv_row update reveal remove guard = (\<lambda>(index, pair).
     node ''div''
       [Elem ''input''
          [Attr ''type'' ''text'', Attr ''placeholder'' ''Key'', Prop ''value'' (kv_key pair),
           Attr ''aria-label'' ''Key''] [Input (\<lambda>v. update index (PairKey v))] [],
        value_input pair (\<lambda>v. update index (PairValue v)),
        reveal_button (kv_revealed pair) (reveal index),
        Elem ''button'' ([Attr ''title'' ''Remove'', Attr ''aria-label'' ''Remove pair''] @ guard)
          [Click (remove index)] [node ''rh-icon'' []]])"

definition add_pair_button :: "'a \<Rightarrow> 'a Html" where
  "add_pair_button act =
     Elem ''rh-button'' [Attr ''variant'' ''secondary''] [Click act]
       [node ''rh-icon'' [], Text ''Add Key-Value Pair'']"

definition secret_renderCreateModal :: "SecretListView \<Rightarrow> secret_action Html" where
  "secret_renderCreateModal s =
     dialog ScCloseCreate ''Create Secret''
       (form_error (sl_createError s) @
        [node ''div'' [labelled ''label'' ''Name *'',
           Elem ''input'' [Attr ''type'' ''text'', Prop ''value'' (sl_newSecretName s),
             Attr ''placeholder'' ''my-secret''] [Input ScName] []],
         node ''div'' [labelled ''label'' ''Data (Key-Value Pairs) *'',
           node ''div''
             (map (kv_row ScNewPair ScNewReveal ScNewRemove
                [Flag ''disabled'' (length (sl_newSecretPairs s) = 1)]) (enumerate 0 (sl_newSecretPairs s)) @
              [add_pair_button ScNewAdd])]])
       [Elem ''rh-button'' [Attr ''variant'' ''secondary'', Flag ''disabled'' (sl_creating s)]
          [Click ScCloseCreate] [Text ''Cancel''],
        Elem ''rh-button'' [Flag ''disabled'' (sl_creating s)] [Click ScCreate]
          [Text (if sl_creating s then ''Creating...'' else ''Create Secret'')]]"

definition hidden_value :: jstring where
  "hidden_value = replicate 8 bullet"

definition data_item :: "string list \<Rightarrow> string obj \<Rightarrow> string \<Rightarrow> secret_action Html" where
  "data_item revealedKeys data key =
     (let isRevealed = (key \<in> set revealedKeys); decodedValue = decodeBase64 (the (map_of data key))
      in node ''div''
        [labelled ''div'' key,
         node ''div''
           [Elem ''span'' [Attr ''class'' (if isRevealed then [] else ''hidden'')] []
              [Units (if isRevealed then decodedValue else hidden_value)],
            reveal_button isRevealed (ScReveal key)]])"

definition renderViewModal :: "SecretListView \<Rightarrow> Secret \<Rightarrow> secret_action Html" where
  "renderViewModal s sec =
     (let data = list_or (sec_data sec); keys = obj_keys data
      in dialog ScCloseView (sec_name sec)
        [if keys = [] then labelled ''p'' ''This secret has no data.''
         else node ''div'' (map (data_item (sl_revealedKeys s) data) keys)]
        [node ''div''
           (if sec_type sec = ''Opaque''
            then [Elem ''rh-button'' [Attr ''variant'' ''secondary''] [Click (ScEdit sec)]
              [node ''rh-icon'' [], Text ''Edit'']]
            else []),
         Elem ''rh-button'' [Attr ''variant'' ''secondary''] [Click ScCloseView] [Text ''Close'']])"

definition renderEditModal :: "SecretListView \<Rightarrow> Secret \<Rightarrow> secret_action Html" where
  "renderEditModal s sec =
     dialog ScCloseEdit (''Edit: '' @ sec_name sec)
       (form_error (sl_editError s) @
        [node ''div'' [labelled ''label'' ''Data (Key-Value Pairs) *'',
           node ''div''
             (map (kv_row ScEditPair ScEditReveal ScEditRemove []) (enumerate 0 (sl_editSecretPairs s)) @
              [add_pair_button ScEditAdd])]])
       [Elem ''rh-button'' [Attr ''variant'' ''secondary'', Flag ''disabled'' (sl_editing s)]
          [Click ScCloseEdit] [Text ''Cancel''],
        Elem ''rh-button'' [Flag ''disabled'' (sl_editing s)] [Click ScSave]
          [Text (if sl_editing s then ''Saving...'' else ''Save Changes'')]]"

definition secret_dialogs :: "SecretListView \<Rightarrow> secret_action Html list" where
  "secret_dialogs s =
     (if sl_showCreateModal s then [secret_renderCreateModal s] else []) @
     (case sl_viewingSecret s of None \<Rightarrow> []
      | Some sec \<Rightarrow> if sl_showViewModal s then [renderViewModal s sec] else []) @
     (case sl_editingSecret s of None \<Rightarrow> []
      | Some sec \<Rightarrow> if sl_showEditModal s then [renderEditModal s sec] else [])"

definition secret_render ::
    "(string \<Rightarrow> string \<Rightarrow> int) \<Rightarrow> (string \<Rightarrow> string) \<Rightarrow> SecretListView \<Rightarrow> secret_action Html list" where
  "secret_render lc format s =
     (if ld_loading s then loading_panel ''Loading secrets...''
      else if truthy (ld_error s) then error_panel ''Error loading secrets'' (the (ld_error s)) ScRetry
      else [secret_header s,
            if filteredSecrets lc s = [] then secret_empty s else secret_table lc format s] @
           secret_dialogs s)"

subsection \<open>What an action does\<close>

definition secret_do ::
    "bool \<Rightarrow> 'a fetch \<Rightarrow> string \<Rightarrow> (string \<Rightarrow> string \<Rightarrow> int) \<Rightarrow> secret_action \<Rightarrow>
     SecretListView \<Rightarrow> SecretListView" where
  "secret_do confirmed fetch base lc a s =
     (case a of
        ScSearch q \<Rightarrow> secret_handleSearchInput q s
      | ScSort \<Rightarrow> secret_toggleSort s
      | ScPage i \<Rightarrow> secret_goToPage lc i s
      | ScRetry \<Rightarrow> load_start s
      | ScOpenCreate \<Rightarrow> secret_openCreateModal s
      | ScCloseCreate \<Rightarrow> secret_closeCreateModal s
      | ScName v \<Rightarrow> s\<lparr>sl_newSecretName := v\<rparr>
      | ScNewPair i f \<Rightarrow> updateCreateKeyValuePair i f s
      | ScNewReveal i \<Rightarrow> toggleCreateReveal i s
      | ScNewRemove i \<Rightarrow> removeCreateKeyValuePair i s
      | ScNewAdd \<Rightarrow> addCreateKeyValuePair s
      | ScCreate \<Rightarrow> fst (submitSecret fetch base s)
      | ScView sec \<Rightarrow> openViewModal sec s
      | ScCloseView \<Rightarrow> closeViewModal s
      | ScReveal k \<Rightarrow> toggleReveal k s
      | ScEdit sec \<Rightarrow> openEditModal sec s
      | ScCloseEdit \<Rightarrow> closeEditModal s
      | ScEditPair i f \<Rightarrow> updateEditKeyValuePair i f s
      | ScEditReveal i \<Rightarrow> toggleEditReveal i s
      | ScEditRemove i \<Rightarrow> removeEditKeyValuePair i s
      | ScEditAdd \<Rightarrow> addEditKeyValuePair s
      | ScSave \<Rightarrow> fst (saveEditSecret fetch base s)
      | ScDelete sec \<Rightarrow> fst (deleteSecret confirmed fetch base sec s))"

subsection \<open>What is on the screen\<close>

text \<open>
  The state without the values that are not revealed: those of the loaded secrets, those of the
  secret that is shown but for the revealed keys, and, but for their length, those in the fields of
  the two dialogs.
\<close>

definition mask_data :: "string list \<Rightarrow> string obj \<Rightarrow> string obj" where
  "mask_data shown d = map (\<lambda>(k, v). (k, if k \<in> set shown then v else [])) d"

definition mask_secret :: "string list \<Rightarrow> Secret \<Rightarrow> Secret" where
  "mask_secret shown sec = sec\<lparr>sec_data := map_option (mask_data shown) (sec_data sec)\<rparr>"

definition mask_pair :: "KeyValuePair \<Rightarrow> KeyValuePair" where
  "mask_pair p = (if kv_revealed p then p else p\<lparr>kv_value := replicate (length (kv_value p)) 0\<rparr>)"

definition mask :: "SecretListView \<Rightarrow> SecretListView" where
  "mask s =
     s\<lparr>ld_items := map (mask_secret []) (ld_items s),
       sl_viewingSecret := map_option (mask_secret (sl_revealedKeys s)) (sl_viewingSecret s),
       sl_editingSecret := map_option (mask_secret []) (sl_editingSecret s),
       sl_newSecretPairs := map mask_pair (sl_newSecretPairs s),
       sl_editSecretPairs := map mask_pair (sl_editSecretPairs s)\<rparr>"

lemma mask_data_facts:
  "map fst (mask_data shown d) = map fst d" "obj_keys (mask_data shown d) = obj_keys d"
  "k \<in> set shown \<Longrightarrow> map_of (mask_data shown d) k = map_of d k"
  "mask_data shown [] = []"
proof -
  show fst: "map fst (mask_data shown d) = map fst d"
    by (simp add: mask_data_def case_prod_unfold comp_def)
  show "obj_keys (mask_data shown d) = obj_keys d" by (simp add: obj_keys_def fst)
  show "k \<in> set shown \<Longrightarrow> map_of (mask_data shown d) k = map_of d k"
    by (induction d) (auto simp: mask_data_def)
qed (simp add: mask_data_def)

lemma mask_secret_simps [simp]:
  "sec_name (mask_secret shown sec) = sec_name sec" "sec_type (mask_secret shown sec) = sec_type sec"
  "sec_creationTimestamp (mask_secret shown sec) = sec_creationTimestamp sec"
  "sec_data (mask_secret shown sec) = map_option (mask_data shown) (sec_data sec)"
  "secret_keys (mask_secret shown sec) = secret_keys sec"
  by (simp_all add: mask_secret_def secret_keys_def mask_data_facts split: option.split)

lemma on_screen_row:
  "on_screen (renderSecretRow format (mask_secret shown sec)) = on_screen (renderSecretRow format sec)"
  by (simp add: renderSecretRow_def password_field_def)

lemma on_screen_value:
  "on_screen (value_input (mask_pair p) act) = on_screen (value_input p act)"
  by (simp add: value_input_def mask_pair_def password_field_def)

lemma on_screen_kv_row:
  "on_screen (kv_row update reveal remove guard (i, mask_pair p)) =
     on_screen (kv_row update reveal remove guard (i, p))"
proof -
  have "kv_key (mask_pair p) = kv_key p" "kv_revealed (mask_pair p) = kv_revealed p"
    by (simp_all add: mask_pair_def)
  then show ?thesis by (simp add: kv_row_def on_screen_value)
qed

lemma on_screen_kv_rows:
  "map on_screen (map (kv_row update reveal remove guard) (enumerate n (map mask_pair ps))) =
     map on_screen (map (kv_row update reveal remove guard) (enumerate n ps))"
  by (induction ps arbitrary: n) (simp_all add: on_screen_kv_row)

lemma insert_by_map: "insert_by cmp (f x) (map f ys) = map f (insert_by (\<lambda>a b. cmp (f a) (f b)) x ys)"
  by (induction ys) simp_all

lemma sort_by_map: "sort_by cmp (map f xs) = map f (sort_by (\<lambda>a b. cmp (f a) (f b)) xs)"
  by (induction xs) (simp_all add: sort_by_def insert_by_map)

lemma mask_simps [simp]:
  "ld_loading (mask s) = ld_loading s" "ld_error (mask s) = ld_error s"
  "ld_items (mask s) = map (mask_secret []) (ld_items s)"
  "lv_searchQuery (mask s) = lv_searchQuery s" "lv_sortDirection (mask s) = lv_sortDirection s"
  "lv_currentPage (mask s) = lv_currentPage s" "lv_pageSize (mask s) = lv_pageSize s"
  by (simp_all add: mask_def)

lemma filteredSecrets_mask:
  "filteredSecrets lc (mask s) = map (mask_secret []) (filteredSecrets lc s)"
proof -
  have "directed dir (\<lambda>a b. lc (sec_name a) (sec_name b)) (mask_secret [] a) (mask_secret [] b) =
      directed dir (\<lambda>a b. lc (sec_name a) (sec_name b)) a b" for dir a b
    by (simp add: directed_def)
  then show ?thesis
    by (simp add: filteredSecrets_def filtered_def filter_map sort_by_map comp_def)
qed

lemma page_items_map: "page_items k p (map f xs) = map f (page_items k p xs)"
  by (simp add: page_items_def js_slice_def Let_def drop_map take_map)

lemma on_screen_table:
  "on_screen (secret_table lc format (mask s)) = on_screen (secret_table lc format s)"
proof -
  have "secret_totalPages lc (mask s) = secret_totalPages lc s"
    "secret_renderPagination lc (mask s) = secret_renderPagination lc s"
    by (simp_all add: secret_totalPages_def secret_renderPagination_def secret_paginationRange_def
        filteredSecrets_mask total_pages_def)
  moreover have "paginatedSecrets lc (mask s) = map (mask_secret []) (paginatedSecrets lc s)"
    by (simp add: paginatedSecrets_def filteredSecrets_mask page_items_map)
  ultimately show ?thesis
    by (simp add: secret_table_def on_screen_row password_field_def comp_def)
qed

lemma on_screen_data_item:
  "on_screen (data_item shown (mask_data shown d) k) = on_screen (data_item shown d k)"
  by (simp add: data_item_def Let_def mask_data_facts(3))

lemma on_screen_view_modal:
  "on_screen (renderViewModal (mask s) (mask_secret (sl_revealedKeys s) sec)) =
     on_screen (renderViewModal s sec)"
proof -
  have keys: "sl_revealedKeys (mask s) = sl_revealedKeys s" by (simp add: mask_def)
  have data: "list_or (map_option (mask_data shown) d) = mask_data shown (list_or d)" for shown d
    by (cases d) (simp_all add: list_or_def mask_data_facts)
  show ?thesis
    by (simp add: renderViewModal_def Let_def dialog_def keys data mask_data_facts(2)
        on_screen_data_item password_field_def comp_def)
qed

lemma on_screen_dialogs:
  "map on_screen (secret_dialogs (mask s)) = map on_screen (secret_dialogs s)"
proof -
  have create: "on_screen (secret_renderCreateModal (mask s)) = on_screen (secret_renderCreateModal s)"
    using on_screen_kv_rows by (simp add: secret_renderCreateModal_def mask_def dialog_def)
  have edit: "on_screen (renderEditModal (mask s) (mask_secret [] sec)) = on_screen (renderEditModal s sec)" for sec
    using on_screen_kv_rows by (simp add: renderEditModal_def mask_def dialog_def)
  have fields: "sl_showCreateModal (mask s) = sl_showCreateModal s"
    "sl_showViewModal (mask s) = sl_showViewModal s" "sl_showEditModal (mask s) = sl_showEditModal s"
    "sl_viewingSecret (mask s) = map_option (mask_secret (sl_revealedKeys s)) (sl_viewingSecret s)"
    "sl_editingSecret (mask s) = map_option (mask_secret []) (sl_editingSecret s)"
    by (simp_all add: mask_def)
  show ?thesis
    by (simp add: secret_dialogs_def fields create edit on_screen_view_modal split: option.split)
qed

text \<open>
  C33: the screen does not depend on a value that is not revealed: whatever the
  dialogs that are open, the list looks the same when every hidden value is replaced, except that
  a password field shows how long the value in it is.
\<close>

theorem values_hidden:
  "map on_screen (secret_render lc format s) = map on_screen (secret_render lc format (mask s))"
proof -
  have frame: "secret_header (mask s) = secret_header s" "secret_empty (mask s) = secret_empty s"
    by (simp_all add: secret_header_def secret_empty_def)
  show ?thesis
    by (simp add: secret_render_def frame filteredSecrets_mask on_screen_table on_screen_dialogs)
qed

subsection \<open>The states of the list\<close>

text \<open>
  As for the list of claims: the list starts, loads with the answers the client gives, and is used
  through what is on the screen.
\<close>

inductive secret_reach ::
    "(string \<Rightarrow> string \<Rightarrow> int) \<Rightarrow> (string \<Rightarrow> string) \<Rightarrow> SecretListView \<Rightarrow> bool"
  for lc format where
  start: "secret_reach lc format secret_list_start"
| load: "secret_reach lc format s \<Longrightarrow>
    \<forall>k r. e = Answer k r \<longrightarrow>
      (\<exists>fetch base ns. r = listSecrets (fetch :: Secret list option fetch) base ns) \<Longrightarrow>
    secret_reach lc format (loader_step ''Failed to load secrets'' s e)"
| click: "secret_reach lc format s \<Longrightarrow> r \<in> set (clicks (secret_render lc format s)) \<Longrightarrow>
    secret_reach lc format (fold (secret_do confirmed (fetch :: unit fetch) base lc) (fst r) s)"
| key: "secret_reach lc format s \<Longrightarrow> r \<in> set (keys (secret_render lc format s)) \<Longrightarrow>
    secret_reach lc format (fold (secret_do confirmed (fetch :: unit fetch) base lc) (fst r) s)"
| type: "secret_reach lc format s \<Longrightarrow>
    a \<in> set (typed (secret_render lc format s) v) \<or> a \<in> set (typed_units (secret_render lc format s) u) \<Longrightarrow>
    secret_reach lc format (secret_do confirmed (fetch :: unit fetch) base lc a s)"

definition secret_ok :: "SecretListView \<Rightarrow> bool" where
  "secret_ok s =
     (ld_error s = None \<and> lv_pageSize s = 10 \<and> 1 \<le> lv_currentPage s \<and> sl_newSecretPairs s \<noteq> [] \<and>
      (\<forall>sec. sl_editingSecret s = Some sec \<longrightarrow> sec_type sec = ''Opaque'' \<and> sl_editSecretPairs s \<noteq> []))"

text \<open>An action of the panel of errors, and one that would edit a secret of another type.\<close>

definition secret_fine :: "secret_action \<Rightarrow> bool" where
  "secret_fine a = (case a of ScRetry \<Rightarrow> False | ScEdit sec \<Rightarrow> sec_type sec = ''Opaque'' | _ \<Rightarrow> True)"

lemma secret_ok_load_start: "secret_ok (load_start s) = secret_ok s"
  by (simp add: secret_ok_def load_start_def)

lemma secret_ok_namespaces: "secret_ok s \<Longrightarrow> secret_ok ((namespace_changed ns ^^ n) s)"
  by (induction n) (simp_all add: namespace_changed_def secret_ok_load_start, simp add: secret_ok_def)

lemma secret_ok_loader:
  assumes "secret_ok s" and "\<forall>k r. e = Answer k r \<longrightarrow>
      (\<exists>fetch base ns. r = listSecrets (fetch :: Secret list option fetch) base ns)"
  shows "secret_ok (loader_step fallback s e)"
proof (cases e)
  case (Answer k r)
  with assms(2) obtain fetch :: "Secret list option fetch" and base ns where
    "r = listSecrets fetch base ns" by blast
  then have "\<exists>items. r = Inr items" by (auto simp: listSecrets_def or_empty_def split: sum.splits)
  then obtain items where "r = Inr items" by blast
  with Answer assms(1) show ?thesis by (simp add: load_end_def secret_ok_def)
qed (use assms(1) secret_ok_namespaces [OF assms(1)] in
    \<open>simp_all add: list_connected_def list_disconnected_def poll_tick_def window_namespace_def
       secret_ok_load_start, simp_all add: secret_ok_def\<close>)

lemma map_at_nonempty: "xs \<noteq> [] \<Longrightarrow> map_at i f xs \<noteq> []"
  using length_map_at [of i f xs] by fastforce

lemma secret_ok_do:
  assumes "secret_ok s" and "secret_fine a"
  shows "secret_ok (secret_do confirmed fetch base lc a s)"
proof (cases a)
  case (ScEdit sec)
  with assms show ?thesis
    by (simp add: secret_do_def secret_fine_def openEditModal_def closeViewModal_def secret_ok_def Let_def)
next
  case ScCreate
  with assms show ?thesis
    by (simp add: secret_do_def submitSecret_def Let_def load_start_def secret_closeCreateModal_def
        secret_ok_def split: sum.splits option.splits)
next
  case ScSave
  with assms show ?thesis
    by (simp add: secret_do_def saveEditSecret_def Let_def load_start_def closeEditModal_def
        secret_ok_def split: sum.splits option.splits)
next
  case (ScDelete sec)
  with assms show ?thesis
    by (simp add: secret_do_def deleteSecret_def load_start_def secret_ok_def split: sum.splits)
qed (use assms map_at_nonempty in \<open>auto simp: secret_do_def secret_fine_def secret_handleSearchInput_def
    set_query_def secret_toggleSort_def secret_goToPage_def go_to_page_def set_page_def
    secret_openCreateModal_def secret_closeCreateModal_def updateCreateKeyValuePair_def
    toggleCreateReveal_def removeCreateKeyValuePair_def addCreateKeyValuePair_def openViewModal_def
    closeViewModal_def toggleReveal_def closeEditModal_def updateEditKeyValuePair_def
    toggleEditReveal_def removeEditKeyValuePair_def addEditKeyValuePair_def Let_def secret_ok_def\<close>)

lemma secret_ok_fold:
  "secret_ok s \<Longrightarrow> \<forall>a \<in> set as. secret_fine a \<Longrightarrow>
     secret_ok (fold (secret_do confirmed fetch base lc) as s)"
  by (induction as arbitrary: s) (simp_all add: secret_ok_do)

text \<open>What is on the screen when there is no error.\<close>

lemma set_dialog:
  "set_Html (dialog close title body footer) = {close} \<union> view_acts body \<union> view_acts footer"
  by (auto simp: dialog_def view_acts_def)

lemma set_form_error [simp]: "view_acts (form_error e) = {}"
  by (simp add: form_error_def)

lemma set_kv_row [simp]:
  "set_Html (kv_row update reveal remove guard (i, p)) =
     range (\<lambda>v. update i (PairKey v)) \<union> range (\<lambda>v. update i (PairValue v)) \<union> {reveal i, remove i}"
  by (auto simp: kv_row_def value_input_def reveal_button_def)

lemma secret_fine_simps [simp]:
  "secret_fine (ScNewPair i f)" "secret_fine (ScNewReveal i)" "secret_fine (ScNewRemove i)"
  "secret_fine (ScEditPair i f)" "secret_fine (ScEditReveal i)" "secret_fine (ScEditRemove i)"
  "secret_fine ScNewAdd" "secret_fine ScEditAdd" "secret_fine ScCreate" "secret_fine ScSave"
  "secret_fine ScCloseCreate" "secret_fine ScCloseView" "secret_fine ScCloseEdit"
  "secret_fine (ScName v)" "secret_fine (ScReveal k)" "secret_fine (ScSearch v)" "secret_fine ScSort"
  "secret_fine (ScPage p)" "secret_fine ScOpenCreate" "secret_fine (ScView sec)"
  "secret_fine (ScDelete sec)" "secret_fine (ScEdit sec) = (sec_type sec = ''Opaque'')"
  "\<not> secret_fine ScRetry"
  by (simp_all add: secret_fine_def)

lemma secret_fine_dialogs:
  assumes "a \<in> view_acts (secret_dialogs s)"
  shows "secret_fine a"
proof -
  have create: "set_Html (secret_renderCreateModal s) \<subseteq> Collect secret_fine"
    unfolding secret_renderCreateModal_def set_dialog by (auto simp: add_pair_button_def)
  have edit: "set_Html (renderEditModal s sec) \<subseteq> Collect secret_fine" for sec
    unfolding renderEditModal_def set_dialog by (auto simp: add_pair_button_def)
  have view: "set_Html (renderViewModal s sec) \<subseteq> Collect secret_fine" for sec
    unfolding renderViewModal_def Let_def set_dialog
    by (auto simp: data_item_def Let_def reveal_button_def split: if_splits)
  have parts: "a \<in> set_Html (secret_renderCreateModal s) \<or>
      (\<exists>sec. a \<in> set_Html (renderViewModal s sec)) \<or> (\<exists>sec. a \<in> set_Html (renderEditModal s sec))"
    using assms unfolding secret_dialogs_def by (auto split: option.splits if_splits)
  have "a \<in> Collect secret_fine"
    using parts create edit view by (elim disjE exE) (rule subsetD, assumption+)+
  then show ?thesis by simp
qed

lemma secret_fine_list:
  "view_acts [secret_header s, secret_empty s, secret_table lc format s] \<subseteq> Collect secret_fine"
proof -
  have pages: "set_Html (secret_renderPagination lc s) \<subseteq> Collect secret_fine"
    unfolding secret_renderPagination_def using set_pagination [where goto = ScPage] by fastforce
  have row: "set_Html (renderSecretRow format sec) = {ScView sec, ScDelete sec}" for sec
    by (auto simp: renderSecretRow_def keys_list_def gray_tag_def split: if_splits)
  have "set_Html (secret_table lc format s) \<subseteq> Collect secret_fine"
    using pages by (auto simp: secret_table_def row)
  then show ?thesis by (auto simp: secret_header_def secret_empty_def Let_def)
qed

lemma secret_fine_view:
  assumes "secret_ok s" and "a \<in> view_acts (secret_render lc format s)"
  shows "secret_fine a"
proof -
  have "ld_error s = None" using assms(1) by (simp add: secret_ok_def)
  then have "a \<in> view_acts [secret_header s, secret_empty s, secret_table lc format s] \<or>
      a \<in> view_acts (secret_dialogs s)"
    using assms(2) by (auto simp: secret_render_def split: if_splits)
  then show ?thesis using secret_fine_list [of s lc format] secret_fine_dialogs by blast
qed

lemma secret_reach_ok: "secret_reach lc format s \<Longrightarrow> secret_ok s"
proof (induction rule: secret_reach.induct)
  case start
  then show ?case by (simp add: secret_ok_def secret_list_start_def)
next
  case (load s e)
  then show ?case by (intro secret_ok_loader)
next
  case (click s r confirmed fetch base)
  then show ?case
    using runs_within_view(1) [OF click.hyps(2)] secret_fine_view by (intro secret_ok_fold) blast+
next
  case (key s r confirmed fetch base)
  then show ?case
    using runs_within_view(2) [OF key.hyps(2)] secret_fine_view by (intro secret_ok_fold) blast+
next
  case (type s a v u confirmed fetch base)
  from type.hyps(2) have "a \<in> view_acts (secret_render lc format s)"
    using typed_within_view(1) [of a] typed_within_view(2) [of a] by metis
  with type.IH secret_fine_view show ?case by (intro secret_ok_do) blast+
qed

text \<open>
  C34: however the list is used and whatever the API answers, its error with the
  button \<open>Retry\<close> is never shown, only a secret of the type \<open>Opaque\<close> is ever opened for editing, and
  saving sends an update for that secret only; the dialogs always have a row to type into.
\<close>

theorem secret_states:
  assumes "secret_reach lc format s"
  shows "ScRetry \<notin> view_acts (secret_render lc format s) \<and>
    (\<forall>sec. ScEdit sec \<in> view_acts (secret_render lc format s) \<longrightarrow> sec_type sec = ''Opaque'') \<and>
    (\<forall>ns n data. snd (saveEditSecret fetch base s) = Some (ns, n, data) \<longrightarrow>
      (\<exists>sec. sl_editingSecret s = Some sec \<and> sec_name sec = n \<and> sec_type sec = ''Opaque'')) \<and>
    sl_newSecretPairs s \<noteq> [] \<and> (sl_editingSecret s \<noteq> None \<longrightarrow> sl_editSecretPairs s \<noteq> [])"
proof -
  from secret_reach_ok [OF assms] have ok: "secret_ok s" .
  have "\<exists>sec. sl_editingSecret s = Some sec \<and> sec_name sec = n \<and> sec_type sec = ''Opaque''"
    if "snd (saveEditSecret fetch base s) = Some (ns, n, data)" for ns n data
  proof -
    from that obtain sec where "sl_editingSecret s = Some sec" "sec_name sec = n"
      by (auto simp: saveEditSecret_def Let_def split: option.splits sum.splits)
    with ok show ?thesis by (simp add: secret_ok_def)
  qed
  moreover have "ScRetry \<notin> view_acts (secret_render lc format s)"
    using secret_fine_view [OF ok, of ScRetry] by auto
  moreover have "sec_type sec = ''Opaque''" if "ScEdit sec \<in> view_acts (secret_render lc format s)" for sec
    using secret_fine_view [OF ok that] by simp
  ultimately show ?thesis using ok by (auto simp: secret_ok_def)
qed

text \<open>A namespace with one secret, loaded, looked at and opened for editing.\<close>

definition token :: Secret where
  "token = \<lparr>sec_name = ''token'', sec_namespace = ''ci'', sec_creationTimestamp = None,
     sec_type = ''Opaque'', sec_data = Some [(''key'', ''QUJD'')]\<rparr>"

definition one_secret :: SecretListView where
  "one_secret = loader_step ''Failed to load secrets''
     (loader_step ''Failed to load secrets'' secret_list_start ListConnected) (Answer 0 (Inr [token]))"

definition editing_token :: SecretListView where
  "editing_token = openEditModal token (openViewModal token one_secret)"

lemma one_secret_eq:
  "one_secret = secret_list_start\<lparr>ld_items := [token], ld_loading := False, ld_next := 1,
     ld_polling := True, ld_listeners := 1\<rparr>"
  by (simp add: one_secret_def secret_list_start_def list_connected_def load_start_def load_end_def)

lemma one_secret_rows:
  "filteredSecrets lc one_secret = [token]" "paginatedSecrets lc one_secret = [token]"
  by (simp_all add: paginatedSecrets_def filteredSecrets_def filtered_def one_secret_eq
      secret_list_start_def matches_query_def sort_by_def page_items_def js_slice_def Let_def)

lemma token_clicks:
  "([ScView token], True) \<in> set (clicks (secret_render lc format one_secret))"
  "([ScEdit token], True) \<in> set (clicks (secret_render lc format (openViewModal token one_secret)))"
proof -
  have row: "([ScView token], True) \<in> set (clicks [renderSecretRow format token])"
    by (simp add: renderSecretRow_def clicks_Elem disabled_def)
  have "([ScView token], True) \<in> set (clicks [secret_table lc format one_secret])"
    using row by (auto simp: secret_table_def one_secret_rows clicks_Cons clicks_node)
  then show "([ScView token], True) \<in> set (clicks (secret_render lc format one_secret))"
    by (simp add: secret_render_def one_secret_rows, simp add: one_secret_eq secret_list_start_def
        secret_dialogs_def clicks_Cons)
next
  have "([ScEdit token], True) \<in> set (clicks [renderViewModal (openViewModal token one_secret) token])"
    by (simp add: renderViewModal_def Let_def dialog_def token_def clicks_Elem clicks_Cons clicks_node
        disabled_def run_through_def)
  moreover have "secret_dialogs (openViewModal token one_secret) =
      [renderViewModal (openViewModal token one_secret) token]"
    by (simp add: secret_dialogs_def openViewModal_def one_secret_eq secret_list_start_def)
  moreover have "\<not> ld_loading (openViewModal token one_secret)"
    "\<not> truthy (ld_error (openViewModal token one_secret))"
    by (simp_all add: openViewModal_def one_secret_eq secret_list_start_def)
  ultimately show "([ScEdit token], True) \<in>
      set (clicks (secret_render lc format (openViewModal token one_secret)))"
    unfolding secret_render_def by (simp add: clicks_Cons)
qed

lemma editing_token_reached: "secret_reach lc format editing_token"
proof -
  let ?fetch = "\<lambda>_. Inr \<lparr>rs_status = 200, rs_text = [], rs_parsed = Inr JNull, rs_typed = Some [token]\<rparr>"
  let ?run = "secret_do False (\<lambda>_. Inl OtherThrown :: unit Response outcome) [] lc"
  have "Inr [token] = listSecrets ?fetch [] []"
    by (simp add: listings_never_fail [THEN conjunct2, THEN conjunct2] request_def rs_ok_def read_json_def)
  then have "secret_reach lc format one_secret"
    unfolding one_secret_def by (intro secret_reach.intros) auto
  then have "secret_reach lc format (fold ?run (fst ([ScView token], True)) one_secret)"
    using token_clicks(1) by (rule secret_reach.click)
  then have "secret_reach lc format (openViewModal token one_secret)"
    by (simp add: secret_do_def)
  then have "secret_reach lc format
      (fold ?run (fst ([ScEdit token], True)) (openViewModal token one_secret))"
    using token_clicks(2) by (rule secret_reach.click)
  then show ?thesis by (simp add: secret_do_def editing_token_def)
qed

theorem secret_states_witness:
  "sl_editingSecret editing_token = Some token \<and> sl_editSecretPairs editing_token \<noteq> [] \<and>
   ScRetry \<notin> view_acts (secret_render (\<lambda>a b. 0) (\<lambda>t. t) editing_token)"
proof -
  have "sl_editingSecret editing_token = Some token"
    by (simp add: editing_token_def openEditModal_def Let_def)
  with secret_states [OF editing_token_reached, of "\<lambda>a b. 0" "\<lambda>t. t"
      "\<lambda>_. Inl OtherThrown :: unit Response outcome" "[]"] show ?thesis by simp
qed

end
