(* ===== verification/Dev_Server.thy ===== *)
theory Dev_Server
  imports App_Router K8s_Client
begin

section \<open>The server of the application (\<open>ui/src/server.ts\<close>)\<close>

text \<open>
  The server hands requests for the Kubernetes API on to it, serves files from three directories,
  and answers everything else with the page of the application.  The file system is a parameter
  \<open>exists\<close>, the API is a parameter \<open>upstream\<close>.  A path in the file system is the list of its segments
  from the base_dir, with a flag for a slash at its end; \<open>base_dir\<close> is the directory above \<open>src\<close>, and the
  server's own directory \<open>import.meta.dir\<close> is its \<open>src\<close>.
\<close>

record FilePath =
  fp_segments :: "string list"
  fp_slash :: bool

text \<open>The \<open>join\<close> of an absolute path: empty and dot segments vanish, two dots go up.\<close>

fun norm_segments :: "string list \<Rightarrow> string list \<Rightarrow> string list" where
  "norm_segments acc [] = acc"
| "norm_segments acc (s # ss) =
     (if s = [] \<or> s = ''.'' then norm_segments acc ss
      else if s = ''..'' then norm_segments (butlast acc) ss
      else norm_segments (acc @ [s]) ss)"

definition join_path :: "string list \<Rightarrow> string list \<Rightarrow> string \<Rightarrow> FilePath" where
  "join_path dir between path =
     \<lparr>fp_segments = norm_segments [] (dir @ between @ split_on slash path),
      fp_slash = (path \<noteq> [] \<and> last path = slash)\<rparr>"

text \<open>The extension of the last segment, from its last dot on; a leading dot does not start one.\<close>

definition extname :: "string \<Rightarrow> string" where
  "extname path =
     (case rev (filter (\<lambda>s. s \<noteq> []) (split_on slash path)) of
        [] \<Rightarrow> []
      | base # _ \<Rightarrow>
          (let after = takeWhile (\<lambda>c. c \<noteq> CHR ''.'') (rev base);
               n = length base - length after
           in if base = ''..'' \<or> n \<le> 1 then [] else drop (n - 1) base))"

definition MIME_TYPES :: "string obj" where
  "MIME_TYPES =
     [(''.html'', ''text/html; charset=utf-8''),
      (''.js'', ''application/javascript; charset=utf-8''),
      (''.mjs'', ''application/javascript; charset=utf-8''),
      (''.css'', ''text/css; charset=utf-8''),
      (''.json'', ''application/json; charset=utf-8''),
      (''.png'', ''image/png''), (''.jpg'', ''image/jpeg''), (''.jpeg'', ''image/jpeg''),
      (''.gif'', ''image/gif''), (''.svg'', ''image/svg+xml''), (''.ico'', ''image/x-icon''),
      (''.woff'', ''font/woff''), (''.woff2'', ''font/woff2''), (''.ttf'', ''font/ttf''),
      (''.map'', ''application/json'')]"

definition mime_or :: "string \<Rightarrow> string \<Rightarrow> string" where
  "mime_or path d = str_or (map_of MIME_TYPES (toLowerCase (extname path))) d"

datatype 'b ServerBody = NoBody | FileBody FilePath | TextBody string | Upstream 'b
  | ErrorBody string string

record 'b ServerResponse =
  sv_status :: int
  sv_headers :: "string obj"
  sv_body :: "'b ServerBody"

definition ok_response :: "string obj \<Rightarrow> 'b ServerBody \<Rightarrow> 'b ServerResponse" where
  "ok_response headers body = \<lparr>sv_status = 200, sv_headers = headers, sv_body = body\<rparr>"

subsection \<open>Static files\<close>

definition serveStatic ::
    "(FilePath \<Rightarrow> bool) \<Rightarrow> string list \<Rightarrow> bool \<Rightarrow> string \<Rightarrow> 'b ServerResponse option" where
  "serveStatic exists base_dir isProduction path =
     (let publicPath = join_path (base_dir @ [''src'']) [''..'', ''public''] path;
          distPath = join_path (base_dir @ [''src'']) [''..'', ''dist''] path;
          headers = [(''Content-Type'', mime_or path ''application/octet-stream''),
            (''Cache-Control'', if isProduction then ''public, max-age=31536000'' else ''no-cache'')]
      in if exists publicPath then Some (ok_response headers (FileBody publicPath))
         else if exists distPath then Some (ok_response headers (FileBody distPath))
         else None)"

subsection \<open>The proxy\<close>

record 'c ProxyRequest =
  px_url :: string
  px_method :: string
  px_headers :: "string obj"
  px_body :: 'c

record 'b Answer =
  an_status :: int
  an_contentType :: "string option"
  an_body :: 'b

definition thrown_text :: "thrown \<Rightarrow> string" where
  "thrown_text e = (case e of ErrorObj n m \<Rightarrow> n @ '': '' @ m | OtherThrown \<Rightarrow> ''[object Object]'')"

definition proxyToK8s ::
    "('c ProxyRequest \<Rightarrow> 'b Answer outcome) \<Rightarrow> string \<Rightarrow> string \<Rightarrow> 'c \<Rightarrow> string \<Rightarrow> 'b ServerResponse" where
  "proxyToK8s upstream api_url req_method req_body path =
     (case upstream \<lparr>px_url = api_url @ path, px_method = req_method,
             px_headers = [(''Content-Type'', ''application/json''), (''Accept'', ''application/json'')],
             px_body = req_body\<rparr> of
        Inr response \<Rightarrow>
          \<lparr>sv_status = an_status response,
           sv_headers = [(''Content-Type'', str_or (an_contentType response) ''application/json''),
             (''Access-Control-Allow-Origin'', ''*'')],
           sv_body = Upstream (an_body response)\<rparr>
      | Inl e \<Rightarrow>
          \<lparr>sv_status = 502, sv_headers = [(''Content-Type'', ''application/json'')],
           sv_body = ErrorBody ''Proxy error'' (thrown_text e)\<rparr>)"

subsection \<open>The handler\<close>

text \<open>The query of a target: from the first question mark to the fragment; a lone mark is none.\<close>

definition url_search :: "string \<Rightarrow> string" where
  "url_search target =
     (let q = dropWhile (\<lambda>c. c \<noteq> CHR ''?'') (takeWhile (\<lambda>c. c \<noteq> CHR ''#'') target)
      in if length q \<le> 1 then [] else q)"

definition is_api_path :: "string \<Rightarrow> bool" where
  "is_api_path path = (startsWith path ''/api/'' \<or> startsWith path ''/apis/'')"

definition module_file ::
    "(FilePath \<Rightarrow> bool) \<Rightarrow> string list \<Rightarrow> string \<Rightarrow> 'b ServerResponse option" where
  "module_file exists base_dir path =
     (let modulePath = join_path (base_dir @ [''src'']) [''..''] path
      in if startsWith path ''/node_modules/'' \<and> exists modulePath
         then Some (ok_response [(''Content-Type'', mime_or path ''application/javascript'')] (FileBody modulePath))
         else None)"

definition index_page :: "(FilePath \<Rightarrow> bool) \<Rightarrow> string list \<Rightarrow> 'b ServerResponse" where
  "index_page exists base_dir =
     (let indexPath = join_path (base_dir @ [''src'']) [] ''../public/index.html''
      in if exists indexPath
         then ok_response [(''Content-Type'', ''text/html; charset=utf-8'')] (FileBody indexPath)
         else \<lparr>sv_status = 404, sv_headers = [], sv_body = TextBody ''Not Found''\<rparr>)"

definition static_or_index ::
    "(FilePath \<Rightarrow> bool) \<Rightarrow> string list \<Rightarrow> bool \<Rightarrow> string \<Rightarrow> 'b ServerResponse" where
  "static_or_index exists base_dir isProduction path =
     (if path \<noteq> ''/'' \<and> (str_includes path ''.'' \<or> startsWith path ''/node_modules/'')
      then (case module_file exists base_dir path of
              Some r \<Rightarrow> r
            | None \<Rightarrow>
                (case serveStatic exists base_dir isProduction path of
                   Some r \<Rightarrow> r
                 | None \<Rightarrow> index_page exists base_dir))
      else index_page exists base_dir)"

definition serve_fetch ::
    "('c ProxyRequest \<Rightarrow> 'b Answer outcome) \<Rightarrow> string \<Rightarrow> (FilePath \<Rightarrow> bool) \<Rightarrow> string list \<Rightarrow> bool \<Rightarrow>
     string \<Rightarrow> string \<Rightarrow> 'c \<Rightarrow> 'b ServerResponse" where
  "serve_fetch upstream api_url exists base_dir isProduction req_method target req_body =
     (let path = url_pathname target
      in if req_method = ''OPTIONS'' then
           ok_response [(''Access-Control-Allow-Origin'', ''*''),
             (''Access-Control-Allow-Methods'', ''GET, POST, PUT, DELETE, PATCH, OPTIONS''),
             (''Access-Control-Allow-Headers'', ''Content-Type, Authorization'')] NoBody
         else if is_api_path path then
           proxyToK8s upstream api_url req_method req_body (path @ url_search target)
         else static_or_index exists base_dir isProduction path)"

text \<open>Whether the server goes on after the build: a failed build ends it in production only.\<close>

definition start_server :: "bool \<Rightarrow> bool \<Rightarrow> bool" where
  "start_server buildSuccess isProduction = (buildSuccess \<or> \<not> isProduction)"

subsection \<open>Properties\<close>

definition plain_segment :: "string \<Rightarrow> bool" where
  "plain_segment s = (s \<noteq> [] \<and> s \<noteq> ''.'' \<and> s \<noteq> ''..'')"

lemma norm_segments_append: "norm_segments acc (ss @ ts) = norm_segments (norm_segments acc ss) ts"
  by (induction acc ss rule: norm_segments.induct) auto

lemma norm_segments_plain:
  "\<forall>s \<in> set ss. s \<noteq> ''.'' \<and> s \<noteq> ''..'' \<Longrightarrow> norm_segments acc ss = acc @ filter (\<lambda>s. s \<noteq> []) ss"
  by (induction acc ss rule: norm_segments.induct) auto

lemma norm_base:
  assumes "list_all plain_segment base_dir"
  shows "norm_segments [] (base_dir @ [''src''] @ [''..''] @ ss) = norm_segments base_dir ss"
proof -
  have "norm_segments [] base_dir = base_dir"
    using assms norm_segments_plain [of base_dir "[]"]
    by (simp add: list_all_iff plain_segment_def filter_id_conv)
  then show ?thesis by (simp add: norm_segments_append [of _ base_dir])
qed

lemma double_dot_two: "\<not> single_dot s \<Longrightarrow> \<not> double_dot s \<Longrightarrow> s \<noteq> ''.'' \<and> s \<noteq> ''..''"
  by (auto simp: single_dot_def double_dot_def toLowerCase_def lower_char_def char_code_def)

lemma pathname_segments: "\<forall>s \<in> set (split_on slash (url_pathname target)). s \<noteq> ''.'' \<and> s \<noteq> ''..''"
proof (rule url_pathname_parts [of target])
  fix R
  assume path: "url_pathname target = slash # js_join [slash] R" and R: "R \<noteq> []"
    "\<forall>s \<in> set R. \<not> single_dot s \<and> \<not> double_dot s" "\<forall>s \<in> set R. slash \<notin> set s"
  have "split_on slash (url_pathname target) = [] # R"
    unfolding path using R by (simp add: split_on_js_join)
  with R(2) show ?thesis by (auto dest: double_dot_two)
qed

lemma join_inside:
  assumes "list_all plain_segment base_dir" and "\<forall>s \<in> set between. s \<noteq> ''.'' \<and> s \<noteq> ''..''"
  shows "fp_segments (join_path (base_dir @ [''src'']) ([''..''] @ between) (url_pathname target)) =
    base_dir @ filter (\<lambda>s. s \<noteq> []) (between @ split_on slash (url_pathname target))"
  using norm_base [OF assms(1), of "between @ split_on slash (url_pathname target)"]
    norm_segments_plain [of "between @ split_on slash (url_pathname target)" base_dir]
    assms(2) pathname_segments [of target]
  by (auto simp: join_path_def)

definition inside :: "string list \<Rightarrow> FilePath \<Rightarrow> bool" where
  "inside base_dir f =
     (\<exists>d rest. d \<in> {''public'', ''dist'', ''node_modules''} \<and> fp_segments f = base_dir @ d # rest \<and>
       list_all plain_segment rest)"

lemma inside_dir:
  assumes "list_all plain_segment base_dir" and "d = ''public'' \<or> d = ''dist''"
  shows "inside base_dir (join_path (base_dir @ [''src'']) [''..'', d] (url_pathname target))"
proof -
  have d: "d \<in> {''public'', ''dist'', ''node_modules''}" "plain_segment d"
    using assms(2) by (elim disjE; simp add: plain_segment_def)+
  have rest: "list_all plain_segment (filter (\<lambda>s. s \<noteq> []) (split_on slash (url_pathname target)))"
    using pathname_segments [of target] by (simp add: list_all_iff plain_segment_def)
  have "fp_segments (join_path (base_dir @ [''src'']) [''..'', d] (url_pathname target)) =
      base_dir @ d # filter (\<lambda>s. s \<noteq> []) (split_on slash (url_pathname target))"
    using join_inside [OF assms(1), of "[d]" target] d(2) by (simp add: plain_segment_def)
  with d(1) rest show ?thesis unfolding inside_def by blast
qed

lemma inside_modules:
  assumes "list_all plain_segment base_dir" and "startsWith (url_pathname target) ''/node_modules/''"
  shows "inside base_dir (join_path (base_dir @ [''src'']) [''..''] (url_pathname target))"
proof -
  obtain rest where path: "url_pathname target = ''/node_modules/'' @ rest"
    using assms(2) append_take_drop_id [of "length ''/node_modules/''" "url_pathname target"]
    unfolding startsWith_def by metis
  have "split_on slash (url_pathname target) = [] # ''node_modules'' # split_on slash rest"
    unfolding path using split_on_append_sep [of slash "''node_modules''" rest] by (simp add: slash_def)
  then have "fp_segments (join_path (base_dir @ [''src'']) [''..''] (url_pathname target)) =
      base_dir @ ''node_modules'' # filter (\<lambda>s. s \<noteq> []) (split_on slash rest)"
    and "\<forall>s \<in> set (split_on slash rest). s \<noteq> ''.'' \<and> s \<noteq> ''..''"
    using join_inside [OF assms(1), of "[]" target] pathname_segments [of target] by simp_all
  then show ?thesis
    unfolding inside_def
    by (intro exI [of _ "''node_modules''"] exI [of _ "filter (\<lambda>s. s \<noteq> []) (split_on slash rest)"])
       (simp add: list_all_iff plain_segment_def)
qed

lemma inside_index:
  assumes "list_all plain_segment base_dir"
  shows "inside base_dir (join_path (base_dir @ [''src'']) [] ''../public/index.html'')"
proof -
  have "split_on slash ''../public/index.html'' = [''..'', ''public'', ''index.html'']"
    by (simp add: slash_def)
  then show ?thesis
    using norm_base [OF assms, of "[''public'', ''index.html'']"]
    by (auto simp: inside_def join_path_def plain_segment_def)
qed

lemma module_file_inside:
  assumes "list_all plain_segment base_dir"
    and "module_file exists base_dir (url_pathname target) = Some r" and "sv_body r = FileBody f"
  shows "inside base_dir f"
  using assms(2,3) inside_modules [OF assms(1), of target]
  by (auto simp: module_file_def Let_def ok_response_def split: if_splits)

lemma serveStatic_inside:
  assumes "list_all plain_segment base_dir"
    and "serveStatic exists base_dir isProduction (url_pathname target) = Some r" and "sv_body r = FileBody f"
  shows "inside base_dir f"
proof -
  from assms(2,3) have "f = join_path (base_dir @ [''src'']) [''..'', ''public''] (url_pathname target) \<or>
      f = join_path (base_dir @ [''src'']) [''..'', ''dist''] (url_pathname target)"
    unfolding serveStatic_def Let_def ok_response_def by (simp only: split: if_splits) auto
  then show ?thesis using inside_dir [OF assms(1)] by metis
qed

lemma index_page_inside:
  assumes "list_all plain_segment base_dir" and "sv_body (index_page exists base_dir) = FileBody f"
  shows "inside base_dir f"
  using assms(2) inside_index [OF assms(1)]
  by (auto simp: index_page_def Let_def ok_response_def split: if_splits)

lemma static_or_index_inside:
  assumes "list_all plain_segment base_dir"
    and "sv_body (static_or_index exists base_dir isProduction (url_pathname target)) = FileBody f"
  shows "inside base_dir f"
  using assms(2) module_file_inside [OF assms(1)] serveStatic_inside [OF assms(1)]
    index_page_inside [OF assms(1)]
  unfolding static_or_index_def
  by (auto split: if_splits option.splits)

text \<open>
  C26: whatever the target of a request, with dot segments plain or
  percent-encoded, backslashes or control characters, a file that is served lies in \<open>public\<close>,
  \<open>dist\<close> or \<open>node_modules\<close> beside the sources, with no dots left in its path.
\<close>

theorem files_stay_inside:
  fixes upstream :: "'c ProxyRequest \<Rightarrow> 'b Answer outcome"
  assumes "list_all plain_segment base_dir"
    and "sv_body (serve_fetch upstream api_url exists base_dir isProduction req_method target req_body) = FileBody f"
  shows "\<exists>d rest. d \<in> {''public'', ''dist'', ''node_modules''} \<and> fp_segments f = base_dir @ d # rest \<and>
    list_all (\<lambda>s. s \<noteq> [] \<and> s \<noteq> ''.'' \<and> s \<noteq> ''..'') rest"
proof -
  have "sv_body (static_or_index exists base_dir isProduction (url_pathname target) :: 'b ServerResponse) = FileBody f"
    using assms(2)
    by (auto simp: serve_fetch_def Let_def ok_response_def proxyToK8s_def split: sum.splits if_splits)
  from static_or_index_inside [OF assms(1) this] show ?thesis
    by (simp add: inside_def plain_segment_def [abs_def])
qed

theorem files_stay_inside_witness:
  "\<exists>d rest. d \<in> {''public'', ''dist'', ''node_modules''} \<and>
     fp_segments \<lparr>fp_segments = [''app'', ''node_modules'', ''passwd.js''], fp_slash = False\<rparr> =
       [''app''] @ d # rest"
proof -
  have "sv_body (serve_fetch (\<lambda>_. Inl OtherThrown :: unit Answer outcome) [] (\<lambda>_. True) [''app''] False ''GET''
      ''/node_modules/../%2e%2e/node_modules/./passwd.js'' ()) =
    FileBody \<lparr>fp_segments = [''app'', ''node_modules'', ''passwd.js''], fp_slash = False\<rparr>"
    by code_simp
  from files_stay_inside [OF _ this] show ?thesis by (auto simp: plain_segment_def)
qed

lemma pipeline_path_parts:
  "pipeline_path ns n = slash # js_join [slash]
     [''apis'', ''pipeline.yaacov.io'', ''v1'', ''namespaces'', ns, ''pipelines'', n]"
  by (simp add: pipeline_path_def slash_def)

lemma api_segments:
  "list_all k8s_name [''apis'', ''pipeline.yaacov.io'', ''v1'', ''namespaces'', ''pipelines'']"
  by (simp add: k8s_name_def name_char_def lower_alnum_def is_lower_def is_digit_def char_code_def)

lemma pipeline_path_normal:
  assumes "k8s_name ns" and "k8s_name n"
  shows "url_pathname (pipeline_path ns n) = pipeline_path ns n"
    and "url_search (pipeline_path ns n) = []"
    and "is_api_path (pipeline_path ns n)"
proof -
  let ?R = "[''apis'', ''pipeline.yaacov.io'', ''v1'', ''namespaces'', ns, ''pipelines'', n]"
  have names: "\<forall>s \<in> set ?R. k8s_name s" using assms api_segments by (auto simp: list_all_iff)
  then show "url_pathname (pipeline_path ns n) = pipeline_path ns n"
    unfolding pipeline_path_parts
    by (intro url_pathname_normal ballI) (use k8s_name_facts in blast)+
  have "set (pipeline_path ns n) \<subseteq> {slash} \<union> \<Union> (set ` set ?R)"
    unfolding pipeline_path_parts using set_js_join [of "[slash]" ?R] by auto
  then have "c \<in> set (pipeline_path ns n) \<Longrightarrow> path_safe c" for c
    using names k8s_name_facts(1) path_safe_slash by blast
  then have "CHR ''?'' \<notin> set (pipeline_path ns n)" using path_unsafe by blast
  then have "dropWhile (\<lambda>c. c \<noteq> CHR ''?'') (takeWhile (\<lambda>c. c \<noteq> CHR ''#'') (pipeline_path ns n)) = []"
    by (auto simp: dropWhile_eq_Nil_conv dest: set_takeWhileD)
  then show "url_search (pipeline_path ns n) = []" by (simp only: url_search_def Let_def) simp
  show "is_api_path (pipeline_path ns n)"
    by (simp add: is_api_path_def startsWith_def pipeline_path_def)
qed

text \<open>
  C28: the server hands every request for a pipeline that the
  client sends on to the Kubernetes API under the same path, with its method and body, and gives
  its status and body back; only a failure to reach the API becomes an answer of its own, 502.  The
  file system plays no part in it.
\<close>

theorem pipeline_requests_forwarded:
  assumes "k8s_name ns" and "k8s_name n" and "req_method \<noteq> ''OPTIONS''"
  shows "serve_fetch upstream api_url exists base_dir isProduction req_method (pipeline_path ns n) req_body =
    (case upstream \<lparr>px_url = api_url @ pipeline_path ns n, px_method = req_method,
         px_headers = [(''Content-Type'', ''application/json''), (''Accept'', ''application/json'')],
         px_body = req_body\<rparr> of
       Inl e \<Rightarrow> \<lparr>sv_status = 502, sv_headers = [(''Content-Type'', ''application/json'')],
           sv_body = ErrorBody ''Proxy error'' (thrown_text e)\<rparr>
     | Inr r \<Rightarrow> \<lparr>sv_status = an_status r,
           sv_headers = [(''Content-Type'', str_or (an_contentType r) ''application/json''),
             (''Access-Control-Allow-Origin'', ''*'')],
           sv_body = Upstream (an_body r)\<rparr>)"
  using assms(3) pipeline_path_normal [OF assms(1,2)]
  by (simp add: serve_fetch_def Let_def proxyToK8s_def)

theorem pipeline_requests_forwarded_witness:
  "sv_status (serve_fetch
     (\<lambda>rq. Inr \<lparr>an_status = (if px_method rq = ''DELETE'' then 200 else 404), an_contentType = None, an_body = ()\<rparr>)
     ''http://127.0.0.1:8001'' (\<lambda>_. True) [''app''] True ''DELETE'' (pipeline_path ''ci'' ''build.v1'') ()) = 200"
  using pipeline_requests_forwarded [of "''ci''" "''build.v1''" "''DELETE''"
      "\<lambda>rq. Inr \<lparr>an_status = (if px_method rq = ''DELETE'' then 200 else 404), an_contentType = None, an_body = ()\<rparr>"
      "''http://127.0.0.1:8001''" "\<lambda>_. True" "[''app'']" True "()"]
  by (simp add: k8s_name_def name_char_def lower_alnum_def is_lower_def is_digit_def char_code_def)

end
