(* ===== verification/App_Main.thy ===== *)
theory App_Main
  imports Dev_Server
begin

section \<open>The entry point (\<open>ui/src/main.ts\<close>)\<close>

text \<open>
  The script the page loads: it gives the element \<open>rh-icon\<close> its resolver, which asks the server for
  the module of an icon and cuts the picture out of its text, and it puts the shell with the outlet
  of the router on the page.  A piece of the page is its markup.
\<close>

subsection \<open>Icons\<close>

definition backtick :: char where
  "backtick = CHR 0x60"

fun strip_prefix :: "string \<Rightarrow> string \<Rightarrow> string option" where
  "strip_prefix [] s = Some s"
| "strip_prefix (p # ps) [] = None"
| "strip_prefix (p # ps) (c # cs) = (if p = c then strip_prefix ps cs else None)"

text \<open>
  The pattern \<open>innerHTML\s*=\s*`([\s\S]*?)`\<close> at the start of a text, and its first match in a text.
  The spaces end at a character that is none, and the picture at the first backtick.
\<close>

definition icon_at :: "string \<Rightarrow> string option" where
  "icon_at s =
     Option.bind (strip_prefix ''innerHTML'' s) (\<lambda>r1.
     Option.bind (strip_prefix ''='' (dropWhile is_space r1)) (\<lambda>r2.
     Option.bind (strip_prefix [backtick] (dropWhile is_space r2)) (\<lambda>r3.
       if backtick \<in> set r3 then Some (takeWhile (\<lambda>c. c \<noteq> backtick) r3) else None)))"

fun icon_match :: "string \<Rightarrow> string option" where
  "icon_match [] = None"
| "icon_match (c # cs) = (case icon_at (c # cs) of None \<Rightarrow> icon_match cs | Some m \<Rightarrow> Some m)"

definition icon_path :: "string \<Rightarrow> string \<Rightarrow> string" where
  "icon_path set_name icon = ''/node_modules/@rhds/icons/'' @ set_name @ ''/'' @ icon @ ''.js''"

definition createFallbackIcon :: string where
  "createFallbackIcon = ''<svg xmlns=\"http://www.w3.org/2000/svg\" viewBox=\"0 0 32 32\"></svg>''"

record FileResponse =
  fr_status :: int
  fr_text :: "string outcome"

definition resolve_icon :: "(string \<Rightarrow> FileResponse outcome) \<Rightarrow> string \<Rightarrow> string \<Rightarrow> string" where
  "resolve_icon get set_name icon =
     (case get (icon_path set_name icon) of
        Inl e \<Rightarrow> createFallbackIcon
      | Inr response \<Rightarrow>
          if \<not> (200 \<le> fr_status response \<and> fr_status response \<le> 299) then createFallbackIcon
          else (case fr_text response of
                  Inl e \<Rightarrow> createFallbackIcon
                | Inr t \<Rightarrow>
                    (case icon_match t of
                       Some m \<Rightarrow> js_trim m
                     | None \<Rightarrow> createFallbackIcon)))"

subsection \<open>The start\<close>

text \<open>
  The element the application is put into, with its classes and the tags of its children, and the
  application, whose router starts at the address of the page.
\<close>

record AppContainer =
  cn_classes :: "string list"
  cn_children :: "string list"

definition initApp :: "AppContainer option \<Rightarrow> App \<Rightarrow> (AppContainer \<times> App option) option" where
  "initApp container a =
     (case container of
        None \<Rightarrow> None
      | Some c \<Rightarrow>
          Some (c\<lparr>cn_classes := filter (\<lambda>k. k \<noteq> ''app-loading'') (cn_classes c),
                  cn_children := [''app-shell'']\<rparr>, initRouter a))"

text \<open>The script starts the application itself, unless the document is still being read.\<close>

datatype main_event = ScriptRuns string | DocumentLoaded

record Main =
  mn_listening :: bool
  mn_started :: nat

primrec main_step :: "Main \<Rightarrow> main_event \<Rightarrow> Main" where
  "main_step m (ScriptRuns readyState) =
     (if readyState = ''loading'' then m\<lparr>mn_listening := True\<rparr> else m\<lparr>mn_started := Suc (mn_started m)\<rparr>)"
| "main_step m DocumentLoaded =
     (if mn_listening m then m\<lparr>mn_started := Suc (mn_started m)\<rparr> else m)"

definition main_run :: "main_event list \<Rightarrow> nat" where
  "main_run es = mn_started (foldl main_step \<lparr>mn_listening = False, mn_started = 0\<rparr> es)"

text \<open>
  The browser runs the script once; the event comes once, after the script if that has found the
  document unread, and has come or comes at any time otherwise.  The application starts once.
\<close>

lemma app_starts_once:
  "main_run [ScriptRuns ''loading'', DocumentLoaded] = 1"
  "readyState \<noteq> ''loading'' \<Longrightarrow> es \<in> {[ScriptRuns readyState], [DocumentLoaded, ScriptRuns readyState],
     [ScriptRuns readyState, DocumentLoaded]} \<Longrightarrow> main_run es = 1"
  by (auto simp: main_run_def)

lemma app_shows_page:
  "\<exists>c b. initApp (Some container) (page_loaded path) = Some (c, Some b) \<and> settled b \<and>
     cn_children c = [''app-shell''] \<and> ''app-loading'' \<notin> set (cn_classes c)"
  using initRouter_settles [of path] by (auto simp: initApp_def)

subsection \<open>The pattern\<close>

lemma strip_prefix_Some: "strip_prefix p s = Some r \<longleftrightarrow> s = p @ r"
  by (induction p s rule: strip_prefix.induct) auto

definition spaces :: "string \<Rightarrow> bool" where
  "spaces w = list_all is_space w"

lemma dropWhile_spaces:
  assumes "dropWhile is_space r = c # t" and "\<not> is_space c"
  obtains w where "spaces w" and "r = w @ c # t"
proof
  show "spaces (takeWhile is_space r)"
    by (auto simp: spaces_def list_all_iff dest: set_takeWhileD)
  show "r = takeWhile is_space r @ c # t" using assms(1) by (metis takeWhile_dropWhile_id)
qed

lemma spaces_dropWhile: "spaces w \<Longrightarrow> \<not> is_space c \<Longrightarrow> dropWhile is_space (w @ c # t) = c # t"
  by (induction w) (auto simp: spaces_def)

lemma no_space: "\<not> is_space (CHR ''='')" "\<not> is_space backtick"
  by (simp_all add: is_space_def backtick_def char_code_def)

lemma takeWhile_until: "x \<notin> set m \<Longrightarrow> takeWhile (\<lambda>c. c \<noteq> x) (m @ x # t) = m"
  by (induction m) auto

lemma icon_at_iff:
  "icon_at s = Some m \<longleftrightarrow>
     (\<exists>v w t. s = ''innerHTML'' @ v @ ''='' @ w @ [backtick] @ m @ [backtick] @ t \<and>
        spaces v \<and> spaces w \<and> backtick \<notin> set m)"
proof
  assume "icon_at s = Some m"
  then obtain r1 r2 r3 where r: "s = ''innerHTML'' @ r1" "dropWhile is_space r1 = CHR ''='' # r2"
    "dropWhile is_space r2 = backtick # r3" "backtick \<in> set r3" "m = takeWhile (\<lambda>c. c \<noteq> backtick) r3"
    by (auto simp: icon_at_def strip_prefix_Some bind_eq_Some_conv split: if_splits)
  from dropWhile_spaces [OF r(2) no_space(1)] obtain v where v: "spaces v" "r1 = v @ CHR ''='' # r2" .
  from dropWhile_spaces [OF r(3) no_space(2)] obtain w where w: "spaces w" "r2 = w @ backtick # r3" .
  from split_list_first [OF r(4)] obtain ys t where "r3 = ys @ backtick # t" "backtick \<notin> set ys" by blast
  with r(5) have "r3 = m @ backtick # t" "backtick \<notin> set m" by (simp_all add: takeWhile_until)
  with r(1) v w show "\<exists>v w t. s = ''innerHTML'' @ v @ ''='' @ w @ [backtick] @ m @ [backtick] @ t \<and>
        spaces v \<and> spaces w \<and> backtick \<notin> set m"
    by auto
next
  assume "\<exists>v w t. s = ''innerHTML'' @ v @ ''='' @ w @ [backtick] @ m @ [backtick] @ t \<and>
        spaces v \<and> spaces w \<and> backtick \<notin> set m"
  then obtain v w t where s: "s = ''innerHTML'' @ v @ ''='' @ w @ [backtick] @ m @ [backtick] @ t"
    "spaces v" "spaces w" "backtick \<notin> set m" by blast
  show "icon_at s = Some m"
    using takeWhile_until [OF s(4)] spaces_dropWhile [OF s(2) no_space(1)] spaces_dropWhile [OF s(3) no_space(2)]
    by (simp add: icon_at_def s(1))
qed

lemma icon_match_first:
  "icon_match s = Some m \<longleftrightarrow>
     (\<exists>n. icon_at (drop n s) = Some m \<and> (\<forall>k < n. icon_at (drop k s) = None))"
proof (induction s)
  case Nil
  then show ?case by (simp add: icon_at_def)
next
  case (Cons c cs)
  show ?case
  proof (cases "icon_at (c # cs)")
    case None
    have "(\<exists>n. icon_at (drop n (c # cs)) = Some m \<and> (\<forall>k < n. icon_at (drop k (c # cs)) = None)) \<longleftrightarrow>
        (\<exists>n. icon_at (drop n cs) = Some m \<and> (\<forall>k < n. icon_at (drop k cs) = None))" (is "?l \<longleftrightarrow> ?r")
    proof
      assume ?l
      then obtain n where n: "icon_at (drop n (c # cs)) = Some m" "\<forall>k < n. icon_at (drop k (c # cs)) = None" by blast
      with None obtain n' where "n = Suc n'" by (cases n) auto
      with n show ?r by (intro exI [of _ n']) force
    next
      assume ?r
      then obtain n where n: "icon_at (drop n cs) = Some m" "\<forall>k < n. icon_at (drop k cs) = None" by blast
      have "\<forall>k < Suc n. icon_at (drop k (c # cs)) = None"
        using n(2) None by (auto simp: less_Suc_eq_0_disj)
      with n(1) show ?l by (intro exI [of _ "Suc n"]) simp
    qed
    with Cons None show ?thesis by simp
  next
    case (Some m')
    have "m' = m" if "icon_at (drop n (c # cs)) = Some m" "\<forall>k < n. icon_at (drop k (c # cs)) = None" for n
      using that Some by (cases n) auto
    with Some show ?thesis by (auto intro: exI [of _ 0])
  qed
qed

subsection \<open>From the package to the page\<close>

text \<open>A module of the package of icons, in the format the comment in the code gives.\<close>

definition icon_module :: "string \<Rightarrow> string" where
  "icon_module picture =
     ''const t = document.createElement('' @ [CHR 0x27] @ ''template'' @ [CHR 0x27] @ '');t.innerHTML='' @
     [backtick] @ picture @ [backtick] @ '';export default t.content.cloneNode(true);''"

lemma icon_match_module: "backtick \<notin> set picture \<Longrightarrow> icon_match (icon_module picture) = Some picture"
  by (simp add: icon_module_def icon_at_def takeWhile_until no_space)

definition url_segment :: "string \<Rightarrow> bool" where
  "url_segment s = ((\<forall>c \<in> set s. path_safe c) \<and> slash \<notin> set s \<and> \<not> single_dot s \<and> \<not> double_dot s)"

lemma package_segments: "url_segment ''node_modules''" "url_segment ''@rhds''" "url_segment ''icons''"
  by (simp_all add: url_segment_def path_safe_def slash_def char_code_def single_dot_def double_dot_def
      toLowerCase_def lower_char_def char_of_eq_iff)

lemma k8s_segment: "k8s_name s \<Longrightarrow> url_segment s"
  using k8s_name_facts [of s] by (simp add: url_segment_def)

lemma icon_file_name: "k8s_name icon \<Longrightarrow> k8s_name (icon @ ''.js'')"
  by (auto simp: k8s_name_def name_char_def lower_alnum_def is_lower_def is_digit_def char_code_def)

lemma icon_path_facts:
  assumes "k8s_name set_name" and "k8s_name icon"
  shows "url_pathname (icon_path set_name icon) = icon_path set_name icon"
    and "split_on slash (icon_path set_name icon) =
      [[], ''node_modules'', ''@rhds'', ''icons'', set_name, icon @ ''.js'']"
proof -
  let ?R = "[''node_modules'', ''@rhds'', ''icons'', set_name, icon @ ''.js'']"
  have ok: "\<forall>s \<in> set ?R. url_segment s"
    using package_segments k8s_segment [OF assms(1)] k8s_segment [OF icon_file_name [OF assms(2)]] by simp
  have join: "icon_path set_name icon = slash # js_join [slash] ?R"
    by (simp add: icon_path_def slash_def)
  show "url_pathname (icon_path set_name icon) = icon_path set_name icon"
    unfolding join by (rule url_pathname_normal) (use ok in \<open>simp_all add: url_segment_def\<close>)
  have "split_on slash (js_join [slash] ?R) = ?R"
    by (rule split_on_js_join) (use ok in \<open>simp_all add: url_segment_def\<close>)
  then show "split_on slash (icon_path set_name icon) = [] # ?R" unfolding join by simp
qed

text \<open>What the browser gets of a file the server answers with.\<close>

definition served_file :: "(FilePath \<Rightarrow> string option) \<Rightarrow> 'b ServerResponse \<Rightarrow> FileResponse" where
  "served_file contents r =
     \<lparr>fr_status = sv_status r,
      fr_text = (case sv_body r of
          FileBody f \<Rightarrow> (case contents f of None \<Rightarrow> Inl OtherThrown | Some t \<Rightarrow> Inr t)
        | TextBody t \<Rightarrow> Inr t
        | _ \<Rightarrow> Inl OtherThrown)\<rparr>"

definition icon_file :: "string list \<Rightarrow> string \<Rightarrow> string \<Rightarrow> FilePath" where
  "icon_file base_dir set_name icon =
     \<lparr>fp_segments = base_dir @ [''node_modules'', ''@rhds'', ''icons'', set_name, icon @ ''.js''],
      fp_slash = False\<rparr>"

lemma icon_module_path:
  assumes "list_all plain_segment base_dir" and "k8s_name set_name" and "k8s_name icon"
  shows "join_path (base_dir @ [''src'']) [''..''] (icon_path set_name icon) = icon_file base_dir set_name icon"
proof -
  have "fp_segments (join_path (base_dir @ [''src'']) [''..''] (icon_path set_name icon)) =
      base_dir @ [''node_modules'', ''@rhds'', ''icons'', set_name, icon @ ''.js'']"
    using join_inside [OF assms(1), of "[]" "icon_path set_name icon"] icon_path_facts [OF assms(2,3)]
      k8s_name_facts(5) [OF assms(2)]
    by simp
  moreover have "last (icon_path set_name icon) \<noteq> slash" by (simp add: icon_path_def slash_def)
  then have "fp_slash (join_path (base_dir @ [''src'']) [''..''] (icon_path set_name icon)) = False"
    unfolding join_path_def by (simp only: FilePath.simps simp_thms)
  ultimately show ?thesis by (simp add: icon_file_def)
qed

text \<open>
  C27: an icon of the package reaches the page: for every set and icon named
  like those of the templates, the resolver asks the server for a path that the server finds in
  \<open>node_modules\<close>, whatever else there is on its disk and in its API, and cuts exactly the picture out
  of the module.
\<close>

theorem icons_reach_the_page:
  fixes upstream :: "'c ProxyRequest \<Rightarrow> 'b Answer outcome"
  assumes "list_all plain_segment base_dir" and "k8s_name set_name" and "k8s_name icon"
    and "contents (icon_file base_dir set_name icon) = Some (icon_module picture)"
    and "backtick \<notin> set picture"
  shows "resolve_icon (\<lambda>path. Inr (served_file contents (serve_fetch upstream api_url
      (\<lambda>f. contents f \<noteq> None) base_dir isProduction ''GET'' path req_body))) set_name icon =
    js_trim picture"
proof -
  let ?path = "icon_path set_name icon"
  have path: "startsWith ?path ''/node_modules/''" "\<not> is_api_path ?path" "?path \<noteq> ''/''"
    by (simp_all add: icon_path_def startsWith_def is_api_path_def)
  have "served_file contents (serve_fetch upstream api_url (\<lambda>f. contents f \<noteq> None) base_dir
      isProduction ''GET'' ?path req_body) = \<lparr>fr_status = 200, fr_text = Inr (icon_module picture)\<rparr>"
    unfolding serve_fetch_def Let_def icon_path_facts [OF assms(2,3)] static_or_index_def module_file_def
      icon_module_path [OF assms(1-3)]
    using path assms(4) by (simp add: served_file_def ok_response_def)
  then show ?thesis by (simp add: resolve_icon_def icon_match_module [OF assms(5)])
qed

theorem icons_reach_the_page_witness:
  "resolve_icon (\<lambda>path. Inr (served_file
      (\<lambda>f. if f = icon_file [''app''] ''ui'' ''trash'' then Some (icon_module '' <svg/> '') else None)
      (serve_fetch (\<lambda>_. Inl OtherThrown :: unit Answer outcome) []
        (\<lambda>f. (if f = icon_file [''app''] ''ui'' ''trash'' then Some (icon_module '' <svg/> '') else None) \<noteq> None)
        [''app''] True ''GET'' path ()))) ''ui'' ''trash'' = ''<svg/>''"
proof -
  have "js_trim '' <svg/> '' = ''<svg/>''" by code_simp
  moreover have "list_all plain_segment [''app'']" "k8s_name ''ui''" "k8s_name ''trash''"
    "backtick \<notin> set '' <svg/> ''"
    by code_simp+
  ultimately show ?thesis
    using icons_reach_the_page [of "[''app'']" "''ui''" "''trash''"
        "\<lambda>f. if f = icon_file [''app''] ''ui'' ''trash'' then Some (icon_module '' <svg/> '') else None"
        "'' <svg/> ''" "\<lambda>_. Inl OtherThrown :: unit Answer outcome" "[]" True "()"]
    by simp
qed

text \<open>
  An icon that is not in the package is answered with the page of the application and the status
  200, so that the check of the status does not notice; the text holds no picture, and the empty one
  is shown.
\<close>

lemma missing_icon:
  assumes "list_all plain_segment base_dir" and "k8s_name set_name" and "k8s_name icon"
    and "contents (icon_file base_dir set_name icon) = None"
    and "serveStatic (\<lambda>f. contents f \<noteq> None) base_dir isProduction (icon_path set_name icon) =
      (None :: 'b ServerResponse option)"
    and "contents (join_path (base_dir @ [''src'']) [] ''../public/index.html'') = Some page"
    and "icon_match page = None"
  shows "fr_status (served_file contents (serve_fetch (upstream :: 'c ProxyRequest \<Rightarrow> 'b Answer outcome) api_url
      (\<lambda>f. contents f \<noteq> None) base_dir isProduction ''GET'' (icon_path set_name icon) req_body)) = 200"
    and "resolve_icon (\<lambda>path. Inr (served_file contents (serve_fetch upstream api_url
      (\<lambda>f. contents f \<noteq> None) base_dir isProduction ''GET'' path req_body))) set_name icon = createFallbackIcon"
proof -
  let ?path = "icon_path set_name icon"
  have path: "\<not> is_api_path ?path" "?path \<noteq> ''/''"
    by (simp_all add: icon_path_def startsWith_def is_api_path_def)
  have "served_file contents (serve_fetch upstream api_url (\<lambda>f. contents f \<noteq> None) base_dir
      isProduction ''GET'' ?path req_body) = \<lparr>fr_status = 200, fr_text = Inr page\<rparr>"
    unfolding serve_fetch_def Let_def icon_path_facts [OF assms(2,3)] static_or_index_def module_file_def
      icon_module_path [OF assms(1-3)] index_page_def
    using path assms(4-6) by (simp add: served_file_def ok_response_def)
  then show "fr_status (served_file contents (serve_fetch upstream api_url
      (\<lambda>f. contents f \<noteq> None) base_dir isProduction ''GET'' ?path req_body)) = 200"
    and "resolve_icon (\<lambda>path. Inr (served_file contents (serve_fetch upstream api_url
      (\<lambda>f. contents f \<noteq> None) base_dir isProduction ''GET'' path req_body))) set_name icon = createFallbackIcon"
    by (simp_all add: resolve_icon_def assms(7))
qed

end
