(* ===== verification/Css_Cascade.thy ===== *)
theory Css_Cascade
  imports Html_View
begin

section \<open>Style sheets\<close>

text \<open>
  The style sheet of a component (\<open>static styles\<close>) as data, and what the browser does with it: the
  selectors a rule has, when a selector matches an element in the tree of the component, which of
  the declarations that match wins, and what that means for a user: an element that is not
  displayed is not there, and one that is hidden or takes no pointer events cannot be hit with the
  mouse.

  The values of properties are kept as text.  Whether a dynamic condition of an element holds
  (\<open>hover\<close>, \<open>focus\<close>, \<open>last-child\<close> and the like) is up to the browser and a parameter.  The layout is not
  modelled: where two elements that can be hit overlap, the one on top takes the mouse.
\<close>

subsection \<open>Rules\<close>

datatype simple =
    Tag string
  | Class string
  | HasAttr string
  | AttrIs string string
  | Pseudo string
  | NotPseudo string
  | HasInside string string

text \<open>
  A selector: the condition on the host of the component, where it begins with \<open>:host\<close>, the
  compounds from the outermost to that of the element, and the pseudo-element it ends with, with
  the conditions on that.
\<close>

record Selector =
  sl_host :: "simple list option"
  sl_path :: "simple list list"
  sl_part :: "(string \<times> string list) option"

definition sel :: "simple list list \<Rightarrow> Selector" where
  "sel path = \<lparr>sl_host = None, sl_path = path, sl_part = None\<rparr>"

definition on_host :: "simple list \<Rightarrow> simple list list \<Rightarrow> Selector" where
  "on_host cond path = \<lparr>sl_host = Some cond, sl_path = path, sl_part = None\<rparr>"

definition on_part :: "simple list list \<Rightarrow> string \<Rightarrow> string list \<Rightarrow> Selector" where
  "on_part path name states = \<lparr>sl_host = None, sl_path = path, sl_part = Some (name, states)\<rparr>"

text \<open>A value in quotation marks.\<close>

definition quoted :: "string \<Rightarrow> string" where
  "quoted s = CHR 0x27 # s @ [CHR 0x27]"

datatype Declaration =
    Decl string string
  | Important string string

datatype CssItem =
    Rule "Selector list" "Declaration list"
  | MaxWidth nat "(Selector list \<times> Declaration list) list"
  | Keyframes string "(string list \<times> Declaration list) list"

text \<open>The rules that are in force in a window of a width.\<close>

primrec in_force :: "nat \<Rightarrow> CssItem \<Rightarrow> (Selector list \<times> Declaration list) list" where
  "in_force width (Rule ss ds) = [(ss, ds)]"
| "in_force width (MaxWidth w rs) = (if width \<le> w then rs else [])"
| "in_force width (Keyframes name frames) = []"

subsection \<open>Matching\<close>

record DomElement =
  dom_tag :: string
  dom_classes :: "string list"
  dom_attrs :: "(string \<times> string) list"
  dom_states :: "string list"

definition inside_state :: "string \<Rightarrow> string \<Rightarrow> string" where
  "inside_state t s = ''has('' @ t @ '':'' @ s @ '')''"

primrec meets :: "DomElement \<Rightarrow> simple \<Rightarrow> bool" where
  "meets e (Tag t) = (dom_tag e = t)"
| "meets e (Class c) = (c \<in> set (dom_classes e))"
| "meets e (HasAttr n) = (n \<in> fst ` set (dom_attrs e))"
| "meets e (AttrIs n v) = ((n, v) \<in> set (dom_attrs e))"
| "meets e (Pseudo s) = (s \<in> set (dom_states e))"
| "meets e (NotPseudo s) = (s \<notin> set (dom_states e))"
| "meets e (HasInside t s) = (inside_state t s \<in> set (dom_states e))"

text \<open>
  The compounds of the ancestors, the nearest first, against the ancestors, the nearest first: all
  combinators in the code are descendant combinators.
\<close>

fun above :: "simple list list \<Rightarrow> DomElement list \<Rightarrow> bool" where
  "above [] anc = True"
| "above (c # cs) [] = False"
| "above (c # cs) (e # anc) = (list_all (meets e) c \<and> above cs anc \<or> above (c # cs) anc)"

text \<open>An element inside the component is given with its ancestors there; the host is apart.\<close>

definition host_meets :: "DomElement \<Rightarrow> Selector \<Rightarrow> bool" where
  "host_meets h s = (case sl_host s of None \<Rightarrow> True | Some cond \<Rightarrow> list_all (meets h) cond)"

definition picks :: "DomElement \<Rightarrow> DomElement list \<Rightarrow> Selector \<Rightarrow> bool" where
  "picks h path s =
     (sl_part s = None \<and> host_meets h s \<and>
      (case (rev (sl_path s), path) of
         (c # cs, e # anc) \<Rightarrow> list_all (meets e) c \<and> above cs anc
       | _ \<Rightarrow> False))"

subsection \<open>The cascade\<close>

text \<open>
  How specific a selector is: the number of its classes, attributes and pseudo-classes, then that
  of its tags and pseudo-elements; no selector has an identifier.
\<close>

primrec simple_weight :: "simple \<Rightarrow> nat \<times> nat" where
  "simple_weight (Tag t) = (0, 1)"
| "simple_weight (Class c) = (1, 0)"
| "simple_weight (HasAttr n) = (1, 0)"
| "simple_weight (AttrIs n v) = (1, 0)"
| "simple_weight (Pseudo s) = (1, 0)"
| "simple_weight (NotPseudo s) = (1, 0)"
| "simple_weight (HasInside t s) = (1, 1)"

definition total_weight :: "(nat \<times> nat) list \<Rightarrow> nat \<times> nat" where
  "total_weight ws = (sum_list (map fst ws), sum_list (map snd ws))"

definition specificity :: "Selector \<Rightarrow> nat \<times> nat" where
  "specificity s =
     total_weight
       ((case sl_host s of None \<Rightarrow> [] | Some cond \<Rightarrow> (1, 0) # map simple_weight cond) @
        map simple_weight (concat (sl_path s)) @
        (case sl_part s of None \<Rightarrow> [] | Some (name, states) \<Rightarrow> (0, 1) # map (\<lambda>_. (1, 0)) states))"

primrec decl_name :: "Declaration \<Rightarrow> string" where
  "decl_name (Decl n v) = n"
| "decl_name (Important n v) = n"

primrec decl_value :: "Declaration \<Rightarrow> string" where
  "decl_value (Decl n v) = v"
| "decl_value (Important n v) = v"

primrec decl_important :: "Declaration \<Rightarrow> bool" where
  "decl_important (Decl n v) = False"
| "decl_important (Important n v) = True"

text \<open>
  A later candidate takes the place of an earlier one unless that one outranks it: by
  \<open>!important\<close>, then by its selector.
\<close>

type_synonym candidate = "Selector \<times> Declaration"

definition outranks :: "candidate \<Rightarrow> candidate \<Rightarrow> bool" where
  "outranks c d =
     (let (a, b) = specificity (fst c); (a', b') = specificity (fst d);
          i = decl_important (snd c); j = decl_important (snd d)
      in i \<and> \<not> j \<or> (i = j \<and> (a' < a \<or> a = a' \<and> b' < b)))"

definition better :: "candidate option \<Rightarrow> candidate \<Rightarrow> candidate option" where
  "better best c = (case best of None \<Rightarrow> Some c | Some b \<Rightarrow> if outranks b c then Some b else Some c)"

definition candidates :: "nat \<Rightarrow> CssItem list \<Rightarrow> string list \<Rightarrow> candidate list" where
  "candidates width sheet names =
     concat (map (\<lambda>(ss, ds). concat (map (\<lambda>s. map (Pair s) (filter (\<lambda>d. decl_name d \<in> set names) ds)) ss))
       (concat (map (in_force width) sheet)))"

text \<open>
  The value an element gets for a property from the sheet, as it is written: the shorthands that set
  the property are looked at with it.
\<close>

definition set_by :: "string \<Rightarrow> string list" where
  "set_by p =
     p # (if p = ''border-color'' then [''border'']
          else if p = ''background-color'' then [''background''] else [])"

definition winner :: "DomElement \<Rightarrow> DomElement list \<Rightarrow> candidate list \<Rightarrow> string option" where
  "winner h path cs =
     map_option (\<lambda>c. decl_value (snd c)) (foldl better None (filter (\<lambda>c. picks h path (fst c)) cs))"

definition styled ::
    "nat \<Rightarrow> CssItem list \<Rightarrow> DomElement \<Rightarrow> string \<Rightarrow> DomElement list \<Rightarrow> string option" where
  "styled width sheet h p path = winner h path (candidates width sheet (set_by p))"

text \<open>A property that is inherited: that of the nearest element on the way up that has one.\<close>

fun inherited ::
    "nat \<Rightarrow> CssItem list \<Rightarrow> DomElement \<Rightarrow> string \<Rightarrow> DomElement list \<Rightarrow> string option" where
  "inherited width sheet h p [] = None"
| "inherited width sheet h p (e # anc) =
     (case styled width sheet h p (e # anc) of
        None \<Rightarrow> inherited width sheet h p anc
      | Some v \<Rightarrow> Some v)"

subsection \<open>Styled templates\<close>

text \<open>The element of a template; its conditions are given by its place in the tree.\<close>

fun attr_of :: "property \<Rightarrow> (string \<times> string) list" where
  "attr_of (Attr n v) = [(n, v)]"
| "attr_of (Flag n b) = (if b then [(n, [])] else [])"
| "attr_of _ = []"

definition classes_of :: "property list \<Rightarrow> string list" where
  "classes_of ps =
     concat (map (\<lambda>(n, v). if n = ''class'' then filter (\<lambda>c. c \<noteq> []) (split_on CHR '' '' v) else [])
       (concat (map attr_of ps)))"

definition dom_element :: "string \<Rightarrow> property list \<Rightarrow> string list \<Rightarrow> DomElement" where
  "dom_element t ps states =
     \<lparr>dom_tag = t, dom_classes = classes_of ps, dom_attrs = concat (map attr_of ps), dom_states = states\<rparr>"

record Screen =
  sc_width :: nat
  sc_sheet :: "CssItem list"
  sc_host :: DomElement
  sc_states :: "nat list \<Rightarrow> string list"

text \<open>
  What is left of a template on the screen: an element with \<open>display: none\<close> is gone with all that is
  in it.  Places are paths of indices, the innermost first.
\<close>

definition displayed :: "Screen \<Rightarrow> DomElement list \<Rightarrow> bool" where
  "displayed sc path = (styled (sc_width sc) (sc_sheet sc) (sc_host sc) ''display'' path \<noteq> Some ''none'')"

fun shown :: "Screen \<Rightarrow> nat list \<Rightarrow> DomElement list \<Rightarrow> 'a Html \<Rightarrow> 'a Html list"
  and shown_all :: "Screen \<Rightarrow> nat list \<Rightarrow> nat \<Rightarrow> DomElement list \<Rightarrow> 'a Html list \<Rightarrow> 'a Html list" where
  "shown sc pos anc (Text s) = [Text s]"
| "shown sc pos anc (Units u) = [Units u]"
| "shown sc pos anc (Elem t ps ls hs) =
     (let e = dom_element t ps (sc_states sc pos)
      in if displayed sc (e # anc) then [Elem t ps ls (shown_all sc pos 0 (e # anc) hs)] else [])"
| "shown_all sc pos i anc [] = []"
| "shown_all sc pos i anc (h # hs) = shown sc (i # pos) anc h @ shown_all sc pos (Suc i) anc hs"

definition screen :: "Screen \<Rightarrow> 'a Html list \<Rightarrow> 'a Html list" where
  "screen sc hs = shown_all sc [] 0 [] hs"

text \<open>
  The elements the mouse can hit, with the listeners on the way to the root: an element that is
  displayed and visible and does not refuse pointer events.
\<close>

definition hit_by_mouse :: "Screen \<Rightarrow> DomElement list \<Rightarrow> bool" where
  "hit_by_mouse sc path =
     (inherited (sc_width sc) (sc_sheet sc) (sc_host sc) ''visibility'' path \<noteq> Some ''hidden'' \<and>
      inherited (sc_width sc) (sc_sheet sc) (sc_host sc) ''pointer-events'' path \<noteq> Some ''none'')"

fun mouse_chains :: "Screen \<Rightarrow> nat list \<Rightarrow> DomElement list \<Rightarrow> 'a Html \<Rightarrow> ('a Html \<times> 'a listener list list) list"
  and mouse_chains_all ::
    "Screen \<Rightarrow> nat list \<Rightarrow> nat \<Rightarrow> DomElement list \<Rightarrow> 'a Html list \<Rightarrow> ('a Html \<times> 'a listener list list) list" where
  "mouse_chains sc pos anc (Text s) = []"
| "mouse_chains sc pos anc (Units u) = []"
| "mouse_chains sc pos anc (Elem t ps ls hs) =
     (let e = dom_element t ps (sc_states sc pos)
      in if disabled ps \<or> \<not> displayed sc (e # anc) then []
         else (if hit_by_mouse sc (e # anc) then [(Elem t ps ls hs, [ls])] else []) @
           map (\<lambda>(x, c). (x, c @ [ls])) (mouse_chains_all sc pos 0 (e # anc) hs))"
| "mouse_chains_all sc pos i anc [] = []"
| "mouse_chains_all sc pos i anc (h # hs) =
     mouse_chains sc (i # pos) anc h @ mouse_chains_all sc pos (Suc i) anc hs"

definition on_mouse :: "Screen \<Rightarrow> 'a Html list \<Rightarrow> ('a Html \<times> 'a listener list list) list" where
  "on_mouse sc hs = mouse_chains_all sc [] 0 [] hs"

definition mouse_clicks :: "Screen \<Rightarrow> 'a Html list \<Rightarrow> ('a list \<times> bool) list" where
  "mouse_clicks sc hs = map (\<lambda>(e, c). click_run c) (on_mouse sc hs)"

subsection \<open>Facts about the cascade\<close>

lemma better_cases: "better b c = Some c \<or> better b c = b"
  by (simp add: better_def split: option.splits)

lemma better_Some: "better b c \<noteq> None"
  by (simp add: better_def split: option.splits)

lemma foldl_better_in:
  assumes "foldl better b cs = Some c"
  shows "b = Some c \<or> c \<in> set cs"
  using assms
proof (induction cs arbitrary: b)
  case (Cons d cs)
  from Cons.prems have "better b d = Some c \<or> c \<in> set cs" using Cons.IH [of "better b d"] by simp
  then show ?case using better_cases [of b d] by auto
qed simp

lemma foldl_better_Some: "b \<noteq> None \<Longrightarrow> foldl better b cs \<noteq> None"
proof (induction cs arbitrary: b)
  case (Cons c cs)
  from Cons.IH [OF better_Some [of b c]] show ?case by (simp only: foldl_Cons not_False_eq_True)
qed simp

lemma foldl_better_None: "foldl better None cs = None \<longleftrightarrow> cs = []"
proof (cases cs)
  case (Cons c cs')
  with foldl_better_Some [OF better_Some [of None c], of cs'] show ?thesis
    by (simp only: foldl_Cons list.distinct simp_thms)
qed simp

lemma winner_in:
  assumes "winner h path cs = Some v"
  obtains s d where "(s, d) \<in> set cs" "picks h path s" "decl_value d = v"
proof -
  from assms obtain c where c: "foldl better None (filter (\<lambda>c. picks h path (fst c)) cs) = Some c"
    "decl_value (snd c) = v"
    unfolding winner_def by blast
  from foldl_better_in [OF c(1)] have "c \<in> set cs" "picks h path (fst c)" by simp_all
  with c(2) show thesis using that [of "fst c" "snd c"] by simp
qed

lemma winner_None: "winner h path cs = None \<longleftrightarrow> (\<forall>c \<in> set cs. \<not> picks h path (fst c))"
  by (auto simp: winner_def foldl_better_None filter_empty_conv)

lemma picks_simps:
  "picks h (e # anc) (sel path) =
     (case rev path of [] \<Rightarrow> False | c # cs \<Rightarrow> list_all (meets e) c \<and> above cs anc)"
  "picks h (e # anc) (on_host cond path) =
     (list_all (meets h) cond \<and>
      (case rev path of [] \<Rightarrow> False | c # cs \<Rightarrow> list_all (meets e) c \<and> above cs anc))"
  "picks h path' (on_part path name states) = False"
  by (auto simp: picks_def sel_def on_host_def on_part_def host_meets_def split: list.splits)

lemma specificity_simps:
  "specificity (sel path) = total_weight (map simple_weight (concat path))"
  "specificity (on_host cond path) =
     total_weight ((1, 0) # map simple_weight cond @ map simple_weight (concat path))"
  by (simp_all add: specificity_def sel_def on_host_def)

lemmas cascade_compute =
  winner_def picks_simps specificity_simps outranks_def better_def total_weight_def

text \<open>Most rules are about elements with other tags and classes, and need not be looked at.\<close>

definition may_pick :: "string \<Rightarrow> string list \<Rightarrow> candidate \<Rightarrow> bool" where
  "may_pick t classes c =
     list_all (\<lambda>x. case x of Tag u \<Rightarrow> u = t | Class k \<Rightarrow> k \<in> set classes | _ \<Rightarrow> True)
       (case rev (sl_path (fst c)) of [] \<Rightarrow> [] | k # ks \<Rightarrow> k)"

lemma picks_may_pick:
  assumes "picks h (e # anc) (fst c)" and "set (dom_classes e) \<subseteq> set classes"
  shows "may_pick (dom_tag e) classes c"
proof -
  obtain k ks where k: "rev (sl_path (fst c)) = k # ks" "list_all (meets e) k"
    using assms(1) by (auto simp: picks_def split: list.splits)
  have "case x of Tag u \<Rightarrow> u = dom_tag e | Class j \<Rightarrow> j \<in> set classes | _ \<Rightarrow> True" if "x \<in> set k" for x
  proof -
    have "meets e x" using k(2) that by (simp add: list_all_iff)
    then show ?thesis using assms(2) by (cases x) auto
  qed
  with k(1) show ?thesis by (simp add: may_pick_def list_all_iff)
qed

lemma winner_may_pick:
  assumes "set (dom_classes e) \<subseteq> set classes"
  shows "winner h (e # anc) cs = winner h (e # anc) (filter (may_pick (dom_tag e) classes) cs)"
proof -
  have "filter (\<lambda>c. picks h (e # anc) (fst c)) (filter (may_pick (dom_tag e) classes) cs) =
      filter (\<lambda>c. picks h (e # anc) (fst c)) cs"
    using picks_may_pick [OF _ assms, of h anc] by (auto intro!: filter_cong simp: filter_filter)
  then show ?thesis by (simp add: winner_def)
qed

text \<open>The last candidate wins unless one before it that matches too outranks it.\<close>

lemma winner_last:
  assumes "picks h path s" and "\<forall>c \<in> set cs. picks h path (fst c) \<longrightarrow> \<not> outranks c (s, d)"
  shows "winner h path (cs @ [(s, d)]) = Some (decl_value d)"
proof -
  let ?m = "filter (\<lambda>c. picks h path (fst c)) cs"
  have "\<not> outranks b (s, d)" if "foldl better None ?m = Some b" for b
    using foldl_better_in [OF that] assms(2) by auto
  then have "better (foldl better None ?m) (s, d) = Some (s, d)"
    by (simp add: better_def split: option.splits)
  then show ?thesis using assms(1) by (simp add: winner_def)
qed

lemma styled_Nil [simp]: "styled width sheet h p [] = None"
  by (auto simp: styled_def winner_None picks_def split: list.splits)

lemma displayed_Nil [simp]: "displayed sc []"
  by (simp add: displayed_def)

text \<open>Where nothing is hidden, the screen is the template, and the mouse reaches all of it.\<close>

lemma shown_same:
  fixes h :: "'a Html" and hs :: "'a Html list"
  assumes "\<And>path. displayed sc path"
  shows "shown sc pos anc h = [h]" and "shown_all sc pos i anc hs = hs"
  using assms
  by (induction sc pos anc h and sc pos i anc hs rule: shown_shown_all.induct) (simp_all add: Let_def)

lemma screen_same:
  assumes "\<And>path. displayed sc path"
  shows "screen sc hs = hs"
  using shown_same(2) [OF assms] by (simp add: screen_def)

lemma mouse_chains_in:
  fixes h :: "'a Html" and hs :: "'a Html list"
  shows "set (mouse_chains sc pos anc h) \<subseteq> set (chains h)"
    and "set (mouse_chains_all sc pos i anc hs) \<subseteq> set (all_chains hs)"
proof (induction sc pos anc h and sc pos i anc hs rule: mouse_chains_mouse_chains_all.induct)
  case (3 sc pos anc t ps ls hs)
  then show ?case unfolding chains_Elem mouse_chains.simps Let_def
    by (cases "disabled ps"; cases "displayed sc (dom_element t ps (sc_states sc pos) # anc)") auto
qed auto

lemma mouse_chains_member:
  fixes h :: "'a Html"
  assumes "h \<in> set hs" and "\<And>pos. x \<in> set (mouse_chains sc pos anc h)"
  shows "x \<in> set (mouse_chains_all sc pos i anc hs)"
  using assms by (induction hs arbitrary: i) auto

lemma mouse_chains_cases:
  assumes "x \<in> set (mouse_chains sc pos anc (Elem t ps ls hs))"
  obtains "fst x = Elem t ps ls hs"
    | e y where "y \<in> set (mouse_chains_all sc pos 0 (e # anc) hs)" "fst x = fst y"
  using assms by (force simp: Let_def split: if_splits)

lemma mouse_chains_same:
  fixes h :: "'a Html" and hs :: "'a Html list"
  assumes "\<And>path. displayed sc path" and "\<And>path. hit_by_mouse sc path"
  shows "mouse_chains sc pos anc h = chains h" and "mouse_chains_all sc pos i anc hs = all_chains hs"
  using assms
proof (induction sc pos anc h and sc pos i anc hs rule: mouse_chains_mouse_chains_all.induct)
  case (3 sc pos anc t ps ls hs)
  then show ?case unfolding chains_Elem mouse_chains.simps Let_def by (cases "disabled ps") simp_all
qed simp_all

text \<open>
  A property that no rule sets to anything but one value: the elements that have it are those a rule
  picks and all below them.
\<close>

definition picked :: "nat \<Rightarrow> CssItem list \<Rightarrow> DomElement \<Rightarrow> string \<Rightarrow> DomElement list \<Rightarrow> bool" where
  "picked width sheet h p path = list_ex (\<lambda>c. picks h path (fst c)) (candidates width sheet (set_by p))"

lemma styled_single:
  assumes "\<forall>c \<in> set (candidates width sheet (set_by p)). decl_value (snd c) = v"
  shows "styled width sheet h p path = (if picked width sheet h p path then Some v else None)"
proof (cases "styled width sheet h p path")
  case None
  then have "\<not> picked width sheet h p path"
    by (simp add: styled_def winner_None picked_def list_ex_iff)
  with None show ?thesis by simp
next
  case (Some u)
  with assms have "u = v" unfolding styled_def by (elim winner_in) force
  moreover have "picked width sheet h p path"
    using Some unfolding styled_def by (elim winner_in) (force simp: picked_def list_ex_iff)
  ultimately show ?thesis using Some by simp
qed

lemma inherited_single:
  assumes "\<forall>c \<in> set (candidates width sheet (set_by p)). decl_value (snd c) = v"
  shows "inherited width sheet h p path = Some v \<longleftrightarrow>
    (\<exists>pre e anc. path = pre @ e # anc \<and> picked width sheet h p (e # anc))"
proof (induction path)
  case (Cons e anc)
  show ?case
  proof (cases "picked width sheet h p (e # anc)")
    case True
    then show ?thesis by (auto simp: styled_single [OF assms] intro: exI [of _ "[]"])
  next
    case False
    then have "inherited width sheet h p (e # anc) = Some v \<longleftrightarrow>
        (\<exists>pre f up. anc = pre @ f # up \<and> picked width sheet h p (f # up))"
      using Cons.IH by (simp add: styled_single [OF assms])
    also have "\<dots> \<longleftrightarrow> (\<exists>pre f up. e # anc = pre @ f # up \<and> picked width sheet h p (f # up))"
      using False by (auto simp: Cons_eq_append_conv)
    finally show ?thesis .
  qed
qed simp

lemma inherited_unset:
  assumes "candidates width sheet (set_by p) = []"
  shows "inherited width sheet h p path = None"
  using assms by (induction path) (simp_all add: styled_def winner_def)

text \<open>Below an element that refuses the mouse, it hits nothing.\<close>

lemma mouse_chains_below:
  fixes h :: "'a Html" and hs :: "'a Html list"
  shows "\<forall>pre. \<not> hit_by_mouse sc (pre @ e # up) \<Longrightarrow> anc = pre @ e # up \<Longrightarrow>
      mouse_chains sc pos anc h = []"
    and "\<forall>pre. \<not> hit_by_mouse sc (pre @ e # up) \<Longrightarrow> anc = pre @ e # up \<Longrightarrow>
      mouse_chains_all sc pos i anc hs = []"
proof (induction sc pos anc h and sc pos i anc hs arbitrary: pre and pre rule: mouse_chains_mouse_chains_all.induct)
  case (3 sc pos anc t ps ls hs)
  let ?f = "dom_element t ps (sc_states sc pos)"
  from "3.prems"(2) have up: "?f # anc = (?f # pre) @ e # up" by simp
  have "\<not> hit_by_mouse sc (?f # anc)" unfolding up using "3.prems"(1) by blast
  with "3.IH" [OF refl _ "3.prems"(1) up] show ?case by (auto simp: Let_def)
qed auto

lemma displayed_unless_none:
  assumes "\<forall>c \<in> set (candidates (sc_width sc) (sc_sheet sc) (set_by ''display'')). decl_value (snd c) \<noteq> ''none''"
  shows "displayed sc path"
  using assms by (auto simp: displayed_def styled_def elim!: winner_in)

text \<open>Lengths as they are written.\<close>

definition px :: "int \<Rightarrow> string" where
  "px n = int_str n @ ''px''"

lemma px_values: "px 240 = ''240px''" "px 100 = ''100px''"
  by code_simp+

subsection \<open>Animations\<close>

text \<open>
  The animations a sheet asks for and those it defines: keyframes do not reach from one component
  into another.
\<close>

definition animations :: "CssItem list \<Rightarrow> string list" where
  "animations sheet =
     concat (map (\<lambda>(ss, ds). map (\<lambda>d. takeWhile (\<lambda>c. c \<noteq> CHR '' '') (decl_value d))
       (filter (\<lambda>d. decl_name d = ''animation'') ds)) (concat (map (in_force 0) sheet)))"

definition keyframes :: "CssItem list \<Rightarrow> string list" where
  "keyframes sheet = concat (map (\<lambda>i. case i of Keyframes name frames \<Rightarrow> [name] | _ \<Rightarrow> []) sheet)"

definition animated :: "CssItem list \<Rightarrow> bool" where
  "animated sheet = list_all (\<lambda>a. a \<in> set (keyframes sheet)) (animations sheet)"

end
