(* ===== verification/Shared_Styles.thy ===== *)
theory Shared_Styles
  imports Css_Cascade
begin

section \<open>The style sheets of the shell and of the shared elements\<close>

text \<open>
  The sheets of \<open>components/app-shell.ts\<close> and of \<open>components/shared\<close>, rule by rule in their order.
\<close>

subsection \<open>\<open>app-shell.ts\<close>\<close>

definition shell_frame_style :: "CssItem list" where
  "shell_frame_style =
     [Rule [on_host [] []]
        [Decl ''display'' ''flex'', Decl ''flex-direction'' ''column'', Decl ''min-height'' ''100vh'',
         Decl ''background'' ''var(--rh-color-surface-lighter, #f5f5f5)''],
      Rule [sel [[Class ''skip-link'']]]
        [Decl ''position'' ''absolute'', Decl ''left'' ''-9999px'', Decl ''top'' ''auto'',
         Decl ''width'' ''1px'', Decl ''height'' ''1px'', Decl ''overflow'' ''hidden''],
      Rule [sel [[Class ''skip-link'', Pseudo ''focus'']]]
        [Decl ''position'' ''fixed'', Decl ''top'' ''0'', Decl ''left'' ''0'', Decl ''width'' ''auto'',
         Decl ''height'' ''auto'', Decl ''padding'' ''var(--rh-space-md, 16px)'',
         Decl ''background'' ''var(--rh-color-surface-darkest, #151515)'',
         Decl ''color'' ''var(--rh-color-text-primary-on-dark, #ffffff)'', Decl ''z-index'' ''1000''],
      Rule [sel [[Tag ''rh-navigation-primary'']]]
        [Decl ''--rh-navigation-primary-background-color'' ''var(--rh-color-surface-darkest, #151515)''],
      Rule [sel [[Class ''logo'']]]
        [Decl ''display'' ''flex'', Decl ''align-items'' ''center'', Decl ''text-decoration'' ''none'',
         Decl ''color'' ''var(--rh-color-text-primary-on-dark, #ffffff)''],
      Rule [sel [[Class ''logo'', Pseudo ''hover'']]]
        [Decl ''text-decoration'' ''none''],
      Rule [sel [[Class ''logo-text'']]]
        [Decl ''font-family'' ''var(--rh-font-family-heading, 'Red Hat Display', sans-serif)'',
         Decl ''font-size'' ''1.125rem'', Decl ''font-weight'' ''600'',
         Decl ''letter-spacing'' ''-0.01em''],
      Rule [sel [[Class ''layout'']]]
        [Decl ''display'' ''flex'', Decl ''flex'' ''1'']]"

definition shell_sidebar_style :: "CssItem list" where
  "shell_sidebar_style =
     [Rule [sel [[Class ''sidebar'']]]
        [Decl ''display'' ''flex'', Decl ''flex-direction'' ''column'', Decl ''width'' ''240px'',
         Decl ''background'' ''var(--rh-color-surface-lightest, #ffffff)'',
         Decl ''border-inline-end'' ''1px solid var(--rh-color-border-subtle-on-light, #d2d2d2)''],
      Rule [sel [[Class ''sidebar-section'']]]
        [Decl ''padding'' ''var(--rh-space-md, 16px)'',
         Decl ''border-block-end'' ''1px solid var(--rh-color-border-subtle-on-light, #d2d2d2)''],
      Rule [sel [[Class ''sidebar-label'']]]
        [Decl ''display'' ''block'', Decl ''font-size'' ''0.6875rem'', Decl ''font-weight'' ''600'',
         Decl ''text-transform'' ''uppercase'', Decl ''letter-spacing'' ''0.05em'',
         Decl ''color'' ''var(--rh-color-text-secondary-on-light, #6a6e73)'',
         Decl ''margin-block-end'' ''var(--rh-space-sm, 8px)''],
      Rule [sel [[Class ''namespace-select'']]]
        [Decl ''width'' ''100%'',
         Decl ''padding'' ''var(--rh-space-sm, 8px) var(--rh-space-xl, 32px) var(--rh-space-sm, 8px) var(--rh-space-sm, 8px)'',
         Decl ''border'' ''1px solid var(--rh-color-border-subtle-on-light, #d2d2d2)'',
         Decl ''border-radius'' ''var(--rh-border-radius-default, 3px)'',
         Decl ''background'' ''var(--rh-color-surface-lightest, #ffffff)'',
         Decl ''font-family'' ''var(--rh-font-family-body-text, 'Red Hat Text', sans-serif)'',
         Decl ''font-size'' ''0.875rem'', Decl ''cursor'' ''pointer'', Decl ''appearance'' ''none'',
         Decl ''background-image'' ''url(\"data:image/svg+xml,%3Csvg xmlns='http://www.w3.org/2000/svg' width='12' height='12' viewBox='0 0 12 12'%3E%3Cpath fill='%236a6e73' d='M6 8L1 3h10z'/%3E%3C/svg%3E\")'',
         Decl ''background-repeat'' ''no-repeat'', Decl ''background-position'' ''right 8px center''],
      Rule [sel [[Class ''namespace-select'', Pseudo ''focus'']]]
        [Decl ''outline'' ''2px solid var(--rh-color-interactive-blue-darker, #0066cc)'',
         Decl ''outline-offset'' ''1px''],
      Rule [sel [[Class ''nav-section'']]]
        [Decl ''flex'' ''1'', Decl ''padding'' ''var(--rh-space-sm, 8px) 0''],
      Rule [sel [[Tag ''rh-navigation-vertical'']]]
        [Decl ''--rh-navigation-vertical-background-color'' ''transparent''],
      Rule [sel [[Tag ''rh-navigation-link''], [Tag ''rh-icon'']]]
        [Decl ''--rh-icon-size'' ''18px'', Decl ''margin-inline-end'' ''var(--rh-space-sm, 8px)'']]"

definition shell_content_style :: "CssItem list" where
  "shell_content_style =
     [Rule [sel [[Tag ''main'']]]
        [Decl ''flex'' ''1'', Decl ''padding'' ''var(--rh-space-xl, 32px)'', Decl ''overflow'' ''auto''],
      Rule [sel [[Class ''main-container'']]]
        [Decl ''width'' ''100%''],
      MaxWidth 992
        [([sel [[Class ''sidebar'']]],
          [Decl ''display'' ''none''])],
      MaxWidth 768
        [([sel [[Tag ''main'']]],
          [Decl ''padding'' ''var(--rh-space-md, 16px)''])]]"

definition shell_styles :: "CssItem list" where
  "shell_styles =
     shell_frame_style @ shell_sidebar_style @ shell_content_style"

subsection \<open>\<open>shared/code-editor.ts\<close>\<close>

definition editor_frame_style :: "CssItem list" where
  "editor_frame_style =
     [Rule [on_host [] []]
        [Decl ''display'' ''block'', Decl ''width'' ''100%''],
      Rule [sel [[Class ''editor-container'']]]
        [Decl ''display'' ''flex'', Decl ''flex-direction'' ''column'',
         Decl ''border'' ''var(--rh-border-width-sm, 1px) solid var(--rh-color-border-subtle-on-light, #d2d2d2)'',
         Decl ''border-radius'' ''var(--rh-border-radius-default, 3px)'', Decl ''overflow'' ''hidden'',
         Decl ''background'' ''var(--rh-color-surface-lightest, #ffffff)''],
      Rule [sel [[Class ''editor-container'', Pseudo ''focus-within'']]]
        [Decl ''border-color'' ''var(--rh-color-interactive-blue-darker, #0066cc)'',
         Decl ''box-shadow'' ''0 0 0 1px var(--rh-color-interactive-blue-darker, #0066cc)''],
      Rule [sel [[Class ''editor-toolbar'']]]
        [Decl ''display'' ''flex'', Decl ''align-items'' ''center'',
         Decl ''justify-content'' ''flex-end'',
         Decl ''padding'' ''var(--rh-space-xs, 4px) var(--rh-space-sm, 8px)'',
         Decl ''background'' ''var(--rh-color-surface-lighter, #f5f5f5)'',
         Decl ''border-block-end'' ''var(--rh-border-width-sm, 1px) solid var(--rh-color-border-subtle-on-light, #d2d2d2)'',
         Decl ''gap'' ''var(--rh-space-sm, 8px)''],
      Rule [sel [[Class ''language-select'']]]
        [Decl ''padding'' ''var(--rh-space-xs, 4px) var(--rh-space-sm, 8px)'',
         Decl ''border'' ''var(--rh-border-width-sm, 1px) solid var(--rh-color-border-subtle-on-light, #d2d2d2)'',
         Decl ''border-radius'' ''var(--rh-border-radius-default, 3px)'',
         Decl ''font-size'' ''var(--rh-font-size-body-text-xs, 0.75rem)'',
         Decl ''font-family'' ''var(--rh-font-family-body-text, 'Red Hat Text', sans-serif)'',
         Decl ''background'' ''var(--rh-color-surface-lightest, #ffffff)'', Decl ''cursor'' ''pointer''],
      Rule [sel [[Class ''language-select'', Pseudo ''focus'']]]
        [Decl ''outline'' ''none'',
         Decl ''border-color'' ''var(--rh-color-interactive-blue-darker, #0066cc)''],
      Rule [sel [[Class ''editor-wrapper'']]]
        [Decl ''flex'' ''1'', Decl ''min-height'' ''var(--editor-min-height, 150px)'']]"

definition codemirror_style :: "CssItem list" where
  "codemirror_style =
     [Rule [sel [[Class ''cm-editor'']]]
        [Decl ''height'' ''100%'',
         Decl ''font-family'' ''var(--rh-font-family-code, 'Red Hat Mono', monospace)'',
         Decl ''font-size'' ''var(--rh-font-size-body-text-sm, 0.875rem)''],
      Rule [sel [[Class ''cm-editor'', Class ''cm-focused'']]]
        [Decl ''outline'' ''none''],
      Rule [sel [[Class ''cm-scroller'']]]
        [Decl ''overflow'' ''auto''],
      Rule [sel [[Class ''cm-content'']]]
        [Decl ''padding'' ''var(--rh-space-sm, 8px) 0''],
      Rule [sel [[Class ''cm-line'']]]
        [Decl ''padding'' ''0 var(--rh-space-sm, 8px)''],
      Rule [sel [[Class ''cm-gutters'']]]
        [Decl ''background'' ''var(--rh-color-surface-lighter, #f5f5f5)'',
         Decl ''border-inline-end'' ''var(--rh-border-width-sm, 1px) solid var(--rh-color-border-subtle-on-light, #d2d2d2)'',
         Decl ''color'' ''var(--rh-color-text-secondary-on-light, #6a6e73)''],
      Rule [sel [[Class ''cm-activeLineGutter'']]]
        [Decl ''background'' ''var(--rh-color-surface-light, #e0e0e0)''],
      Rule [sel [[Class ''cm-activeLine'']]]
        [Decl ''background'' ''rgba(0, 102, 204, 0.05)''],
      Rule [sel [[Class ''cm-foldGutter'']]]
        [Decl ''width'' ''16px''],
      Rule [sel [[Class ''cm-foldGutter''], [Class ''cm-gutterElement'']]]
        [Decl ''cursor'' ''pointer'',
         Decl ''color'' ''var(--rh-color-text-secondary-on-light, #6a6e73)'',
         Decl ''padding'' ''0 2px'', Decl ''transition'' ''color 150ms ease''],
      Rule [sel [[Class ''cm-foldGutter''], [Class ''cm-gutterElement'', Pseudo ''hover'']]]
        [Decl ''color'' ''var(--rh-color-interactive-blue-darker, #0066cc)''],
      Rule [sel [[Class ''cm-foldPlaceholder'']]]
        [Decl ''background'' ''var(--rh-color-surface-light, #e0e0e0)'', Decl ''border'' ''none'',
         Decl ''padding'' ''0 4px'', Decl ''border-radius'' ''2px'',
         Decl ''color'' ''var(--rh-color-text-secondary-on-light, #6a6e73)'',
         Decl ''cursor'' ''pointer''],
      Rule [sel [[Class ''cm-foldPlaceholder'', Pseudo ''hover'']]]
        [Decl ''background'' ''var(--rh-color-blue-50, #e7f1fa)'',
         Decl ''color'' ''var(--rh-color-interactive-blue-darker, #0066cc)''],
      Rule [sel [[Class ''cm-editor''], [Class ''cm-content'']]]
        [Decl ''caret-color'' ''var(--rh-color-text-primary-on-light, #151515)''],
      Rule [sel [[Class ''cm-editor''], [Class ''cm-cursor'']]]
        [Decl ''border-left-color'' ''var(--rh-color-text-primary-on-light, #151515)''],
      Rule [sel [[Class ''cm-editor''], [Class ''cm-selectionBackground'']],
            sel [[Class ''cm-editor'', Class ''cm-focused''], [Class ''cm-selectionBackground'']]]
        [Decl ''background'' ''rgba(0, 102, 204, 0.2)'']]"

definition code_editor_styles :: "CssItem list" where
  "code_editor_styles =
     editor_frame_style @ codemirror_style"

subsection \<open>\<open>shared/side-drawer.ts\<close>\<close>

definition drawer_panel_style :: "CssItem list" where
  "drawer_panel_style =
     [Rule [on_host [] []]
        [Decl ''display'' ''block''],
      Rule [sel [[Class ''overlay'']]]
        [Decl ''position'' ''fixed'', Decl ''inset'' ''0'', Decl ''background'' ''rgba(0, 0, 0, 0.5)'',
         Decl ''opacity'' ''0'', Decl ''visibility'' ''hidden'',
         Decl ''transition'' ''opacity 200ms ease, visibility 200ms ease'', Decl ''z-index'' ''200''],
      Rule [on_host [HasAttr ''open''] [[Class ''overlay'']]]
        [Decl ''opacity'' ''1'', Decl ''visibility'' ''visible''],
      Rule [sel [[Class ''drawer'']]]
        [Decl ''position'' ''fixed'', Decl ''top'' ''0'', Decl ''right'' ''0'', Decl ''bottom'' ''0'',
         Decl ''width'' ''400px'', Decl ''max-width'' ''100vw'',
         Decl ''background'' ''var(--rh-color-surface-lightest, #ffffff)'',
         Decl ''border-inline-start'' ''var(--rh-border-width-sm, 1px) solid var(--rh-color-border-subtle-on-light, #d2d2d2)'',
         Decl ''box-shadow'' ''var(--rh-box-shadow-lg, -4px 0 15px rgba(0, 0, 0, 0.15))'',
         Decl ''transform'' ''translateX(100%)'',
         Decl ''transition'' ''transform 250ms ease, width 250ms ease'', Decl ''z-index'' ''201'',
         Decl ''display'' ''flex'', Decl ''flex-direction'' ''column''],
      Rule [on_host [HasAttr ''open''] [[Class ''drawer'']]]
        [Decl ''transform'' ''translateX(0)'']]"

definition drawer_header_style :: "CssItem list" where
  "drawer_header_style =
     [Rule [on_host [HasAttr ''wide''] [[Class ''drawer'']]]
        [Decl ''width'' ''800px''],
      Rule [sel [[Class ''drawer-header'']]]
        [Decl ''display'' ''flex'', Decl ''align-items'' ''center'',
         Decl ''gap'' ''var(--rh-space-md, 16px)'',
         Decl ''padding'' ''var(--rh-space-md, 16px) var(--rh-space-lg, 24px)'',
         Decl ''border-block-end'' ''1px solid var(--rh-color-border-subtle-on-light, #d2d2d2)'',
         Decl ''background'' ''var(--rh-color-surface-lighter, #f5f5f5)''],
      Rule [sel [[Class ''close-btn'']]]
        [Decl ''display'' ''inline-flex'', Decl ''align-items'' ''center'',
         Decl ''justify-content'' ''center'', Decl ''width'' ''32px'', Decl ''height'' ''32px'',
         Decl ''padding'' ''0'', Decl ''border'' ''none'', Decl ''background'' ''transparent'',
         Decl ''cursor'' ''pointer'', Decl ''border-radius'' ''var(--rh-border-radius-default, 3px)'',
         Decl ''color'' ''var(--rh-color-text-secondary-on-light, #6a6e73)'',
         Decl ''transition'' ''background-color 150ms ease, color 150ms ease''],
      Rule [sel [[Class ''close-btn'', Pseudo ''hover'']]]
        [Decl ''background'' ''var(--rh-color-surface-light, #e0e0e0)'',
         Decl ''color'' ''var(--rh-color-text-primary-on-light, #151515)''],
      Rule [sel [[Class ''close-btn'', Pseudo ''focus-visible'']]]
        [Decl ''outline'' ''2px solid var(--rh-color-interactive-blue-darker, #0066cc)'',
         Decl ''outline-offset'' ''2px''],
      Rule [sel [[Class ''close-btn''], [Tag ''rh-icon'']]]
        [Decl ''--rh-icon-size'' ''20px''],
      Rule [sel [[Class ''width-toggle-btn'']]]
        [Decl ''display'' ''inline-flex'', Decl ''align-items'' ''center'',
         Decl ''justify-content'' ''center'', Decl ''width'' ''32px'', Decl ''height'' ''32px'',
         Decl ''padding'' ''0'', Decl ''border'' ''none'', Decl ''background'' ''transparent'',
         Decl ''cursor'' ''pointer'', Decl ''border-radius'' ''var(--rh-border-radius-default, 3px)'',
         Decl ''color'' ''var(--rh-color-text-secondary-on-light, #6a6e73)'',
         Decl ''transition'' ''background-color 150ms ease, color 150ms ease''],
      Rule [sel [[Class ''width-toggle-btn'', Pseudo ''hover'']]]
        [Decl ''background'' ''var(--rh-color-surface-light, #e0e0e0)'',
         Decl ''color'' ''var(--rh-color-text-primary-on-light, #151515)''],
      Rule [sel [[Class ''width-toggle-btn'', Pseudo ''focus-visible'']]]
        [Decl ''outline'' ''2px solid var(--rh-color-interactive-blue-darker, #0066cc)'',
         Decl ''outline-offset'' ''2px''],
      Rule [sel [[Class ''width-toggle-btn'', Class ''active'']]]
        [Decl ''background'' ''var(--rh-color-blue-50, #e7f1fa)'',
         Decl ''color'' ''var(--rh-color-interactive-blue-darker, #0066cc)''],
      Rule [sel [[Class ''width-toggle-btn''], [Tag ''rh-icon'']]]
        [Decl ''--rh-icon-size'' ''18px''],
      Rule [sel [[Class ''drawer-title'']]]
        [Decl ''flex'' ''1'', Decl ''margin'' ''0'',
         Decl ''font-family'' ''var(--rh-font-family-heading, 'Red Hat Display', sans-serif)'',
         Decl ''font-size'' ''var(--rh-font-size-heading-xs, 1.125rem)'',
         Decl ''font-weight'' ''var(--rh-font-weight-heading-medium, 500)'',
         Decl ''color'' ''var(--rh-color-text-primary-on-light, #151515)''],
      Rule [sel [[Class ''drawer-content'']]]
        [Decl ''flex'' ''1'', Decl ''display'' ''flex'', Decl ''flex-direction'' ''column'',
         Decl ''padding'' ''var(--rh-space-lg, 24px)'', Decl ''overflow-y'' ''auto'',
         Decl ''min-height'' ''0''],
      Rule [on_part [] ''slotted(*)'' []]
        [Decl ''flex'' ''1'', Decl ''min-height'' ''0''],
      MaxWidth 480
        [([sel [[Class ''drawer'']]],
          [Decl ''width'' ''100vw''])]]"

definition drawer_styles :: "CssItem list" where
  "drawer_styles =
     drawer_panel_style @ drawer_header_style"

subsection \<open>\<open>shared/status-badge.ts\<close>\<close>

definition badge_style :: "CssItem list" where
  "badge_style =
     [Rule [on_host [] []]
        [Decl ''display'' ''inline-flex''],
      Keyframes ''pulse''
        [([''0%'', ''100%''], [Decl ''opacity'' ''1'']),
         ([''50%''], [Decl ''opacity'' ''0.6''])],
      Rule [sel [[Class ''running'']]]
        [Decl ''animation'' ''pulse 1.5s ease-in-out infinite'']]"

definition badge_styles :: "CssItem list" where
  "badge_styles =
     badge_style"

subsection \<open>Facts about the sheets\<close>

lemmas shell_sheet = shell_styles_def shell_frame_style_def shell_sidebar_style_def shell_content_style_def

lemma shell_display:
  "candidates w shell_styles (set_by ''display'') =
     [(on_host [] [], Decl ''display'' ''flex''), (sel [[Class ''logo'']], Decl ''display'' ''flex''),
      (sel [[Class ''layout'']], Decl ''display'' ''flex''), (sel [[Class ''sidebar'']], Decl ''display'' ''flex''),
      (sel [[Class ''sidebar-label'']], Decl ''display'' ''block'')] @
     (if w \<le> 992 then [(sel [[Class ''sidebar'']], Decl ''display'' ''none'')] else [])"
  unfolding candidates_def set_by_def shell_sheet by simp

lemmas drawer_sheet = drawer_styles_def drawer_panel_style_def drawer_header_style_def

lemma drawer_visibility:
  "candidates w drawer_styles (set_by ''visibility'') =
     [(sel [[Class ''overlay'']], Decl ''visibility'' ''hidden''),
      (on_host [HasAttr ''open''] [[Class ''overlay'']], Decl ''visibility'' ''visible'')]"
  "candidates w drawer_styles (set_by ''pointer-events'') = []"
  unfolding candidates_def set_by_def drawer_sheet by simp_all

lemma drawer_displays:
  "\<forall>c \<in> set (candidates w drawer_styles (set_by ''display'')). decl_value (snd c) \<noteq> ''none''"
  unfolding candidates_def set_by_def drawer_sheet by simp

lemma shared_animated: "animated shell_styles" "animated code_editor_styles" "animated drawer_styles" "animated badge_styles"
  by code_simp+

end
