(* ===== verification/Shell_Looks.thy ===== *)
theory Shell_Looks
  imports Shared_Styles Shell_View Widget_View
begin

section \<open>The shell and the drawer on the screen\<close>

text \<open>
  The templates of the shell and of the drawer under their style sheets, in a window of any width and
  with any conditions (\<open>hover\<close>, \<open>focus\<close>, ...) on their elements.  The browser's own defaults are apart
  from this.
\<close>

subsection \<open>The shell\<close>

definition shell_screen :: "nat \<Rightarrow> (nat list \<Rightarrow> string list) \<Rightarrow> Screen" where
  "shell_screen width states =
     \<lparr>sc_width = width, sc_sheet = shell_styles, sc_host = dom_element ''app-shell'' [] [],
      sc_states = states\<rparr>"

lemma shell_screen_simps [simp]:
  "sc_width (shell_screen width states) = width" "sc_sheet (shell_screen width states) = shell_styles"
  by (simp_all add: shell_screen_def)

lemma shell_displayed:
  "displayed (shell_screen w states) (e # anc) = (992 < w \<or> ''sidebar'' \<notin> set (dom_classes e))"
proof -
  let ?cs = "[(on_host [] [], Decl ''display'' ''flex''), (sel [[Class ''logo'']], Decl ''display'' ''flex''),
      (sel [[Class ''layout'']], Decl ''display'' ''flex''), (sel [[Class ''sidebar'']], Decl ''display'' ''flex''),
      (sel [[Class ''sidebar-label'']], Decl ''display'' ''block'')]"
  let ?none = "(sel [[Class ''sidebar'']], Decl ''display'' ''none'')"
  have "winner h (e # anc) (?cs @ [?none]) = Some ''none''" if "''sidebar'' \<in> set (dom_classes e)" for h
    using that winner_last [of h "e # anc" "fst ?none" ?cs "snd ?none"]
    by (simp add: picks_simps outranks_def specificity_simps total_weight_def)
  moreover have "winner h (e # anc) (?cs @ (if w \<le> 992 then [?none] else [])) \<noteq> Some ''none''"
    if "992 < w \<or> ''sidebar'' \<notin> set (dom_classes e)" for h
    using that by (auto elim!: winner_in simp: picks_simps split: if_splits)
  ultimately show ?thesis
    unfolding displayed_def styled_def shell_screen_simps shell_display
    by (cases "w \<le> 992"; cases "''sidebar'' \<in> set (dom_classes e)") (simp_all add: not_le)
qed

text \<open>
  C30: the side bar with the choice of the namespace and the links is there in wide windows only.  In
  one of at most 992 pixels nothing takes its place: all one can do in the shell is to go to the
  list of pipelines, and the namespace, the volumes and the secrets are out of reach.
\<close>

theorem menu_on_wide_screens:
  "if 992 < w then screen (shell_screen w states) (shell_render a sh) = shell_render a sh
   else set (clicks (screen (shell_screen w states) (shell_render a sh))) =
       {([], True), ([ShNav ''/pipelines''], True)} \<and>
     chosen (screen (shell_screen w states) (shell_render a sh)) = []"
proof (cases "992 < w")
  case True
  have "displayed (shell_screen w states) path" for path
    using True shell_displayed by (cases path) simp_all
  from screen_same [OF this] True show ?thesis by simp
next
  case False
  have "screen (shell_screen w states) (shell_render a sh) =
      [Elem ''a'' [Attr ''href'' ''#main-content'', Attr ''class'' ''skip-link''] [] [Text ''Skip to main content''],
       node ''rh-navigation-primary''
         [Elem ''a'' [Attr ''slot'' ''logo'', Attr ''href'' ''/'', Attr ''class'' ''logo'']
            [Click (ShNav ''/pipelines'')] [labelled ''span'' ''JobRunner'']],
       Elem ''div'' [Attr ''class'' ''layout''] []
         [Elem ''main'' [Attr ''role'' ''main''] []
            [Elem ''div'' [Attr ''class'' ''main-container''] [] [node ''slot'' []]]]]"
    using False
    by (simp add: screen_def shell_render_def shell_displayed dom_element_def classes_of_def)
  with False show ?thesis
    by (auto simp: clicks_compute chosen_def selects_def all_chains_def disabled_def)
qed

subsection \<open>The drawer\<close>

text \<open>The properties \<open>open\<close> and \<open>wide\<close> are reflected as attributes of the host.\<close>

definition drawer_host :: "SideDrawer \<Rightarrow> DomElement" where
  "drawer_host d = dom_element ''side-drawer'' [Flag ''open'' (sd_open d), Flag ''wide'' (sd_wide d)] []"

definition drawer_screen :: "nat \<Rightarrow> (nat list \<Rightarrow> string list) \<Rightarrow> SideDrawer \<Rightarrow> Screen" where
  "drawer_screen width states d =
     \<lparr>sc_width = width, sc_sheet = drawer_styles, sc_host = drawer_host d, sc_states = states\<rparr>"

lemma drawer_screen_simps [simp]:
  "sc_width (drawer_screen width states d) = width" "sc_sheet (drawer_screen width states d) = drawer_styles"
  "sc_host (drawer_screen width states d) = drawer_host d"
  by (simp_all add: drawer_screen_def)

lemma drawer_attrs [simp]:
  "fst ` set (dom_attrs (drawer_host d)) =
     (if sd_open d then {''open''} else {}) \<union> (if sd_wide d then {''wide''} else {})"
  by (simp add: drawer_host_def dom_element_def)

lemma drawer_displayed: "displayed (drawer_screen w states d) path"
  using drawer_displays by (intro displayed_unless_none) simp

lemma drawer_hit:
  "hit_by_mouse (drawer_screen w states d) [e] = (sd_open d \<or> ''overlay'' \<notin> set (dom_classes e))"
  unfolding hit_by_mouse_def drawer_screen_simps inherited.simps styled_def drawer_visibility
  by (cases "sd_open d") (simp_all add: cascade_compute)

definition drawer_panel_look :: "nat \<Rightarrow> SideDrawer \<Rightarrow> string list \<Rightarrow> string \<Rightarrow> string option" where
  "drawer_panel_look width d states p =
     styled width drawer_styles (drawer_host d) p [dom_element ''aside'' [Attr ''class'' ''drawer''] states]"

text \<open>
  C31: the veil over the page is there for the mouse exactly while the drawer is open.  The panel is at
  the right edge of the window, inside it while the drawer is open and by its own width to the
  right of it otherwise; that is all that hides it: whether open or not, all of the drawer is
  displayed, and its controls take the keyboard.
\<close>

theorem drawer_on_screen:
  "(([DrawerOverlay True], True) \<in> set (mouse_clicks (drawer_screen w states d) (drawer_render heading tog d))) =
     sd_open d \<and>
   drawer_panel_look w d st ''position'' = Some ''fixed'' \<and>
   drawer_panel_look w d st ''right'' = Some ''0'' \<and>
   drawer_panel_look w d st ''transform'' =
     Some (if sd_open d then ''translateX(0)'' else ''translateX(100%)'') \<and>
   drawer_panel_look w d st ''max-width'' = Some ''100vw'' \<and>
   drawer_panel_look w d st ''width'' =
     Some (if sd_wide d then ''800px'' else if w \<le> 480 then ''100vw'' else ''400px'') \<and>
   keys (screen (drawer_screen w states d) (drawer_render heading tog d)) = keys (drawer_render heading tog d)"
proof (intro conjI)
  show "(([DrawerOverlay True], True) \<in> set (mouse_clicks (drawer_screen w states d) (drawer_render heading tog d))) =
     sd_open d"
    by (cases "sd_open d")
      (auto simp: mouse_clicks_def on_mouse_def drawer_render_def width_button_def drawer_hit drawer_displayed
        Let_def dom_element_def classes_of_def disabled_def split: if_splits)
  show "keys (screen (drawer_screen w states d) (drawer_render heading tog d)) = keys (drawer_render heading tog d)"
    using screen_same [OF drawer_displayed] by metis
  show "drawer_panel_look w d st ''position'' = Some ''fixed''" "drawer_panel_look w d st ''right'' = Some ''0''"
    "drawer_panel_look w d st ''max-width'' = Some ''100vw''"
    unfolding drawer_panel_look_def styled_def candidates_def set_by_def drawer_sheet
    by (simp_all add: cascade_compute dom_element_def classes_of_def)
  show "drawer_panel_look w d st ''transform'' =
     Some (if sd_open d then ''translateX(0)'' else ''translateX(100%)'')"
    unfolding drawer_panel_look_def styled_def candidates_def set_by_def drawer_sheet
    by (cases "sd_open d") (simp_all add: cascade_compute dom_element_def classes_of_def)
  show "drawer_panel_look w d st ''width'' =
     Some (if sd_wide d then ''800px'' else if w \<le> 480 then ''100vw'' else ''400px'')"
    unfolding drawer_panel_look_def styled_def candidates_def set_by_def drawer_sheet
    by (cases "sd_wide d"; cases "w \<le> 480") (simp_all add: cascade_compute dom_element_def classes_of_def)
qed

end
