(* ===== verification/List_Styles.thy ===== *)
theory List_Styles
  imports Css_Cascade
begin

section \<open>The style sheets of the lists\<close>

text \<open>
  The sheets of \<open>components/monitor/pipeline-list.ts\<close> and of \<open>components/storage\<close>, rule by rule in
  their order.
\<close>

subsection \<open>\<open>monitor/pipeline-list.ts\<close>\<close>

definition pipelines_header_style :: "CssItem list" where
  "pipelines_header_style =
     [Rule [on_host [] []]
        [Decl ''display'' ''block''],
      Rule [sel [[Class ''header'']]]
        [Decl ''display'' ''flex'', Decl ''justify-content'' ''space-between'',
         Decl ''align-items'' ''center'', Decl ''margin-block-end'' ''var(--rh-space-xl, 32px)'',
         Decl ''flex-wrap'' ''wrap'', Decl ''gap'' ''var(--rh-space-md, 16px)''],
      Rule [sel [[Tag ''h1'']]]
        [Decl ''font-family'' ''var(--rh-font-family-heading, 'Red Hat Display', sans-serif)'',
         Decl ''font-size'' ''var(--rh-font-size-heading-lg, 1.75rem)'',
         Decl ''font-weight'' ''var(--rh-font-weight-heading-medium, 500)'', Decl ''margin'' ''0'',
         Decl ''color'' ''var(--rh-color-text-primary-on-light, #151515)''],
      Rule [sel [[Class ''controls'']]]
        [Decl ''display'' ''flex'', Decl ''gap'' ''var(--rh-space-md, 16px)'',
         Decl ''align-items'' ''center''],
      Rule [sel [[Class ''search-input'']]]
        [Decl ''padding'' ''var(--rh-space-sm, 8px) var(--rh-space-md, 16px)'',
         Decl ''padding-inline-start'' ''var(--rh-space-xl, 32px)'',
         Decl ''border'' ''var(--rh-border-width-sm, 1px) solid var(--rh-color-border-subtle-on-light, #d2d2d2)'',
         Decl ''border-radius'' ''var(--rh-border-radius-default, 3px)'',
         Decl ''font-size'' ''var(--rh-font-size-body-text-md, 1rem)'',
         Decl ''font-family'' ''var(--rh-font-family-body-text, 'Red Hat Text', sans-serif)'',
         Decl ''min-width'' ''280px'',
         Decl ''background-image'' ''url(\"data:image/svg+xml,%3Csvg xmlns='http://www.w3.org/2000/svg' width='16' height='16' viewBox='0 0 24 24' fill='none' stroke='%236a6e73' stroke-width='2'%3E%3Ccircle cx='11' cy='11' r='8'/%3E%3Cpath d='m21 21-4.35-4.35'/%3E%3C/svg%3E\")'',
         Decl ''background-repeat'' ''no-repeat'',
         Decl ''background-position'' ''var(--rh-space-sm, 8px) center'',
         Decl ''transition'' ''border-color 150ms ease, box-shadow 150ms ease''],
      Rule [sel [[Class ''search-input'', Pseudo ''focus'']]]
        [Decl ''outline'' ''none'',
         Decl ''border-color'' ''var(--rh-color-interactive-blue-darker, #0066cc)'',
         Decl ''box-shadow'' ''0 0 0 1px var(--rh-color-interactive-blue-darker, #0066cc)'']]"

definition pipelines_table_style :: "CssItem list" where
  "pipelines_table_style =
     [Rule [sel [[Class ''pipeline-table-container'']]]
        [Decl ''background'' ''var(--rh-color-surface-lightest, #ffffff)'',
         Decl ''border'' ''var(--rh-border-width-sm, 1px) solid var(--rh-color-border-subtle-on-light, #d2d2d2)'',
         Decl ''border-radius'' ''var(--rh-border-radius-default, 3px)''],
      Rule [sel [[Class ''pipeline-table'']]]
        [Decl ''width'' ''100%'', Decl ''border-collapse'' ''collapse''],
      Rule [sel [[Class ''pipeline-table''], [Tag ''th'']],
            sel [[Class ''pipeline-table''], [Tag ''td'']]]
        [Decl ''padding'' ''var(--rh-space-md, 16px)'', Decl ''text-align'' ''start'',
         Decl ''border-block-end'' ''var(--rh-border-width-sm, 1px) solid var(--rh-color-border-subtle-on-light, #d2d2d2)''],
      Rule [sel [[Class ''pipeline-table''], [Tag ''th'']]]
        [Decl ''background'' ''var(--rh-color-surface-lighter, #f5f5f5)'',
         Decl ''font-weight'' ''var(--rh-font-weight-body-text-medium, 500)'',
         Decl ''font-size'' ''var(--rh-font-size-body-text-sm, 0.875rem)'',
         Decl ''color'' ''var(--rh-color-text-secondary-on-light, #6a6e73)'',
         Decl ''white-space'' ''nowrap''],
      Rule [sel [[Class ''pipeline-table''], [Tag ''th'', Class ''sortable'']]]
        [Decl ''cursor'' ''pointer'', Decl ''user-select'' ''none'',
         Decl ''transition'' ''background-color 150ms ease''],
      Rule [sel [[Class ''pipeline-table''], [Tag ''th'', Class ''sortable'', Pseudo ''hover'']]]
        [Decl ''background'' ''var(--rh-color-surface-light, #e0e0e0)''],
      Rule [sel [[Class ''pipeline-table''], [Tag ''th'', Class ''sortable''], [Class ''sort-header'']]]
        [Decl ''display'' ''inline-flex'', Decl ''align-items'' ''center'',
         Decl ''gap'' ''var(--rh-space-xs, 4px)''],
      Rule [sel [[Class ''pipeline-table''], [Tag ''th'', Class ''sortable''], [Tag ''rh-icon'']]]
        [Decl ''--rh-icon-size'' ''14px'', Decl ''opacity'' ''0.5''],
      Rule [sel [[Class ''pipeline-table''], [Tag ''th'', Class ''sortable'', Class ''active''], [Tag ''rh-icon'']]]
        [Decl ''opacity'' ''1'', Decl ''color'' ''var(--rh-color-interactive-blue-darker, #0066cc)''],
      Rule [sel [[Class ''pipeline-table''], [Tag ''tbody''], [Tag ''tr'']]]
        [Decl ''cursor'' ''pointer'', Decl ''transition'' ''background-color 150ms ease''],
      Rule [sel [[Class ''pipeline-table''], [Tag ''tbody''], [Tag ''tr'', Pseudo ''hover'']]]
        [Decl ''background'' ''var(--rh-color-surface-lighter, #f5f5f5)''],
      Rule [sel [[Class ''pipeline-table''], [Tag ''tbody''], [Tag ''tr'', Pseudo ''focus-visible'']]]
        [Decl ''outline'' ''var(--rh-border-width-md, 2px) solid var(--rh-color-interactive-blue-darker, #0066cc)'',
         Decl ''outline-offset'' ''-2px''],
      Rule [sel [[Class ''pipeline-table''], [Tag ''tbody''], [Tag ''tr'', Pseudo ''last-child''], [Tag ''td'']]]
        [Decl ''border-block-end'' ''none'']]"

definition pipelines_cells_style :: "CssItem list" where
  "pipelines_cells_style =
     [Rule [sel [[Class ''pipeline-name-cell'']]]
        [Decl ''display'' ''flex'', Decl ''align-items'' ''center'',
         Decl ''gap'' ''var(--rh-space-sm, 8px)''],
      Rule [sel [[Class ''pipeline-name-cell''], [Tag ''rh-tag'']]]
        [Decl ''text-transform'' ''uppercase'',
         Decl ''font-family'' ''var(--rh-font-family-code, 'Red Hat Mono', monospace)''],
      Rule [sel [[Class ''pipeline-name'']]]
        [Decl ''font-weight'' ''var(--rh-font-weight-body-text-medium, 500)'',
         Decl ''font-family'' ''var(--rh-font-family-body-text, 'Red Hat Text', sans-serif)'',
         Decl ''color'' ''var(--rh-color-text-primary-on-light, #151515)''],
      Rule [sel [[Class ''steps-inline'']]]
        [Decl ''display'' ''flex'', Decl ''align-items'' ''center'',
         Decl ''gap'' ''var(--rh-space-xs, 4px)'', Decl ''flex-wrap'' ''wrap''],
      Rule [sel [[Class ''steps-inline''], [Tag ''rh-tag'']]]
        [Decl ''font-family'' ''var(--rh-font-family-code, 'Red Hat Mono', monospace)''],
      Keyframes ''pulse''
        [([''0%'', ''100%''], [Decl ''opacity'' ''1'']),
         ([''50%''], [Decl ''opacity'' ''0.4''])],
      Rule [sel [[Class ''step-running'']]]
        [Decl ''animation'' ''pulse 1.5s ease-in-out infinite''],
      Rule [sel [[Class ''created-time'']]]
        [Decl ''font-size'' ''var(--rh-font-size-body-text-sm, 0.875rem)'',
         Decl ''color'' ''var(--rh-color-text-secondary-on-light, #6a6e73)''],
      Keyframes ''pulse''
        [([''0%'', ''100%''], [Decl ''opacity'' ''1'']),
         ([''50%''], [Decl ''opacity'' ''0.4''])],
      Rule [sel [[Class ''step-chip'', Class ''running''], [Tag ''rh-icon'']]]
        [Decl ''animation'' ''pulse 1.5s ease-in-out infinite'']]"

definition pipelines_states_style :: "CssItem list" where
  "pipelines_states_style =
     [Rule [sel [[Class ''loading-container'']]]
        [Decl ''display'' ''flex'', Decl ''flex-direction'' ''column'',
         Decl ''justify-content'' ''center'', Decl ''align-items'' ''center'',
         Decl ''padding'' ''var(--rh-space-2xl, 48px)'', Decl ''gap'' ''var(--rh-space-md, 16px)'',
         Decl ''color'' ''var(--rh-color-text-secondary-on-light, #6a6e73)''],
      Rule [sel [[Class ''error-container'']]]
        [Decl ''padding'' ''var(--rh-space-lg, 24px)'',
         Decl ''background'' ''var(--rh-color-red-100, #fce8e6)'',
         Decl ''border'' ''var(--rh-border-width-sm, 1px) solid var(--rh-color-red-500, #c9190b)'',
         Decl ''border-radius'' ''var(--rh-border-radius-default, 3px)''],
      Rule [sel [[Class ''error-container''], [Tag ''h4'']]]
        [Decl ''margin'' ''0 0 var(--rh-space-sm, 8px) 0'',
         Decl ''font-family'' ''var(--rh-font-family-heading, 'Red Hat Display', sans-serif)'',
         Decl ''color'' ''var(--rh-color-red-700, #a30d05)''],
      Rule [sel [[Class ''error-container''], [Tag ''p'']]]
        [Decl ''margin'' ''0 0 var(--rh-space-md, 16px) 0'',
         Decl ''color'' ''var(--rh-color-red-700, #a30d05)''],
      Rule [sel [[Class ''empty-state'']]]
        [Decl ''text-align'' ''center'', Decl ''padding'' ''var(--rh-space-2xl, 48px)'',
         Decl ''color'' ''var(--rh-color-text-secondary-on-light, #6a6e73)''],
      Rule [sel [[Class ''empty-state''], [Tag ''rh-icon'']]]
        [Decl ''--rh-icon-size'' ''48px'', Decl ''color'' ''var(--rh-color-gray-40, #8a8d90)'',
         Decl ''margin-block-end'' ''var(--rh-space-md, 16px)''],
      Rule [sel [[Class ''empty-state''], [Tag ''h3'']]]
        [Decl ''margin'' ''0 0 var(--rh-space-md, 16px) 0'',
         Decl ''font-family'' ''var(--rh-font-family-heading, 'Red Hat Display', sans-serif)'',
         Decl ''color'' ''var(--rh-color-text-primary-on-light, #151515)''],
      Rule [sel [[Class ''empty-state''], [Tag ''p'']]]
        [Decl ''margin'' ''0 0 var(--rh-space-lg, 24px) 0'']]"

definition pipelines_menu_style :: "CssItem list" where
  "pipelines_menu_style =
     [Rule [sel [[Class ''actions-cell'']]]
        [Decl ''position'' ''relative'', Decl ''width'' ''48px'', Decl ''text-align'' ''center''],
      Rule [sel [[Class ''kebab-btn'']]]
        [Decl ''display'' ''inline-flex'', Decl ''align-items'' ''center'',
         Decl ''justify-content'' ''center'', Decl ''width'' ''32px'', Decl ''height'' ''32px'',
         Decl ''padding'' ''0'', Decl ''background'' ''none'', Decl ''border'' ''none'',
         Decl ''border-radius'' ''var(--rh-border-radius-default, 3px)'', Decl ''cursor'' ''pointer'',
         Decl ''color'' ''var(--rh-color-text-secondary-on-light, #6a6e73)'',
         Decl ''transition'' ''background-color 150ms ease, color 150ms ease''],
      Rule [sel [[Class ''kebab-btn'', Pseudo ''hover'']]]
        [Decl ''background'' ''var(--rh-color-surface-light, #e0e0e0)'',
         Decl ''color'' ''var(--rh-color-text-primary-on-light, #151515)''],
      Rule [sel [[Class ''kebab-btn'', Pseudo ''focus'']]]
        [Decl ''outline'' ''none''],
      Rule [sel [[Class ''kebab-btn'', Pseudo ''focus-visible'']]]
        [Decl ''outline'' ''2px solid var(--rh-color-interactive-blue-darker, #0066cc)'',
         Decl ''outline-offset'' ''2px''],
      Rule [sel [[Class ''kebab-btn''], [Tag ''rh-icon'']]]
        [Decl ''--rh-icon-size'' ''18px''],
      Rule [sel [[Class ''kebab-menu'']]]
        [Decl ''position'' ''absolute'', Decl ''top'' ''100%'', Decl ''right'' ''0'',
         Decl ''z-index'' ''100'', Decl ''min-width'' ''150px'',
         Decl ''background'' ''var(--rh-color-surface-lightest, #ffffff)'',
         Decl ''border'' ''var(--rh-border-width-sm, 1px) solid var(--rh-color-border-subtle-on-light, #d2d2d2)'',
         Decl ''border-radius'' ''var(--rh-border-radius-default, 3px)'',
         Decl ''box-shadow'' ''var(--rh-box-shadow-md, 0 4px 6px -1px rgba(21, 21, 21, 0.1))'',
         Decl ''padding'' ''var(--rh-space-xs, 4px) 0''],
      Rule [sel [[Class ''kebab-menu-item'']]]
        [Decl ''display'' ''flex'', Decl ''align-items'' ''center'',
         Decl ''gap'' ''var(--rh-space-sm, 8px)'', Decl ''width'' ''100%'',
         Decl ''padding'' ''var(--rh-space-sm, 8px) var(--rh-space-md, 16px)'',
         Decl ''background'' ''none'', Decl ''border'' ''none'',
         Decl ''font-size'' ''var(--rh-font-size-body-text-sm, 0.875rem)'',
         Decl ''font-family'' ''var(--rh-font-family-body-text, 'Red Hat Text', sans-serif)'',
         Decl ''color'' ''var(--rh-color-text-primary-on-light, #151515)'',
         Decl ''cursor'' ''pointer'', Decl ''text-align'' ''left'',
         Decl ''transition'' ''background-color 150ms ease''],
      Rule [sel [[Class ''kebab-menu-item'', Pseudo ''hover'']]]
        [Decl ''background'' ''var(--rh-color-surface-lighter, #f5f5f5)''],
      Rule [sel [[Class ''kebab-menu-item'', Pseudo ''focus'']]]
        [Decl ''outline'' ''none'', Decl ''background'' ''var(--rh-color-surface-lighter, #f5f5f5)''],
      Rule [sel [[Class ''kebab-menu-item'', Class ''danger'']]]
        [Decl ''color'' ''var(--rh-color-red-700, #a30d05)''],
      Rule [sel [[Class ''kebab-menu-item'', Class ''danger'', Pseudo ''hover'']]]
        [Decl ''background'' ''var(--rh-color-red-100, #fce8e6)''],
      Rule [sel [[Class ''kebab-menu-item''], [Tag ''rh-icon'']]]
        [Decl ''--rh-icon-size'' ''16px'']]"

definition pipelines_pages_style :: "CssItem list" where
  "pipelines_pages_style =
     [Rule [sel [[Class ''pagination'']]]
        [Decl ''display'' ''flex'', Decl ''justify-content'' ''space-between'',
         Decl ''align-items'' ''center'', Decl ''padding'' ''var(--rh-space-md, 16px)'',
         Decl ''border-block-start'' ''var(--rh-border-width-sm, 1px) solid var(--rh-color-border-subtle-on-light, #d2d2d2)'',
         Decl ''background'' ''var(--rh-color-surface-lighter, #f5f5f5)'',
         Decl ''border-radius'' ''0 0 var(--rh-border-radius-default, 3px) var(--rh-border-radius-default, 3px)''],
      Rule [sel [[Class ''pagination-info'']]]
        [Decl ''font-size'' ''var(--rh-font-size-body-text-sm, 0.875rem)'',
         Decl ''color'' ''var(--rh-color-text-secondary-on-light, #6a6e73)''],
      Rule [sel [[Class ''pagination-controls'']]]
        [Decl ''display'' ''flex'', Decl ''align-items'' ''center'',
         Decl ''gap'' ''var(--rh-space-xs, 4px)''],
      Rule [sel [[Class ''pagination-btn'']]]
        [Decl ''display'' ''inline-flex'', Decl ''align-items'' ''center'',
         Decl ''justify-content'' ''center'', Decl ''min-width'' ''32px'', Decl ''height'' ''32px'',
         Decl ''padding'' ''0 var(--rh-space-sm, 8px)'',
         Decl ''background'' ''var(--rh-color-surface-lightest, #ffffff)'',
         Decl ''border'' ''var(--rh-border-width-sm, 1px) solid var(--rh-color-border-subtle-on-light, #d2d2d2)'',
         Decl ''border-radius'' ''var(--rh-border-radius-default, 3px)'', Decl ''cursor'' ''pointer'',
         Decl ''font-size'' ''var(--rh-font-size-body-text-sm, 0.875rem)'',
         Decl ''font-family'' ''var(--rh-font-family-body-text, 'Red Hat Text', sans-serif)'',
         Decl ''color'' ''var(--rh-color-text-primary-on-light, #151515)'',
         Decl ''transition'' ''all 150ms ease''],
      Rule [sel [[Class ''pagination-btn'', Pseudo ''hover'', NotPseudo ''disabled'']]]
        [Decl ''background'' ''var(--rh-color-surface-light, #e0e0e0)'',
         Decl ''border-color'' ''var(--rh-color-border-strong-on-light, #8a8d90)''],
      Rule [sel [[Class ''pagination-btn'', Pseudo ''disabled'']]]
        [Decl ''opacity'' ''0.5'', Decl ''cursor'' ''not-allowed''],
      Rule [sel [[Class ''pagination-btn'', Class ''active'']]]
        [Decl ''background'' ''var(--rh-color-interactive-blue-darker, #0066cc)'',
         Decl ''border-color'' ''var(--rh-color-interactive-blue-darker, #0066cc)'',
         Decl ''color'' ''var(--rh-color-text-primary-on-dark, #ffffff)''],
      Rule [sel [[Class ''pagination-btn''], [Tag ''rh-icon'']]]
        [Decl ''--rh-icon-size'' ''16px''],
      Rule [sel [[Class ''pagination-ellipsis'']]]
        [Decl ''padding'' ''0 var(--rh-space-xs, 4px)'',
         Decl ''color'' ''var(--rh-color-text-secondary-on-light, #6a6e73)'']]"

definition pipeline_list_styles :: "CssItem list" where
  "pipeline_list_styles =
     pipelines_header_style @ pipelines_table_style @ pipelines_cells_style @ pipelines_states_style @
     pipelines_menu_style @ pipelines_pages_style"

subsection \<open>\<open>storage/pvc-list.ts\<close>\<close>

definition claims_header_style :: "CssItem list" where
  "claims_header_style =
     [Rule [on_host [] []]
        [Decl ''display'' ''block''],
      Rule [sel [[Class ''header'']]]
        [Decl ''display'' ''flex'', Decl ''justify-content'' ''space-between'',
         Decl ''align-items'' ''center'', Decl ''margin-block-end'' ''var(--rh-space-xl, 32px)'',
         Decl ''flex-wrap'' ''wrap'', Decl ''gap'' ''var(--rh-space-md, 16px)''],
      Rule [sel [[Tag ''h1'']]]
        [Decl ''font-family'' ''var(--rh-font-family-heading, 'Red Hat Display', sans-serif)'',
         Decl ''font-size'' ''var(--rh-font-size-heading-lg, 1.75rem)'',
         Decl ''font-weight'' ''var(--rh-font-weight-heading-medium, 500)'', Decl ''margin'' ''0'',
         Decl ''color'' ''var(--rh-color-text-primary-on-light, #151515)''],
      Rule [sel [[Class ''controls'']]]
        [Decl ''display'' ''flex'', Decl ''gap'' ''var(--rh-space-md, 16px)'',
         Decl ''align-items'' ''center''],
      Rule [sel [[Class ''search-input'']]]
        [Decl ''padding'' ''var(--rh-space-sm, 8px) var(--rh-space-md, 16px)'',
         Decl ''padding-inline-start'' ''var(--rh-space-xl, 32px)'',
         Decl ''border'' ''var(--rh-border-width-sm, 1px) solid var(--rh-color-border-subtle-on-light, #d2d2d2)'',
         Decl ''border-radius'' ''var(--rh-border-radius-default, 3px)'',
         Decl ''font-size'' ''var(--rh-font-size-body-text-md, 1rem)'',
         Decl ''font-family'' ''var(--rh-font-family-body-text, 'Red Hat Text', sans-serif)'',
         Decl ''min-width'' ''200px'',
         Decl ''background-image'' ''url(\"data:image/svg+xml,%3Csvg xmlns='http://www.w3.org/2000/svg' width='16' height='16' viewBox='0 0 24 24' fill='none' stroke='%236a6e73' stroke-width='2'%3E%3Ccircle cx='11' cy='11' r='8'/%3E%3Cpath d='m21 21-4.35-4.35'/%3E%3C/svg%3E\")'',
         Decl ''background-repeat'' ''no-repeat'',
         Decl ''background-position'' ''var(--rh-space-sm, 8px) center'',
         Decl ''transition'' ''border-color 150ms ease, box-shadow 150ms ease''],
      Rule [sel [[Class ''search-input'', Pseudo ''focus'']]]
        [Decl ''outline'' ''none'',
         Decl ''border-color'' ''var(--rh-color-interactive-blue-darker, #0066cc)'',
         Decl ''box-shadow'' ''0 0 0 1px var(--rh-color-interactive-blue-darker, #0066cc)'']]"

definition claims_table_style :: "CssItem list" where
  "claims_table_style =
     [Rule [sel [[Class ''pvc-table-container'']]]
        [Decl ''background'' ''var(--rh-color-surface-lightest, #ffffff)'',
         Decl ''border'' ''var(--rh-border-width-sm, 1px) solid var(--rh-color-border-subtle-on-light, #d2d2d2)'',
         Decl ''border-radius'' ''var(--rh-border-radius-default, 3px)''],
      Rule [sel [[Class ''pvc-table'']]]
        [Decl ''width'' ''100%'', Decl ''border-collapse'' ''collapse''],
      Rule [sel [[Class ''pvc-table''], [Tag ''th'']], sel [[Class ''pvc-table''], [Tag ''td'']]]
        [Decl ''padding'' ''var(--rh-space-md, 16px)'', Decl ''text-align'' ''start'',
         Decl ''border-block-end'' ''var(--rh-border-width-sm, 1px) solid var(--rh-color-border-subtle-on-light, #d2d2d2)''],
      Rule [sel [[Class ''pvc-table''], [Tag ''th'']]]
        [Decl ''background'' ''var(--rh-color-surface-lighter, #f5f5f5)'',
         Decl ''font-weight'' ''var(--rh-font-weight-body-text-medium, 500)'',
         Decl ''font-size'' ''var(--rh-font-size-body-text-sm, 0.875rem)'',
         Decl ''color'' ''var(--rh-color-text-secondary-on-light, #6a6e73)'',
         Decl ''white-space'' ''nowrap''],
      Rule [sel [[Class ''pvc-table''], [Tag ''th'', Class ''sortable'']]]
        [Decl ''cursor'' ''pointer'', Decl ''user-select'' ''none'',
         Decl ''transition'' ''background-color 150ms ease''],
      Rule [sel [[Class ''pvc-table''], [Tag ''th'', Class ''sortable'', Pseudo ''hover'']]]
        [Decl ''background'' ''var(--rh-color-surface-light, #e0e0e0)''],
      Rule [sel [[Class ''pvc-table''], [Tag ''th'', Class ''sortable''], [Class ''sort-header'']]]
        [Decl ''display'' ''inline-flex'', Decl ''align-items'' ''center'',
         Decl ''gap'' ''var(--rh-space-xs, 4px)''],
      Rule [sel [[Class ''pvc-table''], [Tag ''th'', Class ''sortable''], [Tag ''rh-icon'']]]
        [Decl ''--rh-icon-size'' ''14px'', Decl ''opacity'' ''0.7''],
      Rule [sel [[Class ''pvc-table''], [Tag ''tbody''], [Tag ''tr'', Pseudo ''last-child''], [Tag ''td'']]]
        [Decl ''border-block-end'' ''none''],
      Rule [sel [[Class ''pvc-name-cell'']]]
        [Decl ''display'' ''flex'', Decl ''align-items'' ''center'',
         Decl ''gap'' ''var(--rh-space-sm, 8px)''],
      Rule [sel [[Class ''pvc-name-cell''], [Tag ''rh-tag'']]]
        [Decl ''text-transform'' ''uppercase'',
         Decl ''font-family'' ''var(--rh-font-family-code, 'Red Hat Mono', monospace)''],
      Rule [sel [[Class ''pvc-name'']]]
        [Decl ''font-weight'' ''var(--rh-font-weight-body-text-medium, 500)'',
         Decl ''font-family'' ''var(--rh-font-family-body-text, 'Red Hat Text', sans-serif)'',
         Decl ''color'' ''var(--rh-color-text-primary-on-light, #151515)''],
      Rule [sel [[Class ''created-time'']]]
        [Decl ''font-size'' ''var(--rh-font-size-body-text-sm, 0.875rem)'',
         Decl ''color'' ''var(--rh-color-text-secondary-on-light, #6a6e73)'']]"

definition claims_states_style :: "CssItem list" where
  "claims_states_style =
     [Rule [sel [[Class ''loading-container'']]]
        [Decl ''display'' ''flex'', Decl ''flex-direction'' ''column'',
         Decl ''justify-content'' ''center'', Decl ''align-items'' ''center'',
         Decl ''padding'' ''var(--rh-space-2xl, 48px)'', Decl ''gap'' ''var(--rh-space-md, 16px)'',
         Decl ''color'' ''var(--rh-color-text-secondary-on-light, #6a6e73)''],
      Rule [sel [[Class ''error-container'']]]
        [Decl ''padding'' ''var(--rh-space-lg, 24px)'',
         Decl ''background'' ''var(--rh-color-red-100, #fce8e6)'',
         Decl ''border'' ''var(--rh-border-width-sm, 1px) solid var(--rh-color-red-500, #c9190b)'',
         Decl ''border-radius'' ''var(--rh-border-radius-default, 3px)''],
      Rule [sel [[Class ''error-container''], [Tag ''h4'']]]
        [Decl ''margin'' ''0 0 var(--rh-space-sm, 8px) 0'',
         Decl ''font-family'' ''var(--rh-font-family-heading, 'Red Hat Display', sans-serif)'',
         Decl ''color'' ''var(--rh-color-red-700, #a30d05)''],
      Rule [sel [[Class ''error-container''], [Tag ''p'']]]
        [Decl ''margin'' ''0 0 var(--rh-space-md, 16px) 0'',
         Decl ''color'' ''var(--rh-color-red-700, #a30d05)''],
      Rule [sel [[Class ''empty-state'']]]
        [Decl ''text-align'' ''center'', Decl ''padding'' ''var(--rh-space-2xl, 48px)'',
         Decl ''color'' ''var(--rh-color-text-secondary-on-light, #6a6e73)''],
      Rule [sel [[Class ''empty-state''], [Tag ''rh-icon'']]]
        [Decl ''--rh-icon-size'' ''48px'', Decl ''color'' ''var(--rh-color-gray-40, #8a8d90)'',
         Decl ''margin-block-end'' ''var(--rh-space-md, 16px)''],
      Rule [sel [[Class ''empty-state''], [Tag ''h3'']]]
        [Decl ''margin'' ''0 0 var(--rh-space-md, 16px) 0'',
         Decl ''font-family'' ''var(--rh-font-family-heading, 'Red Hat Display', sans-serif)'',
         Decl ''color'' ''var(--rh-color-text-primary-on-light, #151515)''],
      Rule [sel [[Class ''empty-state''], [Tag ''p'']]]
        [Decl ''margin'' ''0 0 var(--rh-space-lg, 24px) 0''],
      Rule [sel [[Class ''actions-cell'']]]
        [Decl ''width'' ''48px'', Decl ''text-align'' ''center''],
      Rule [sel [[Class ''delete-btn'']]]
        [Decl ''display'' ''inline-flex'', Decl ''align-items'' ''center'',
         Decl ''justify-content'' ''center'', Decl ''width'' ''32px'', Decl ''height'' ''32px'',
         Decl ''padding'' ''0'', Decl ''background'' ''none'', Decl ''border'' ''none'',
         Decl ''border-radius'' ''var(--rh-border-radius-default, 3px)'', Decl ''cursor'' ''pointer'',
         Decl ''color'' ''var(--rh-color-text-secondary-on-light, #6a6e73)'',
         Decl ''transition'' ''background-color 150ms ease, color 150ms ease''],
      Rule [sel [[Class ''delete-btn'', Pseudo ''hover'']]]
        [Decl ''background'' ''var(--rh-color-red-100, #fce8e6)'',
         Decl ''color'' ''var(--rh-color-red-700, #a30d05)''],
      Rule [sel [[Class ''delete-btn'', Pseudo ''focus-visible'']]]
        [Decl ''outline'' ''2px solid var(--rh-color-interactive-blue-darker, #0066cc)'',
         Decl ''outline-offset'' ''2px''],
      Rule [sel [[Class ''delete-btn''], [Tag ''rh-icon'']]]
        [Decl ''--rh-icon-size'' ''18px'']]"

definition claims_dialog_style :: "CssItem list" where
  "claims_dialog_style =
     [Rule [sel [[Class ''modal-overlay'']]]
        [Decl ''position'' ''fixed'', Decl ''top'' ''0'', Decl ''left'' ''0'', Decl ''right'' ''0'',
         Decl ''bottom'' ''0'', Decl ''background'' ''rgba(21, 21, 21, 0.5)'',
         Decl ''display'' ''flex'', Decl ''align-items'' ''center'',
         Decl ''justify-content'' ''center'', Decl ''z-index'' ''1000''],
      Rule [sel [[Class ''modal'']]]
        [Decl ''background'' ''var(--rh-color-surface-lightest, #ffffff)'',
         Decl ''border-radius'' ''var(--rh-border-radius-default, 3px)'',
         Decl ''box-shadow'' ''var(--rh-box-shadow-lg, 0 10px 15px -3px rgba(21, 21, 21, 0.1))'',
         Decl ''width'' ''100%'', Decl ''max-width'' ''500px'', Decl ''max-height'' ''90vh'',
         Decl ''overflow-y'' ''auto''],
      Rule [sel [[Class ''modal-header'']]]
        [Decl ''display'' ''flex'', Decl ''justify-content'' ''space-between'',
         Decl ''align-items'' ''center'', Decl ''padding'' ''var(--rh-space-lg, 24px)'',
         Decl ''border-block-end'' ''var(--rh-border-width-sm, 1px) solid var(--rh-color-border-subtle-on-light, #d2d2d2)''],
      Rule [sel [[Class ''modal-header''], [Tag ''h2'']]]
        [Decl ''margin'' ''0'',
         Decl ''font-family'' ''var(--rh-font-family-heading, 'Red Hat Display', sans-serif)'',
         Decl ''font-size'' ''var(--rh-font-size-heading-md, 1.5rem)'',
         Decl ''font-weight'' ''var(--rh-font-weight-heading-medium, 500)''],
      Rule [sel [[Class ''close-btn'']]]
        [Decl ''display'' ''inline-flex'', Decl ''align-items'' ''center'',
         Decl ''justify-content'' ''center'', Decl ''width'' ''32px'', Decl ''height'' ''32px'',
         Decl ''padding'' ''0'', Decl ''background'' ''none'', Decl ''border'' ''none'',
         Decl ''border-radius'' ''var(--rh-border-radius-default, 3px)'', Decl ''cursor'' ''pointer'',
         Decl ''color'' ''var(--rh-color-text-secondary-on-light, #6a6e73)'',
         Decl ''transition'' ''background-color 150ms ease''],
      Rule [sel [[Class ''close-btn'', Pseudo ''hover'']]]
        [Decl ''background'' ''var(--rh-color-surface-lighter, #f5f5f5)''],
      Rule [sel [[Class ''close-btn''], [Tag ''rh-icon'']]]
        [Decl ''--rh-icon-size'' ''20px''],
      Rule [sel [[Class ''modal-body'']]]
        [Decl ''padding'' ''var(--rh-space-lg, 24px)''],
      Rule [sel [[Class ''form-group'']]]
        [Decl ''margin-block-end'' ''var(--rh-space-md, 16px)''],
      Rule [sel [[Class ''form-group'', Pseudo ''last-child'']]]
        [Decl ''margin-block-end'' ''0''],
      Rule [sel [[Class ''form-group''], [Tag ''label'']]]
        [Decl ''display'' ''block'', Decl ''margin-block-end'' ''var(--rh-space-xs, 4px)'',
         Decl ''font-size'' ''var(--rh-font-size-body-text-sm, 0.875rem)'',
         Decl ''font-weight'' ''var(--rh-font-weight-body-text-medium, 500)'',
         Decl ''color'' ''var(--rh-color-text-primary-on-light, #151515)''],
      Rule [sel [[Class ''form-group''], [Class ''label-hint'']]]
        [Decl ''font-weight'' ''normal'',
         Decl ''color'' ''var(--rh-color-text-secondary-on-light, #6a6e73)'',
         Decl ''font-size'' ''var(--rh-font-size-body-text-xs, 0.75rem)''],
      Rule [sel [[Class ''form-group''], [Tag ''input'']],
            sel [[Class ''form-group''], [Tag ''select'']]]
        [Decl ''width'' ''100%'', Decl ''padding'' ''var(--rh-space-sm, 8px)'',
         Decl ''border'' ''var(--rh-border-width-sm, 1px) solid var(--rh-color-border-subtle-on-light, #d2d2d2)'',
         Decl ''border-radius'' ''var(--rh-border-radius-default, 3px)'',
         Decl ''font-size'' ''var(--rh-font-size-body-text-sm, 0.875rem)'',
         Decl ''font-family'' ''var(--rh-font-family-body-text, 'Red Hat Text', sans-serif)'',
         Decl ''box-sizing'' ''border-box''],
      Rule [sel [[Class ''form-group''], [Tag ''input'', Pseudo ''focus'']],
            sel [[Class ''form-group''], [Tag ''select'', Pseudo ''focus'']]]
        [Decl ''outline'' ''none'',
         Decl ''border-color'' ''var(--rh-color-interactive-blue-darker, #0066cc)'',
         Decl ''box-shadow'' ''0 0 0 1px var(--rh-color-interactive-blue-darker, #0066cc)''],
      Rule [sel [[Class ''size-row'']]]
        [Decl ''display'' ''grid'', Decl ''grid-template-columns'' ''1fr auto'',
         Decl ''gap'' ''var(--rh-space-sm, 8px)''],
      Rule [sel [[Class ''size-row''], [Tag ''select'']]]
        [Decl ''width'' ''auto''],
      Rule [sel [[Class ''modal-footer'']]]
        [Decl ''display'' ''flex'', Decl ''justify-content'' ''flex-end'',
         Decl ''gap'' ''var(--rh-space-sm, 8px)'', Decl ''padding'' ''var(--rh-space-lg, 24px)'',
         Decl ''border-block-start'' ''var(--rh-border-width-sm, 1px) solid var(--rh-color-border-subtle-on-light, #d2d2d2)''],
      Rule [sel [[Class ''form-error'']]]
        [Decl ''padding'' ''var(--rh-space-sm, 8px) var(--rh-space-md, 16px)'',
         Decl ''background'' ''var(--rh-color-red-100, #fce8e6)'',
         Decl ''border'' ''var(--rh-border-width-sm, 1px) solid var(--rh-color-red-500, #c9190b)'',
         Decl ''border-radius'' ''var(--rh-border-radius-default, 3px)'',
         Decl ''color'' ''var(--rh-color-red-700, #a30d05)'',
         Decl ''font-size'' ''var(--rh-font-size-body-text-sm, 0.875rem)'',
         Decl ''margin-block-end'' ''var(--rh-space-md, 16px)''],
      Rule [sel [[Class ''storage-class-hint'']]]
        [Decl ''font-size'' ''var(--rh-font-size-body-text-xs, 0.75rem)'',
         Decl ''color'' ''var(--rh-color-text-secondary-on-light, #6a6e73)'',
         Decl ''margin-block-start'' ''var(--rh-space-xs, 4px)'']]"

definition claims_pages_style :: "CssItem list" where
  "claims_pages_style =
     [Rule [sel [[Class ''pagination'']]]
        [Decl ''display'' ''flex'', Decl ''justify-content'' ''space-between'',
         Decl ''align-items'' ''center'', Decl ''padding'' ''var(--rh-space-md, 16px)'',
         Decl ''border-block-start'' ''var(--rh-border-width-sm, 1px) solid var(--rh-color-border-subtle-on-light, #d2d2d2)'',
         Decl ''background'' ''var(--rh-color-surface-lighter, #f5f5f5)'',
         Decl ''border-radius'' ''0 0 var(--rh-border-radius-default, 3px) var(--rh-border-radius-default, 3px)''],
      Rule [sel [[Class ''pagination-info'']]]
        [Decl ''font-size'' ''var(--rh-font-size-body-text-sm, 0.875rem)'',
         Decl ''color'' ''var(--rh-color-text-secondary-on-light, #6a6e73)''],
      Rule [sel [[Class ''pagination-controls'']]]
        [Decl ''display'' ''flex'', Decl ''align-items'' ''center'',
         Decl ''gap'' ''var(--rh-space-xs, 4px)''],
      Rule [sel [[Class ''pagination-btn'']]]
        [Decl ''display'' ''inline-flex'', Decl ''align-items'' ''center'',
         Decl ''justify-content'' ''center'', Decl ''min-width'' ''32px'', Decl ''height'' ''32px'',
         Decl ''padding'' ''0 var(--rh-space-sm, 8px)'',
         Decl ''background'' ''var(--rh-color-surface-lightest, #ffffff)'',
         Decl ''border'' ''var(--rh-border-width-sm, 1px) solid var(--rh-color-border-subtle-on-light, #d2d2d2)'',
         Decl ''border-radius'' ''var(--rh-border-radius-default, 3px)'', Decl ''cursor'' ''pointer'',
         Decl ''font-size'' ''var(--rh-font-size-body-text-sm, 0.875rem)'',
         Decl ''font-family'' ''var(--rh-font-family-body-text, 'Red Hat Text', sans-serif)'',
         Decl ''color'' ''var(--rh-color-text-primary-on-light, #151515)'',
         Decl ''transition'' ''all 150ms ease''],
      Rule [sel [[Class ''pagination-btn'', Pseudo ''hover'', NotPseudo ''disabled'']]]
        [Decl ''background'' ''var(--rh-color-surface-light, #e0e0e0)'',
         Decl ''border-color'' ''var(--rh-color-border-strong-on-light, #8a8d90)''],
      Rule [sel [[Class ''pagination-btn'', Pseudo ''disabled'']]]
        [Decl ''opacity'' ''0.5'', Decl ''cursor'' ''not-allowed''],
      Rule [sel [[Class ''pagination-btn'', Class ''active'']]]
        [Decl ''background'' ''var(--rh-color-interactive-blue-darker, #0066cc)'',
         Decl ''border-color'' ''var(--rh-color-interactive-blue-darker, #0066cc)'',
         Decl ''color'' ''var(--rh-color-text-primary-on-dark, #ffffff)''],
      Rule [sel [[Class ''pagination-btn''], [Tag ''rh-icon'']]]
        [Decl ''--rh-icon-size'' ''16px''],
      Rule [sel [[Class ''pagination-ellipsis'']]]
        [Decl ''padding'' ''0 var(--rh-space-xs, 4px)'',
         Decl ''color'' ''var(--rh-color-text-secondary-on-light, #6a6e73)'']]"

definition pvc_list_styles :: "CssItem list" where
  "pvc_list_styles =
     claims_header_style @ claims_table_style @ claims_states_style @ claims_dialog_style @
     claims_pages_style"

subsection \<open>\<open>storage/secret-list.ts\<close>\<close>

definition secrets_header_style :: "CssItem list" where
  "secrets_header_style =
     [Rule [on_host [] []]
        [Decl ''display'' ''block''],
      Rule [sel [[Class ''header'']]]
        [Decl ''display'' ''flex'', Decl ''justify-content'' ''space-between'',
         Decl ''align-items'' ''center'', Decl ''margin-block-end'' ''var(--rh-space-xl, 32px)'',
         Decl ''flex-wrap'' ''wrap'', Decl ''gap'' ''var(--rh-space-md, 16px)''],
      Rule [sel [[Tag ''h1'']]]
        [Decl ''font-family'' ''var(--rh-font-family-heading, 'Red Hat Display', sans-serif)'',
         Decl ''font-size'' ''var(--rh-font-size-heading-lg, 1.75rem)'',
         Decl ''font-weight'' ''var(--rh-font-weight-heading-medium, 500)'', Decl ''margin'' ''0'',
         Decl ''color'' ''var(--rh-color-text-primary-on-light, #151515)''],
      Rule [sel [[Class ''controls'']]]
        [Decl ''display'' ''flex'', Decl ''gap'' ''var(--rh-space-md, 16px)'',
         Decl ''align-items'' ''center''],
      Rule [sel [[Class ''search-input'']]]
        [Decl ''padding'' ''var(--rh-space-sm, 8px) var(--rh-space-md, 16px)'',
         Decl ''padding-inline-start'' ''var(--rh-space-xl, 32px)'',
         Decl ''border'' ''var(--rh-border-width-sm, 1px) solid var(--rh-color-border-subtle-on-light, #d2d2d2)'',
         Decl ''border-radius'' ''var(--rh-border-radius-default, 3px)'',
         Decl ''font-size'' ''var(--rh-font-size-body-text-md, 1rem)'',
         Decl ''font-family'' ''var(--rh-font-family-body-text, 'Red Hat Text', sans-serif)'',
         Decl ''min-width'' ''200px'',
         Decl ''background-image'' ''url(\"data:image/svg+xml,%3Csvg xmlns='http://www.w3.org/2000/svg' width='16' height='16' viewBox='0 0 24 24' fill='none' stroke='%236a6e73' stroke-width='2'%3E%3Ccircle cx='11' cy='11' r='8'/%3E%3Cpath d='m21 21-4.35-4.35'/%3E%3C/svg%3E\")'',
         Decl ''background-repeat'' ''no-repeat'',
         Decl ''background-position'' ''var(--rh-space-sm, 8px) center'',
         Decl ''transition'' ''border-color 150ms ease, box-shadow 150ms ease''],
      Rule [sel [[Class ''search-input'', Pseudo ''focus'']]]
        [Decl ''outline'' ''none'',
         Decl ''border-color'' ''var(--rh-color-interactive-blue-darker, #0066cc)'',
         Decl ''box-shadow'' ''0 0 0 1px var(--rh-color-interactive-blue-darker, #0066cc)'']]"

definition secrets_table_style :: "CssItem list" where
  "secrets_table_style =
     [Rule [sel [[Class ''secret-table-container'']]]
        [Decl ''background'' ''var(--rh-color-surface-lightest, #ffffff)'',
         Decl ''border'' ''var(--rh-border-width-sm, 1px) solid var(--rh-color-border-subtle-on-light, #d2d2d2)'',
         Decl ''border-radius'' ''var(--rh-border-radius-default, 3px)''],
      Rule [sel [[Class ''secret-table'']]]
        [Decl ''width'' ''100%'', Decl ''border-collapse'' ''collapse''],
      Rule [sel [[Class ''secret-table''], [Tag ''th'']], sel [[Class ''secret-table''], [Tag ''td'']]]
        [Decl ''padding'' ''var(--rh-space-md, 16px)'', Decl ''text-align'' ''start'',
         Decl ''border-block-end'' ''var(--rh-border-width-sm, 1px) solid var(--rh-color-border-subtle-on-light, #d2d2d2)''],
      Rule [sel [[Class ''secret-table''], [Tag ''th'']]]
        [Decl ''background'' ''var(--rh-color-surface-lighter, #f5f5f5)'',
         Decl ''font-weight'' ''var(--rh-font-weight-body-text-medium, 500)'',
         Decl ''font-size'' ''var(--rh-font-size-body-text-sm, 0.875rem)'',
         Decl ''color'' ''var(--rh-color-text-secondary-on-light, #6a6e73)'',
         Decl ''white-space'' ''nowrap''],
      Rule [sel [[Class ''secret-table''], [Tag ''th'', Class ''sortable'']]]
        [Decl ''cursor'' ''pointer'', Decl ''user-select'' ''none'',
         Decl ''transition'' ''background-color 150ms ease''],
      Rule [sel [[Class ''secret-table''], [Tag ''th'', Class ''sortable'', Pseudo ''hover'']]]
        [Decl ''background'' ''var(--rh-color-surface-light, #e0e0e0)''],
      Rule [sel [[Class ''secret-table''], [Tag ''th'', Class ''sortable''], [Class ''sort-header'']]]
        [Decl ''display'' ''inline-flex'', Decl ''align-items'' ''center'',
         Decl ''gap'' ''var(--rh-space-xs, 4px)''],
      Rule [sel [[Class ''secret-table''], [Tag ''th'', Class ''sortable''], [Tag ''rh-icon'']]]
        [Decl ''--rh-icon-size'' ''14px'', Decl ''opacity'' ''0.7''],
      Rule [sel [[Class ''secret-table''], [Tag ''tbody''], [Tag ''tr'']]]
        [Decl ''cursor'' ''pointer'', Decl ''transition'' ''background-color 150ms ease''],
      Rule [sel [[Class ''secret-table''], [Tag ''tbody''], [Tag ''tr'', Pseudo ''hover'']]]
        [Decl ''background'' ''var(--rh-color-surface-lighter, #f5f5f5)''],
      Rule [sel [[Class ''secret-table''], [Tag ''tbody''], [Tag ''tr'', Pseudo ''last-child''], [Tag ''td'']]]
        [Decl ''border-block-end'' ''none''],
      Rule [sel [[Class ''secret-name-cell'']]]
        [Decl ''display'' ''flex'', Decl ''align-items'' ''center'',
         Decl ''gap'' ''var(--rh-space-sm, 8px)''],
      Rule [sel [[Class ''secret-name-cell''], [Tag ''rh-tag'']]]
        [Decl ''text-transform'' ''uppercase'',
         Decl ''font-family'' ''var(--rh-font-family-code, 'Red Hat Mono', monospace)''],
      Rule [sel [[Class ''secret-name'']]]
        [Decl ''font-weight'' ''var(--rh-font-weight-body-text-medium, 500)'',
         Decl ''font-family'' ''var(--rh-font-family-body-text, 'Red Hat Text', sans-serif)'',
         Decl ''color'' ''var(--rh-color-text-primary-on-light, #151515)''],
      Rule [sel [[Class ''keys-list'']]]
        [Decl ''display'' ''flex'', Decl ''flex-wrap'' ''wrap'',
         Decl ''gap'' ''var(--rh-space-xs, 4px)''],
      Rule [sel [[Class ''keys-list''], [Tag ''rh-tag'']]]
        [Decl ''font-family'' ''var(--rh-font-family-code, 'Red Hat Mono', monospace)''],
      Rule [sel [[Class ''created-time'']]]
        [Decl ''font-size'' ''var(--rh-font-size-body-text-sm, 0.875rem)'',
         Decl ''color'' ''var(--rh-color-text-secondary-on-light, #6a6e73)'']]"

definition secrets_states_style :: "CssItem list" where
  "secrets_states_style =
     [Rule [sel [[Class ''loading-container'']]]
        [Decl ''display'' ''flex'', Decl ''flex-direction'' ''column'',
         Decl ''justify-content'' ''center'', Decl ''align-items'' ''center'',
         Decl ''padding'' ''var(--rh-space-2xl, 48px)'', Decl ''gap'' ''var(--rh-space-md, 16px)'',
         Decl ''color'' ''var(--rh-color-text-secondary-on-light, #6a6e73)''],
      Rule [sel [[Class ''error-container'']]]
        [Decl ''padding'' ''var(--rh-space-lg, 24px)'',
         Decl ''background'' ''var(--rh-color-red-100, #fce8e6)'',
         Decl ''border'' ''var(--rh-border-width-sm, 1px) solid var(--rh-color-red-500, #c9190b)'',
         Decl ''border-radius'' ''var(--rh-border-radius-default, 3px)''],
      Rule [sel [[Class ''error-container''], [Tag ''h4'']]]
        [Decl ''margin'' ''0 0 var(--rh-space-sm, 8px) 0'',
         Decl ''font-family'' ''var(--rh-font-family-heading, 'Red Hat Display', sans-serif)'',
         Decl ''color'' ''var(--rh-color-red-700, #a30d05)''],
      Rule [sel [[Class ''error-container''], [Tag ''p'']]]
        [Decl ''margin'' ''0 0 var(--rh-space-md, 16px) 0'',
         Decl ''color'' ''var(--rh-color-red-700, #a30d05)''],
      Rule [sel [[Class ''empty-state'']]]
        [Decl ''text-align'' ''center'', Decl ''padding'' ''var(--rh-space-2xl, 48px)'',
         Decl ''color'' ''var(--rh-color-text-secondary-on-light, #6a6e73)''],
      Rule [sel [[Class ''empty-state''], [Tag ''rh-icon'']]]
        [Decl ''--rh-icon-size'' ''48px'', Decl ''color'' ''var(--rh-color-gray-40, #8a8d90)'',
         Decl ''margin-block-end'' ''var(--rh-space-md, 16px)''],
      Rule [sel [[Class ''empty-state''], [Tag ''h3'']]]
        [Decl ''margin'' ''0 0 var(--rh-space-md, 16px) 0'',
         Decl ''font-family'' ''var(--rh-font-family-heading, 'Red Hat Display', sans-serif)'',
         Decl ''color'' ''var(--rh-color-text-primary-on-light, #151515)''],
      Rule [sel [[Class ''empty-state''], [Tag ''p'']]]
        [Decl ''margin'' ''0 0 var(--rh-space-lg, 24px) 0''],
      Rule [sel [[Class ''actions-cell'']]]
        [Decl ''width'' ''48px'', Decl ''text-align'' ''center''],
      Rule [sel [[Class ''delete-btn'']]]
        [Decl ''display'' ''inline-flex'', Decl ''align-items'' ''center'',
         Decl ''justify-content'' ''center'', Decl ''width'' ''32px'', Decl ''height'' ''32px'',
         Decl ''padding'' ''0'', Decl ''background'' ''none'', Decl ''border'' ''none'',
         Decl ''border-radius'' ''var(--rh-border-radius-default, 3px)'', Decl ''cursor'' ''pointer'',
         Decl ''color'' ''var(--rh-color-text-secondary-on-light, #6a6e73)'',
         Decl ''transition'' ''background-color 150ms ease, color 150ms ease''],
      Rule [sel [[Class ''delete-btn'', Pseudo ''hover'']]]
        [Decl ''background'' ''var(--rh-color-red-100, #fce8e6)'',
         Decl ''color'' ''var(--rh-color-red-700, #a30d05)''],
      Rule [sel [[Class ''delete-btn'', Pseudo ''focus-visible'']]]
        [Decl ''outline'' ''2px solid var(--rh-color-interactive-blue-darker, #0066cc)'',
         Decl ''outline-offset'' ''2px''],
      Rule [sel [[Class ''delete-btn''], [Tag ''rh-icon'']]]
        [Decl ''--rh-icon-size'' ''18px'']]"

definition secrets_dialog_style :: "CssItem list" where
  "secrets_dialog_style =
     [Rule [sel [[Class ''modal-overlay'']]]
        [Decl ''position'' ''fixed'', Decl ''top'' ''0'', Decl ''left'' ''0'', Decl ''right'' ''0'',
         Decl ''bottom'' ''0'', Decl ''background'' ''rgba(21, 21, 21, 0.5)'',
         Decl ''display'' ''flex'', Decl ''align-items'' ''center'',
         Decl ''justify-content'' ''center'', Decl ''z-index'' ''1000''],
      Rule [sel [[Class ''modal'']]]
        [Decl ''background'' ''var(--rh-color-surface-lightest, #ffffff)'',
         Decl ''border-radius'' ''var(--rh-border-radius-default, 3px)'',
         Decl ''box-shadow'' ''var(--rh-box-shadow-lg, 0 10px 15px -3px rgba(21, 21, 21, 0.1))'',
         Decl ''width'' ''100%'', Decl ''max-width'' ''600px'', Decl ''max-height'' ''90vh'',
         Decl ''overflow-y'' ''auto''],
      Rule [sel [[Class ''modal-header'']]]
        [Decl ''display'' ''flex'', Decl ''justify-content'' ''space-between'',
         Decl ''align-items'' ''center'', Decl ''padding'' ''var(--rh-space-lg, 24px)'',
         Decl ''border-block-end'' ''var(--rh-border-width-sm, 1px) solid var(--rh-color-border-subtle-on-light, #d2d2d2)''],
      Rule [sel [[Class ''modal-header''], [Tag ''h2'']]]
        [Decl ''margin'' ''0'',
         Decl ''font-family'' ''var(--rh-font-family-heading, 'Red Hat Display', sans-serif)'',
         Decl ''font-size'' ''var(--rh-font-size-heading-md, 1.5rem)'',
         Decl ''font-weight'' ''var(--rh-font-weight-heading-medium, 500)''],
      Rule [sel [[Class ''close-btn'']]]
        [Decl ''display'' ''inline-flex'', Decl ''align-items'' ''center'',
         Decl ''justify-content'' ''center'', Decl ''width'' ''32px'', Decl ''height'' ''32px'',
         Decl ''padding'' ''0'', Decl ''background'' ''none'', Decl ''border'' ''none'',
         Decl ''border-radius'' ''var(--rh-border-radius-default, 3px)'', Decl ''cursor'' ''pointer'',
         Decl ''color'' ''var(--rh-color-text-secondary-on-light, #6a6e73)'',
         Decl ''transition'' ''background-color 150ms ease''],
      Rule [sel [[Class ''close-btn'', Pseudo ''hover'']]]
        [Decl ''background'' ''var(--rh-color-surface-lighter, #f5f5f5)''],
      Rule [sel [[Class ''close-btn''], [Tag ''rh-icon'']]]
        [Decl ''--rh-icon-size'' ''20px''],
      Rule [sel [[Class ''modal-body'']]]
        [Decl ''padding'' ''var(--rh-space-lg, 24px)''],
      Rule [sel [[Class ''form-group'']]]
        [Decl ''margin-block-end'' ''var(--rh-space-md, 16px)''],
      Rule [sel [[Class ''form-group'', Pseudo ''last-child'']]]
        [Decl ''margin-block-end'' ''0''],
      Rule [sel [[Class ''form-group''], [Tag ''label'']]]
        [Decl ''display'' ''block'', Decl ''margin-block-end'' ''var(--rh-space-xs, 4px)'',
         Decl ''font-size'' ''var(--rh-font-size-body-text-sm, 0.875rem)'',
         Decl ''font-weight'' ''var(--rh-font-weight-body-text-medium, 500)'',
         Decl ''color'' ''var(--rh-color-text-primary-on-light, #151515)''],
      Rule [sel [[Class ''form-group''], [Tag ''input'']]]
        [Decl ''width'' ''100%'', Decl ''padding'' ''var(--rh-space-sm, 8px)'',
         Decl ''border'' ''var(--rh-border-width-sm, 1px) solid var(--rh-color-border-subtle-on-light, #d2d2d2)'',
         Decl ''border-radius'' ''var(--rh-border-radius-default, 3px)'',
         Decl ''font-size'' ''var(--rh-font-size-body-text-sm, 0.875rem)'',
         Decl ''font-family'' ''var(--rh-font-family-body-text, 'Red Hat Text', sans-serif)'',
         Decl ''box-sizing'' ''border-box''],
      Rule [sel [[Class ''form-group''], [Tag ''input'', Pseudo ''focus'']]]
        [Decl ''outline'' ''none'',
         Decl ''border-color'' ''var(--rh-color-interactive-blue-darker, #0066cc)'',
         Decl ''box-shadow'' ''0 0 0 1px var(--rh-color-interactive-blue-darker, #0066cc)''],
      Rule [sel [[Class ''modal-footer'']]]
        [Decl ''display'' ''flex'', Decl ''justify-content'' ''flex-end'',
         Decl ''gap'' ''var(--rh-space-sm, 8px)'', Decl ''padding'' ''var(--rh-space-lg, 24px)'',
         Decl ''border-block-start'' ''var(--rh-border-width-sm, 1px) solid var(--rh-color-border-subtle-on-light, #d2d2d2)''],
      Rule [sel [[Class ''form-error'']]]
        [Decl ''padding'' ''var(--rh-space-sm, 8px) var(--rh-space-md, 16px)'',
         Decl ''background'' ''var(--rh-color-red-100, #fce8e6)'',
         Decl ''border'' ''var(--rh-border-width-sm, 1px) solid var(--rh-color-red-500, #c9190b)'',
         Decl ''border-radius'' ''var(--rh-border-radius-default, 3px)'',
         Decl ''color'' ''var(--rh-color-red-700, #a30d05)'',
         Decl ''font-size'' ''var(--rh-font-size-body-text-sm, 0.875rem)'',
         Decl ''margin-block-end'' ''var(--rh-space-md, 16px)'']]"

definition secrets_pairs_style :: "CssItem list" where
  "secrets_pairs_style =
     [Rule [sel [[Class ''kv-list'']]]
        [Decl ''display'' ''flex'', Decl ''flex-direction'' ''column'',
         Decl ''gap'' ''var(--rh-space-sm, 8px)''],
      Rule [sel [[Class ''kv-row'']]]
        [Decl ''display'' ''grid'', Decl ''grid-template-columns'' ''1fr 1fr auto auto'',
         Decl ''gap'' ''var(--rh-space-sm, 8px)'', Decl ''align-items'' ''start''],
      Rule [sel [[Class ''kv-row''], [Tag ''input'']]]
        [Decl ''width'' ''100%''],
      Rule [sel [[Class ''icon-btn'']]]
        [Decl ''display'' ''inline-flex'', Decl ''align-items'' ''center'',
         Decl ''justify-content'' ''center'', Decl ''padding'' ''var(--rh-space-sm, 8px)'',
         Decl ''border'' ''var(--rh-border-width-sm, 1px) solid var(--rh-color-border-subtle-on-light, #d2d2d2)'',
         Decl ''border-radius'' ''var(--rh-border-radius-default, 3px)'',
         Decl ''background'' ''var(--rh-color-surface-lightest, #ffffff)'',
         Decl ''cursor'' ''pointer'', Decl ''transition'' ''all 150ms ease''],
      Rule [sel [[Class ''icon-btn'', Pseudo ''hover'']]]
        [Decl ''background'' ''var(--rh-color-surface-lighter, #f5f5f5)''],
      Rule [sel [[Class ''icon-btn'', Pseudo ''disabled'']]]
        [Decl ''opacity'' ''0.5'', Decl ''cursor'' ''not-allowed''],
      Rule [sel [[Class ''icon-btn'', Class ''danger'', Pseudo ''hover'', NotPseudo ''disabled'']]]
        [Decl ''background'' ''var(--rh-color-red-100, #fce8e6)'',
         Decl ''border-color'' ''var(--rh-color-red-500, #c9190b)'',
         Decl ''color'' ''var(--rh-color-red-700, #a30d05)''],
      Rule [sel [[Class ''icon-btn'', Class ''revealed'']]]
        [Decl ''background'' ''var(--rh-color-blue-50, #e7f1fa)'',
         Decl ''border-color'' ''var(--rh-color-interactive-blue-darker, #0066cc)'',
         Decl ''color'' ''var(--rh-color-interactive-blue-darker, #0066cc)''],
      Rule [sel [[Class ''icon-btn''], [Tag ''rh-icon'']]]
        [Decl ''--rh-icon-size'' ''16px'']]"

definition secrets_view_style :: "CssItem list" where
  "secrets_view_style =
     [Rule [sel [[Class ''secret-data-list'']]]
        [Decl ''display'' ''flex'', Decl ''flex-direction'' ''column'',
         Decl ''gap'' ''var(--rh-space-md, 16px)''],
      Rule [sel [[Class ''secret-data-item'']]]
        [Decl ''background'' ''var(--rh-color-surface-lighter, #f5f5f5)'',
         Decl ''border-radius'' ''var(--rh-border-radius-default, 3px)'',
         Decl ''padding'' ''var(--rh-space-md, 16px)''],
      Rule [sel [[Class ''secret-data-key'']]]
        [Decl ''font-family'' ''var(--rh-font-family-code, 'Red Hat Mono', monospace)'',
         Decl ''font-size'' ''var(--rh-font-size-body-text-sm, 0.875rem)'',
         Decl ''font-weight'' ''var(--rh-font-weight-body-text-medium, 500)'',
         Decl ''color'' ''var(--rh-color-text-primary-on-light, #151515)'',
         Decl ''margin-block-end'' ''var(--rh-space-sm, 8px)''],
      Rule [sel [[Class ''secret-data-value-row'']]]
        [Decl ''display'' ''flex'', Decl ''align-items'' ''center'',
         Decl ''gap'' ''var(--rh-space-sm, 8px)''],
      Rule [sel [[Class ''secret-data-value'']]]
        [Decl ''flex'' ''1'',
         Decl ''font-family'' ''var(--rh-font-family-code, 'Red Hat Mono', monospace)'',
         Decl ''font-size'' ''var(--rh-font-size-body-text-sm, 0.875rem)'',
         Decl ''color'' ''var(--rh-color-text-secondary-on-light, #6a6e73)'',
         Decl ''word-break'' ''break-all'',
         Decl ''background'' ''var(--rh-color-surface-lightest, #ffffff)'',
         Decl ''padding'' ''var(--rh-space-sm, 8px)'',
         Decl ''border-radius'' ''var(--rh-border-radius-default, 3px)'',
         Decl ''border'' ''var(--rh-border-width-sm, 1px) solid var(--rh-color-border-subtle-on-light, #d2d2d2)''],
      Rule [sel [[Class ''secret-data-value'', Class ''hidden'']]]
        [Decl ''letter-spacing'' ''0.2em''],
      Rule [sel [[Class ''reveal-btn'']]]
        [Decl ''display'' ''inline-flex'', Decl ''align-items'' ''center'',
         Decl ''justify-content'' ''center'', Decl ''width'' ''32px'', Decl ''height'' ''32px'',
         Decl ''padding'' ''0'', Decl ''background'' ''var(--rh-color-surface-lightest, #ffffff)'',
         Decl ''border'' ''var(--rh-border-width-sm, 1px) solid var(--rh-color-border-subtle-on-light, #d2d2d2)'',
         Decl ''border-radius'' ''var(--rh-border-radius-default, 3px)'', Decl ''cursor'' ''pointer'',
         Decl ''color'' ''var(--rh-color-text-secondary-on-light, #6a6e73)'',
         Decl ''transition'' ''all 150ms ease'', Decl ''flex-shrink'' ''0''],
      Rule [sel [[Class ''reveal-btn'', Pseudo ''hover'']]]
        [Decl ''background'' ''var(--rh-color-surface-lighter, #f5f5f5)'',
         Decl ''color'' ''var(--rh-color-text-primary-on-light, #151515)''],
      Rule [sel [[Class ''reveal-btn'', Class ''revealed'']]]
        [Decl ''background'' ''var(--rh-color-blue-50, #e7f1fa)'',
         Decl ''border-color'' ''var(--rh-color-interactive-blue-darker, #0066cc)'',
         Decl ''color'' ''var(--rh-color-interactive-blue-darker, #0066cc)''],
      Rule [sel [[Class ''reveal-btn''], [Tag ''rh-icon'']]]
        [Decl ''--rh-icon-size'' ''16px''],
      Rule [sel [[Class ''empty-secret'']]]
        [Decl ''color'' ''var(--rh-color-text-secondary-on-light, #6a6e73)'',
         Decl ''font-style'' ''italic''],
      Rule [sel [[Class ''view-modal-footer'']]]
        [Decl ''display'' ''flex'', Decl ''justify-content'' ''space-between'',
         Decl ''gap'' ''var(--rh-space-sm, 8px)'', Decl ''padding'' ''var(--rh-space-lg, 24px)'',
         Decl ''border-block-start'' ''var(--rh-border-width-sm, 1px) solid var(--rh-color-border-subtle-on-light, #d2d2d2)''],
      Rule [sel [[Class ''view-modal-footer''], [Class ''left-actions'']]]
        [Decl ''display'' ''flex'', Decl ''gap'' ''var(--rh-space-sm, 8px)'']]"

definition secrets_pages_style :: "CssItem list" where
  "secrets_pages_style =
     [Rule [sel [[Class ''pagination'']]]
        [Decl ''display'' ''flex'', Decl ''justify-content'' ''space-between'',
         Decl ''align-items'' ''center'', Decl ''padding'' ''var(--rh-space-md, 16px)'',
         Decl ''border-block-start'' ''var(--rh-border-width-sm, 1px) solid var(--rh-color-border-subtle-on-light, #d2d2d2)'',
         Decl ''background'' ''var(--rh-color-surface-lighter, #f5f5f5)'',
         Decl ''border-radius'' ''0 0 var(--rh-border-radius-default, 3px) var(--rh-border-radius-default, 3px)''],
      Rule [sel [[Class ''pagination-info'']]]
        [Decl ''font-size'' ''var(--rh-font-size-body-text-sm, 0.875rem)'',
         Decl ''color'' ''var(--rh-color-text-secondary-on-light, #6a6e73)''],
      Rule [sel [[Class ''pagination-controls'']]]
        [Decl ''display'' ''flex'', Decl ''align-items'' ''center'',
         Decl ''gap'' ''var(--rh-space-xs, 4px)''],
      Rule [sel [[Class ''pagination-btn'']]]
        [Decl ''display'' ''inline-flex'', Decl ''align-items'' ''center'',
         Decl ''justify-content'' ''center'', Decl ''min-width'' ''32px'', Decl ''height'' ''32px'',
         Decl ''padding'' ''0 var(--rh-space-sm, 8px)'',
         Decl ''background'' ''var(--rh-color-surface-lightest, #ffffff)'',
         Decl ''border'' ''var(--rh-border-width-sm, 1px) solid var(--rh-color-border-subtle-on-light, #d2d2d2)'',
         Decl ''border-radius'' ''var(--rh-border-radius-default, 3px)'', Decl ''cursor'' ''pointer'',
         Decl ''font-size'' ''var(--rh-font-size-body-text-sm, 0.875rem)'',
         Decl ''font-family'' ''var(--rh-font-family-body-text, 'Red Hat Text', sans-serif)'',
         Decl ''color'' ''var(--rh-color-text-primary-on-light, #151515)'',
         Decl ''transition'' ''all 150ms ease''],
      Rule [sel [[Class ''pagination-btn'', Pseudo ''hover'', NotPseudo ''disabled'']]]
        [Decl ''background'' ''var(--rh-color-surface-light, #e0e0e0)'',
         Decl ''border-color'' ''var(--rh-color-border-strong-on-light, #8a8d90)''],
      Rule [sel [[Class ''pagination-btn'', Pseudo ''disabled'']]]
        [Decl ''opacity'' ''0.5'', Decl ''cursor'' ''not-allowed''],
      Rule [sel [[Class ''pagination-btn'', Class ''active'']]]
        [Decl ''background'' ''var(--rh-color-interactive-blue-darker, #0066cc)'',
         Decl ''border-color'' ''var(--rh-color-interactive-blue-darker, #0066cc)'',
         Decl ''color'' ''var(--rh-color-text-primary-on-dark, #ffffff)''],
      Rule [sel [[Class ''pagination-btn''], [Tag ''rh-icon'']]]
        [Decl ''--rh-icon-size'' ''16px''],
      Rule [sel [[Class ''pagination-ellipsis'']]]
        [Decl ''padding'' ''0 var(--rh-space-xs, 4px)'',
         Decl ''color'' ''var(--rh-color-text-secondary-on-light, #6a6e73)'']]"

definition secret_list_styles :: "CssItem list" where
  "secret_list_styles =
     secrets_header_style @ secrets_table_style @ secrets_states_style @ secrets_dialog_style @
     secrets_pairs_style @ secrets_view_style @ secrets_pages_style"

subsection \<open>Facts about the sheets\<close>

lemma button_rules:
  assumes "sheet \<in> {pipeline_list_styles, pvc_list_styles, secret_list_styles}"
  shows "filter (may_pick ''button'' [''pagination-btn'', ''active'']) (candidates w sheet (set_by ''color'')) =
     [(sel [[Class ''pagination-btn'']], Decl ''color'' ''var(--rh-color-text-primary-on-light, #151515)''),
      (sel [[Class ''pagination-btn'', Class ''active'']], Decl ''color'' ''var(--rh-color-text-primary-on-dark, #ffffff)'')]"
    and "filter (may_pick ''button'' [''pagination-btn'', ''active'']) (candidates w sheet (set_by ''background-color'')) =
     [(sel [[Class ''pagination-btn'']], Decl ''background'' ''var(--rh-color-surface-lightest, #ffffff)''),
      (sel [[Class ''pagination-btn'', Pseudo ''hover'', NotPseudo ''disabled'']],
         Decl ''background'' ''var(--rh-color-surface-light, #e0e0e0)''),
      (sel [[Class ''pagination-btn'', Class ''active'']],
         Decl ''background'' ''var(--rh-color-interactive-blue-darker, #0066cc)'')]"
proof -
  consider "sheet = pipeline_list_styles" | "sheet = pvc_list_styles" | "sheet = secret_list_styles"
    using assms by blast
  note sheets = this
  show "filter (may_pick ''button'' [''pagination-btn'', ''active'']) (candidates w sheet (set_by ''color'')) =
     [(sel [[Class ''pagination-btn'']], Decl ''color'' ''var(--rh-color-text-primary-on-light, #151515)''),
      (sel [[Class ''pagination-btn'', Class ''active'']], Decl ''color'' ''var(--rh-color-text-primary-on-dark, #ffffff)'')]"
    by (rule sheets; hypsubst; code_simp)
  show "filter (may_pick ''button'' [''pagination-btn'', ''active'']) (candidates w sheet (set_by ''background-color'')) =
     [(sel [[Class ''pagination-btn'']], Decl ''background'' ''var(--rh-color-surface-lightest, #ffffff)''),
      (sel [[Class ''pagination-btn'', Pseudo ''hover'', NotPseudo ''disabled'']],
         Decl ''background'' ''var(--rh-color-surface-light, #e0e0e0)''),
      (sel [[Class ''pagination-btn'', Class ''active'']],
         Decl ''background'' ''var(--rh-color-interactive-blue-darker, #0066cc)'')]"
    by (rule sheets; hypsubst; code_simp)
qed

lemma list_animated: "animated pipeline_list_styles" "animated pvc_list_styles" "animated secret_list_styles"
  by code_simp+

end
