(* ===== verification/List_Looks.thy ===== *)
theory List_Looks
  imports List_Styles List_Panel
begin

section \<open>The buttons of the pages on the screen\<close>

text \<open>
  The template of a page button under the style sheets of the three lists.
\<close>

definition button_look :: "nat \<Rightarrow> CssItem list \<Rightarrow> DomElement \<Rightarrow> DomElement list \<Rightarrow> string list \<Rightarrow> (int \<Rightarrow> 'a) \<Rightarrow>
    int \<Rightarrow> int \<Rightarrow> string \<Rightarrow> string option" where
  "button_look width sheet h anc states goto current i p =
     styled width sheet h p
       (dom_element ''button'' (props_of (page_button goto current (Page i))) states # anc)"

lemma button_classes:
  "dom_classes (dom_element ''button'' (props_of (page_button goto current (Page i))) states) =
     ''pagination-btn'' # (if i = current then [''active''] else [])"
  "dom_tag (dom_element ''button'' (props_of (page_button goto current (Page i))) states) = ''button''"
  "dom_states (dom_element ''button'' (props_of (page_button goto current (Page i))) states) = states"
  by (simp_all add: page_button_def dom_element_def classes_of_def)

text \<open>
  In all three lists the button of the current page is white on blue, those of the others dark on
  white.  Under the mouse the light grey of a hovered button takes the place of the blue, but the
  text stays white: the number of the current page can then not be read.
\<close>

theorem page_buttons_look:
  assumes "sheet \<in> {pipeline_list_styles, pvc_list_styles, secret_list_styles}"
  shows "button_look w sheet h anc states goto current i ''color'' =
      Some (if i = current then ''var(--rh-color-text-primary-on-dark, #ffffff)''
        else ''var(--rh-color-text-primary-on-light, #151515)'') \<and>
    button_look w sheet h anc states goto current i ''background-color'' =
      Some (if ''hover'' \<in> set states \<and> ''disabled'' \<notin> set states then ''var(--rh-color-surface-light, #e0e0e0)''
        else if i = current then ''var(--rh-color-interactive-blue-darker, #0066cc)''
        else ''var(--rh-color-surface-lightest, #ffffff)'')"
proof -
  let ?e = "dom_element ''button'' (props_of (page_button goto current (Page i))) states"
  have "winner h (?e # anc) cs =
      winner h (?e # anc) (filter (may_pick ''button'' [''pagination-btn'', ''active'']) cs)" for cs
  proof -
    have "set (dom_classes ?e) \<subseteq> set [''pagination-btn'', ''active'']" by (auto simp: button_classes)
    from winner_may_pick [OF this] show ?thesis unfolding button_classes(2) .
  qed
  note few = this [of "candidates w sheet (set_by p)" for p]
  show ?thesis
    unfolding button_look_def styled_def few [of "''color''"] few [of "''background-color''"] button_rules [OF assms]
    by (cases "i = current"; cases "''hover'' \<in> set states \<and> ''disabled'' \<notin> set states")
      (simp_all add: cascade_compute button_classes)
qed

theorem page_buttons_look_witness:
  "button_look 1280 pvc_list_styles (dom_element ''pvc-list'' [] []) [] [''hover''] id 2 2 ''color'' =
     Some ''var(--rh-color-text-primary-on-dark, #ffffff)'' \<and>
   button_look 1280 pvc_list_styles (dom_element ''pvc-list'' [] []) [] [''hover''] id 2 2 ''background-color'' =
     Some ''var(--rh-color-surface-light, #e0e0e0)''"
  using page_buttons_look [of pvc_list_styles, where goto = id and current = 2 and i = 2 and w = 1280
      and h = "dom_element ''pvc-list'' [] []" and anc = "[]" and states = "[''hover'']"] by simp

end
