(* ===== verification/Detail_Styles.thy ===== *)
theory Detail_Styles
  imports Css_Cascade
begin

section \<open>The style sheets of the page of a pipeline and of its panel\<close>

text \<open>
  The sheets of \<open>components/monitor/pipeline-detail.ts\<close> and \<open>step-detail.ts\<close>, rule by rule in their
  order.
\<close>

subsection \<open>\<open>monitor/pipeline-detail.ts\<close>\<close>

definition detail_frame_style :: "CssItem list" where
  "detail_frame_style =
     [Rule [on_host [] []]
        [Decl ''display'' ''block''],
      Rule [sel [[Tag ''rh-breadcrumb'']]]
        [Decl ''display'' ''block'', Decl ''margin-block-end'' ''var(--rh-space-lg, 24px)''],
      Rule [sel [[Tag ''rh-breadcrumb''], [Tag ''ol'']]]
        [Decl ''display'' ''flex'', Decl ''flex-wrap'' ''wrap'', Decl ''align-items'' ''center'',
         Decl ''gap'' ''var(--rh-space-xs, 4px)'', Decl ''list-style'' ''none'',
         Decl ''padding'' ''0'', Decl ''margin'' ''0'',
         Decl ''font-size'' ''var(--rh-font-size-body-text-sm, 0.875rem)''],
      Rule [sel [[Tag ''rh-breadcrumb''], [Tag ''li'']]]
        [Decl ''display'' ''flex'', Decl ''align-items'' ''center'',
         Decl ''gap'' ''var(--rh-space-xs, 4px)''],
      Rule [on_part [[Tag ''rh-breadcrumb''], [Tag ''li'', NotPseudo ''last-child'']] ''after'' []]
        [Decl ''content'' (quoted ''/''),
         Decl ''color'' ''var(--rh-color-text-secondary-on-light, #6a6e73)'',
         Decl ''margin-inline-start'' ''var(--rh-space-xs, 4px)''],
      Rule [sel [[Tag ''rh-breadcrumb''], [Tag ''a'']]]
        [Decl ''color'' ''var(--rh-color-interactive-blue-darker, #0066cc)'',
         Decl ''text-decoration'' ''none'', Decl ''transition'' ''color 150ms ease''],
      Rule [sel [[Tag ''rh-breadcrumb''], [Tag ''a'', Pseudo ''hover'']]]
        [Decl ''color'' ''var(--rh-color-interactive-blue-darkest, #004d99)'',
         Decl ''text-decoration'' ''underline''],
      Rule [sel [[Tag ''rh-breadcrumb''], [Tag ''a'', AttrIs ''aria-current'' ''page'']]]
        [Decl ''color'' ''var(--rh-color-text-primary-on-light, #151515)'',
         Decl ''pointer-events'' ''none''],
      Rule [sel [[Class ''header'']]]
        [Decl ''display'' ''flex'', Decl ''justify-content'' ''space-between'',
         Decl ''align-items'' ''flex-start'', Decl ''margin-block-end'' ''var(--rh-space-xl, 32px)'',
         Decl ''flex-wrap'' ''wrap'', Decl ''gap'' ''var(--rh-space-md, 16px)''],
      Rule [sel [[Class ''header-left'']]]
        [Decl ''display'' ''flex'', Decl ''flex-direction'' ''column'',
         Decl ''gap'' ''var(--rh-space-sm, 8px)''],
      Rule [sel [[Class ''header-left''], [Tag ''h1'']]]
        [Decl ''display'' ''flex'', Decl ''align-items'' ''center'',
         Decl ''gap'' ''var(--rh-space-md, 16px)'',
         Decl ''font-family'' ''var(--rh-font-family-heading, 'Red Hat Display', sans-serif)'',
         Decl ''font-size'' ''var(--rh-font-size-heading-lg, 1.75rem)'',
         Decl ''font-weight'' ''var(--rh-font-weight-heading-medium, 500)'', Decl ''margin'' ''0''],
      Rule [sel [[Class ''header-meta'']]]
        [Decl ''display'' ''flex'', Decl ''gap'' ''var(--rh-space-xl, 32px)'',
         Decl ''color'' ''var(--rh-color-text-secondary-on-light, #6a6e73)'',
         Decl ''font-size'' ''var(--rh-font-size-body-text-sm, 0.875rem)''],
      Rule [sel [[Class ''header-meta-item'']]]
        [Decl ''display'' ''flex'', Decl ''flex-direction'' ''column'', Decl ''gap'' ''2px''],
      Rule [sel [[Class ''header-meta-label'']]]
        [Decl ''font-weight'' ''var(--rh-font-weight-body-text-medium, 500)'',
         Decl ''color'' ''var(--rh-color-text-primary-on-light, #151515)''],
      Rule [sel [[Class ''header-actions'']]]
        [Decl ''display'' ''flex'', Decl ''gap'' ''var(--rh-space-sm, 8px)''],
      Rule [sel [[Class ''content'']]]
        [Decl ''display'' ''block'']]"

definition detail_graph_style :: "CssItem list" where
  "detail_graph_style =
     [Rule [sel [[Class ''graph-container'']]]
        [Decl ''background'' ''var(--rh-color-surface-lighter, #f5f5f5)'',
         Decl ''border'' ''var(--rh-border-width-sm, 1px) solid var(--rh-color-border-subtle-on-light, #d2d2d2)'',
         Decl ''border-radius'' ''var(--rh-border-radius-default, 3px)'',
         Decl ''padding'' ''var(--rh-space-lg, 24px)'', Decl ''position'' ''relative''],
      Rule [sel [[Class ''graph-canvas'']]]
        [Decl ''position'' ''relative''],
      Rule [sel [[Class ''graph-node'']]]
        [Decl ''position'' ''absolute'',
         Decl ''background'' ''var(--rh-color-surface-lightest, #ffffff)'',
         Decl ''border'' ''2px solid var(--rh-color-border-subtle-on-light, #d2d2d2)'',
         Decl ''border-radius'' ''var(--rh-border-radius-default, 3px)'',
         Decl ''padding'' ''var(--rh-space-md, 16px)'', Decl ''width'' ''240px'',
         Decl ''height'' ''100px'', Decl ''box-sizing'' ''border-box'', Decl ''cursor'' ''pointer'',
         Decl ''transition'' ''all 150ms ease'', Decl ''overflow'' ''hidden''],
      Rule [sel [[Class ''graph-node'', Pseudo ''hover'']]]
        [Decl ''box-shadow'' ''var(--rh-box-shadow-md, 0 4px 6px -1px rgba(21, 21, 21, 0.1))''],
      Rule [sel [[Class ''graph-node'', Pseudo ''focus-visible'']]]
        [Decl ''outline'' ''var(--rh-border-width-md, 2px) solid var(--rh-color-interactive-blue-darker, #0066cc)'',
         Decl ''outline-offset'' ''2px''],
      Rule [sel [[Class ''graph-node'', Class ''selected'']]]
        [Decl ''border-color'' ''var(--rh-color-interactive-blue-darker, #0066cc)'',
         Decl ''box-shadow'' ''0 0 0 2px rgba(0, 102, 204, 0.2)''],
      Rule [sel [[Class ''graph-node'', Class ''succeeded'']]]
        [Decl ''border-color'' ''var(--rh-color-green-500, #3e8635)''],
      Rule [sel [[Class ''graph-node'', Class ''running'']]]
        [Decl ''border-color'' ''var(--rh-color-teal-500, #009596)''],
      Rule [sel [[Class ''graph-node'', Class ''failed'']]]
        [Decl ''border-color'' ''var(--rh-color-red-500, #c9190b)''],
      Rule [sel [[Class ''node-header'']]]
        [Decl ''display'' ''flex'', Decl ''align-items'' ''center'',
         Decl ''gap'' ''var(--rh-space-sm, 8px)'', Decl ''margin-block-end'' ''var(--rh-space-xs, 4px)''],
      Rule [sel [[Class ''node-name'']]]
        [Decl ''font-weight'' ''var(--rh-font-weight-body-text-medium, 500)'',
         Decl ''font-family'' ''var(--rh-font-family-heading, 'Red Hat Display', sans-serif)''],
      Rule [sel [[Class ''node-image'']]]
        [Decl ''font-size'' ''var(--rh-font-size-body-text-xs, 0.75rem)'',
         Decl ''color'' ''var(--rh-color-text-secondary-on-light, #6a6e73)'',
         Decl ''overflow'' ''hidden'', Decl ''text-overflow'' ''ellipsis'',
         Decl ''white-space'' ''nowrap''],
      Rule [sel [[Class ''graph-edges'']]]
        [Decl ''position'' ''absolute'', Decl ''top'' ''0'', Decl ''left'' ''0'',
         Decl ''pointer-events'' ''none'', Decl ''overflow'' ''visible''],
      Rule [sel [[Class ''graph-edge'']]]
        [Decl ''fill'' ''none'', Decl ''stroke'' ''var(--rh-color-gray-40, #8a8d90)'',
         Decl ''stroke-width'' ''2''],
      Rule [sel [[Class ''graph-edge'', Class ''success'']]]
        [Decl ''stroke'' ''var(--rh-color-green-500, #3e8635)''],
      Rule [sel [[Class ''graph-edge'', Class ''failure'']]]
        [Decl ''stroke'' ''var(--rh-color-red-500, #c9190b)''],
      Rule [sel [[Class ''graph-arrow'']]]
        [Decl ''fill'' ''var(--rh-color-gray-40, #8a8d90)''],
      Rule [sel [[Class ''graph-arrow'', Class ''success'']]]
        [Decl ''fill'' ''var(--rh-color-green-500, #3e8635)'']]"

definition detail_timeline_style :: "CssItem list" where
  "detail_timeline_style =
     [Rule [sel [[Class ''graph-arrow'', Class ''failure'']]]
        [Decl ''fill'' ''var(--rh-color-red-500, #c9190b)''],
      Rule [sel [[Tag ''rh-table'']]]
        [Decl ''overflow'' ''visible''],
      Rule [sel [[Class ''timeline-table'']]]
        [Decl ''width'' ''100%'', Decl ''border-collapse'' ''collapse'', Decl ''overflow'' ''visible''],
      Rule [sel [[Class ''timeline-table''], [Tag ''th'']],
            sel [[Class ''timeline-table''], [Tag ''td'']]]
        [Decl ''padding'' ''var(--rh-space-sm, 8px) var(--rh-space-md, 16px)'',
         Decl ''text-align'' ''start'',
         Decl ''border-block-end'' ''var(--rh-border-width-sm, 1px) solid var(--rh-color-border-subtle-on-light, #d2d2d2)''],
      Rule [sel [[Class ''timeline-table''], [Tag ''th'']]]
        [Decl ''font-weight'' ''var(--rh-font-weight-body-text-medium, 500)'',
         Decl ''color'' ''var(--rh-color-text-secondary-on-light, #6a6e73)'',
         Decl ''font-size'' ''var(--rh-font-size-body-text-sm, 0.875rem)'',
         Decl ''background'' ''var(--rh-color-surface-lighter, #f5f5f5)''],
      Rule [sel [[Class ''timeline-table''], [Tag ''tbody''], [Tag ''tr'']]]
        [Decl ''cursor'' ''pointer'', Decl ''transition'' ''background-color 150ms ease''],
      Rule [sel [[Class ''timeline-table''], [Tag ''tbody''], [Tag ''tr'', Pseudo ''hover'']]]
        [Decl ''background'' ''var(--rh-color-surface-lighter, #f5f5f5)''],
      Rule [sel [[Class ''actions-cell'']]]
        [Decl ''position'' ''relative'', Decl ''width'' ''48px'', Decl ''text-align'' ''center'',
         Decl ''overflow'' ''visible''],
      Rule [sel [[Class ''timeline-table''], [Tag ''tbody'']]]
        [Decl ''overflow'' ''visible''],
      Rule [sel [[Class ''timeline-table''], [Tag ''tbody''], [Tag ''tr'']]]
        [Decl ''overflow'' ''visible''],
      Rule [sel [[Class ''kebab-btn'']]]
        [Decl ''display'' ''inline-flex'', Decl ''align-items'' ''center'',
         Decl ''justify-content'' ''center'', Decl ''width'' ''32px'', Decl ''height'' ''32px'',
         Decl ''padding'' ''0'', Decl ''background'' ''none'', Decl ''border'' ''none'',
         Decl ''border-radius'' ''var(--rh-border-radius-default, 3px)'', Decl ''cursor'' ''pointer'',
         Decl ''color'' ''var(--rh-color-text-secondary-on-light, #6a6e73)'',
         Decl ''transition'' ''background-color 150ms ease, color 150ms ease''],
      Rule [sel [[Class ''kebab-btn'', Pseudo ''hover'']]]
        [Decl ''background'' ''var(--rh-color-surface-light, #e0e0e0)'',
         Decl ''color'' ''var(--rh-color-text-primary-on-light, #151515)''],
      Rule [sel [[Class ''kebab-btn'', Pseudo ''focus'']]]
        [Decl ''outline'' ''none''],
      Rule [sel [[Class ''kebab-menu'']]]
        [Decl ''position'' ''absolute'', Decl ''top'' ''100%'', Decl ''right'' ''0'',
         Decl ''z-index'' ''1000'', Decl ''min-width'' ''150px'',
         Decl ''background'' ''var(--rh-color-surface-lightest, #ffffff)'',
         Decl ''border'' ''var(--rh-border-width-sm, 1px) solid var(--rh-color-border-subtle-on-light, #d2d2d2)'',
         Decl ''border-radius'' ''var(--rh-border-radius-default, 3px)'',
         Decl ''box-shadow'' ''var(--rh-box-shadow-md, 0 4px 6px -1px rgba(21, 21, 21, 0.1))'',
         Decl ''padding'' ''var(--rh-space-xs, 4px) 0''],
      Rule [sel [[Class ''kebab-menu-item'']]]
        [Decl ''display'' ''flex'', Decl ''align-items'' ''center'',
         Decl ''gap'' ''var(--rh-space-sm, 8px)'', Decl ''width'' ''100%'',
         Decl ''padding'' ''var(--rh-space-sm, 8px) var(--rh-space-md, 16px)'',
         Decl ''background'' ''none'', Decl ''border'' ''none'',
         Decl ''font-size'' ''var(--rh-font-size-body-text-sm, 0.875rem)'',
         Decl ''font-family'' ''var(--rh-font-family-body-text, 'Red Hat Text', sans-serif)'',
         Decl ''color'' ''var(--rh-color-text-primary-on-light, #151515)'',
         Decl ''cursor'' ''pointer'', Decl ''text-align'' ''left'',
         Decl ''transition'' ''background-color 150ms ease''],
      Rule [sel [[Class ''kebab-menu-item'', Pseudo ''hover'']]]
        [Decl ''background'' ''var(--rh-color-surface-lighter, #f5f5f5)''],
      Rule [sel [[Class ''kebab-menu-item'', Pseudo ''focus'']]]
        [Decl ''outline'' ''none'', Decl ''background'' ''var(--rh-color-surface-lighter, #f5f5f5)''],
      Rule [sel [[Class ''kebab-menu-item''], [Tag ''rh-icon'']]]
        [Decl ''--rh-icon-size'' ''16px''],
      Rule [sel [[Class ''yaml-container'']]]
        [Decl ''width'' ''100%'', Decl ''max-width'' ''100%'', Decl ''box-sizing'' ''border-box''],
      Rule [sel [[Class ''yaml-container''], [Tag ''code-editor'']]]
        [Decl ''display'' ''block'', Decl ''width'' ''100%''],
      Rule [sel [[Class ''loading-container'']], sel [[Class ''error-container'']]]
        [Decl ''display'' ''flex'', Decl ''flex-direction'' ''column'',
         Decl ''justify-content'' ''center'', Decl ''align-items'' ''center'',
         Decl ''padding'' ''var(--rh-space-2xl, 48px)'', Decl ''gap'' ''var(--rh-space-md, 16px)'']]"

definition detail_tabs_style :: "CssItem list" where
  "detail_tabs_style =
     [Rule [sel [[Class ''error-container'']]]
        [Decl ''color'' ''var(--rh-color-red-700, #a30d05)''],
      Rule [sel [[Tag ''rh-tabs'']]]
        [Decl ''margin-block-end'' ''var(--rh-space-lg, 24px)'',
         Decl ''--rh-tabs-link-focus-outline'' ''none'', Decl ''--rh-tabs-focus-outline'' ''none''],
      Rule [sel [[Tag ''rh-tabs'']], on_part [[Tag ''rh-tabs'']] ''part(tabs)'' [],
            on_part [[Tag ''rh-tabs'']] ''part(panels)'' []]
        [Important ''outline'' ''none''],
      Rule [sel [[Tag ''rh-tab'']], sel [[Tag ''rh-tab-panel'']]]
        [Important ''outline'' ''none'', Decl ''--rh-tab-focus-outline'' ''none'',
         Decl ''--rh-focus-outline-color'' ''transparent'', Decl ''--rh-focus-outline-width'' ''0''],
      Rule [sel [[Tag ''rh-tab'', Pseudo ''focus'']], sel [[Tag ''rh-tab'', Pseudo ''focus-within'']],
            sel [[Tag ''rh-tab-panel'', Pseudo ''focus'']]]
        [Important ''outline'' ''none'', Important ''box-shadow'' ''none''],
      Rule [sel [[Tag ''rh-tab'', Pseudo ''focus-visible'']]]
        [Important ''outline'' ''none'', Important ''box-shadow'' ''none''],
      Rule [on_part [[Tag ''rh-tab'']] ''part(button)'' [], on_part [[Tag ''rh-tab'']] ''part(tab)'' []]
        [Important ''outline'' ''none''],
      Rule [on_part [[Tag ''rh-tab'']] ''part(button)'' [''focus''],
            on_part [[Tag ''rh-tab'']] ''part(button)'' [''focus-visible''],
            on_part [[Tag ''rh-tab'']] ''part(tab)'' [''focus''],
            on_part [[Tag ''rh-tab'']] ''part(tab)'' [''focus-visible'']]
        [Important ''outline'' ''none'', Important ''box-shadow'' ''none'']]"

definition detail_styles :: "CssItem list" where
  "detail_styles =
     detail_frame_style @ detail_graph_style @ detail_timeline_style @ detail_tabs_style"

subsection \<open>\<open>monitor/step-detail.ts\<close>\<close>

definition panel_frame_style :: "CssItem list" where
  "panel_frame_style =
     [Rule [on_host [] []]
        [Decl ''display'' ''flex'', Decl ''flex-direction'' ''column'', Decl ''height'' ''100%'',
         Decl ''min-height'' ''0''],
      Rule [sel [[Class ''summary'']]]
        [Decl ''display'' ''grid'', Decl ''grid-template-columns'' ''repeat(2, 1fr)'',
         Decl ''gap'' ''var(--rh-space-md, 16px)'',
         Decl ''padding-block-end'' ''var(--rh-space-md, 16px)'',
         Decl ''margin-block-end'' ''var(--rh-space-md, 16px)'',
         Decl ''border-block-end'' ''var(--rh-border-width-sm, 1px) solid var(--rh-color-border-subtle-on-light, #d2d2d2)''],
      Rule [sel [[Class ''summary-item'']]]
        [Decl ''display'' ''flex'', Decl ''flex-direction'' ''column'', Decl ''gap'' ''2px''],
      Rule [sel [[Class ''summary-label'']]]
        [Decl ''font-size'' ''var(--rh-font-size-body-text-xs, 0.75rem)'',
         Decl ''color'' ''var(--rh-color-text-secondary-on-light, #6a6e73)'',
         Decl ''text-transform'' ''uppercase'', Decl ''letter-spacing'' ''0.5px'',
         Decl ''font-weight'' ''var(--rh-font-weight-body-text-medium, 500)''],
      Rule [sel [[Class ''summary-value'']]]
        [Decl ''font-size'' ''var(--rh-font-size-body-text-sm, 0.875rem)'',
         Decl ''font-weight'' ''var(--rh-font-weight-body-text-medium, 500)''],
      Rule [sel [[Class ''tabs'']]]
        [Decl ''display'' ''flex'', Decl ''margin-block-end'' ''var(--rh-space-md, 16px)'',
         Decl ''border-block-end'' ''var(--rh-border-width-sm, 1px) solid var(--rh-color-border-subtle-on-light, #d2d2d2)''],
      Rule [sel [[Class ''tab'']]]
        [Decl ''display'' ''inline-flex'', Decl ''align-items'' ''center'',
         Decl ''gap'' ''var(--rh-space-xs, 4px)'',
         Decl ''padding'' ''var(--rh-space-sm, 8px) var(--rh-space-md, 16px)'',
         Decl ''background'' ''none'', Decl ''border'' ''none'',
         Decl ''border-block-end'' ''2px solid transparent'',
         Decl ''font-size'' ''var(--rh-font-size-body-text-sm, 0.875rem)'',
         Decl ''font-family'' ''var(--rh-font-family-body-text, 'Red Hat Text', sans-serif)'',
         Decl ''color'' ''var(--rh-color-text-secondary-on-light, #6a6e73)'',
         Decl ''cursor'' ''pointer'', Decl ''transition'' ''all 150ms ease''],
      Rule [sel [[Class ''tab'', Pseudo ''hover'']]]
        [Decl ''color'' ''var(--rh-color-text-primary-on-light, #151515)'',
         Decl ''background'' ''var(--rh-color-surface-lighter, #f5f5f5)''],
      Rule [sel [[Class ''tab'', Pseudo ''focus-visible'']]]
        [Decl ''outline'' ''var(--rh-border-width-md, 2px) solid var(--rh-color-interactive-blue-darker, #0066cc)'',
         Decl ''outline-offset'' ''-2px''],
      Rule [sel [[Class ''tab'', Class ''active'']]]
        [Decl ''color'' ''var(--rh-color-interactive-blue-darker, #0066cc)'',
         Decl ''border-block-end-color'' ''var(--rh-color-interactive-blue-darker, #0066cc)''],
      Rule [sel [[Class ''tab''], [Tag ''rh-icon'']]]
        [Decl ''--rh-icon-size'' ''14px'']]"

definition panel_logs_style :: "CssItem list" where
  "panel_logs_style =
     [Rule [sel [[Class ''tab-content'']]]
        [Decl ''flex'' ''1'', Decl ''display'' ''flex'', Decl ''flex-direction'' ''column'',
         Decl ''min-height'' ''0'', Decl ''overflow'' ''auto''],
      Rule [sel [[Class ''logs-wrapper'']]]
        [Decl ''flex'' ''1'', Decl ''display'' ''flex'', Decl ''flex-direction'' ''column'',
         Decl ''min-height'' ''0''],
      Rule [sel [[Class ''logs-header'']]]
        [Decl ''display'' ''flex'', Decl ''justify-content'' ''space-between'',
         Decl ''align-items'' ''center'', Decl ''margin-block-end'' ''var(--rh-space-xs, 4px)'',
         Decl ''font-size'' ''var(--rh-font-size-body-text-xs, 0.75rem)'',
         Decl ''color'' ''var(--rh-color-text-secondary-on-light, #6a6e73)'', Decl ''flex-shrink'' ''0''],
      Rule [sel [[Class ''logs-container'']]]
        [Decl ''flex'' ''1'', Decl ''background'' ''var(--rh-color-gray-90, #1e1e1e)'',
         Decl ''color'' ''var(--rh-color-gray-10, #f0f0f0)'',
         Decl ''border-radius'' ''var(--rh-border-radius-default, 3px)'',
         Decl ''padding'' ''var(--rh-space-md, 16px)'',
         Decl ''font-family'' ''var(--rh-font-family-code, 'Red Hat Mono', monospace)'',
         Decl ''font-size'' ''var(--rh-font-size-body-text-xs, 0.75rem)'',
         Decl ''white-space'' ''pre-wrap'', Decl ''word-break'' ''break-all'',
         Decl ''min-height'' ''200px'', Decl ''overflow'' ''auto''],
      Rule [sel [[Class ''logs-empty'']]]
        [Decl ''display'' ''flex'', Decl ''flex-direction'' ''column'',
         Decl ''align-items'' ''center'', Decl ''justify-content'' ''center'',
         Decl ''gap'' ''var(--rh-space-sm, 8px)'',
         Decl ''color'' ''var(--rh-color-text-secondary-on-light, #6a6e73)'',
         Decl ''font-style'' ''italic'', Decl ''text-align'' ''center'', Decl ''min-height'' ''200px'',
         Decl ''padding'' ''var(--rh-space-lg, 24px)''],
      Rule [sel [[Class ''logs-loading'']]]
        [Decl ''display'' ''flex'', Decl ''align-items'' ''center'',
         Decl ''justify-content'' ''center'', Decl ''gap'' ''var(--rh-space-sm, 8px)'',
         Decl ''min-height'' ''200px'', Decl ''padding'' ''var(--rh-space-lg, 24px)'',
         Decl ''color'' ''var(--rh-color-text-secondary-on-light, #6a6e73)''],
      Rule [sel [[Class ''spec-list'']]]
        [Decl ''list-style'' ''none'', Decl ''padding'' ''0'', Decl ''margin'' ''0'']]"

definition panel_lists_style :: "CssItem list" where
  "panel_lists_style =
     [Rule [sel [[Class ''spec-item'']]]
        [Decl ''display'' ''flex'', Decl ''justify-content'' ''space-between'',
         Decl ''padding'' ''var(--rh-space-sm, 8px) 0'',
         Decl ''border-block-end'' ''var(--rh-border-width-sm, 1px) solid var(--rh-color-border-subtle-on-light, #d2d2d2)''],
      Rule [sel [[Class ''spec-item'', Pseudo ''last-child'']]]
        [Decl ''border-block-end'' ''none''],
      Rule [sel [[Class ''spec-key'']]]
        [Decl ''color'' ''var(--rh-color-text-secondary-on-light, #6a6e73)'',
         Decl ''font-size'' ''var(--rh-font-size-body-text-sm, 0.875rem)''],
      Rule [sel [[Class ''spec-value'']]]
        [Decl ''font-size'' ''var(--rh-font-size-body-text-sm, 0.875rem)'',
         Decl ''font-family'' ''var(--rh-font-family-code, 'Red Hat Mono', monospace)'',
         Decl ''text-align'' ''end'', Decl ''word-break'' ''break-all'', Decl ''max-width'' ''200px''],
      Rule [sel [[Class ''events-list'']]]
        [Decl ''display'' ''flex'', Decl ''flex-direction'' ''column'',
         Decl ''gap'' ''var(--rh-space-sm, 8px)''],
      Rule [sel [[Class ''event-item'']]]
        [Decl ''padding'' ''var(--rh-space-sm, 8px)'',
         Decl ''background'' ''var(--rh-color-surface-lighter, #f5f5f5)'',
         Decl ''border-radius'' ''var(--rh-border-radius-default, 3px)'',
         Decl ''font-size'' ''var(--rh-font-size-body-text-xs, 0.75rem)''],
      Rule [sel [[Class ''event-header'']]]
        [Decl ''display'' ''flex'', Decl ''justify-content'' ''space-between'',
         Decl ''margin-block-end'' ''var(--rh-space-xs, 4px)''],
      Rule [sel [[Class ''event-type'']]]
        [Decl ''font-weight'' ''var(--rh-font-weight-body-text-medium, 500)''],
      Rule [sel [[Class ''event-type'', Class ''normal'']]]
        [Decl ''color'' ''var(--rh-color-green-600, #3e8635)''],
      Rule [sel [[Class ''event-type'', Class ''warning'']]]
        [Decl ''color'' ''var(--rh-color-yellow-600, #f0ab00)''],
      Rule [sel [[Class ''event-time'']]]
        [Decl ''color'' ''var(--rh-color-text-secondary-on-light, #6a6e73)''],
      Rule [sel [[Class ''event-message'']]]
        [Decl ''color'' ''var(--rh-color-text-secondary-on-light, #6a6e73)''],
      Rule [sel [[Class ''actions'']]]
        [Decl ''display'' ''flex'', Decl ''justify-content'' ''space-between'',
         Decl ''gap'' ''var(--rh-space-sm, 8px)'',
         Decl ''padding-block-start'' ''var(--rh-space-md, 16px)'',
         Decl ''margin-block-start'' ''var(--rh-space-md, 16px)'',
         Decl ''border-block-start'' ''var(--rh-border-width-sm, 1px) solid var(--rh-color-border-subtle-on-light, #d2d2d2)'']]"

definition panel_styles :: "CssItem list" where
  "panel_styles =
     panel_frame_style @ panel_logs_style @ panel_lists_style"

subsection \<open>Facts about the sheets\<close>

lemmas detail_sheet =
  detail_styles_def detail_frame_style_def detail_graph_style_def detail_timeline_style_def detail_tabs_style_def

lemma detail_displays:
  "\<forall>c \<in> set (candidates w detail_styles (set_by ''display'')). decl_value (snd c) \<noteq> ''none''"
  unfolding candidates_def set_by_def detail_sheet by simp

lemma detail_pointer:
  "candidates w detail_styles (set_by ''pointer-events'') =
     [(sel [[Tag ''rh-breadcrumb''], [Tag ''a'', AttrIs ''aria-current'' ''page'']], Decl ''pointer-events'' ''none''),
      (sel [[Class ''graph-edges'']], Decl ''pointer-events'' ''none'')]"
  "candidates w detail_styles (set_by ''visibility'') = []"
  unfolding candidates_def set_by_def detail_sheet by simp_all

definition node_class_names :: "string list" where
  "node_class_names =
     [''graph-node'', ''selected'', ''pending'', ''running'', ''suspended'', ''succeeded'', ''failed'', ''skipped'']"

lemma node_rules:
  "filter (may_pick ''div'' node_class_names) (candidates w detail_styles (set_by ''width'')) =
     [(sel [[Class ''graph-node'']], Decl ''width'' ''240px'')]"
  "filter (may_pick ''div'' node_class_names) (candidates w detail_styles (set_by ''height'')) =
     [(sel [[Class ''graph-node'']], Decl ''height'' ''100px'')]"
  "filter (may_pick ''div'' node_class_names) (candidates w detail_styles (set_by ''box-sizing'')) =
     [(sel [[Class ''graph-node'']], Decl ''box-sizing'' ''border-box'')]"
  "filter (may_pick ''div'' node_class_names) (candidates w detail_styles (set_by ''position'')) =
     [(sel [[Class ''graph-node'']], Decl ''position'' ''absolute'')]"
  "filter (may_pick ''div'' node_class_names) (candidates w detail_styles (set_by ''border-color'')) =
     [(sel [[Class ''graph-node'']], Decl ''border'' ''2px solid var(--rh-color-border-subtle-on-light, #d2d2d2)''),
      (sel [[Class ''graph-node'', Class ''selected'']], Decl ''border-color'' ''var(--rh-color-interactive-blue-darker, #0066cc)''),
      (sel [[Class ''graph-node'', Class ''succeeded'']], Decl ''border-color'' ''var(--rh-color-green-500, #3e8635)''),
      (sel [[Class ''graph-node'', Class ''running'']], Decl ''border-color'' ''var(--rh-color-teal-500, #009596)''),
      (sel [[Class ''graph-node'', Class ''failed'']], Decl ''border-color'' ''var(--rh-color-red-500, #c9190b)'')]"
  "filter (may_pick ''div'' node_class_names) (candidates w detail_styles (set_by ''box-shadow'')) =
     [(sel [[Class ''graph-node'', Pseudo ''hover'']], Decl ''box-shadow'' ''var(--rh-box-shadow-md, 0 4px 6px -1px rgba(21, 21, 21, 0.1))''),
      (sel [[Class ''graph-node'', Class ''selected'']], Decl ''box-shadow'' ''0 0 0 2px rgba(0, 102, 204, 0.2)'')]"
  by code_simp+

lemma detail_animated: "animated detail_styles" "animated panel_styles"
  by code_simp+

end
