(* ===== verification/Graph_Looks.thy ===== *)
theory Graph_Looks
  imports Detail_Styles Detail_View
begin

section \<open>The graph of a pipeline on the screen\<close>

text \<open>
  The template of the page of a pipeline under its style sheet: how large a node is drawn, how its state
  shows, and what the mouse can hit.  The \<open>style\<close> attribute of a node holds its place only.
\<close>

definition detail_screen :: "nat \<Rightarrow> (nat list \<Rightarrow> string list) \<Rightarrow> Screen" where
  "detail_screen width states =
     \<lparr>sc_width = width, sc_sheet = detail_styles, sc_host = dom_element ''pipeline-detail'' [] [],
      sc_states = states\<rparr>"

lemma detail_screen_simps [simp]:
  "sc_width (detail_screen width states) = width" "sc_sheet (detail_screen width states) = detail_styles"
  by (simp_all add: detail_screen_def)

lemma detail_displayed: "displayed (detail_screen w states) path"
  using detail_displays by (intro displayed_unless_none) simp

definition node_look ::
    "nat \<Rightarrow> DomElement list \<Rightarrow> string list \<Rightarrow> (rat \<Rightarrow> string) \<Rightarrow> PipelineDetail \<Rightarrow> PipelineNode \<Rightarrow> string \<Rightarrow> string option" where
  "node_look width anc states num s n p =
     styled width detail_styles (dom_element ''pipeline-detail'' [] []) p
       (dom_element ''div'' (props_of (graph_box num s n)) states # anc)"

text \<open>The phase a node shows.\<close>

definition node_phase :: "PipelineNode \<Rightarrow> StepPhase" where
  "node_phase n = (case nd_status n of None \<Rightarrow> StPending | Some st \<Rightarrow> ss_phase st)"

primrec phase_name :: "StepPhase \<Rightarrow> string" where
  "phase_name StPending = ''pending''"
| "phase_name StRunning = ''running''"
| "phase_name StSuspended = ''suspended''"
| "phase_name StSucceeded = ''succeeded''"
| "phase_name StFailed = ''failed''"
| "phase_name StSkipped = ''skipped''"

lemma phase_class: "toLowerCase (step_phase_text p) = phase_name p"
  by (induct p; code_simp)

lemma node_classes:
  "dom_classes (dom_element ''div'' (props_of (graph_box num s n)) st) =
     [''graph-node'', phase_name (node_phase n)] @
     (if pd_selectedStep s = Some (nd_id n) then [''selected''] else [])"
  "dom_states (dom_element ''div'' (props_of (graph_box num s n)) st) = st"
  "dom_tag (dom_element ''div'' (props_of (graph_box num s n)) st) = ''div''"
proof -
  have "bx_phase (node_box s n) = phase_name (node_phase n)"
    unfolding node_box_def node_phase_def by (cases "nd_status n") (simp_all add: phase_class)
  moreover have "bx_selected (node_box s n) = (pd_selectedStep s = Some (nd_id n))"
    by (simp add: node_box_def)
  ultimately show "dom_classes (dom_element ''div'' (props_of (graph_box num s n)) st) =
     [''graph-node'', phase_name (node_phase n)] @
     (if pd_selectedStep s = Some (nd_id n) then [''selected''] else [])"
    by (cases "node_phase n") (simp_all add: graph_box_def Let_def dom_element_def classes_of_def)
qed (simp_all add: graph_box_def Let_def dom_element_def)

lemma node_look_few:
  "node_look w anc st num s n p =
     winner (dom_element ''pipeline-detail'' [] []) (dom_element ''div'' (props_of (graph_box num s n)) st # anc)
       (filter (may_pick ''div'' node_class_names) (candidates w detail_styles (set_by p)))"
proof -
  have "set (dom_classes (dom_element ''div'' (props_of (graph_box num s n)) st)) \<subseteq> set node_class_names"
    by (cases "node_phase n") (auto simp: node_classes node_class_names_def)
  from winner_may_pick [OF this] show ?thesis
    unfolding node_look_def styled_def node_classes(3) .
qed

text \<open>
  C21: however a node is hovered or selected, and wherever it is on the page, its style sheet draws it as
  large as \<open>renderGraph\<close> takes it to be, borders included, and as the layout engine was told: so the
  edges, whose ends are computed from these numbers, end at the borders one sees.
\<close>

theorem nodes_drawn_as_laid_out:
  "node_look w anc st num s n ''position'' = Some ''absolute'' \<and>
   node_look w anc st num s n ''box-sizing'' = Some ''border-box'' \<and>
   node_look w anc st num s n ''width'' = Some (px \<lfloor>nodeWidth\<rfloor>) \<and>
   node_look w anc st num s n ''height'' = Some (px \<lfloor>nodeHeight\<rfloor>) \<and>
   list_all (\<lambda>c. (of_int (eb_width c), of_int (eb_height c)) = (nodeWidth, nodeHeight)) (en_children (elk_graph g))"
proof -
  have "px \<lfloor>nodeWidth\<rfloor> = ''240px''" "px \<lfloor>nodeHeight\<rfloor> = ''100px''"
    by (simp_all add: nodeWidth_def nodeHeight_def px_values)
  moreover have "list_all (\<lambda>c. (of_int (eb_width c), of_int (eb_height c)) = (nodeWidth, nodeHeight)) (en_children (elk_graph g))"
    by (simp add: elk_graph_def list_all_iff nodeWidth_def nodeHeight_def)
  ultimately show ?thesis
    unfolding node_look_few node_rules
    by (cases "node_phase n") (simp_all add: cascade_compute node_classes)
qed

text \<open>
  The border shows the phase of a step that runs or has ended.  It hides the border of a selected
  node, of which only the shadow is left, and pending, suspended and skipped nodes look alike.
\<close>

theorem node_states_look:
  "node_look w anc st num s n ''border-color'' =
     Some (case node_phase n of
       StSucceeded \<Rightarrow> ''var(--rh-color-green-500, #3e8635)''
     | StRunning \<Rightarrow> ''var(--rh-color-teal-500, #009596)''
     | StFailed \<Rightarrow> ''var(--rh-color-red-500, #c9190b)''
     | _ \<Rightarrow> if pd_selectedStep s = Some (nd_id n) then ''var(--rh-color-interactive-blue-darker, #0066cc)''
         else ''2px solid var(--rh-color-border-subtle-on-light, #d2d2d2)'') \<and>
   node_look w anc st num s n ''box-shadow'' =
     (if pd_selectedStep s = Some (nd_id n) then Some ''0 0 0 2px rgba(0, 102, 204, 0.2)''
      else if ''hover'' \<in> set st then Some ''var(--rh-box-shadow-md, 0 4px 6px -1px rgba(21, 21, 21, 0.1))''
      else None)"
  unfolding node_look_few node_rules
  by (cases "node_phase n"; cases "pd_selectedStep s = Some (nd_id n)"; cases "''hover'' \<in> set st")
    (simp_all add: cascade_compute node_classes)

text \<open>What refuses the mouse on the page: the layer of the edges, and the link to the page itself.\<close>

definition refuses :: "DomElement \<Rightarrow> DomElement list \<Rightarrow> bool" where
  "refuses e anc =
     (''graph-edges'' \<in> set (dom_classes e) \<or>
      dom_tag e = ''a'' \<and> (''aria-current'', ''page'') \<in> set (dom_attrs e) \<and>
        list_ex (\<lambda>f. dom_tag f = ''rh-breadcrumb'') anc)"

lemma above_one: "Css_Cascade.above [c] anc = list_ex (\<lambda>f. list_all (meets f) c) anc"
  by (induction anc) simp_all

lemma detail_hit:
  "hit_by_mouse (detail_screen w states) path = (\<nexists>pre e anc. path = pre @ e # anc \<and> refuses e anc)"
proof -
  have one: "\<forall>c \<in> set (candidates w detail_styles (set_by ''pointer-events'')). decl_value (snd c) = ''none''"
    unfolding detail_pointer by simp
  have "picked w detail_styles h ''pointer-events'' (e # anc) = refuses e anc" for h e anc
    unfolding picked_def detail_pointer by (auto simp: picks_simps refuses_def above_one)
  then show ?thesis
    unfolding hit_by_mouse_def detail_screen_simps inherited_single [OF one] inherited_unset [OF detail_pointer(2)]
    by simp
qed

lemma edges_refuse:
  assumes "''graph-edges'' \<in> set (classes_of ps)"
  shows "mouse_chains (detail_screen w states) pos anc (Elem t ps ls hs) = []"
proof -
  let ?e = "dom_element t ps (states pos)"
  have "refuses ?e anc" using assms by (simp add: refuses_def dom_element_def)
  then have no: "\<forall>pre. \<not> hit_by_mouse (detail_screen w states) (pre @ ?e # anc)"
    unfolding detail_hit by blast
  from no [THEN spec, of "[]"] mouse_chains_below(2) [OF no, of _ "[]" pos 0 hs] show ?thesis
    by (simp add: Let_def detail_screen_def)
qed

text \<open>What has neither of the two above it can be hit where it is.\<close>

definition harmless :: "DomElement \<Rightarrow> bool" where
  "harmless e = (''graph-edges'' \<notin> set (dom_classes e) \<and> dom_tag e \<noteq> ''a'')"

definition hittable :: "Screen \<Rightarrow> 'a Html \<times> 'a listener list list \<Rightarrow> 'a Html \<Rightarrow> bool" where
  "hittable sc x h = (\<forall>pos anc. list_all harmless anc \<longrightarrow> x \<in> set (mouse_chains sc pos anc h))"

lemma harmless_hit: "list_all harmless path \<Longrightarrow> hit_by_mouse (detail_screen w states) path"
  unfolding detail_hit by (auto simp: harmless_def refuses_def)

lemma hittable_self:
  assumes "\<not> disabled ps" and "''graph-edges'' \<notin> set (classes_of ps)" and "t \<noteq> ''a''"
  shows "hittable (detail_screen w states) (Elem t ps ls hs, [ls]) (Elem t ps ls hs)"
  using assms
  by (simp add: hittable_def Let_def detail_displayed harmless_hit harmless_def dom_element_def)

lemma hittable_within:
  assumes "hittable (detail_screen w states) (e, c) h" and "h \<in> set hs"
    and "\<not> disabled ps" and "''graph-edges'' \<notin> set (classes_of ps)" and "t \<noteq> ''a''"
  shows "hittable (detail_screen w states) (e, c @ [[]]) (Elem t ps [] hs)"
proof -
  have "(e, c) \<in> set (mouse_chains_all (detail_screen w states) pos 0 (dom_element t ps st # anc) hs)"
    if "list_all harmless anc" for pos anc st
    using that assms by (intro mouse_chains_member [OF assms(2)]) (simp add: hittable_def harmless_def dom_element_def)
  then show ?thesis
    using assms(3) by (force simp: hittable_def Let_def detail_displayed)
qed

lemma hittable_in:
  assumes "hittable (detail_screen w states) (e, c) h" and "h \<in> set hs"
    and "\<not> disabled ps" and "''graph-edges'' \<notin> set (classes_of ps)" and "t \<noteq> ''a''" and "c' = c @ [[]]"
  shows "hittable (detail_screen w states) (e, c') (Elem t ps [] hs)"
  using hittable_within [OF assms(1-5)] assms(6) by simp

lemma graph_hittable:
  assumes "pd_graph s = Some g" and "n \<in> set (gr_nodes g)"
  shows "hittable (detail_screen w states) (graph_box num s n, [listeners_of (graph_box num s n), [], []])
    (graph_view num s)"
proof -
  let ?box = "graph_box num s n"
  have "hittable (detail_screen w states) (?box, [listeners_of ?box]) ?box"
  proof -
    have "''graph-edges'' \<notin> set (classes_of (props_of ?box))"
      using node_classes(1) [of num s n "[]"] by (cases "node_phase n") (auto simp: dom_element_def)
    moreover obtain ps ls hs where box: "?box = Elem ''div'' ps ls hs" "\<not> disabled ps"
      by (simp add: graph_box_def Let_def disabled_def)
    ultimately show ?thesis by (simp add: hittable_self)
  qed
  show ?thesis unfolding graph_view_def assms(1) option.case Let_def
    by (rule hittable_in, rule hittable_in, fact)
      (use assms(2) in \<open>simp_all add: disabled_def classes_of_def\<close>)
qed

lemma graph_without_edges:
  assumes "x \<in> set (mouse_chains (detail_screen w states) pos anc (graph_view num s))"
  shows "tag_of (fst x) \<notin> {''svg'', ''defs'', ''marker'', ''path''}"
proof (cases "pd_graph s")
  case None
  with assms show ?thesis by (auto simp: graph_view_def Let_def split: if_splits)
next
  case (Some g)
  have boxes: "tag_of (fst y) \<notin> {''svg'', ''defs'', ''marker'', ''path''}"
    if "y \<in> set (mouse_chains_all sc pos' i anc' (map (graph_box num s) ns))" for y sc pos' i anc' ns
  proof -
    from that mouse_chains_in(2) have "y \<in> set (all_chains (map (graph_box num s) ns))" by blast
    then show ?thesis
      by (auto simp: in_all_chains graph_box_def badge_def Let_def disabled_def split: if_splits)
  qed
  have svg: "mouse_chains (detail_screen w states) pos' anc'
      (Elem ''svg'' [Attr ''class'' ''graph-edges'', Attr ''width'' a, Attr ''height'' b] ls hs) = []" for pos' anc' a b ls hs
    by (rule edges_refuse) (simp add: classes_of_def)
  have canvas: "tag_of (fst y) \<notin> {''svg'', ''defs'', ''marker'', ''path''}"
    if "y \<in> set (mouse_chains_all (detail_screen w states) pos' i anc'
      (Elem ''svg'' [Attr ''class'' ''graph-edges'', Attr ''width'' a, Attr ''height'' b] ls hs #
       map (graph_box num s) (gr_nodes g)))" for y pos' i anc' a b ls hs
  proof -
    from that have "y \<in> set (mouse_chains_all (detail_screen w states) pos' (Suc i) anc'
        (map (graph_box num s) (gr_nodes g)))"
      unfolding mouse_chains_all.simps svg by simp
    from boxes [OF this] show ?thesis .
  qed
  from assms show ?thesis unfolding graph_view_def Some option.case Let_def
  proof (cases rule: mouse_chains_cases)
    case (2 e y)
    then have "y \<in> set (mouse_chains (detail_screen w states) (0 # pos) (e # anc)
        (Elem ''div'' [Attr ''class'' ''graph-canvas'', Attr ''style'' (''width: '' @ num (fst (canvas_size g)) @
            ''px; height: '' @ num (snd (canvas_size g)) @ ''px;'')] []
          (Elem ''svg'' [Attr ''class'' ''graph-edges'', Attr ''width'' (num (fst (canvas_size g))),
              Attr ''height'' (num (snd (canvas_size g)))] []
            (node ''defs'' [graph_marker ''arrow'' ''graph-arrow'', graph_marker ''arrow-success'' ''graph-arrow success'',
               graph_marker ''arrow-failure'' ''graph-arrow failure''] # map (edge_path num) (graph_lines g)) #
           map (graph_box num s) (gr_nodes g))))"
      by simp
    then show ?thesis
    proof (cases rule: mouse_chains_cases)
      case 1
      with 2(2) show ?thesis by simp
    next
      case inner: (2 f z)
      from canvas [OF inner(1)] show ?thesis using inner(2) 2(2) by simp
    qed
  qed simp
qed



end
