(* ===== verification/Builder_Styles.thy ===== *)
theory Builder_Styles
  imports Css_Cascade
begin

section \<open>The style sheets of the builder\<close>

text \<open>
  The sheets of \<open>components/builder\<close>, rule by rule in their order.
\<close>

subsection \<open>\<open>builder/global-settings.ts\<close>\<close>

definition settings_tabs_style :: "CssItem list" where
  "settings_tabs_style =
     [Rule [on_host [] []]
        [Decl ''display'' ''block''],
      Rule [sel [[Class ''tabs'']]]
        [Decl ''display'' ''flex'', Decl ''gap'' ''var(--rh-space-xs, 4px)'',
         Decl ''margin-block-end'' ''var(--rh-space-lg, 24px)'',
         Decl ''border-block-end'' ''var(--rh-border-width-sm, 1px) solid var(--rh-color-border-subtle-on-light, #d2d2d2)''],
      Rule [sel [[Class ''tab'']]]
        [Decl ''padding'' ''var(--rh-space-sm, 8px) var(--rh-space-md, 16px)'',
         Decl ''background'' ''none'', Decl ''border'' ''none'',
         Decl ''border-block-end'' ''2px solid transparent'',
         Decl ''font-size'' ''var(--rh-font-size-body-text-sm, 0.875rem)'',
         Decl ''font-family'' ''var(--rh-font-family-body-text, 'Red Hat Text', sans-serif)'',
         Decl ''color'' ''var(--rh-color-text-secondary-on-light, #6a6e73)'',
         Decl ''cursor'' ''pointer'', Decl ''transition'' ''all 150ms ease''],
      Rule [sel [[Class ''tab'', Pseudo ''hover'']]]
        [Decl ''color'' ''var(--rh-color-text-primary-on-light, #151515)''],
      Rule [sel [[Class ''tab'', Pseudo ''focus-visible'']]]
        [Decl ''outline'' ''var(--rh-border-width-md, 2px) solid var(--rh-color-interactive-blue-darker, #0066cc)'',
         Decl ''outline-offset'' ''-2px''],
      Rule [sel [[Class ''tab'', Class ''active'']]]
        [Decl ''color'' ''var(--rh-color-interactive-blue-darker, #0066cc)'',
         Decl ''border-block-end-color'' ''var(--rh-color-interactive-blue-darker, #0066cc)'']]"

definition settings_fields_style :: "CssItem list" where
  "settings_fields_style =
     [Rule [sel [[Class ''form-group'']]]
        [Decl ''margin-block-end'' ''var(--rh-space-md, 16px)''],
      Rule [sel [[Tag ''label'']]]
        [Decl ''display'' ''block'', Decl ''margin-block-end'' ''var(--rh-space-xs, 4px)'',
         Decl ''font-size'' ''var(--rh-font-size-body-text-sm, 0.875rem)'',
         Decl ''font-weight'' ''var(--rh-font-weight-body-text-medium, 500)'',
         Decl ''color'' ''var(--rh-color-text-primary-on-light, #151515)''],
      Rule [sel [[Class ''label-hint'']]]
        [Decl ''font-weight'' ''normal'',
         Decl ''color'' ''var(--rh-color-text-secondary-on-light, #6a6e73)'',
         Decl ''font-size'' ''var(--rh-font-size-body-text-xs, 0.75rem)''],
      Rule [sel [[Tag ''input'', AttrIs ''type'' ''text'']],
            sel [[Tag ''input'', AttrIs ''type'' ''number'']], sel [[Tag ''select'']]]
        [Decl ''width'' ''100%'', Decl ''padding'' ''var(--rh-space-sm, 8px)'',
         Decl ''border'' ''var(--rh-border-width-sm, 1px) solid var(--rh-color-border-subtle-on-light, #d2d2d2)'',
         Decl ''border-radius'' ''var(--rh-border-radius-default, 3px)'',
         Decl ''font-size'' ''var(--rh-font-size-body-text-sm, 0.875rem)'',
         Decl ''font-family'' ''var(--rh-font-family-body-text, 'Red Hat Text', sans-serif)'',
         Decl ''transition'' ''border-color 150ms ease''],
      Rule [sel [[Tag ''input'', Pseudo ''focus'']], sel [[Tag ''select'', Pseudo ''focus'']]]
        [Decl ''outline'' ''none'',
         Decl ''border-color'' ''var(--rh-color-interactive-blue-darker, #0066cc)'',
         Decl ''box-shadow'' ''0 0 0 1px var(--rh-color-interactive-blue-darker, #0066cc)''],
      Rule [sel [[Class ''checkbox-row'']]]
        [Decl ''display'' ''flex'', Decl ''align-items'' ''center'',
         Decl ''gap'' ''var(--rh-space-sm, 8px)'',
         Decl ''margin-block-end'' ''var(--rh-space-md, 16px)''],
      Rule [sel [[Class ''checkbox-row''], [Tag ''input'']]]
        [Decl ''width'' ''auto''],
      Rule [sel [[Class ''checkbox-row''], [Tag ''label'']]]
        [Decl ''margin'' ''0'', Decl ''font-weight'' ''normal'']]"

definition settings_rows_style :: "CssItem list" where
  "settings_rows_style =
     [Rule [sel [[Class ''env-list'']]]
        [Decl ''display'' ''flex'', Decl ''flex-direction'' ''column'',
         Decl ''gap'' ''var(--rh-space-sm, 8px)''],
      Rule [sel [[Class ''env-row'']]]
        [Decl ''display'' ''grid'', Decl ''grid-template-columns'' ''1fr 1fr auto'',
         Decl ''gap'' ''var(--rh-space-sm, 8px)'', Decl ''align-items'' ''start''],
      Rule [sel [[Class ''icon-btn'']]]
        [Decl ''display'' ''inline-flex'', Decl ''align-items'' ''center'',
         Decl ''justify-content'' ''center'', Decl ''padding'' ''var(--rh-space-sm, 8px)'',
         Decl ''border'' ''var(--rh-border-width-sm, 1px) solid var(--rh-color-border-subtle-on-light, #d2d2d2)'',
         Decl ''border-radius'' ''var(--rh-border-radius-default, 3px)'',
         Decl ''background'' ''var(--rh-color-surface-lightest, #ffffff)'',
         Decl ''cursor'' ''pointer'', Decl ''transition'' ''all 150ms ease''],
      Rule [sel [[Class ''icon-btn'', Pseudo ''hover'']]]
        [Decl ''background'' ''var(--rh-color-surface-lighter, #f5f5f5)''],
      Rule [sel [[Class ''icon-btn'', Pseudo ''focus-visible'']]]
        [Decl ''outline'' ''var(--rh-border-width-md, 2px) solid var(--rh-color-interactive-blue-darker, #0066cc)'',
         Decl ''outline-offset'' ''2px''],
      Rule [sel [[Class ''icon-btn'', Class ''danger'', Pseudo ''hover'']]]
        [Decl ''background'' ''var(--rh-color-red-100, #fce8e6)'',
         Decl ''border-color'' ''var(--rh-color-red-500, #c9190b)'',
         Decl ''color'' ''var(--rh-color-red-700, #a30d05)''],
      Rule [sel [[Class ''icon-btn''], [Tag ''rh-icon'']]]
        [Decl ''--rh-icon-size'' ''16px''],
      Rule [sel [[Class ''section-info'']]]
        [Decl ''padding'' ''var(--rh-space-md, 16px)'',
         Decl ''background'' ''var(--rh-color-surface-lighter, #f5f5f5)'',
         Decl ''border-radius'' ''var(--rh-border-radius-default, 3px)'',
         Decl ''font-size'' ''var(--rh-font-size-body-text-sm, 0.875rem)'',
         Decl ''color'' ''var(--rh-color-text-secondary-on-light, #6a6e73)'',
         Decl ''margin-block-end'' ''var(--rh-space-lg, 24px)''],
      Rule [sel [[Class ''section-info''], [Tag ''rh-icon'']]]
        [Decl ''--rh-icon-size'' ''16px'', Decl ''vertical-align'' ''middle'',
         Decl ''margin-inline-end'' ''var(--rh-space-xs, 4px)''],
      Rule [sel [[Class ''pvc-selector-row'']]]
        [Decl ''display'' ''flex'', Decl ''gap'' ''var(--rh-space-sm, 8px)'',
         Decl ''align-items'' ''stretch''],
      Rule [sel [[Class ''pvc-selector-row''], [Tag ''select'']],
            sel [[Class ''pvc-selector-row''], [Tag ''input'']]]
        [Decl ''flex'' ''1''],
      Rule [sel [[Class ''pvc-selector-row''], [Class ''icon-btn'']]]
        [Decl ''flex-shrink'' ''0''],
      Rule [sel [[Class ''pvc-selector-row''], [Class ''icon-btn'', Class ''loading'']]]
        [Decl ''opacity'' ''0.6'', Decl ''pointer-events'' ''none''],
      Keyframes ''spin''
        [([''from''], [Decl ''transform'' ''rotate(0deg)'']),
         ([''to''], [Decl ''transform'' ''rotate(360deg)''])],
      Rule [sel [[Class ''pvc-selector-row''], [Class ''icon-btn'', Class ''loading''], [Tag ''rh-icon'']]]
        [Decl ''animation'' ''spin 1s linear infinite'']]"

definition settings_styles :: "CssItem list" where
  "settings_styles =
     settings_tabs_style @ settings_fields_style @ settings_rows_style"

subsection \<open>\<open>builder/step-editor.ts\<close>\<close>

definition step_fields_style :: "CssItem list" where
  "step_fields_style =
     [Rule [on_host [] []]
        [Decl ''display'' ''flex'', Decl ''flex-direction'' ''column'', Decl ''height'' ''100%'',
         Decl ''width'' ''100%'', Decl ''min-height'' ''0'', Decl ''box-sizing'' ''border-box''],
      Rule [sel [[Class ''form-group'']]]
        [Decl ''margin-block-end'' ''var(--rh-space-md, 16px)'', Decl ''width'' ''100%'',
         Decl ''box-sizing'' ''border-box''],
      Rule [sel [[Class ''form-group'', Class ''flex-grow'']]]
        [Decl ''flex'' ''1'', Decl ''display'' ''flex'', Decl ''flex-direction'' ''column'',
         Decl ''min-height'' ''0''],
      Rule [sel [[Class ''form-group'', Class ''flex-grow''], [Tag ''textarea'']]]
        [Decl ''flex'' ''1'', Decl ''min-height'' ''200px''],
      Rule [sel [[Tag ''label'']]]
        [Decl ''display'' ''block'', Decl ''margin-block-end'' ''var(--rh-space-xs, 4px)'',
         Decl ''font-size'' ''var(--rh-font-size-body-text-sm, 0.875rem)'',
         Decl ''font-weight'' ''var(--rh-font-weight-body-text-medium, 500)'',
         Decl ''color'' ''var(--rh-color-text-primary-on-light, #151515)''],
      Rule [sel [[Class ''label-optional'']]]
        [Decl ''font-weight'' ''normal'',
         Decl ''color'' ''var(--rh-color-text-secondary-on-light, #6a6e73)''],
      Rule [sel [[Tag ''input'', AttrIs ''type'' ''text'']],
            sel [[Tag ''input'', AttrIs ''type'' ''number'']], sel [[Tag ''textarea'']],
            sel [[Tag ''select'']]]
        [Decl ''width'' ''100%'', Decl ''padding'' ''var(--rh-space-sm, 8px)'',
         Decl ''border'' ''var(--rh-border-width-sm, 1px) solid var(--rh-color-border-subtle-on-light, #d2d2d2)'',
         Decl ''border-radius'' ''var(--rh-border-radius-default, 3px)'',
         Decl ''font-size'' ''var(--rh-font-size-body-text-sm, 0.875rem)'',
         Decl ''font-family'' ''var(--rh-font-family-body-text, 'Red Hat Text', sans-serif)'',
         Decl ''transition'' ''border-color 150ms ease'', Decl ''box-sizing'' ''border-box''],
      Rule [sel [[Tag ''input'', Pseudo ''focus'']], sel [[Tag ''textarea'', Pseudo ''focus'']],
            sel [[Tag ''select'', Pseudo ''focus'']]]
        [Decl ''outline'' ''none'',
         Decl ''border-color'' ''var(--rh-color-interactive-blue-darker, #0066cc)'',
         Decl ''box-shadow'' ''0 0 0 1px var(--rh-color-interactive-blue-darker, #0066cc)''],
      Rule [sel [[Tag ''input'', Class ''error'']]]
        [Decl ''border-color'' ''var(--rh-color-red-500, #c9190b)''],
      Rule [sel [[Tag ''input'', Class ''error'', Pseudo ''focus'']]]
        [Decl ''box-shadow'' ''0 0 0 1px var(--rh-color-red-500, #c9190b)''],
      Rule [sel [[Class ''error-text'']]]
        [Decl ''font-size'' ''var(--rh-font-size-body-text-xs, 0.75rem)'',
         Decl ''color'' ''var(--rh-color-red-700, #a30d05)'',
         Decl ''margin-block-start'' ''var(--rh-space-xs, 4px)''],
      Rule [sel [[Tag ''textarea'']]]
        [Decl ''font-family'' ''var(--rh-font-family-code, 'Red Hat Mono', monospace)'',
         Decl ''min-height'' ''120px'', Decl ''resize'' ''vertical'']]"

definition step_rows_style :: "CssItem list" where
  "step_rows_style =
     [Rule [sel [[Class ''section-header'']]]
        [Decl ''display'' ''flex'', Decl ''align-items'' ''center'',
         Decl ''gap'' ''var(--rh-space-sm, 8px)'',
         Decl ''margin'' ''var(--rh-space-lg, 24px) 0 var(--rh-space-md, 16px) 0'',
         Decl ''padding-block-end'' ''var(--rh-space-sm, 8px)'',
         Decl ''border-block-end'' ''var(--rh-border-width-sm, 1px) solid var(--rh-color-border-subtle-on-light, #d2d2d2)''],
      Rule [sel [[Class ''section-header''], [Tag ''h4'']]]
        [Decl ''margin'' ''0'',
         Decl ''font-family'' ''var(--rh-font-family-heading, 'Red Hat Display', sans-serif)'',
         Decl ''font-size'' ''var(--rh-font-size-body-text-md, 1rem)'',
         Decl ''font-weight'' ''var(--rh-font-weight-heading-medium, 500)''],
      Rule [sel [[Class ''env-list'']]]
        [Decl ''display'' ''flex'', Decl ''flex-direction'' ''column'',
         Decl ''gap'' ''var(--rh-space-sm, 8px)''],
      Rule [sel [[Class ''env-row'']]]
        [Decl ''display'' ''grid'', Decl ''grid-template-columns'' ''1fr 1fr auto'',
         Decl ''gap'' ''var(--rh-space-sm, 8px)'', Decl ''align-items'' ''start''],
      Rule [sel [[Class ''env-row''], [Tag ''input'']]]
        [Decl ''width'' ''100%''],
      Rule [sel [[Class ''icon-btn'']]]
        [Decl ''display'' ''inline-flex'', Decl ''align-items'' ''center'',
         Decl ''justify-content'' ''center'', Decl ''padding'' ''var(--rh-space-sm, 8px)'',
         Decl ''border'' ''var(--rh-border-width-sm, 1px) solid var(--rh-color-border-subtle-on-light, #d2d2d2)'',
         Decl ''border-radius'' ''var(--rh-border-radius-default, 3px)'',
         Decl ''background'' ''var(--rh-color-surface-lightest, #ffffff)'',
         Decl ''cursor'' ''pointer'', Decl ''transition'' ''all 150ms ease''],
      Rule [sel [[Class ''icon-btn'', Pseudo ''hover'']]]
        [Decl ''background'' ''var(--rh-color-surface-lighter, #f5f5f5)''],
      Rule [sel [[Class ''icon-btn'', Pseudo ''focus-visible'']]]
        [Decl ''outline'' ''var(--rh-border-width-md, 2px) solid var(--rh-color-interactive-blue-darker, #0066cc)'',
         Decl ''outline-offset'' ''2px''],
      Rule [sel [[Class ''icon-btn'', Class ''danger'', Pseudo ''hover'']]]
        [Decl ''background'' ''var(--rh-color-red-100, #fce8e6)'',
         Decl ''border-color'' ''var(--rh-color-red-500, #c9190b)'',
         Decl ''color'' ''var(--rh-color-red-700, #a30d05)''],
      Rule [sel [[Class ''icon-btn''], [Tag ''rh-icon'']]]
        [Decl ''--rh-icon-size'' ''16px'']]"

definition step_sections_style :: "CssItem list" where
  "step_sections_style =
     [Rule [sel [[Class ''accordion'']]]
        [Decl ''margin-block-start'' ''var(--rh-space-lg, 24px)'', Decl ''width'' ''100%'',
         Decl ''border'' ''var(--rh-border-width-sm, 1px) solid var(--rh-color-border-subtle-on-light, #d2d2d2)'',
         Decl ''border-radius'' ''var(--rh-border-radius-default, 3px)'', Decl ''overflow'' ''hidden'',
         Decl ''box-sizing'' ''border-box''],
      Rule [sel [[Class ''accordion-header'']]]
        [Decl ''display'' ''flex'', Decl ''align-items'' ''center'',
         Decl ''gap'' ''var(--rh-space-sm, 8px)'', Decl ''width'' ''100%'',
         Decl ''padding'' ''var(--rh-space-sm, 8px) var(--rh-space-md, 16px)'',
         Decl ''background'' ''var(--rh-color-surface-lighter, #f5f5f5)'', Decl ''border'' ''none'',
         Decl ''font-size'' ''var(--rh-font-size-body-text-sm, 0.875rem)'',
         Decl ''font-family'' ''var(--rh-font-family-body-text, 'Red Hat Text', sans-serif)'',
         Decl ''font-weight'' ''var(--rh-font-weight-body-text-medium, 500)'',
         Decl ''color'' ''var(--rh-color-text-primary-on-light, #151515)'',
         Decl ''cursor'' ''pointer'', Decl ''text-align'' ''left''],
      Rule [sel [[Class ''accordion-header'', Pseudo ''hover'']]]
        [Decl ''background'' ''var(--rh-color-surface-light, #e0e0e0)''],
      Rule [sel [[Class ''accordion-header'', Pseudo ''focus'']]]
        [Decl ''outline'' ''none''],
      Rule [sel [[Class ''accordion-header''], [Class ''chevron'']]]
        [Decl ''display'' ''inline-block'', Decl ''width'' ''0'', Decl ''height'' ''0'',
         Decl ''border-top'' ''5px solid transparent'',
         Decl ''border-bottom'' ''5px solid transparent'',
         Decl ''border-left'' ''6px solid currentColor'', Decl ''transition'' ''transform 150ms ease''],
      Rule [sel [[Class ''accordion-header''], [Class ''chevron'', Class ''open'']]]
        [Decl ''transform'' ''rotate(90deg)''],
      Rule [sel [[Class ''accordion-content'']]]
        [Decl ''padding'' ''var(--rh-space-md, 16px)'',
         Decl ''border-block-start'' ''var(--rh-border-width-sm, 1px) solid var(--rh-color-border-subtle-on-light, #d2d2d2)''],
      Rule [sel [[Class ''accordion-content''], [Class ''form-group'']]]
        [Decl ''margin-block-end'' ''var(--rh-space-md, 16px)''],
      Rule [sel [[Class ''accordion-content''], [Class ''form-group'', Pseudo ''last-child'']]]
        [Decl ''margin-block-end'' ''0'']]"

definition step_choices_style :: "CssItem list" where
  "step_choices_style =
     [Rule [sel [[Class ''runif-section'']]]
        [Decl ''padding'' ''var(--rh-space-md, 16px)'',
         Decl ''background'' ''var(--rh-color-surface-lighter, #f5f5f5)'',
         Decl ''border-radius'' ''var(--rh-border-radius-default, 3px)'',
         Decl ''margin-block-start'' ''var(--rh-space-sm, 8px)''],
      Rule [sel [[Class ''checkbox-group'']]]
        [Decl ''display'' ''flex'', Decl ''flex-wrap'' ''wrap'',
         Decl ''gap'' ''var(--rh-space-sm, 8px)''],
      Rule [sel [[Class ''checkbox-label'']]]
        [Decl ''display'' ''inline-flex'', Decl ''align-items'' ''center'',
         Decl ''gap'' ''var(--rh-space-xs, 4px)'',
         Decl ''padding'' ''var(--rh-space-xs, 4px) var(--rh-space-sm, 8px)'',
         Decl ''background'' ''var(--rh-color-surface-lightest, #ffffff)'',
         Decl ''border'' ''var(--rh-border-width-sm, 1px) solid var(--rh-color-border-subtle-on-light, #d2d2d2)'',
         Decl ''border-radius'' ''var(--rh-border-radius-default, 3px)'', Decl ''cursor'' ''pointer'',
         Decl ''font-size'' ''var(--rh-font-size-body-text-sm, 0.875rem)'',
         Decl ''transition'' ''all 150ms ease''],
      Rule [sel [[Class ''checkbox-label'', Pseudo ''hover'']]]
        [Decl ''background'' ''var(--rh-color-surface-light, #e0e0e0)''],
      Rule [sel [[Class ''checkbox-label'', HasInside ''input'' ''checked'']]]
        [Decl ''background'' ''var(--rh-color-blue-50, #e7f1fa)'',
         Decl ''border-color'' ''var(--rh-color-interactive-blue-darker, #0066cc)''],
      Rule [sel [[Class ''checkbox-label''], [Tag ''input'']]]
        [Decl ''width'' ''auto'', Decl ''margin'' ''0''],
      Rule [sel [[Class ''radio-group'']]]
        [Decl ''display'' ''flex'', Decl ''gap'' ''var(--rh-space-md, 16px)''],
      Rule [sel [[Class ''radio-label'']]]
        [Decl ''display'' ''inline-flex'', Decl ''align-items'' ''center'',
         Decl ''gap'' ''var(--rh-space-xs, 4px)'',
         Decl ''font-size'' ''var(--rh-font-size-body-text-sm, 0.875rem)'', Decl ''cursor'' ''pointer''],
      Rule [sel [[Class ''radio-label''], [Tag ''input'']]]
        [Decl ''width'' ''auto'', Decl ''margin'' ''0''],
      Rule [sel [[Class ''actions-section'']]]
        [Decl ''display'' ''flex'', Decl ''justify-content'' ''space-between'',
         Decl ''gap'' ''var(--rh-space-md, 16px)'',
         Decl ''margin-block-start'' ''var(--rh-space-xl, 32px)'',
         Decl ''padding-block-start'' ''var(--rh-space-lg, 24px)'',
         Decl ''border-block-start'' ''var(--rh-border-width-sm, 1px) solid var(--rh-color-border-subtle-on-light, #d2d2d2)'']]"

definition step_secrets_style :: "CssItem list" where
  "step_secrets_style =
     [Rule [sel [[Class ''secret-selector-row'']]]
        [Decl ''display'' ''flex'', Decl ''gap'' ''var(--rh-space-sm, 8px)'',
         Decl ''align-items'' ''stretch''],
      Rule [sel [[Class ''secret-selector-row''], [Tag ''select'']]]
        [Decl ''flex'' ''1''],
      Rule [sel [[Class ''secret-selector-row''], [Class ''icon-btn'']]]
        [Decl ''flex-shrink'' ''0''],
      Rule [sel [[Class ''secret-selector-row''], [Class ''icon-btn'', Class ''loading'']]]
        [Decl ''opacity'' ''0.6'', Decl ''pointer-events'' ''none''],
      Keyframes ''spin''
        [([''from''], [Decl ''transform'' ''rotate(0deg)'']),
         ([''to''], [Decl ''transform'' ''rotate(360deg)''])],
      Rule [sel [[Class ''secret-selector-row''], [Class ''icon-btn'', Class ''loading''], [Tag ''rh-icon'']]]
        [Decl ''animation'' ''spin 1s linear infinite''],
      Rule [sel [[Class ''envfrom-list'']]]
        [Decl ''display'' ''flex'', Decl ''flex-direction'' ''column'',
         Decl ''gap'' ''var(--rh-space-sm, 8px)''],
      Rule [sel [[Class ''envfrom-item'']]]
        [Decl ''display'' ''flex'', Decl ''align-items'' ''center'',
         Decl ''gap'' ''var(--rh-space-sm, 8px)'', Decl ''padding'' ''var(--rh-space-sm, 8px)'',
         Decl ''background'' ''var(--rh-color-surface-lighter, #f5f5f5)'',
         Decl ''border-radius'' ''var(--rh-border-radius-default, 3px)''],
      Rule [sel [[Class ''envfrom-item''], [Tag ''rh-tag'']]]
        [Decl ''font-family'' ''var(--rh-font-family-code, 'Red Hat Mono', monospace)''],
      Rule [sel [[Class ''envfrom-item''], [Class ''secret-name'']]]
        [Decl ''flex'' ''1'',
         Decl ''font-family'' ''var(--rh-font-family-code, 'Red Hat Mono', monospace)'',
         Decl ''font-size'' ''var(--rh-font-size-body-text-sm, 0.875rem)'']]"

definition step_editor_styles :: "CssItem list" where
  "step_editor_styles =
     step_fields_style @ step_rows_style @ step_sections_style @ step_choices_style @ step_secrets_style"

subsection \<open>\<open>builder/pipeline-canvas.ts\<close>\<close>

definition canvas_header_style :: "CssItem list" where
  "canvas_header_style =
     [Rule [on_host [] []]
        [Decl ''display'' ''block''],
      Rule [sel [[Class ''error-banner'']]]
        [Decl ''display'' ''flex'', Decl ''align-items'' ''center'',
         Decl ''gap'' ''var(--rh-space-sm, 8px)'', Decl ''padding'' ''var(--rh-space-md, 16px)'',
         Decl ''background'' ''var(--rh-color-red-100, #fce8e6)'',
         Decl ''border'' ''var(--rh-border-width-sm, 1px) solid var(--rh-color-red-500, #c9190b)'',
         Decl ''border-radius'' ''var(--rh-border-radius-default, 3px)'',
         Decl ''color'' ''var(--rh-color-red-700, #a30d05)'',
         Decl ''margin-block-end'' ''var(--rh-space-lg, 24px)''],
      Rule [sel [[Class ''error-banner''], [Tag ''rh-icon'']]]
        [Decl ''--rh-icon-size'' ''20px''],
      Rule [sel [[Class ''header'']]]
        [Decl ''display'' ''flex'', Decl ''justify-content'' ''space-between'',
         Decl ''align-items'' ''center'', Decl ''margin-block-end'' ''var(--rh-space-xl, 32px)'',
         Decl ''flex-wrap'' ''wrap'', Decl ''gap'' ''var(--rh-space-md, 16px)''],
      Rule [sel [[Class ''header-left'']]]
        [Decl ''display'' ''flex'', Decl ''align-items'' ''center'',
         Decl ''gap'' ''var(--rh-space-md, 16px)''],
      Rule [sel [[Class ''pipeline-name-group'']]]
        [Decl ''display'' ''flex'', Decl ''flex-direction'' ''column'',
         Decl ''gap'' ''var(--rh-space-xs, 4px)''],
      Rule [sel [[Class ''pipeline-name-label'']]]
        [Decl ''display'' ''flex'', Decl ''align-items'' ''center'',
         Decl ''gap'' ''var(--rh-space-xs, 4px)'',
         Decl ''font-size'' ''var(--rh-font-size-body-text-sm, 0.875rem)'',
         Decl ''font-weight'' ''var(--rh-font-weight-body-text-medium, 500)'',
         Decl ''color'' ''var(--rh-color-text-primary-on-light, #151515)''],
      Rule [sel [[Class ''required-indicator'']]]
        [Decl ''color'' ''var(--rh-color-red-500, #c9190b)'',
         Decl ''font-weight'' ''var(--rh-font-weight-body-text-bold, 700)''],
      Rule [sel [[Class ''pipeline-name-input'']]]
        [Decl ''padding'' ''var(--rh-space-sm, 8px)'',
         Decl ''border'' ''var(--rh-border-width-sm, 1px) solid var(--rh-color-border-subtle-on-light, #d2d2d2)'',
         Decl ''border-radius'' ''var(--rh-border-radius-default, 3px)'',
         Decl ''font-size'' ''var(--rh-font-size-body-text-md, 1rem)'',
         Decl ''font-family'' ''var(--rh-font-family-body-text, 'Red Hat Text', sans-serif)'',
         Decl ''font-weight'' ''normal'', Decl ''min-width'' ''250px'',
         Decl ''transition'' ''border-color 150ms ease''],
      Rule [sel [[Class ''pipeline-name-input'', Pseudo ''focus'']]]
        [Decl ''outline'' ''none'',
         Decl ''border-color'' ''var(--rh-color-interactive-blue-darker, #0066cc)'',
         Decl ''box-shadow'' ''0 0 0 1px var(--rh-color-interactive-blue-darker, #0066cc)''],
      Rule [sel [[Class ''pipeline-name-input'', Class ''error'']]]
        [Decl ''border-color'' ''var(--rh-color-red-500, #c9190b)''],
      Rule [sel [[Class ''pipeline-name-input'', Class ''error'', Pseudo ''focus'']]]
        [Decl ''box-shadow'' ''0 0 0 1px var(--rh-color-red-500, #c9190b)''],
      Rule [sel [[Class ''name-error-text'']]]
        [Decl ''font-size'' ''var(--rh-font-size-body-text-xs, 0.75rem)'',
         Decl ''color'' ''var(--rh-color-red-700, #a30d05)''],
      Rule [sel [[Class ''header-actions'']]]
        [Decl ''display'' ''flex'', Decl ''gap'' ''var(--rh-space-sm, 8px)'',
         Decl ''align-items'' ''center''],
      Rule [sel [[Class ''view-switch'']]]
        [Decl ''display'' ''flex'', Decl ''align-items'' ''center'',
         Decl ''gap'' ''var(--rh-space-sm, 8px)'',
         Decl ''margin-inline-start'' ''var(--rh-space-lg, 24px)''],
      Rule [sel [[Class ''view-switch-label'']]]
        [Decl ''font-size'' ''var(--rh-font-size-body-text-sm, 0.875rem)'',
         Decl ''color'' ''var(--rh-color-text-secondary-on-light, #6a6e73)'']]"

definition canvas_yaml_style :: "CssItem list" where
  "canvas_yaml_style =
     [Rule [sel [[Class ''yaml-editor-container'']]]
        [Decl ''flex'' ''1'', Decl ''display'' ''flex'', Decl ''flex-direction'' ''column'',
         Decl ''background'' ''var(--rh-color-surface-lightest, #ffffff)'',
         Decl ''border'' ''var(--rh-border-width-sm, 1px) solid var(--rh-color-border-subtle-on-light, #d2d2d2)'',
         Decl ''border-radius'' ''var(--rh-border-radius-default, 3px)'', Decl ''overflow'' ''hidden''],
      Rule [sel [[Class ''yaml-editor-container''], [Tag ''code-editor'']]]
        [Decl ''flex'' ''1'', Decl ''min-height'' ''500px''],
      Rule [sel [[Class ''yaml-error-banner'']]]
        [Decl ''display'' ''flex'', Decl ''align-items'' ''center'',
         Decl ''gap'' ''var(--rh-space-sm, 8px)'',
         Decl ''padding'' ''var(--rh-space-sm, 8px) var(--rh-space-md, 16px)'',
         Decl ''background'' ''var(--rh-color-orange-100, #fef3e2)'',
         Decl ''border-block-end'' ''var(--rh-border-width-sm, 1px) solid var(--rh-color-orange-500, #f4b740)'',
         Decl ''color'' ''var(--rh-color-orange-700, #8a5b00)'',
         Decl ''font-size'' ''var(--rh-font-size-body-text-sm, 0.875rem)''],
      Rule [sel [[Class ''yaml-error-banner''], [Tag ''rh-icon'']]]
        [Decl ''--rh-icon-size'' ''16px'', Decl ''flex-shrink'' ''0'']]"

definition canvas_sidebar_style :: "CssItem list" where
  "canvas_sidebar_style =
     [Rule [sel [[Class ''workspace'']]]
        [Decl ''display'' ''grid'', Decl ''grid-template-columns'' ''280px 1fr'',
         Decl ''gap'' ''var(--rh-space-lg, 24px)'', Decl ''min-height'' ''600px''],
      MaxWidth 900
        [([sel [[Class ''workspace'']]],
          [Decl ''grid-template-columns'' ''1fr''])],
      Rule [sel [[Class ''sidebar'']]]
        [Decl ''background'' ''var(--rh-color-surface-lighter, #f5f5f5)'',
         Decl ''border'' ''var(--rh-border-width-sm, 1px) solid var(--rh-color-border-subtle-on-light, #d2d2d2)'',
         Decl ''border-radius'' ''var(--rh-border-radius-default, 3px)'',
         Decl ''padding'' ''var(--rh-space-lg, 24px)''],
      Rule [sel [[Class ''sidebar''], [Tag ''h3'']]]
        [Decl ''margin'' ''0 0 var(--rh-space-md, 16px) 0'',
         Decl ''font-family'' ''var(--rh-font-family-heading, 'Red Hat Display', sans-serif)'',
         Decl ''font-size'' ''var(--rh-font-size-body-text-sm, 0.875rem)'',
         Decl ''font-weight'' ''var(--rh-font-weight-heading-medium, 500)'',
         Decl ''color'' ''var(--rh-color-text-secondary-on-light, #6a6e73)'',
         Decl ''text-transform'' ''uppercase'', Decl ''letter-spacing'' ''0.5px''],
      Rule [sel [[Class ''step-templates'']]]
        [Decl ''display'' ''flex'', Decl ''flex-direction'' ''column'',
         Decl ''gap'' ''var(--rh-space-sm, 8px)''],
      Rule [sel [[Class ''step-template'']]]
        [Decl ''display'' ''flex'', Decl ''align-items'' ''center'',
         Decl ''gap'' ''var(--rh-space-sm, 8px)'', Decl ''padding'' ''var(--rh-space-md, 16px)'',
         Decl ''background'' ''var(--rh-color-surface-lightest, #ffffff)'',
         Decl ''border'' ''var(--rh-border-width-sm, 1px) dashed var(--rh-color-border-subtle-on-light, #d2d2d2)'',
         Decl ''border-radius'' ''var(--rh-border-radius-default, 3px)'', Decl ''cursor'' ''grab'',
         Decl ''transition'' ''all 150ms ease''],
      Rule [sel [[Class ''step-template'', Pseudo ''hover'']]]
        [Decl ''border-color'' ''var(--rh-color-interactive-blue-darker, #0066cc)'',
         Decl ''background'' ''var(--rh-color-blue-50, #e7f1fa)''],
      Rule [sel [[Class ''step-template'', Pseudo ''active'']]]
        [Decl ''cursor'' ''grabbing''],
      Rule [sel [[Class ''step-template'', Pseudo ''focus-visible'']]]
        [Decl ''outline'' ''var(--rh-border-width-md, 2px) solid var(--rh-color-interactive-blue-darker, #0066cc)'',
         Decl ''outline-offset'' ''2px''],
      Rule [sel [[Class ''step-template-icon'']]]
        [Decl ''display'' ''flex'', Decl ''align-items'' ''center'',
         Decl ''justify-content'' ''center'', Decl ''width'' ''40px'', Decl ''height'' ''40px'',
         Decl ''background'' ''var(--rh-color-surface-lighter, #f5f5f5)'',
         Decl ''border-radius'' ''var(--rh-border-radius-default, 3px)'',
         Decl ''color'' ''var(--rh-color-text-secondary-on-light, #6a6e73)''],
      Rule [sel [[Class ''step-template-icon''], [Tag ''rh-icon'']]]
        [Decl ''--rh-icon-size'' ''20px''],
      Rule [sel [[Class ''step-template-info''], [Tag ''h4'']]]
        [Decl ''margin'' ''0'', Decl ''font-size'' ''var(--rh-font-size-body-text-md, 1rem)'',
         Decl ''font-weight'' ''var(--rh-font-weight-body-text-medium, 500)''],
      Rule [sel [[Class ''step-template-info''], [Tag ''p'']]]
        [Decl ''margin'' ''0'', Decl ''font-size'' ''var(--rh-font-size-body-text-xs, 0.75rem)'',
         Decl ''color'' ''var(--rh-color-text-secondary-on-light, #6a6e73)'']]"

definition canvas_area_style :: "CssItem list" where
  "canvas_area_style =
     [Rule [sel [[Class ''canvas'']]]
        [Decl ''background'' ''var(--rh-color-surface-lightest, #ffffff)'',
         Decl ''border'' ''2px dashed var(--rh-color-border-subtle-on-light, #d2d2d2)'',
         Decl ''border-radius'' ''var(--rh-border-radius-default, 3px)'',
         Decl ''padding'' ''var(--rh-space-lg, 24px)'', Decl ''min-height'' ''500px'',
         Decl ''position'' ''relative'',
         Decl ''transition'' ''border-color 150ms ease, background-color 150ms ease''],
      Rule [sel [[Class ''canvas'', Class ''drag-over'']]]
        [Decl ''border-color'' ''var(--rh-color-interactive-blue-darker, #0066cc)'',
         Decl ''background'' ''var(--rh-color-blue-50, #e7f1fa)''],
      Rule [sel [[Class ''canvas-empty'']]]
        [Decl ''display'' ''flex'', Decl ''flex-direction'' ''column'',
         Decl ''align-items'' ''center'', Decl ''justify-content'' ''center'',
         Decl ''height'' ''100%'', Decl ''color'' ''var(--rh-color-text-secondary-on-light, #6a6e73)'',
         Decl ''text-align'' ''center'', Decl ''gap'' ''var(--rh-space-md, 16px)''],
      Rule [sel [[Class ''canvas-empty''], [Tag ''rh-icon'']]]
        [Decl ''--rh-icon-size'' ''48px'', Decl ''color'' ''var(--rh-color-gray-40, #8a8d90)'']]"

definition canvas_cards_style :: "CssItem list" where
  "canvas_cards_style =
     [Rule [sel [[Class ''steps-list'']]]
        [Decl ''display'' ''flex'', Decl ''flex-direction'' ''column'',
         Decl ''gap'' ''var(--rh-space-md, 16px)''],
      Rule [sel [[Class ''step-card'']]]
        [Decl ''display'' ''flex'', Decl ''align-items'' ''center'',
         Decl ''gap'' ''var(--rh-space-md, 16px)'', Decl ''padding'' ''var(--rh-space-md, 16px)'',
         Decl ''background'' ''var(--rh-color-surface-lightest, #ffffff)'',
         Decl ''border'' ''2px solid var(--rh-color-border-subtle-on-light, #d2d2d2)'',
         Decl ''border-radius'' ''var(--rh-border-radius-default, 3px)'', Decl ''cursor'' ''pointer'',
         Decl ''transition'' ''all 150ms ease''],
      Rule [sel [[Class ''step-card'', Pseudo ''hover'']]]
        [Decl ''box-shadow'' ''var(--rh-box-shadow-md, 0 4px 6px -1px rgba(21, 21, 21, 0.1))''],
      Rule [sel [[Class ''step-card'', Pseudo ''focus-visible'']]]
        [Decl ''outline'' ''var(--rh-border-width-md, 2px) solid var(--rh-color-interactive-blue-darker, #0066cc)'',
         Decl ''outline-offset'' ''2px''],
      Rule [sel [[Class ''step-card'', Class ''selected'']]]
        [Decl ''border-color'' ''var(--rh-color-interactive-blue-darker, #0066cc)''],
      Rule [sel [[Class ''step-card'', Class ''dragging'']]]
        [Decl ''opacity'' ''0.5''],
      Rule [sel [[Class ''step-drag-handle'']]]
        [Decl ''display'' ''flex'', Decl ''align-items'' ''center'',
         Decl ''justify-content'' ''center'', Decl ''cursor'' ''grab'',
         Decl ''color'' ''var(--rh-color-text-secondary-on-light, #6a6e73)'',
         Decl ''padding'' ''var(--rh-space-xs, 4px)''],
      Rule [sel [[Class ''step-drag-handle'', Pseudo ''active'']]]
        [Decl ''cursor'' ''grabbing''],
      Rule [sel [[Class ''step-drag-handle''], [Tag ''rh-icon'']]]
        [Decl ''--rh-icon-size'' ''16px''],
      Rule [sel [[Class ''step-info'']]]
        [Decl ''flex'' ''1''],
      Rule [sel [[Class ''step-name'']]]
        [Decl ''font-weight'' ''var(--rh-font-weight-body-text-medium, 500)'',
         Decl ''font-family'' ''var(--rh-font-family-heading, 'Red Hat Display', sans-serif)'',
         Decl ''margin-block-end'' ''2px''],
      Rule [sel [[Class ''step-image'']]]
        [Decl ''font-size'' ''var(--rh-font-size-body-text-xs, 0.75rem)'',
         Decl ''color'' ''var(--rh-color-text-secondary-on-light, #6a6e73)''],
      Rule [sel [[Class ''step-actions'']]]
        [Decl ''display'' ''flex'', Decl ''gap'' ''var(--rh-space-xs, 4px)''],
      Rule [sel [[Class ''step-action-btn'']]]
        [Decl ''display'' ''inline-flex'', Decl ''align-items'' ''center'',
         Decl ''justify-content'' ''center'', Decl ''padding'' ''var(--rh-space-xs, 4px)'',
         Decl ''background'' ''none'', Decl ''border'' ''none'', Decl ''cursor'' ''pointer'',
         Decl ''border-radius'' ''var(--rh-border-radius-default, 3px)'',
         Decl ''color'' ''var(--rh-color-text-secondary-on-light, #6a6e73)'',
         Decl ''transition'' ''background-color 150ms ease, color 150ms ease''],
      Rule [sel [[Class ''step-action-btn'', Pseudo ''hover'']]]
        [Decl ''background'' ''var(--rh-color-surface-lighter, #f5f5f5)'',
         Decl ''color'' ''var(--rh-color-text-primary-on-light, #151515)''],
      Rule [sel [[Class ''step-action-btn'', Pseudo ''focus-visible'']]]
        [Decl ''outline'' ''var(--rh-border-width-md, 2px) solid var(--rh-color-interactive-blue-darker, #0066cc)'',
         Decl ''outline-offset'' ''2px''],
      Rule [sel [[Class ''step-action-btn'', Class ''delete'', Pseudo ''hover'']]]
        [Decl ''background'' ''var(--rh-color-red-100, #fce8e6)'',
         Decl ''color'' ''var(--rh-color-red-700, #a30d05)''],
      Rule [sel [[Class ''step-action-btn''], [Tag ''rh-icon'']]]
        [Decl ''--rh-icon-size'' ''16px''],
      Rule [sel [[Class ''step-connector'']]]
        [Decl ''display'' ''flex'', Decl ''justify-content'' ''center'',
         Decl ''padding'' ''var(--rh-space-xs, 4px) 0''],
      Rule [sel [[Class ''step-connector-line'']]]
        [Decl ''width'' ''2px'', Decl ''height'' ''20px'',
         Decl ''background'' ''var(--rh-color-border-subtle-on-light, #d2d2d2)'']]"

definition canvas_styles :: "CssItem list" where
  "canvas_styles =
     canvas_header_style @ canvas_yaml_style @ canvas_sidebar_style @ canvas_area_style @ canvas_cards_style"

subsection \<open>Facts about the sheets\<close>

lemma builder_animated: "animated settings_styles" "animated step_editor_styles" "animated canvas_styles"
  by code_simp+

end
