(* ===== verification/Spec2Isabelle.thy ===== *)
theory Spec2Isabelle
  imports Cycle_Check Canvas_Loading Choices_Loading Widget_View Pipeline_List_View Detail_View
    Pvc_List_View Secret_List_View App_Main Shell_Looks
    List_Looks Graph_Looks Builder_Styles
begin

text \<open>
  This library models and verifies the web user interface of JobRunner (\<open>ui/src\<close>, TypeScript), in
  which pipelines of Kubernetes jobs are built, listed and watched.  The interface is a single
  page: a router puts one page component at a time into the outlet of the application shell; every
  page keeps its own state and talks to the Kubernetes API through one client; the server of the
  application hands the client's requests on to the API.

  \<^bold>\<open>Theories and the code they model.\<close>
  \<^item> \<open>Js_Prelude\<close>, \<open>Js_Regex\<close>, \<open>Web_Encoding\<close>: what the code uses of JavaScript and the browser:
    truthiness, strings, numbers as text, arrays, objects with their order of keys, \<open>sort\<close>, thrown
    values (\<open>thrown\<close>, \<open>outcome\<close>), regular expressions, UTF-8, base64, query strings.
  \<^item> \<open>Pipeline_Types\<close> (\<open>types/pipeline.ts\<close>): one record per interface, one datatype per union.
  \<^item> \<open>Graph_Layout\<close>, \<open>Cycle_Check\<close> (\<open>lib/graph-layout.ts\<close>): graphs of pipelines, the call of the
    layout engine, constructors, validation of names, the depth-first cycle check.
  \<^item> \<open>K8s_Client\<close> (\<open>lib/k8s-client.ts\<close>): every operation as a function of the server, and the watch
    as a state machine.
  \<^item> \<open>App_Router\<close> (\<open>lib/router.ts\<close>, \<open>components/app-shell.ts\<close>): routes, navigation, history, the shell.
  \<^item> \<open>Shared_Widgets\<close> (\<open>components/shared\<close>): code editor, side drawer, status badge.
  \<^item> \<open>Row_Editor\<close>, \<open>Step_Editor\<close>, \<open>Global_Settings\<close>, \<open>Pipeline_Canvas\<close> (\<open>components/builder\<close>): the
    builder with its two drawers and two views.  \<open>Row_Editor\<close> is the interface of an editable list of
    rows, interpreted by the variables of a step, those of a template, and the pairs of secrets.
  \<^item> \<open>List_View\<close>, \<open>Pipeline_List\<close>, \<open>Pvc_List\<close>, \<open>Secret_List\<close> (\<open>components/monitor/pipeline-list.ts\<close>,
    \<open>components/storage\<close>): polling, searching, sorting and paging, and the three lists.  The
    interface \<open>paged_list\<close> is interpreted by each of them.
  \<^item> \<open>Html_View\<close>, \<open>List_Panel\<close>, \<open>Pipeline_List_View\<close>, \<open>Pvc_List_View\<close>, \<open>Secret_List_View\<close> (the
    \<open>render\<close> methods of the lists): templates as trees of elements with their listeners, and what a
    click, a key, a typed text or a chosen option does with such a tree in the browser.
  \<^item> \<open>Form_View\<close>, \<open>Settings_View\<close>, \<open>Step_Editor_View\<close>, \<open>Builder_View\<close>, \<open>Shell_View\<close> (the \<open>render\<close>
    methods of the builder and of the shell).  The interface \<open>controlled_form\<close> says that a field
    shows what was typed into it; the settings and the step editor interpret it.  \<open>Builder_View\<close>
    puts the canvas, the settings and the editor together: what the page hands down and what comes
    back, and the relation \<open>builder_reach\<close> of the pages that use can lead to.
  \<^item> \<open>Canvas_Loading\<close>: the builder while the list of names is outstanding.  \<open>Choices_Loading\<close>: the
    settings and the step editor while the claims and the secrets of a namespace are outstanding.
  \<^item> \<open>Step_Detail\<close>, \<open>Pipeline_Detail\<close> (\<open>components/monitor\<close>): the page of a pipeline with its graph
    and time line, and the panel with the logs of a step.  \<open>Step_Detail_View\<close>, \<open>Detail_View\<close>: their
    templates, and the page and its panel put together.
  \<^item> \<open>Widget_View\<close>: the templates of the drawer and of the code editor.
  \<^item> \<open>Css_Cascade\<close>: style sheets as lists of rules, when a selector matches an element of a template,
    which declaration wins, and what is then displayed and can be hit with the mouse.
    \<open>Shared_Styles\<close>, \<open>Builder_Styles\<close>, \<open>List_Styles\<close>, \<open>Detail_Styles\<close>: the sheets of all components
    (\<open>static styles\<close>), rule by rule.  \<open>Shell_Looks\<close>, \<open>Graph_Looks\<close>, \<open>List_Looks\<close>: what the sheets make
    of the templates of the shell, the drawer, the graph and the page buttons.
  \<^item> \<open>Dev_Server\<close> (\<open>server.ts\<close>): the proxy to the API and the static files.
  \<^item> \<open>App_Main\<close> (\<open>main.ts\<close>): the resolver of icons and the start of the application.

  \<^bold>\<open>Conventions.\<close>  The state of a component is a record with a field per property of its class; a
  method is a function of its arguments and the state, named after it (with a prefix where two
  components use one name); what a method does beside changing the state (a dispatched update, a
  navigation, an alert, a request) is part of its result or recorded in the state.  The network,
  the layout engine ELK, the YAML package, how CodeMirror unifies line ends, the order of a
  language (\<open>localeCompare\<close>), the clock, the locale's dates, how positions are written in a style, and
  the file system are parameters.  A failure is a value: \<open>Inl\<close> of what was thrown.  Strings are lists of characters, and values of
  secrets lists of 16-bit code units, so that surrogates count as they do in JavaScript.

  \<^bold>\<open>Asynchrony.\<close>  Where answers may arrive in any order (lists, page, panel, watch, the names
  and the choices in the builder) an outstanding request is a key in the state, its answer an event, and the
  properties speak of all runs.  Elsewhere, and in the operations named \<open>now\<close>, an answer comes before anything else happens.

  \<^bold>\<open>Termination and fuel.\<close>  The cycle check runs on fuel, twice the number of edges plus three, which is
  proved to be enough.  The search for a free name and the navigation are functions that may not
  end (\<open>partial_function\<close>); that they end is proved, in the first case because only finitely many
  names are taken, in the second because a redirect leads to a page.

  \<^bold>\<open>What the properties show.\<close>  Invariants of runs: the steps of the pipeline are those on the canvas,
  the outlet shows the page of the location, the view of the code editor shows its value, the panel
  is given the selected step, a list with answers in order shows the selected namespace.  The
  behaviour of every branch of the operations with failures: requests, saving, loading, the
  forms of claims and secrets.  Round trips: secrets, commands and arguments, YAML, the link of a
  pipeline.  What is typed into a form is what its fields show.  Refinement: editing rows is editing
  lists, and the page of the builder is the canvas with its events.  The page of a pipeline and its
  panel agree in every state, and every step can be opened.  Safety: a drawn graph is complete and its
  edges are apart, the server serves no file outside its directories.  On the screen: which part of
  the shell a narrow window hides, where the drawer is, that nodes are drawn in the size the edges are
  computed for and that the mouse reaches them.  Some properties state
  behaviour that looks unintended, since it is what the code does; the manifest lists it.

  \<^bold>\<open>Not modelled.\<close>  In the templates identifiers, icons, and most of the style classes that are
  constant, so that only the parts named above have been put under their sheets; of the styles, values
  are text, and layout, inheritance beyond \<open>visibility\<close> and \<open>pointer-events\<close>, and the defaults of the
  browser are left out; the registration of elements in \<open>main.ts\<close>; the build and the shutdown of the server; the clipboard itself; the text of JSON and
  YAML documents (the client hands over parsed values); what is inside third-party elements, such as
  which tab \<open>rh-tabs\<close> shows and how CodeMirror draws its text.  The Go controller that runs the
  pipelines is another program.
\<close>

section \<open>Properties that span components\<close>

subsection \<open>From the list to the page of a pipeline\<close>

lemma navigate_to_detail:
  assumes "settled a" and "k8s_name ns" and "k8s_name n"
  shows "\<exists>b c. go (detail_link ns n) a = Some b \<and> settled b \<and> app_outlet b = Some [c] \<and>
    elt_tag c = ''pipeline-detail'' \<and> elt_params c = [(''namespace'', ns), (''name'', n)]"
proof -
  let ?path = "detail_link ns n"
  have route: "match (setRoutes app_configs) ?path =
      Some \<lparr>rm_route = setRoutes app_configs ! 2, rm_params = [(''namespace'', ns), (''name'', n)]\<rparr>"
    by (rule match_detail_link [OF assms(2,3)])
  have tag: "rt_component (setRoutes app_configs ! 2) = ''pipeline-detail''"
    by (simp add: app_routes_unfold)
  have "rt_component (rm_route \<lparr>rm_route = setRoutes app_configs ! 2,
      rm_params = [(''namespace'', ns), (''name'', n)]\<rparr>) \<in> set page_tags"
    by (simp add: tag page_tags_def)
  from navigate_render [OF _ _ route this, of "pushState ?path a"] settled_ready [OF assms(1)]
  obtain b where b: "go ?path a = Some b" "settled b" "app_location b = url_pathname ?path"
    by (auto simp: go_def)
  then have "app_routes b = setRoutes app_configs" by (simp add: settled_def)
  with b(2) route tag show ?thesis
    by (auto simp: settled_def b(1,3) split: option.splits)
qed

text \<open>
  A click on a row of the list opens, from any page of the application, the
  page of that pipeline alone, and the page asks the server for exactly that pipeline.
\<close>

theorem list_opens_detail:
  assumes "settled a" and "om_namespace (pl_metadata p) = Some ns"
    and "k8s_name ns" and "k8s_name (om_name (pl_metadata p))"
  shows "\<exists>b c. go (navigateToPipeline p) a = Some b \<and> app_outlet b = Some [c] \<and>
    elt_tag c = ''pipeline-detail'' \<and>
    pd_params (pipeline_detail_start (elt_params c)) = (ns, om_name (pl_metadata p))"
proof -
  have ns: "str_or (Some ns) ''default'' = ns" and n: "om_name (pl_metadata p) \<noteq> []" and "ns \<noteq> []"
    using k8s_name_facts(5) [OF assms(3)] k8s_name_facts(5) [OF assms(4)] by (simp_all add: str_or_def)
  with navigate_to_detail [OF assms(1,3,4)] show ?thesis
    by (auto simp: navigateToPipeline_def assms(2) pd_params_def pipeline_detail_start_def str_or_def)
qed

theorem list_opens_detail_witness:
  "\<exists>a. settled a \<and> (\<exists>b c. go (navigateToPipeline (createEmptyPipeline ''build'' ''ci'')) a = Some b \<and>
     app_outlet b = Some [c] \<and> elt_tag c = ''pipeline-detail'' \<and>
     pd_params (pipeline_detail_start (elt_params c)) = (''ci'', ''build''))"
proof -
  obtain a where "settled a" using initRouter_settles [of "''/secrets''"] by blast
  moreover from list_opens_detail [OF this, of "createEmptyPipeline ''build'' ''ci''" "''ci''"]
  have "\<exists>b c. go (navigateToPipeline (createEmptyPipeline ''build'' ''ci'')) a = Some b \<and>
     app_outlet b = Some [c] \<and> elt_tag c = ''pipeline-detail'' \<and>
     pd_params (pipeline_detail_start (elt_params c)) = (''ci'', ''build'')"
    by (simp add: createEmptyPipeline_def no_meta_def k8s_name_def name_char_def lower_alnum_def
        is_lower_def is_digit_def char_code_def)
  ultimately show ?thesis by blast
qed

subsection \<open>From the builder to the page of a pipeline\<close>

lemma valid_k8s_name: "valid_name s \<Longrightarrow> k8s_name s"
  by (auto simp: valid_name_def dns_label_def k8s_name_def list_all_iff)

lemma save_goes_to:
  assumes "cv_navigated (savePipeline parse fetch base c) = cv_navigated c @ [path]"
  shows "\<exists>ns p. cv_posted (savePipeline parse fetch base c) = cv_posted c @ [(ns, p)] \<and>
    path = detail_link ns (om_name (pl_metadata p)) \<and> valid_name (om_name (pl_metadata p))"
proof -
  have "\<exists>q e. savePipeline parse fetch base c = save_checked fetch base q e \<and>
      cv_posted e = cv_posted c \<and> cv_navigated e = cv_navigated c"
  proof (cases "cv_viewMode c = Yaml")
    case True
    obtain d r where y: "yamlToPipeline parse (cv_yamlContent c) c = (d, r)" by fastforce
    then have d: "cv_posted d = cv_posted c" "cv_navigated d = cv_navigated c"
      by (auto simp: yamlToPipeline_def split: sum.splits YamlValue.splits)
    with assms True y have "r \<noteq> None" by (cases r) (simp_all add: savePipeline_def)
    then obtain q where "r = Some q" by blast
    with True y have "savePipeline parse fetch base c = save_checked fetch base q d"
      by (simp add: savePipeline_def)
    with d show ?thesis by blast
  next
    case False
    let ?e = "updatePipelineFromCanvas c"
    have "savePipeline parse fetch base c = save_checked fetch base (cv_pipeline ?e) ?e"
      using False by (simp only: savePipeline_def Let_def if_False)
    moreover have "cv_posted ?e = cv_posted c" "cv_navigated ?e = cv_navigated c"
      by (simp_all add: updatePipelineFromCanvas_def)
    ultimately show ?thesis by blast
  qed
  then obtain q e where e: "savePipeline parse fetch base c = save_checked fetch base q e"
    "cv_posted e = cv_posted c" "cv_navigated e = cv_navigated c" by blast
  with assms have "cv_navigated (save_checked fetch base q e) = cv_navigated e @ [path]" by simp
  then show ?thesis unfolding e(1) e(2) [symmetric]
    by (auto simp: save_checked_def post_pipeline_def validatePipelineName_def vd_valid_iff Let_def
        split: if_splits sum.splits option.splits)
qed

definition built_canvas :: Canvas where
  "built_canvas = addStep ''bash'' canvas_start"

text \<open>
  C8: when the builder leaves after saving, the page that opens is that of the pipeline it has just
  created, and of no other: the page asks the server for exactly that name in exactly that
  namespace.
\<close>

theorem save_opens_saved:
  assumes "settled a" and "cv_navigated (savePipeline parse fetch base c) = cv_navigated c @ [path]"
    and "\<forall>(ns, p) \<in> set (cv_posted (savePipeline parse fetch base c)). k8s_name ns"
  shows "\<exists>ns p b e. cv_posted (savePipeline parse fetch base c) = cv_posted c @ [(ns, p)] \<and>
    go path a = Some b \<and> app_outlet b = Some [e] \<and> elt_tag e = ''pipeline-detail'' \<and>
    pd_params (pipeline_detail_start (elt_params e)) = (ns, om_name (pl_metadata p))"
proof -
  from save_goes_to [OF assms(2)] obtain ns p where p:
    "cv_posted (savePipeline parse fetch base c) = cv_posted c @ [(ns, p)]"
    "path = detail_link ns (om_name (pl_metadata p))" "k8s_name (om_name (pl_metadata p))"
    using valid_k8s_name by blast
  with assms(3) have ns: "k8s_name ns" by auto
  with navigate_to_detail [OF assms(1) ns p(3)] p(1,2) k8s_name_facts(5) [OF ns] show ?thesis
    by (auto simp: pd_params_def pipeline_detail_start_def str_or_def)
qed

theorem save_opens_saved_witness:
  "\<exists>a b e. settled a \<and> go ''/pipelines/default/new-pipeline'' a = Some b \<and> app_outlet b = Some [e] \<and>
     pd_params (pipeline_detail_start (elt_params e)) = (''default'', ''new-pipeline'')"
proof -
  let ?fetch = "serving (createEmptyPipeline ''new-pipeline'' ''default'')"
  let ?saved = "savePipeline (\<lambda>_. Inl OtherThrown) ?fetch [] built_canvas"
  obtain a where a: "settled a" using initRouter_settles [of "''/secrets''"] by blast
  have saved: "cv_navigated ?saved = cv_navigated built_canvas @ [''/pipelines/default/new-pipeline'']"
    "map (\<lambda>(ns, p). (ns, om_name (pl_metadata p))) (cv_posted ?saved) = [(''default'', ''new-pipeline'')]"
    "cv_posted built_canvas = []" "k8s_name ''default''"
    by code_simp+
  then have names: "\<forall>(ns, p) \<in> set (cv_posted ?saved). ns = ''default'' \<and> om_name (pl_metadata p) = ''new-pipeline''"
    by (auto simp: map_eq_Cons_conv)
  with saved(4) have "\<forall>(ns, p) \<in> set (cv_posted ?saved). k8s_name ns" by auto
  from save_opens_saved [OF a saved(1) this] names show ?thesis using a by (auto simp: saved(3)) 
qed
subsection \<open>Copying a pipeline\<close>

lemma load_copied:
  assumes "listPipelines fetch base (str_or (om_namespace (pl_metadata copied)) ''default'') = Inr qs"
  shows "\<exists>m. m \<notin> (\<lambda>p. om_name (pl_metadata p)) ` set qs \<and>
    loadFromCopiedPipeline fetch base copied c =
      Some ((if sp_steps (pl_spec copied) \<noteq> []
             then \<lambda>c. c\<lparr>cv_canvasSteps := place_steps (sp_steps (pl_spec copied))\<rparr> else (\<lambda>c. c))
        (c\<lparr>cv_existingPipelineNames := map (\<lambda>p. om_name (pl_metadata p)) qs,
           cv_pipeline := with_name m copied\<rparr>))"
proof -
  obtain m where "unique_name (numbered_copy (om_name (pl_metadata copied)))
      (map (\<lambda>p. om_name (pl_metadata p)) qs) (om_name (pl_metadata copied)) 1 = Some m"
    "m \<notin> set (map (\<lambda>p. om_name (pl_metadata p)) qs)"
    using unique_name_free [OF inj_numbered(2)] by blast
  then show ?thesis
    by (intro exI [of _ m]) (simp add: loadFromCopiedPipeline_def assms Let_def)
qed

text \<open>
  C32: \<open>Copy\<close> in the list opens the builder with the steps and settings of
  the pipeline in its namespace, under a name that no pipeline there has, and with nothing left
  of what the server gave the original: no identity, version, times or status.
\<close>

theorem copy_opens_in_builder:
  assumes "listPipelines fetch base (str_or (om_namespace (pl_metadata p)) ''default'') = Inr qs"
  shows "case canvas_connected fetch base shell (Some (Inr (snd (copyPipeline p s)))) of
      None \<Rightarrow> False
    | Some c \<Rightarrow>
        pl_spec (cv_pipeline c) = pl_spec p \<and>
        map plain_step (cv_canvasSteps c) = sp_steps (pl_spec p) \<and>
        om_namespace (pl_metadata (cv_pipeline c)) = om_namespace (pl_metadata p) \<and>
        om_name (pl_metadata (cv_pipeline c)) \<notin> (\<lambda>q. om_name (pl_metadata q)) ` set qs \<and>
        om_uid (pl_metadata (cv_pipeline c)) = None \<and>
        om_resourceVersion (pl_metadata (cv_pipeline c)) = None \<and>
        om_creationTimestamp (pl_metadata (cv_pipeline c)) = None \<and>
        pl_status (cv_pipeline c) = None \<and> cv_viewMode c = Builder"
proof -
  let ?copy = "snd (copyPipeline p s)"
  define c0 where "c0 = (if shell \<noteq> [] \<and> shell \<noteq> ''default''
    then canvas_start\<lparr>cv_pipeline := createEmptyPipeline ''new-pipeline'' shell\<rparr> else canvas_start)"
  have "om_namespace (pl_metadata ?copy) = om_namespace (pl_metadata p)" "pl_spec ?copy = pl_spec p"
    by (simp_all add: copyPipeline_def)
  with load_copied [where copied = ?copy and c = c0 and fetch = fetch and base = base] assms
  obtain m where m: "m \<notin> (\<lambda>q. om_name (pl_metadata q)) ` set qs"
    "loadFromCopiedPipeline fetch base ?copy c0 =
      Some ((if sp_steps (pl_spec p) \<noteq> []
             then \<lambda>c. c\<lparr>cv_canvasSteps := place_steps (sp_steps (pl_spec p))\<rparr> else (\<lambda>c. c))
        (c0\<lparr>cv_existingPipelineNames := map (\<lambda>q. om_name (pl_metadata q)) qs,
           cv_pipeline := with_name m ?copy\<rparr>))"
    by auto
  have "cv_canvasSteps c0 = []" "cv_viewMode c0 = Builder"
    by (simp_all add: c0_def canvas_start_def)
  with m show ?thesis
    by (auto simp: canvas_connected_def loadPipelineData_def Let_def c0_def [symmetric]
        with_name_def copyPipeline_def)
qed

theorem copy_opens_in_builder_witness:
  "case canvas_connected (serving (listing [createEmptyPipeline ''build-copy'' ''ci''])) [] ''default''
     (Some (Inr (snd (copyPipeline (createEmptyPipeline ''build'' ''ci'') pipeline_list_start)))) of
     None \<Rightarrow> False
   | Some c \<Rightarrow> om_name (pl_metadata (cv_pipeline c)) \<noteq> ''build-copy''"
  using copy_opens_in_builder [OF list_serving, where qs = "[createEmptyPipeline ''build-copy'' ''ci'']"
      and p = "createEmptyPipeline ''build'' ''ci''" and base = "[]" and s = pipeline_list_start
      and shell = "''default''"]
  by (auto simp: createEmptyPipeline_def no_meta_def split: option.splits)

subsection \<open>The panel of a step\<close>

text \<open>
  The page keeps one panel for all steps.  When the step selected
  next has no job yet, the panel is given that step and goes on showing the logs of the step
  before, as if they were its own.
\<close>

theorem panel_shows_former_logs:
  assumes "renderStepDetails s = (s', Some (Some step, st, ns))"
    and "case st of None \<Rightarrow> True | Some x \<Rightarrow> \<not> truthy (ss_jobName x)"
    and "sd_activeTab d = 0" and "renderLogs d = LogLines n logs"
  shows "let d' = set_props (Some step) st ns d
    in sd_step d' = Some step \<and> renderTabContent d' = LogsTab (LogLines n logs) \<and> sd_next d' = sd_next d"
  using assms(2-4)
  by (auto simp: set_props_def sd_updated_def job_of_def Let_def renderTabContent_def renderLogs_def
      split: option.splits if_splits)

definition two_step_page :: PipelineDetail where
  "two_step_page =
     (pipeline_detail_start ci_route)
       \<lparr>pd_pipeline := Some ((ci_pipeline (Some started))\<lparr>pl_spec :=
          no_spec [createDefaultStep ''build'', createDefaultStep ''deploy'']\<rparr>),
        pd_selectedStep := Some ''deploy''\<rparr>"

theorem panel_shows_former_logs_witness:
  "renderTabContent (set_props (Some (createDefaultStep ''deploy'')) None ''dev'' (watching ''compiled'')) =
     LogsTab (LogLines 1 ''compiled'')"
proof -
  have "snd (renderStepDetails two_step_page) = Some (Some (createDefaultStep ''deploy''), None, ''dev'')"
    by code_simp
  then have page: "renderStepDetails two_step_page =
      (fst (renderStepDetails two_step_page), Some (Some (createDefaultStep ''deploy''), None, ''dev''))"
    by (metis prod.collapse)
  have logs: "renderLogs (watching ''compiled'') = LogLines 1 ''compiled''"
    by code_simp
  from panel_shows_former_logs [OF page _ _ logs] show ?thesis
    by (simp add: Let_def watching_def step_detail_start_def)
qed

subsection \<open>Dependencies in a circle\<close>

text \<open>
  Two steps are added, the second is made to wait for the first and the first for the second, and
  the pipeline is saved.
\<close>

definition waits_for :: "string \<Rightarrow> StepUpdates" where
  "waits_for dep = no_updates\<lparr>su_runIf := Some (Some (empty_runIf\<lparr>ri_steps := [dep]\<rparr>))\<rparr>"

definition circle_events :: "canvas_event list" where
  "circle_events =
     [CanvasAddStep ''bash'', CanvasAddStep ''bash'', CanvasEditorUpdate (waits_for ''step-1''),
      CanvasSelectStep ''step-1'', CanvasEditorUpdate (waits_for ''step-2''),
      CanvasSave (serving (createEmptyPipeline ''new-pipeline'' ''default''))]"

definition circle_canvas :: "Canvas option" where
  "circle_canvas =
     canvas_run (\<lambda>_. Inl OtherThrown) (\<lambda>p. om_name (pl_metadata p)) [] canvas_start circle_events"

lemma circle_posted:
  "map_option (\<lambda>c. map (\<lambda>(ns, p). map (\<lambda>e. (eg_source e, eg_target e)) (gr_edges (pipelineToGraph p)))
     (cv_posted c)) circle_canvas =
   Some [[(''step-2'', ''step-1''), (''step-1'', ''step-2'')]]"
  by code_simp

lemma not_acyclic_pair: "{(a, b), (b, a)} \<subseteq> r \<Longrightarrow> \<not> acyclic r"
  unfolding acyclic_def by (metis insert_subset trancl.r_into_trancl trancl.trancl_into_trancl)

text \<open>
  The builder lets two steps wait for each other and saves the pipeline: the
  cycle check would have refused the second dependency, but nothing in the builder calls it.
\<close>

theorem circle_is_saved:
  "toggleRunIfStep ''step-1'' (showing (new_step ''bash'' ''step-2'') blank_editor) = Some (waits_for ''step-1'') \<and>
   toggleRunIfStep ''step-2'' (showing (new_step ''bash'' ''step-1'') blank_editor) = Some (waits_for ''step-2'') \<and>
   (case circle_canvas of
      None \<Rightarrow> False
    | Some c \<Rightarrow> (\<exists>ns p. cv_posted c = [(ns, p)] \<and>
        \<not> acyclic (edge_rel (gr_edges (pipelineToGraph p))) \<and>
        wouldCreateCycle [hd (gr_edges (pipelineToGraph p))] ''step-1'' ''step-2'' = Some True))"
proof (intro conjI)
  show "toggleRunIfStep ''step-1'' (showing (new_step ''bash'' ''step-2'') blank_editor) = Some (waits_for ''step-1'')"
    by code_simp
  show "toggleRunIfStep ''step-2'' (showing (new_step ''bash'' ''step-1'') blank_editor) = Some (waits_for ''step-2'')"
    by code_simp
  obtain c where c: "circle_canvas = Some c" using circle_posted by (cases circle_canvas) auto
  have "map (\<lambda>(ns, p). map (\<lambda>e. (eg_source e, eg_target e)) (gr_edges (pipelineToGraph p))) (cv_posted c) =
      [[(''step-2'', ''step-1''), (''step-1'', ''step-2'')]]"
    using circle_posted unfolding c by simp
  then obtain ns p where p: "cv_posted c = [(ns, p)]"
    and edges: "map (\<lambda>e. (eg_source e, eg_target e)) (gr_edges (pipelineToGraph p)) =
      [(''step-2'', ''step-1''), (''step-1'', ''step-2'')]"
    by (auto simp: map_eq_Cons_conv)
  from edges obtain e1 e2 where es: "gr_edges (pipelineToGraph p) = [e1, e2]"
    and e1: "eg_source e1 = ''step-2''" "eg_target e1 = ''step-1''"
    and e2: "eg_source e2 = ''step-1''" "eg_target e2 = ''step-2''"
    by (auto simp: map_eq_Cons_conv)
  have "\<not> acyclic (edge_rel (gr_edges (pipelineToGraph p)))"
    by (rule not_acyclic_pair [of "''step-1''" "''step-2''"]) (auto simp: es edge_rel_def e1 e2)
  moreover have "wouldCreateCycle [e1] ''step-1'' ''step-2'' =
      wouldCreateCycle [\<lparr>eg_id = [], eg_source = ''step-2'', eg_target = ''step-1'', eg_type = Sequential, eg_data = None\<rparr>]
        ''step-1'' ''step-2''"
    by (simp add: wouldCreateCycle_def build_adjacency_def e1)
  moreover have "\<dots> = Some True" by code_simp
  ultimately show "case circle_canvas of
      None \<Rightarrow> False
    | Some c \<Rightarrow> (\<exists>ns p. cv_posted c = [(ns, p)] \<and>
        \<not> acyclic (edge_rel (gr_edges (pipelineToGraph p))) \<and>
        wouldCreateCycle [hd (gr_edges (pipelineToGraph p))] ''step-1'' ''step-2'' = Some True)"
    unfolding c option.case using p es by auto
qed

end
